(* ===== verification/Me_Prelude.thy ===== *)
theory Me_Prelude
  imports Main "HOL-Library.Word"
begin

text \<open>
  Shared vocabulary of the development: the machine integer types of the C sources, C strings
  held in fixed-size arrays, the first-match loop over an array, and the interface of a table
  of slots that several parts of the event engine scan.

  Conventions used by every theory of the development:
  \<^item> \<open>uint32_t\<close> and \<open>uint64_t\<close> are \<^typ>\<open>32 word\<close> and \<^typ>\<open>64 word\<close>, so additions wrap as in C;
    \<open>int64_t\<close> and \<open>int\<close> are \<^typ>\<open>int\<close>, with the limits of the type written out where the
    source tests or approaches them;
  \<^item> a \<open>char\<close> array holds the bytes before its first NUL; an array with no NUL in its first
    \<open>cap\<close> bytes is a string of length at least \<open>cap\<close>;
  \<^item> a C enumeration is a datatype with the source's enumerators and one more constructor for
    the integers that no enumerator names, because a C enumeration object may hold them;
  \<^item> a pointer argument that the code compares with NULL is an option.
\<close>

unbundle bit_operations_syntax

type_synonym u8 = "8 word"
type_synonym u32 = "32 word"
type_synonym u64 = "64 word"
type_synonym i64 = int

named_theorems record_frame \<open>fields an operation leaves unchanged\<close>
named_theorems wf_rules \<open>operations preserve the component invariants\<close>

text \<open>\<open>UINT32_MAX\<close> and \<open>UINT64_MAX\<close> are the words with all bits set.\<close>

abbreviation UINT32_MAX :: u32 where
  "UINT32_MAX \<equiv> - 1"

abbreviation UINT64_MAX :: u64 where
  "UINT64_MAX \<equiv> - 1"

definition INT64_MAX :: int where
  "INT64_MAX = 9223372036854775807"

definition INT64_MIN :: int where
  "INT64_MIN = - 9223372036854775808"

definition INT32_MAX :: int where
  "INT32_MAX = 2147483647"

definition INT32_MIN :: int where
  "INT32_MIN = - 2147483648"

definition fits_i64 :: "int \<Rightarrow> bool" where
  "fits_i64 x \<longleftrightarrow> INT64_MIN \<le> x \<and> x \<le> INT64_MAX"

text \<open>A non-empty NUL-terminated string inside an array of \<open>cap\<close> bytes.\<close>

definition bounded_string :: "string \<Rightarrow> nat \<Rightarrow> bool" where
  "bounded_string s cap \<longleftrightarrow> length s < cap \<and> s \<noteq> []"

text \<open>\<open>snprintf(dst, cap, "%s", s)\<close> and \<open>g_strlcpy(dst, s, cap)\<close>: the copy is cut to \<open>cap - 1\<close> bytes.\<close>

definition copy_string :: "nat \<Rightarrow> string \<Rightarrow> string" where
  "copy_string cap s = take (cap - 1) s"

text \<open>\<open>tolower\<close> in the C locale and the equality test \<open>strcasecmp(a, b) == 0\<close>.\<close>

definition to_lower :: "char \<Rightarrow> char" where
  "to_lower c = (if 65 \<le> (of_char c :: nat) \<and> (of_char c :: nat) \<le> 90
                 then char_of ((of_char c :: nat) + 32) else c)"

definition strcaseeq :: "string \<Rightarrow> string \<Rightarrow> bool" where
  "strcaseeq s t \<longleftrightarrow> map to_lower s = map to_lower t"

text \<open>
  The loop \<open>for (i = 0; i < N; i++) if (P(a[i])) return i; return -1;\<close> over an array.
\<close>

primrec first_index :: "('a \<Rightarrow> bool) \<Rightarrow> 'a list \<Rightarrow> nat option" where
  "first_index P [] = None"
| "first_index P (x # xs) = (if P x then Some 0 else map_option Suc (first_index P xs))"

text \<open>\<open>saturating_add_u32\<close> of the event engine.\<close>

definition saturating_add_u32 :: "u32 \<Rightarrow> u32 \<Rightarrow> u32" where
  "saturating_add_u32 value addend =
     (if UINT32_MAX - value < addend then UINT32_MAX else value + addend)"

subsection \<open>Generic lemmas\<close>

lemma copy_string_id [simp]: "length s < cap \<Longrightarrow> copy_string cap s = s"
  by (simp add: copy_string_def)

lemma length_copy_string: "0 < cap \<Longrightarrow> length (copy_string cap s) < cap"
  by (auto simp: copy_string_def min_def)

lemma bounded_string_copy [simp]: "bounded_string s cap \<Longrightarrow> copy_string cap s = s"
  by (simp add: bounded_string_def)

lemma strcaseeq_refl [simp]: "strcaseeq s s"
  by (simp add: strcaseeq_def)

lemma first_index_SomeD:
  "first_index P xs = Some i \<Longrightarrow> i < length xs \<and> P (xs ! i) \<and> (\<forall>j < i. \<not> P (xs ! j))"
proof (induction xs arbitrary: i)
  case Nil
  then show ?case by simp
next
  case (Cons x xs)
  show ?case
  proof (cases "P x")
    case True
    with Cons.prems show ?thesis by simp
  next
    case False
    with Cons.prems obtain k where k: "first_index P xs = Some k" "i = Suc k"
      by auto
    with Cons.IH False show ?thesis
      by (auto simp: less_Suc_eq_0_disj)
  qed
qed

lemma first_index_None_iff: "first_index P xs = None \<longleftrightarrow> (\<forall>x \<in> set xs. \<not> P x)"
  by (induction xs) auto

lemma first_index_replicate: "first_index P (replicate n x) = (if 0 < n \<and> P x then Some 0 else None)"
  by (induction n) auto

lemma first_index_Some_iff_ex: "(\<exists>i. first_index P xs = Some i) \<longleftrightarrow> (\<exists>x \<in> set xs. P x)"
  using first_index_None_iff [of P xs] by (cases "first_index P xs") auto

lemma unat_UINT32_MAX: "unat UINT32_MAX = 4294967295"
  by (simp add: unsigned_minus_1_eq_mask mask_eq_exp_minus_1)

lemma unat_UINT64_MAX: "unat UINT64_MAX = 18446744073709551615"
  by (simp add: unsigned_minus_1_eq_mask mask_eq_exp_minus_1)

lemma unat_max_diff: "unat (UINT32_MAX - a) = 4294967295 - unat a"
  by (simp add: unat_sub unat_UINT32_MAX)

lemma unat_saturating_add_u32:
  "unat (saturating_add_u32 a b) = min (unat a + unat b) (2 ^ 32 - 1)"
proof (cases "UINT32_MAX - a < b")
  case True
  then have "4294967295 - unat a < unat b"
    by (simp add: word_less_nat_alt unat_max_diff)
  with True show ?thesis
    by (simp add: saturating_add_u32_def unat_UINT32_MAX)
next
  case False
  then have "unat b \<le> 4294967295 - unat a"
    by (simp add: word_less_nat_alt unat_max_diff)
  moreover have "unat a < 2 ^ 32"
    using unsigned_less [of a] by simp
  ultimately have le: "unat a + unat b \<le> 4294967295" by simp
  then have "unat (a + b) = unat a + unat b"
    by (simp add: unat_word_ariths)
  with False le show ?thesis
    by (simp add: saturating_add_u32_def)
qed

lemma word_neq_max_less: "(x :: 'a::len word) \<noteq> - 1 \<Longrightarrow> x < - 1"
  by (simp add: order_less_le)

lemma unat_plus_one: "(x :: 'a::len word) \<noteq> - 1 \<Longrightarrow> unat (x + 1) = Suc (unat x)"
  by (metis add.commute add.inverse_inverse add_eq_0_iff unatSuc)

lemma word_less_plus_one: "(x :: 'a::len word) \<noteq> - 1 \<Longrightarrow> x < x + 1"
  by (simp add: word_less_nat_alt unat_plus_one)

lemma unat_word_of_nat: "k < 2 ^ LENGTH('a) \<Longrightarrow> unat (word_of_nat k :: 'a::len word) = k"
  by (simp add: unsigned_of_nat take_bit_nat_eq_self)

lemma ucast_word_of_nat: "k < 2 ^ LENGTH('a) \<Longrightarrow> ucast (word_of_nat k :: 'a::len word) = (word_of_nat k :: 'b::len word)"
  by (simp add: unsigned_of_nat take_bit_nat_eq_self)

subsection \<open>Tables of slots\<close>

text \<open>
  The event engine keeps two arrays of slots, one per tracked person and one per remembered
  rule fact. Both are searched by identifier and both hand out their first unused slot. The
  interface below states what a search and an allocation promise; the lemmas that follow from
  it hold for both arrays.
\<close>

definition unique_keys :: "('s \<Rightarrow> bool) \<Rightarrow> ('s \<Rightarrow> u64) \<Rightarrow> 's list \<Rightarrow> bool" where
  "unique_keys used key xs \<longleftrightarrow>
     (\<forall>i < length xs. \<forall>j < length xs.
        used (xs ! i) \<longrightarrow> used (xs ! j) \<longrightarrow> key (xs ! i) = key (xs ! j) \<longrightarrow> i = j)"

definition slots_used :: "('s \<Rightarrow> bool) \<Rightarrow> 's list \<Rightarrow> nat" where
  "slots_used used xs = length (filter used xs)"

lemma unique_keys_replicate_unused:
  "\<not> used z \<Longrightarrow> unique_keys used key (replicate n z)"
  by (simp add: unique_keys_def)

lemma unique_keys_update:
  assumes "unique_keys used key xs"
    and "used s \<Longrightarrow> i < length xs \<Longrightarrow> \<forall>j < length xs. j \<noteq> i \<longrightarrow> used (xs ! j) \<longrightarrow> key (xs ! j) \<noteq> key s"
  shows "unique_keys used key (xs[i := s])"
  using assms unfolding unique_keys_def by (metis length_list_update nth_list_update nth_list_update_neq)

lemma unique_keys_update_same:
  assumes "unique_keys used key xs" and "used (xs ! i) \<and> key s = key (xs ! i)"
  shows "unique_keys used key (xs[i := s])"
  using assms by (intro unique_keys_update) (auto simp: unique_keys_def)

lemma unique_keys_update_unused:
  "unique_keys used key xs \<Longrightarrow> \<not> used s \<Longrightarrow> unique_keys used key (xs[i := s])"
  by (rule unique_keys_update) auto

lemma unique_keys_map:
  assumes "unique_keys used key xs"
    and "\<And>s. s \<in> set xs \<Longrightarrow> used (f s) \<Longrightarrow> used s \<and> key (f s) = key s"
  shows "unique_keys used key (map f xs)"
  using assms unfolding unique_keys_def by simp

lemma unique_keys_Cons:
  assumes "unique_keys used key (x # xs)"
  shows "unique_keys used key xs \<and> (\<forall>y \<in> set xs. used x \<longrightarrow> used y \<longrightarrow> key y \<noteq> key x)"
proof -
  note u = assms [unfolded unique_keys_def, rule_format]
  have "unique_keys used key xs"
    unfolding unique_keys_def using u [of "Suc i" "Suc j" for i j] by fastforce
  moreover have "key y \<noteq> key x" if y: "y \<in> set xs" and us: "used x" "used y" for y
  proof
    assume "key y = key x"
    from y obtain i where "i < length xs" "xs ! i = y" by (auto simp: in_set_conv_nth)
    with u [of 0 "Suc i"] us \<open>key y = key x\<close> show False by simp
  qed
  ultimately show ?thesis by blast
qed

lemma count_keys:
  assumes "unique_keys used key xs" and "\<forall>x \<in> set xs. P x \<longrightarrow> used x \<and> key x \<in> V" and "finite V"
  shows "length (filter P xs) \<le> card V"
proof -
  have "distinct (map key (filter P xs))"
    using assms(1,2)
  proof (induction xs)
    case Nil
    then show ?case by simp
  next
    case (Cons x xs)
    have u: "unique_keys used key xs" and "\<And>y. y \<in> set xs \<Longrightarrow> used x \<Longrightarrow> used y \<Longrightarrow> key y \<noteq> key x"
      using Cons.prems(1) by (auto dest: unique_keys_Cons)
    then have "P x \<Longrightarrow> key x \<notin> key ` set (filter P xs)" using Cons.prems(2) by force
    with Cons.IH [OF u] Cons.prems(2) show ?case by auto
  qed
  moreover have "set (map key (filter P xs)) \<subseteq> V" using assms(2) by auto
  ultimately show ?thesis
    using card_mono [OF assms(3), of "set (map key (filter P xs))"] distinct_card [of "map key (filter P xs)"]
    by (simp del: set_map)
qed

lemma slots_used_update_le:
  "i < length xs \<Longrightarrow> slots_used used (xs[i := s]) \<le> Suc (slots_used used xs)"
proof (induction xs arbitrary: i)
  case Nil
  then show ?case by simp
next
  case (Cons x xs)
  then show ?case by (cases i) (auto simp: slots_used_def)
qed

lemma slots_used_update_same:
  "i < length xs \<Longrightarrow> used (xs ! i) = used s \<Longrightarrow> slots_used used (xs[i := s]) = slots_used used xs"
proof (induction xs arbitrary: i)
  case Nil
  then show ?case by simp
next
  case (Cons x xs)
  then show ?case by (cases i) (auto simp: slots_used_def)
qed

locale slot_table =
  fixes used :: "'s \<Rightarrow> bool"
    and key :: "'s \<Rightarrow> u64"
    and find :: "'s list \<Rightarrow> u64 \<Rightarrow> nat option"
    and alloc :: "'s list \<Rightarrow> u64 \<Rightarrow> ('s list \<times> nat) option"
  assumes find_SomeD: "find xs k = Some i \<Longrightarrow> i < length xs \<and> used (xs ! i) \<and> key (xs ! i) = k"
    and find_NoneD: "find xs k = None \<Longrightarrow> s \<in> set xs \<Longrightarrow> used s \<Longrightarrow> key s \<noteq> k"
    and alloc_SomeD: "alloc xs k = Some (ys, i) \<Longrightarrow>
          i < length xs \<and> \<not> used (xs ! i) \<and> (\<exists>s. used s \<and> key s = k \<and> ys = xs[i := s])"
    and alloc_NoneD: "alloc xs k = None \<Longrightarrow> s \<in> set xs \<Longrightarrow> used s"
begin

lemma alloc_length: "alloc xs k = Some (ys, i) \<Longrightarrow> length ys = length xs"
  by (auto dest: alloc_SomeD)

lemma alloc_nth:
  assumes "alloc xs k = Some (ys, i)"
  shows "i < length ys \<and> used (ys ! i) \<and> key (ys ! i) = k"
  using alloc_SomeD [OF assms] by auto

lemma alloc_unique:
  assumes "unique_keys used key xs" and "find xs k = None" and "alloc xs k = Some (ys, i)"
  shows "unique_keys used key ys"
proof -
  from alloc_SomeD [OF assms(3)] obtain s where s: "used s" "key s = k" "ys = xs[i := s]"
    by blast
  have "\<forall>j < length xs. j \<noteq> i \<longrightarrow> used (xs ! j) \<longrightarrow> key (xs ! j) \<noteq> key s"
    using find_NoneD [OF assms(2)] s(2) by auto
  with assms(1) s(3) show ?thesis by (simp add: unique_keys_update)
qed

lemma alloc_succeeds:
  assumes "slots_used used xs < length xs"
  shows "\<exists>ys i. alloc xs k = Some (ys, i)"
proof (rule ccontr)
  assume "\<not> ?thesis"
  then have "alloc xs k = None" by (metis option.exhaust surj_pair)
  then have "\<forall>s \<in> set xs. used s" by (auto intro: alloc_NoneD)
  then have "slots_used used xs = length xs" by (simp add: slots_used_def)
  with assms show False by simp
qed

lemma alloc_slots_used:
  assumes "alloc xs k = Some (ys, i)"
  shows "slots_used used ys \<le> Suc (slots_used used xs)"
  using alloc_SomeD [OF assms] by (auto intro: slots_used_update_le)

lemma find_unique:
  assumes "unique_keys used key xs" and "find xs k = Some i"
    and "j < length xs" and "used (xs ! j)" and "key (xs ! j) = k"
  shows "j = i"
  using assms find_SomeD [OF assms(2)] unfolding unique_keys_def by metis

text \<open>A search depends only on which slots hold the wanted id.\<close>

lemma find_cong:
  assumes "unique_keys used key xs" and "length ys = length xs"
    and "\<And>j. j < length xs \<Longrightarrow> (used (ys ! j) \<and> key (ys ! j) = k) = (used (xs ! j) \<and> key (xs ! j) = k)"
  shows "find ys k = find xs k"
proof (cases "find xs k")
  case None
  have "find ys k = None"
  proof (rule ccontr)
    assume "find ys k \<noteq> None"
    then obtain j where "find ys k = Some j" by blast
    from find_SomeD [OF this] assms(2,3) have "j < length xs" "used (xs ! j)" "key (xs ! j) = k" by auto
    with find_NoneD [OF None] show False by auto
  qed
  with None show ?thesis by simp
next
  case (Some i)
  note i = find_SomeD [OF Some]
  with assms(2,3) have "used (ys ! i)" "key (ys ! i) = k" "i < length ys" by auto
  then obtain j where j: "find ys k = Some j"
    using find_NoneD [of ys k "ys ! i"] by (cases "find ys k") auto
  from find_SomeD [OF j] assms(2,3) have "j < length xs" "used (xs ! j)" "key (xs ! j) = k" by auto
  with find_unique [OF assms(1) Some] have "j = i" by simp
  with j Some show ?thesis by simp
qed

lemma find_update_same:
  assumes "unique_keys used key xs" and "used s = used (xs ! i)" and "key s = key (xs ! i)"
  shows "find (xs[i := s]) k = find xs k"
proof (rule find_cong [OF assms(1)])
  fix j
  assume "j < length xs"
  with assms(2,3) show "(used (xs[i := s] ! j) \<and> key (xs[i := s] ! j) = k) = (used (xs ! j) \<and> key (xs ! j) = k)"
    by (cases "j = i") auto
qed simp

lemma find_alloc:
  assumes "unique_keys used key xs" and "find xs k = None" and "alloc xs k = Some (ys, i)"
  shows "find ys k' = (if k' = k then Some i else find xs k')"
proof (cases "k' = k")
  case True
  note n = alloc_nth [OF assms(3)]
  then obtain j where j: "find ys k = Some j"
    using find_NoneD [of ys k "ys ! i"] by (cases "find ys k") auto
  with n find_unique [OF alloc_unique [OF assms]] True show ?thesis by metis
next
  case False
  from alloc_SomeD [OF assms(3)] obtain s where s: "used s" "key s = k" "ys = xs[i := s]" "\<not> used (xs ! i)"
    by blast
  have "find ys k' = find xs k'"
  proof (rule find_cong [OF assms(1)])
    fix j
    assume "j < length xs"
    with False s show "(used (ys ! j) \<and> key (ys ! j) = k') = (used (xs ! j) \<and> key (xs ! j) = k')"
      by (cases "j = i") auto
  qed (simp add: s)
  with False show ?thesis by simp
qed

end

end
