(* ===== verification/Observation.thy ===== *)
theory Observation
  imports Me_Prelude
begin

text \<open>
  \<^verbatim>\<open>media_engine/src/analytics/observation.{h,c}\<close>: the backend-neutral result for one source frame,
  its validation, and the ordering filter that keeps the keys of the latest accepted frame.
  The fixed arrays of an observation are lists of their full size; the first \<open>track_count\<close> and
  \<open>rule_count\<close> entries are the live ones.
\<close>

subsection \<open>Data\<close>

definition ME_ANALYTICS_CONTRACT_VERSION :: u32 where
  "ME_ANALYTICS_CONTRACT_VERSION = 2"

definition ME_ANALYTICS_COORD_SCALE :: u32 where
  "ME_ANALYTICS_COORD_SCALE = 10000"

abbreviation ME_ANALYTICS_CHANNEL_ID_MAX :: nat where "ME_ANALYTICS_CHANNEL_ID_MAX \<equiv> 64"
abbreviation ME_ANALYTICS_BACKEND_NAME_MAX :: nat where "ME_ANALYTICS_BACKEND_NAME_MAX \<equiv> 32"
abbreviation ME_ANALYTICS_VERSION_MAX :: nat where "ME_ANALYTICS_VERSION_MAX \<equiv> 64"
abbreviation ME_ANALYTICS_MODEL_VERSION_MAX :: nat where "ME_ANALYTICS_MODEL_VERSION_MAX \<equiv> 64"
abbreviation ME_ANALYTICS_RULE_ID_MAX :: nat where "ME_ANALYTICS_RULE_ID_MAX \<equiv> 64"
abbreviation ME_ANALYTICS_MAX_TRACKS :: nat where "ME_ANALYTICS_MAX_TRACKS \<equiv> 64"
abbreviation ME_ANALYTICS_MAX_RULE_FACTS :: nat where "ME_ANALYTICS_MAX_RULE_FACTS \<equiv> 16"

datatype MeClockState =
    ME_CLOCK_STATE_UNAVAILABLE
  | ME_CLOCK_STATE_SYNCED
  | ME_CLOCK_STATE_ESTIMATED
  | ME_CLOCK_STATE_INVALID
  | ME_CLOCK_STATE_OTHER int

datatype MeTrackClass =
    ME_TRACK_CLASS_UNKNOWN
  | ME_TRACK_CLASS_PERSON
  | ME_TRACK_CLASS_OTHER
  | ME_TRACK_CLASS_UNNAMED int

datatype MeTrackState =
    ME_TRACK_STATE_UNKNOWN
  | ME_TRACK_STATE_NEW
  | ME_TRACK_STATE_ACTIVE
  | ME_TRACK_STATE_LOST
  | ME_TRACK_STATE_REMOVED
  | ME_TRACK_STATE_OTHER int

datatype MeRuleType =
    ME_RULE_TYPE_UNKNOWN
  | ME_RULE_TYPE_OCCUPANCY
  | ME_RULE_TYPE_LINE_CROSS
  | ME_RULE_TYPE_INTRUSION
  | ME_RULE_TYPE_OTHER int

datatype MeRuleDirection =
    ME_RULE_DIRECTION_NONE
  | ME_RULE_DIRECTION_IN
  | ME_RULE_DIRECTION_OUT
  | ME_RULE_DIRECTION_OTHER int

record MeTimebase =
  tb_num :: u32
  tb_den :: u32

record MeNormalizedBBox =
  bb_left :: u32
  bb_top :: u32
  bb_right :: u32
  bb_bottom :: u32

record MeTrackObservation =
  to_track_id :: u64
  to_class_id :: MeTrackClass
  to_state :: MeTrackState
  to_bbox :: MeNormalizedBBox
  to_score_q :: u32

record MeRuleFact =
  rf_rule_id :: string
  rf_rule_type :: MeRuleType
  rf_direction :: MeRuleDirection
  rf_score_q :: u32
  rf_track_id :: u64

record MeNormalizedObservation =
  ob_contract_version :: u32
  ob_channel_id :: string
  ob_stream_epoch :: u64
  ob_frame_id :: u64
  ob_source_pts :: i64
  ob_source_pts_valid :: bool
  ob_source_timebase :: MeTimebase
  ob_capture_time_us :: i64
  ob_clock_state :: MeClockState
  ob_frame_width :: u32
  ob_frame_height :: u32
  ob_backend_name :: string
  ob_backend_version :: string
  ob_model_version :: string
  ob_track_count :: u32
  ob_tracks :: "MeTrackObservation list"
  ob_rule_count :: u32
  ob_rules :: "MeRuleFact list"

datatype MeObservationOrderResult =
    ME_OBSERVATION_ORDER_INVALID
  | ME_OBSERVATION_ORDER_FIRST
  | ME_OBSERVATION_ORDER_ACCEPTED
  | ME_OBSERVATION_ORDER_DUPLICATE
  | ME_OBSERVATION_ORDER_OUT_OF_ORDER
  | ME_OBSERVATION_ORDER_EPOCH_ADVANCE

record MeObservationOrder =
  oo_initialized :: bool
  oo_stream_epoch :: u64
  oo_frame_id :: u64
  oo_source_pts :: i64
  oo_source_pts_valid :: bool

text \<open>The zero-initialised values that \<open>memset\<close> leaves.\<close>

definition zero_timebase :: MeTimebase where
  "zero_timebase = \<lparr>tb_num = 0, tb_den = 0\<rparr>"

definition zero_bbox :: MeNormalizedBBox where
  "zero_bbox = \<lparr>bb_left = 0, bb_top = 0, bb_right = 0, bb_bottom = 0\<rparr>"

definition zero_track :: MeTrackObservation where
  "zero_track = \<lparr>to_track_id = 0, to_class_id = ME_TRACK_CLASS_UNKNOWN,
     to_state = ME_TRACK_STATE_UNKNOWN, to_bbox = zero_bbox, to_score_q = 0\<rparr>"

definition zero_rule :: MeRuleFact where
  "zero_rule = \<lparr>rf_rule_id = [], rf_rule_type = ME_RULE_TYPE_UNKNOWN,
     rf_direction = ME_RULE_DIRECTION_NONE, rf_score_q = 0, rf_track_id = 0\<rparr>"

definition zero_observation :: MeNormalizedObservation where
  "zero_observation =
     \<lparr>ob_contract_version = 0, ob_channel_id = [], ob_stream_epoch = 0, ob_frame_id = 0,
      ob_source_pts = 0, ob_source_pts_valid = False, ob_source_timebase = zero_timebase,
      ob_capture_time_us = 0, ob_clock_state = ME_CLOCK_STATE_UNAVAILABLE,
      ob_frame_width = 0, ob_frame_height = 0, ob_backend_name = [], ob_backend_version = [],
      ob_model_version = [], ob_track_count = 0,
      ob_tracks = replicate ME_ANALYTICS_MAX_TRACKS zero_track, ob_rule_count = 0,
      ob_rules = replicate ME_ANALYTICS_MAX_RULE_FACTS zero_rule\<rparr>"

subsection \<open>Validation\<close>

definition valid_track_state :: "MeTrackState \<Rightarrow> bool" where
  "valid_track_state state =
     (case state of
        ME_TRACK_STATE_NEW \<Rightarrow> True | ME_TRACK_STATE_ACTIVE \<Rightarrow> True
      | ME_TRACK_STATE_LOST \<Rightarrow> True | ME_TRACK_STATE_REMOVED \<Rightarrow> True
      | _ \<Rightarrow> False)"

definition valid_rule_type :: "MeRuleType \<Rightarrow> bool" where
  "valid_rule_type type =
     (case type of
        ME_RULE_TYPE_OCCUPANCY \<Rightarrow> True | ME_RULE_TYPE_LINE_CROSS \<Rightarrow> True
      | ME_RULE_TYPE_INTRUSION \<Rightarrow> True | _ \<Rightarrow> False)"

definition valid_direction :: "MeRuleDirection \<Rightarrow> bool" where
  "valid_direction direction =
     (case direction of
        ME_RULE_DIRECTION_NONE \<Rightarrow> True | ME_RULE_DIRECTION_IN \<Rightarrow> True
      | ME_RULE_DIRECTION_OUT \<Rightarrow> True | ME_RULE_DIRECTION_OTHER _ \<Rightarrow> False)"

definition me_observation_init :: MeNormalizedObservation where
  "me_observation_init =
     zero_observation\<lparr>ob_contract_version := ME_ANALYTICS_CONTRACT_VERSION,
       ob_source_timebase := \<lparr>tb_num = 1, tb_den = 1000000000\<rparr>,
       ob_clock_state := ME_CLOCK_STATE_UNAVAILABLE\<rparr>"

text \<open>One error per rejecting branch, with the index or count the message prints.\<close>

datatype ObservationError =
    OE_Null
  | OE_Version u32
  | OE_Channel
  | OE_Identity
  | OE_Timebase
  | OE_Pts_Nonzero
  | OE_Pts_Negative
  | OE_Dimensions
  | OE_Clock_Carries_Time
  | OE_Clock_Needs_Time
  | OE_Clock_State
  | OE_Backend
  | OE_Too_Many_Tracks u32
  | OE_Track_Identity nat
  | OE_Track_Bbox nat
  | OE_Track_Score nat
  | OE_Duplicate_Track u64
  | OE_Too_Many_Rules u32
  | OE_Rule nat
  | OE_Duplicate_Rule string

definition live_tracks :: "MeNormalizedObservation \<Rightarrow> MeTrackObservation list" where
  "live_tracks observation = take (unat (ob_track_count observation)) (ob_tracks observation)"

definition live_rules :: "MeNormalizedObservation \<Rightarrow> MeRuleFact list" where
  "live_rules observation = take (unat (ob_rule_count observation)) (ob_rules observation)"

text \<open>
  The body of the track loop at index \<open>i\<close>: \<open>seen\<close> are the tracks before it, oldest first.
\<close>

definition check_track :: "nat \<Rightarrow> MeTrackObservation list \<Rightarrow> MeTrackObservation \<Rightarrow> ObservationError option" where
  "check_track i seen track =
     (if to_track_id track = 0 \<or> to_class_id track = ME_TRACK_CLASS_UNKNOWN \<or>
         \<not> valid_track_state (to_state track)
      then Some (OE_Track_Identity i)
      else if bb_left (to_bbox track) \<ge> bb_right (to_bbox track) \<or>
              bb_top (to_bbox track) \<ge> bb_bottom (to_bbox track) \<or>
              bb_right (to_bbox track) > ME_ANALYTICS_COORD_SCALE \<or>
              bb_bottom (to_bbox track) > ME_ANALYTICS_COORD_SCALE
      then Some (OE_Track_Bbox i)
      else if to_score_q track > ME_ANALYTICS_COORD_SCALE then Some (OE_Track_Score i)
      else if \<exists>t \<in> set seen. to_track_id t = to_track_id track
      then Some (OE_Duplicate_Track (to_track_id track))
      else None)"

fun check_tracks :: "nat \<Rightarrow> MeTrackObservation list \<Rightarrow> MeTrackObservation list \<Rightarrow> ObservationError option" where
  "check_tracks i seen [] = None"
| "check_tracks i seen (t # ts) =
     (case check_track i seen t of
        Some e \<Rightarrow> Some e
      | None \<Rightarrow> check_tracks (Suc i) (seen @ [t]) ts)"

definition rule_clash :: "MeRuleFact \<Rightarrow> MeRuleFact \<Rightarrow> bool" where
  "rule_clash earlier rule \<longleftrightarrow>
     rf_rule_id earlier = rf_rule_id rule \<and>
     (rf_track_id rule = 0 \<or> rf_track_id earlier = 0 \<or> rf_track_id earlier = rf_track_id rule)"

definition check_rule :: "nat \<Rightarrow> MeRuleFact list \<Rightarrow> MeRuleFact \<Rightarrow> ObservationError option" where
  "check_rule i seen rule =
     (if \<not> bounded_string (rf_rule_id rule) ME_ANALYTICS_RULE_ID_MAX \<or>
         \<not> valid_rule_type (rf_rule_type rule) \<or> \<not> valid_direction (rf_direction rule) \<or>
         rf_score_q rule > ME_ANALYTICS_COORD_SCALE
      then Some (OE_Rule i)
      else if \<exists>r \<in> set seen. rule_clash r rule then Some (OE_Duplicate_Rule (rf_rule_id rule))
      else None)"

fun check_rules :: "nat \<Rightarrow> MeRuleFact list \<Rightarrow> MeRuleFact list \<Rightarrow> ObservationError option" where
  "check_rules i seen [] = None"
| "check_rules i seen (r # rs) =
     (case check_rule i seen r of
        Some e \<Rightarrow> Some e
      | None \<Rightarrow> check_rules (Suc i) (seen @ [r]) rs)"

definition clock_error :: "MeNormalizedObservation \<Rightarrow> ObservationError option" where
  "clock_error observation =
     (case ob_clock_state observation of
        ME_CLOCK_STATE_UNAVAILABLE \<Rightarrow>
          if ob_capture_time_us observation \<noteq> 0 then Some OE_Clock_Carries_Time else None
      | ME_CLOCK_STATE_INVALID \<Rightarrow>
          if ob_capture_time_us observation \<noteq> 0 then Some OE_Clock_Carries_Time else None
      | ME_CLOCK_STATE_SYNCED \<Rightarrow>
          if ob_capture_time_us observation \<le> 0 then Some OE_Clock_Needs_Time else None
      | ME_CLOCK_STATE_ESTIMATED \<Rightarrow>
          if ob_capture_time_us observation \<le> 0 then Some OE_Clock_Needs_Time else None
      | ME_CLOCK_STATE_OTHER _ \<Rightarrow> Some OE_Clock_State)"

definition me_observation_validate :: "MeNormalizedObservation option \<Rightarrow> ObservationError + unit" where
  "me_observation_validate ob =
     (case ob of
        None \<Rightarrow> Inl OE_Null
      | Some observation \<Rightarrow>
          if ob_contract_version observation \<noteq> ME_ANALYTICS_CONTRACT_VERSION
          then Inl (OE_Version (ob_contract_version observation))
          else if \<not> bounded_string (ob_channel_id observation) ME_ANALYTICS_CHANNEL_ID_MAX
          then Inl OE_Channel
          else if ob_stream_epoch observation = 0 \<or> ob_frame_id observation = 0
          then Inl OE_Identity
          else if tb_num (ob_source_timebase observation) = 0 \<or>
                  tb_den (ob_source_timebase observation) = 0
          then Inl OE_Timebase
          else if \<not> ob_source_pts_valid observation \<and> ob_source_pts observation \<noteq> 0
          then Inl OE_Pts_Nonzero
          else if ob_source_pts_valid observation \<and> ob_source_pts observation < 0
          then Inl OE_Pts_Negative
          else if ob_frame_width observation = 0 \<or> ob_frame_height observation = 0
          then Inl OE_Dimensions
          else case clock_error observation of
            Some e \<Rightarrow> Inl e
          | None \<Rightarrow>
              if \<not> bounded_string (ob_backend_name observation) ME_ANALYTICS_BACKEND_NAME_MAX \<or>
                 \<not> bounded_string (ob_backend_version observation) ME_ANALYTICS_VERSION_MAX \<or>
                 \<not> bounded_string (ob_model_version observation) ME_ANALYTICS_MODEL_VERSION_MAX
              then Inl OE_Backend
              else if ob_track_count observation > word_of_nat ME_ANALYTICS_MAX_TRACKS
              then Inl (OE_Too_Many_Tracks (ob_track_count observation))
              else case check_tracks 0 [] (live_tracks observation) of
                Some e \<Rightarrow> Inl e
              | None \<Rightarrow>
                  if ob_rule_count observation > word_of_nat ME_ANALYTICS_MAX_RULE_FACTS
                  then Inl (OE_Too_Many_Rules (ob_rule_count observation))
                  else case check_rules 0 [] (live_rules observation) of
                    Some e \<Rightarrow> Inl e
                  | None \<Rightarrow> Inr ())"

subsection \<open>Ordering filter\<close>

definition me_observation_order_init :: MeObservationOrder where
  "me_observation_order_init =
     \<lparr>oo_initialized = False, oo_stream_epoch = 0, oo_frame_id = 0, oo_source_pts = 0,
      oo_source_pts_valid = False\<rparr>"

definition order_commit :: "MeObservationOrder \<Rightarrow> MeNormalizedObservation \<Rightarrow> MeObservationOrder" where
  "order_commit order observation =
     order\<lparr>oo_initialized := True,
           oo_stream_epoch := ob_stream_epoch observation,
           oo_frame_id := ob_frame_id observation,
           oo_source_pts := ob_source_pts observation,
           oo_source_pts_valid := ob_source_pts_valid observation\<rparr>"

definition me_observation_order_classify ::
  "MeObservationOrder \<Rightarrow> MeNormalizedObservation option \<Rightarrow> MeObservationOrderResult \<times> MeObservationOrder" where
  "me_observation_order_classify order ob =
     (case me_observation_validate ob of
        Inl _ \<Rightarrow> (ME_OBSERVATION_ORDER_INVALID, order)
      | Inr _ \<Rightarrow>
          (let observation = the ob in
           if \<not> oo_initialized order
           then (ME_OBSERVATION_ORDER_FIRST, order_commit order observation)
           else if ob_stream_epoch observation < oo_stream_epoch order
           then (ME_OBSERVATION_ORDER_OUT_OF_ORDER, order)
           else if ob_stream_epoch observation > oo_stream_epoch order
           then (ME_OBSERVATION_ORDER_EPOCH_ADVANCE, order_commit order observation)
           else if ob_frame_id observation = oo_frame_id order
           then (ME_OBSERVATION_ORDER_DUPLICATE, order)
           else if ob_frame_id observation < oo_frame_id order
           then (ME_OBSERVATION_ORDER_OUT_OF_ORDER, order)
           else if ob_source_pts_valid observation \<and> oo_source_pts_valid order \<and>
                   ob_source_pts observation < oo_source_pts order
           then (ME_OBSERVATION_ORDER_OUT_OF_ORDER, order)
           else (ME_OBSERVATION_ORDER_ACCEPTED, order_commit order observation)))"

subsection \<open>Names\<close>

definition me_clock_state_name :: "MeClockState \<Rightarrow> string" where
  "me_clock_state_name state =
     (case state of
        ME_CLOCK_STATE_UNAVAILABLE \<Rightarrow> ''unavailable''
      | ME_CLOCK_STATE_SYNCED \<Rightarrow> ''synced''
      | ME_CLOCK_STATE_ESTIMATED \<Rightarrow> ''estimated''
      | ME_CLOCK_STATE_INVALID \<Rightarrow> ''invalid''
      | ME_CLOCK_STATE_OTHER _ \<Rightarrow> ''unknown'')"

definition me_track_state_name :: "MeTrackState \<Rightarrow> string" where
  "me_track_state_name state =
     (case state of
        ME_TRACK_STATE_NEW \<Rightarrow> ''new''
      | ME_TRACK_STATE_ACTIVE \<Rightarrow> ''active''
      | ME_TRACK_STATE_LOST \<Rightarrow> ''lost''
      | ME_TRACK_STATE_REMOVED \<Rightarrow> ''removed''
      | _ \<Rightarrow> ''unknown'')"

definition me_rule_type_name :: "MeRuleType \<Rightarrow> string" where
  "me_rule_type_name type =
     (case type of
        ME_RULE_TYPE_OCCUPANCY \<Rightarrow> ''occupancy''
      | ME_RULE_TYPE_LINE_CROSS \<Rightarrow> ''line_cross''
      | ME_RULE_TYPE_INTRUSION \<Rightarrow> ''intrusion''
      | _ \<Rightarrow> ''unknown'')"

definition me_rule_direction_name :: "MeRuleDirection \<Rightarrow> string" where
  "me_rule_direction_name direction =
     (case direction of
        ME_RULE_DIRECTION_NONE \<Rightarrow> ''none''
      | ME_RULE_DIRECTION_IN \<Rightarrow> ''in''
      | ME_RULE_DIRECTION_OUT \<Rightarrow> ''out''
      | ME_RULE_DIRECTION_OTHER _ \<Rightarrow> ''unknown'')"

subsection \<open>What validation accepts\<close>

definition track_ok :: "MeTrackObservation \<Rightarrow> bool" where
  "track_ok t \<longleftrightarrow>
     to_track_id t \<noteq> 0 \<and> to_class_id t \<noteq> ME_TRACK_CLASS_UNKNOWN \<and> valid_track_state (to_state t) \<and>
     bb_left (to_bbox t) < bb_right (to_bbox t) \<and> bb_right (to_bbox t) \<le> 10000 \<and>
     bb_top (to_bbox t) < bb_bottom (to_bbox t) \<and> bb_bottom (to_bbox t) \<le> 10000 \<and>
     to_score_q t \<le> 10000"

definition rule_ok :: "MeRuleFact \<Rightarrow> bool" where
  "rule_ok r \<longleftrightarrow>
     bounded_string (rf_rule_id r) 64 \<and> valid_rule_type (rf_rule_type r) \<and>
     valid_direction (rf_direction r) \<and> rf_score_q r \<le> 10000"

definition clock_ok :: "MeClockState \<Rightarrow> i64 \<Rightarrow> bool" where
  "clock_ok state time \<longleftrightarrow>
     (state \<in> {ME_CLOCK_STATE_UNAVAILABLE, ME_CLOCK_STATE_INVALID} \<and> time = 0) \<or>
     (state \<in> {ME_CLOCK_STATE_SYNCED, ME_CLOCK_STATE_ESTIMATED} \<and> time > 0)"

text \<open>The contract of an observation, stated without the code's loops and early returns.\<close>

definition observation_ok :: "MeNormalizedObservation \<Rightarrow> bool" where
  "observation_ok ob \<longleftrightarrow>
     ob_contract_version ob = 2 \<and> bounded_string (ob_channel_id ob) 64 \<and>
     ob_stream_epoch ob \<noteq> 0 \<and> ob_frame_id ob \<noteq> 0 \<and>
     tb_num (ob_source_timebase ob) \<noteq> 0 \<and> tb_den (ob_source_timebase ob) \<noteq> 0 \<and>
     (if ob_source_pts_valid ob then 0 \<le> ob_source_pts ob else ob_source_pts ob = 0) \<and>
     ob_frame_width ob \<noteq> 0 \<and> ob_frame_height ob \<noteq> 0 \<and>
     clock_ok (ob_clock_state ob) (ob_capture_time_us ob) \<and>
     bounded_string (ob_backend_name ob) 32 \<and> bounded_string (ob_backend_version ob) 64 \<and>
     bounded_string (ob_model_version ob) 64 \<and>
     ob_track_count ob \<le> 64 \<and> ob_rule_count ob \<le> 16 \<and>
     (\<forall>t \<in> set (live_tracks ob). track_ok t) \<and> distinct (map to_track_id (live_tracks ob)) \<and>
     (\<forall>r \<in> set (live_rules ob). rule_ok r) \<and>
     sorted_wrt (\<lambda>r r'. \<not> rule_clash r r') (live_rules ob)"

lemma check_track_None_iff:
  "check_track i seen t = None \<longleftrightarrow> track_ok t \<and> to_track_id t \<notin> to_track_id ` set seen"
  unfolding check_track_def track_ok_def ME_ANALYTICS_COORD_SCALE_def by (auto intro: rev_image_eqI)

lemma check_tracks_None_iff:
  assumes "distinct (map to_track_id seen)"
  shows "check_tracks i seen ts = None \<longleftrightarrow>
           (\<forall>t \<in> set ts. track_ok t) \<and> distinct (map to_track_id (seen @ ts))"
  using assms
proof (induction i seen ts rule: check_tracks.induct)
  case (1 i seen)
  then show ?case by simp
next
  case (2 i seen t ts)
  show ?case
  proof (cases "check_track i seen t")
    case None
    then have ok: "track_ok t" "to_track_id t \<notin> to_track_id ` set seen"
      by (simp_all add: check_track_None_iff)
    with "2.prems" have "distinct (map to_track_id (seen @ [t]))" by simp
    from "2.IH" [OF None this] None ok show ?thesis by auto
  next
    case (Some e)
    then have "\<not> (track_ok t \<and> to_track_id t \<notin> to_track_id ` set seen)"
      using check_track_None_iff [of i seen t] by simp
    with Some show ?thesis by auto
  qed
qed

lemma check_rule_None_iff:
  "check_rule i seen r = None \<longleftrightarrow> rule_ok r \<and> (\<forall>s \<in> set seen. \<not> rule_clash s r)"
  unfolding check_rule_def rule_ok_def ME_ANALYTICS_COORD_SCALE_def by auto

lemma check_rules_None_iff:
  assumes "sorted_wrt (\<lambda>r r'. \<not> rule_clash r r') seen"
  shows "check_rules i seen rs = None \<longleftrightarrow>
           (\<forall>r \<in> set rs. rule_ok r) \<and> sorted_wrt (\<lambda>r r'. \<not> rule_clash r r') (seen @ rs)"
  using assms
proof (induction i seen rs rule: check_rules.induct)
  case (1 i seen)
  then show ?case by simp
next
  case (2 i seen r rs)
  show ?case
  proof (cases "check_rule i seen r")
    case None
    then have ok: "rule_ok r" "\<forall>s \<in> set seen. \<not> rule_clash s r"
      by (simp_all add: check_rule_None_iff)
    with "2.prems" have "sorted_wrt (\<lambda>r r'. \<not> rule_clash r r') (seen @ [r])"
      by (simp add: sorted_wrt_append)
    from "2.IH" [OF None this] None ok show ?thesis by simp
  next
    case (Some e)
    then have "\<not> (rule_ok r \<and> (\<forall>s \<in> set seen. \<not> rule_clash s r))"
      using check_rule_None_iff [of i seen r] by simp
    with Some show ?thesis by (auto simp: sorted_wrt_append)
  qed
qed

lemma clock_error_None_iff:
  "clock_error ob = None \<longleftrightarrow> clock_ok (ob_clock_state ob) (ob_capture_time_us ob)"
  by (cases "ob_clock_state ob") (auto simp: clock_error_def clock_ok_def)

lemma validate_Inr_iff: "me_observation_validate (Some ob) = Inr () \<longleftrightarrow> observation_ok ob"
proof -
  note tracks = check_tracks_None_iff [of "[]" 0 "live_tracks ob", simplified]
  note rules = check_rules_None_iff [of "[]" 0 "live_rules ob", simplified]
  note clock = clock_error_None_iff [of ob]
  show ?thesis
    unfolding me_observation_validate_def observation_ok_def
    using tracks rules clock
    by (cases "check_tracks 0 [] (live_tracks ob)"; cases "check_rules 0 [] (live_rules ob)";
        cases "clock_error ob") (auto simp: ME_ANALYTICS_CONTRACT_VERSION_def not_less)
qed

lemma classify_cases:
  assumes "observation_ok ob"
  shows "me_observation_order_classify order (Some ob) =
    (if \<not> oo_initialized order then (ME_OBSERVATION_ORDER_FIRST, order_commit order ob)
     else if ob_stream_epoch ob < oo_stream_epoch order then (ME_OBSERVATION_ORDER_OUT_OF_ORDER, order)
     else if ob_stream_epoch ob > oo_stream_epoch order then (ME_OBSERVATION_ORDER_EPOCH_ADVANCE, order_commit order ob)
     else if ob_frame_id ob = oo_frame_id order then (ME_OBSERVATION_ORDER_DUPLICATE, order)
     else if ob_frame_id ob < oo_frame_id order then (ME_OBSERVATION_ORDER_OUT_OF_ORDER, order)
     else if ob_source_pts_valid ob \<and> oo_source_pts_valid order \<and> ob_source_pts ob < oo_source_pts order
     then (ME_OBSERVATION_ORDER_OUT_OF_ORDER, order)
     else (ME_OBSERVATION_ORDER_ACCEPTED, order_commit order ob))"
  using assms by (simp add: me_observation_order_classify_def validate_Inr_iff [symmetric])

lemma classify_invalid:
  assumes "\<not> observation_ok ob"
  shows "me_observation_order_classify order (Some ob) = (ME_OBSERVATION_ORDER_INVALID, order)"
  using assms unfolding validate_Inr_iff [symmetric] me_observation_order_classify_def
  by (cases "me_observation_validate (Some ob)") auto

subsection \<open>Runs of the ordering filter\<close>

definition order_advances :: "MeObservationOrderResult \<Rightarrow> bool" where
  "order_advances r \<longleftrightarrow>
     r \<in> {ME_OBSERVATION_ORDER_FIRST, ME_OBSERVATION_ORDER_ACCEPTED, ME_OBSERVATION_ORDER_EPOCH_ADVANCE}"

definition key_less :: "u64 \<times> u64 \<Rightarrow> u64 \<times> u64 \<Rightarrow> bool" where
  "key_less p q \<longleftrightarrow> fst p < fst q \<or> fst p = fst q \<and> snd p < snd q"

text \<open>The keys (epoch, frame) of the observations that advance the filter, in arrival order.\<close>

fun accepted_keys :: "MeObservationOrder \<Rightarrow> MeNormalizedObservation list \<Rightarrow> (u64 \<times> u64) list" where
  "accepted_keys order [] = []"
| "accepted_keys order (ob # obs) =
     (let (r, order') = me_observation_order_classify order (Some ob)
      in (if order_advances r then [(ob_stream_epoch ob, ob_frame_id ob)] else []) @
         accepted_keys order' obs)"

lemma classify_effect:
  assumes "me_observation_order_classify order (Some ob) = (r, order')"
  shows "if order_advances r
         then order' = order_commit order ob \<and>
              (oo_initialized order \<longrightarrow>
                 key_less (oo_stream_epoch order, oo_frame_id order) (ob_stream_epoch ob, ob_frame_id ob))
         else order' = order"
proof (cases "observation_ok ob")
  case True
  with assms show ?thesis
    by (auto simp: classify_cases order_advances_def key_less_def split: if_splits)
next
  case False
  with assms show ?thesis by (simp add: classify_invalid order_advances_def)
qed

lemma key_less_trans: "key_less p q \<Longrightarrow> key_less q r \<Longrightarrow> key_less p r"
  by (auto simp: key_less_def)

lemma accepted_keys_above:
  assumes "oo_initialized order"
  shows "sorted_wrt key_less ((oo_stream_epoch order, oo_frame_id order) # accepted_keys order obs)"
  using assms
proof (induction obs arbitrary: order)
  case Nil
  then show ?case by simp
next
  case (Cons ob obs)
  obtain r order' where c: "me_observation_order_classify order (Some ob) = (r, order')"
    by fastforce
  note eff = classify_effect [OF c]
  show ?case
  proof (cases "order_advances r")
    case True
    with eff Cons.prems have o': "order' = order_commit order ob"
      and less: "key_less (oo_stream_epoch order, oo_frame_id order) (ob_stream_epoch ob, ob_frame_id ob)"
      by auto
    from Cons.IH [of order'] o' have
      "sorted_wrt key_less ((ob_stream_epoch ob, ob_frame_id ob) # accepted_keys order' obs)"
      by (simp add: order_commit_def)
    with c True less show ?thesis by (auto intro: key_less_trans)
  next
    case False
    with eff have "order' = order" by simp
    with c False Cons show ?thesis by simp
  qed
qed

text \<open>
  C38: the validation loop with its early returns accepts exactly the observations that satisfy
  the declared contract: version, bounded names, a positive identity, a consistent clock and
  timestamp, in-range boxes and scores, pairwise distinct track ids and no clashing rule facts.
\<close>

theorem observation_validate_exact:
  "(me_observation_validate (Some ob) = Inr ()) = observation_ok ob"
  by (rule validate_Inr_iff)

text \<open>
  C39: whatever observations arrive, in whatever order and however often, the (epoch, frame) keys
  the filter lets through increase strictly, so nothing is processed twice and nothing goes back.
\<close>

theorem accepted_keys_strictly_increase:
  "sorted_wrt key_less (accepted_keys me_observation_order_init obs)"
proof (induction obs)
  case Nil
  then show ?case by simp
next
  case (Cons ob obs)
  obtain r order' where c: "me_observation_order_classify me_observation_order_init (Some ob) = (r, order')"
    by fastforce
  note eff = classify_effect [OF c]
  show ?case
  proof (cases "order_advances r")
    case True
    with eff have "order' = order_commit me_observation_order_init ob" by auto
    then show ?thesis
      using c True accepted_keys_above [of order' obs] by (simp add: order_commit_def)
  next
    case False
    with eff c Cons show ?thesis by simp
  qed
qed

text \<open>
  an accepted observation that is delivered again is reported as a duplicate and leaves the
  filter as it is.
\<close>

theorem redelivery_is_duplicate:
  assumes "me_observation_order_classify order (Some ob) = (r, order')" and "order_advances r"
  shows "me_observation_order_classify order' (Some ob) = (ME_OBSERVATION_ORDER_DUPLICATE, order')"
proof -
  from assms(2) classify_effect [OF assms(1)] have o': "order' = order_commit order ob" by simp
  have "observation_ok ob"
    using assms by (cases "observation_ok ob") (auto simp: classify_invalid order_advances_def)
  then show ?thesis by (simp add: classify_cases o' order_commit_def)
qed

definition sample_observation :: MeNormalizedObservation where
  "sample_observation =
     me_observation_init\<lparr>ob_channel_id := ''camera-0'', ob_stream_epoch := 1, ob_frame_id := 7,
       ob_frame_width := 640, ob_frame_height := 360, ob_backend_name := ''rockiva'',
       ob_backend_version := ''1.0'', ob_model_version := ''pfp''\<rparr>"

lemma sample_observation_ok: "observation_ok sample_observation"
  by (simp add: observation_ok_def sample_observation_def me_observation_init_def
      zero_observation_def bounded_string_def clock_ok_def live_tracks_def live_rules_def
      ME_ANALYTICS_CONTRACT_VERSION_def)

theorem redelivery_is_duplicate_witness:
  "me_observation_order_classify (order_commit me_observation_order_init sample_observation)
     (Some sample_observation) =
   (ME_OBSERVATION_ORDER_DUPLICATE, order_commit me_observation_order_init sample_observation)"
proof -
  have "me_observation_order_classify me_observation_order_init (Some sample_observation) =
          (ME_OBSERVATION_ORDER_FIRST, order_commit me_observation_order_init sample_observation)"
    by (simp add: classify_cases sample_observation_ok me_observation_order_init_def)
  from redelivery_is_duplicate [OF this] show ?thesis by (simp add: order_advances_def)
qed

end
