(* ===== verification/Analytics_Config.thy ===== *)
theory Analytics_Config
  imports Observation
begin

text \<open>
  \<^verbatim>\<open>media_engine/src/analytics/config.{h,c}\<close>: the analytics settings, their defaults and their
  validation. The helpers \<^verbatim>\<open>bounded_string\<close> and \<^verbatim>\<open>valid_rule_type\<close> that this file repeats are the ones of
  the prelude and of the observation theory.
\<close>

abbreviation ME_ANALYTICS_BACKEND_MAX :: nat where "ME_ANALYTICS_BACKEND_MAX \<equiv> 32"
abbreviation ME_ANALYTICS_MODEL_MAX :: nat where "ME_ANALYTICS_MODEL_MAX \<equiv> 96"
abbreviation ME_ANALYTICS_EVIDENCE_MODE_MAX :: nat where "ME_ANALYTICS_EVIDENCE_MODE_MAX \<equiv> 24"
abbreviation ME_ANALYTICS_EVENT_LOG_PATH_MAX :: nat where "ME_ANALYTICS_EVENT_LOG_PATH_MAX \<equiv> 256"

record MeAnalyticsConfig =
  cf_enabled :: bool
  cf_backend :: string
  cf_model :: string
  cf_width :: int
  cf_height :: int
  cf_fps :: int
  cf_score_threshold_q :: u32
  cf_confirm_frames :: u32
  cf_confirm_ms :: u32
  cf_debounce_ms :: u32
  cf_disappear_grace_ms :: u32
  cf_cooldown_ms :: u32
  cf_update_interval_ms :: u32
  cf_send_updates :: bool
  cf_send_end :: bool
  cf_roi_enabled :: bool
  cf_roi :: MeNormalizedBBox
  cf_line_enabled :: bool
  cf_line_x1 :: u32
  cf_line_y1 :: u32
  cf_line_x2 :: u32
  cf_line_y2 :: u32
  cf_rule_id :: string
  cf_rule_type :: MeRuleType
  cf_evidence_mode :: string
  cf_evidence_max_bytes :: u64
  cf_evidence_retention_s :: u32
  cf_evidence_jpeg_quality :: u32
  cf_event_log_max_records :: u32
  cf_event_log_max_bytes :: u64
  cf_event_log_path :: string

definition valid_rect :: "MeNormalizedBBox \<Rightarrow> bool" where
  "valid_rect rect \<longleftrightarrow>
     bb_left rect < bb_right rect \<and> bb_top rect < bb_bottom rect \<and>
     bb_right rect \<le> ME_ANALYTICS_COORD_SCALE \<and> bb_bottom rect \<le> ME_ANALYTICS_COORD_SCALE"

definition me_analytics_config_defaults :: MeAnalyticsConfig where
  "me_analytics_config_defaults =
     \<lparr>cf_enabled = False, cf_backend = ''rockiva'', cf_model = [], cf_width = 0, cf_height = 0,
      cf_fps = 0, cf_score_threshold_q = 0, cf_confirm_frames = 3, cf_confirm_ms = 300,
      cf_debounce_ms = 300, cf_disappear_grace_ms = 1000, cf_cooldown_ms = 5000,
      cf_update_interval_ms = 5000, cf_send_updates = False, cf_send_end = False,
      cf_roi_enabled = False, cf_roi = zero_bbox, cf_line_enabled = False, cf_line_x1 = 0,
      cf_line_y1 = 0, cf_line_x2 = 0, cf_line_y2 = 0, cf_rule_id = ''people-flow'',
      cf_rule_type = ME_RULE_TYPE_OCCUPANCY, cf_evidence_mode = ''stock_wvp_pull'',
      cf_evidence_max_bytes = 512 * 1024 * 1024, cf_evidence_retention_s = 72 * 60 * 60,
      cf_evidence_jpeg_quality = 85, cf_event_log_max_records = 4096,
      cf_event_log_max_bytes = 64 * 1024 * 1024,
      cf_event_log_path = ''/data/media_engine/analytics-events.jsonl''\<rparr>"

definition me_analytics_evidence_mode_valid :: "string option \<Rightarrow> bool" where
  "me_analytics_evidence_mode_valid value =
     (case value of None \<Rightarrow> False
      | Some v \<Rightarrow> strcaseeq v ''stock_wvp_pull'' \<or> strcaseeq v ''exact_evidence'')"

definition me_analytics_rule_type_parse :: "string option \<Rightarrow> MeRuleType option" where
  "me_analytics_rule_type_parse value =
     (case value of None \<Rightarrow> None
      | Some v \<Rightarrow>
          if strcaseeq v ''occupancy'' then Some ME_RULE_TYPE_OCCUPANCY
          else if strcaseeq v ''line_cross'' \<or> strcaseeq v ''line-cross'' then Some ME_RULE_TYPE_LINE_CROSS
          else if strcaseeq v ''intrusion'' then Some ME_RULE_TYPE_INTRUSION
          else None)"

datatype ConfigError =
    CE_Null
  | CE_Backend_Missing
  | CE_Backend_Unsupported string
  | CE_Negative
  | CE_Enabled_Dimensions
  | CE_Odd_Dimensions
  | CE_Score
  | CE_Intervals
  | CE_Roi
  | CE_Line
  | CE_Rule
  | CE_Evidence_Mode
  | CE_Limits
  | CE_Log_Path
  | CE_Model

definition me_analytics_config_validate :: "MeAnalyticsConfig option \<Rightarrow> ConfigError + unit" where
  "me_analytics_config_validate co =
     (case co of
        None \<Rightarrow> Inl CE_Null
      | Some config \<Rightarrow>
          if \<not> bounded_string (cf_backend config) ME_ANALYTICS_BACKEND_MAX then Inl CE_Backend_Missing
          else if cf_enabled config \<and> \<not> strcaseeq (cf_backend config) ''rockiva''
          then Inl (CE_Backend_Unsupported (cf_backend config))
          else if cf_width config < 0 \<or> cf_height config < 0 \<or> cf_fps config < 0 then Inl CE_Negative
          else if cf_enabled config \<and>
                  (cf_width config < 2 \<or> cf_height config < 2 \<or> odd (cf_width config) \<or>
                   odd (cf_height config) \<or> cf_fps config \<le> 0)
          then Inl CE_Enabled_Dimensions
          else if cf_width config = 1 \<or> cf_height config = 1 \<or>
                  (cf_width config > 0 \<and> odd (cf_width config)) \<or>
                  (cf_height config > 0 \<and> odd (cf_height config))
          then Inl CE_Odd_Dimensions
          else if cf_score_threshold_q config > ME_ANALYTICS_COORD_SCALE then Inl CE_Score
          else if cf_confirm_frames config = 0 \<or> cf_confirm_ms config = 0 \<or>
                  cf_update_interval_ms config = 0
          then Inl CE_Intervals
          else if cf_roi_enabled config \<and> \<not> valid_rect (cf_roi config) then Inl CE_Roi
          else if cf_line_enabled config \<and>
                  (cf_line_x1 config > ME_ANALYTICS_COORD_SCALE \<or>
                   cf_line_y1 config > ME_ANALYTICS_COORD_SCALE \<or>
                   cf_line_x2 config > ME_ANALYTICS_COORD_SCALE \<or>
                   cf_line_y2 config > ME_ANALYTICS_COORD_SCALE \<or>
                   (cf_line_x1 config = cf_line_x2 config \<and> cf_line_y1 config = cf_line_y2 config))
          then Inl CE_Line
          else if \<not> bounded_string (cf_rule_id config) ME_ANALYTICS_RULE_ID_MAX \<or>
                  \<not> valid_rule_type (cf_rule_type config)
          then Inl CE_Rule
          else if \<not> me_analytics_evidence_mode_valid (Some (cf_evidence_mode config))
          then Inl CE_Evidence_Mode
          else if cf_evidence_max_bytes config = 0 \<or> cf_evidence_retention_s config = 0 \<or>
                  cf_evidence_jpeg_quality config < 1 \<or> cf_evidence_jpeg_quality config > 100 \<or>
                  cf_event_log_max_records config = 0 \<or> cf_event_log_max_bytes config = 0
          then Inl CE_Limits
          else if \<not> bounded_string (cf_event_log_path config) ME_ANALYTICS_EVENT_LOG_PATH_MAX
          then Inl CE_Log_Path
          else if cf_enabled config \<and> \<not> bounded_string (cf_model config) ME_ANALYTICS_MODEL_MAX
          then Inl CE_Model
          else Inr ())"

subsection \<open>What validation guarantees to the event engine\<close>

text \<open>The facts about a configuration on which the event engine relies.\<close>

definition config_ok :: "MeAnalyticsConfig \<Rightarrow> bool" where
  "config_ok c \<longleftrightarrow> me_analytics_config_validate (Some c) = Inr ()"

lemma config_ok_intervals:
  "config_ok c \<Longrightarrow> cf_confirm_frames c \<noteq> 0 \<and> cf_confirm_ms c \<noteq> 0 \<and> cf_update_interval_ms c \<noteq> 0"
  by (auto simp: config_ok_def me_analytics_config_validate_def split: if_splits)

lemma config_ok_rule:
  "config_ok c \<Longrightarrow> bounded_string (cf_rule_id c) 64 \<and> valid_rule_type (cf_rule_type c)"
  by (auto simp: config_ok_def me_analytics_config_validate_def split: if_splits)

lemma config_ok_enabled:
  "config_ok c \<Longrightarrow> cf_enabled c \<Longrightarrow>
     2 \<le> cf_width c \<and> 2 \<le> cf_height c \<and> even (cf_width c) \<and> even (cf_height c) \<and> 0 < cf_fps c"
  by (auto simp: config_ok_def me_analytics_config_validate_def split: if_splits)

lemma config_ok_limits:
  "config_ok c \<Longrightarrow> cf_event_log_max_records c \<noteq> 0 \<and> cf_event_log_max_bytes c \<noteq> 0 \<and>
     bounded_string (cf_event_log_path c) 256"
  by (auto simp: config_ok_def me_analytics_config_validate_def split: if_splits)

lemmas config_ok_facts = config_ok_intervals config_ok_rule config_ok_enabled config_ok_limits

lemma config_defaults_ok: "config_ok me_analytics_config_defaults"
  by (simp add: config_ok_def me_analytics_config_validate_def me_analytics_config_defaults_def
      bounded_string_def valid_rule_type_def me_analytics_evidence_mode_valid_def
      ME_ANALYTICS_COORD_SCALE_def)

text \<open>
  the defaults pass validation as they stand, and turning analytics on without choosing
  board-specific dimensions, a sampling rate and a model is refused.
\<close>

theorem config_defaults_valid_but_not_enabled:
  "me_analytics_config_validate (Some me_analytics_config_defaults) = Inr () \<and>
   me_analytics_config_validate (Some (me_analytics_config_defaults\<lparr>cf_enabled := True\<rparr>)) =
     Inl CE_Enabled_Dimensions \<and>
   me_analytics_config_validate
     (Some (me_analytics_config_defaults\<lparr>cf_enabled := True, cf_width := 640, cf_height := 360,
                                        cf_fps := 5\<rparr>)) = Inl CE_Model"
  by (simp add: me_analytics_config_validate_def me_analytics_config_defaults_def
      bounded_string_def valid_rule_type_def me_analytics_evidence_mode_valid_def
      ME_ANALYTICS_COORD_SCALE_def)

end
