(* ===== verification/Event_Types.thy ===== *)
theory Event_Types
  imports Analytics_Config
begin

text \<open>
  \<^verbatim>\<open>media_engine/src/analytics/event_engine.h\<close> and the first part of \<^verbatim>\<open>event_engine.c\<close>: the event
  record, the state of the event engine, and the helpers on time, identifiers and pending
  changes that every later part uses. An array with a separate count (the responsible and the
  pending track ids) is the list of its counted entries; the code never reads the others. The
  sink callback is the list of records handed to it, and \<open>en_sink\<close> says whether one is installed.
\<close>

subsection \<open>Data\<close>

definition ME_ANALYTICS_EVENT_CONTRACT_VERSION :: u32 where
  "ME_ANALYTICS_EVENT_CONTRACT_VERSION = 1"

abbreviation ME_ANALYTICS_EVENT_ID_MAX :: nat where "ME_ANALYTICS_EVENT_ID_MAX \<equiv> 96"
abbreviation ME_ANALYTICS_EVIDENCE_ID_MAX :: nat where "ME_ANALYTICS_EVIDENCE_ID_MAX \<equiv> 96"
abbreviation ME_ANALYTICS_EVENT_MAX_TRACKS :: nat where "ME_ANALYTICS_EVENT_MAX_TRACKS \<equiv> 16"

datatype MeEventPhase =
    ME_EVENT_PHASE_START
  | ME_EVENT_PHASE_UPDATE
  | ME_EVENT_PHASE_END
  | ME_EVENT_PHASE_OTHER int

datatype MeEventReason =
    ME_EVENT_REASON_NONE
  | ME_EVENT_REASON_CONFIRMED
  | ME_EVENT_REASON_COUNT_CHANGED
  | ME_EVENT_REASON_DIRECTION
  | ME_EVENT_REASON_DISAPPEARED
  | ME_EVENT_REASON_STREAM_RESET
  | ME_EVENT_REASON_RECONFIGURED
  | ME_EVENT_REASON_ANALYTICS_DISABLED
  | ME_EVENT_REASON_PROCESS_RESTART
  | ME_EVENT_REASON_OTHER int

record MeAnalyticsEvent =
  ev_contract_version :: u32
  ev_event_id :: string
  ev_channel_id :: string
  ev_stream_epoch :: u64
  ev_event_type :: MeRuleType
  ev_rule_id :: string
  ev_phase :: MeEventPhase
  ev_event_seq :: u64
  ev_reason :: MeEventReason
  ev_event_time_us :: i64
  ev_clock_state :: MeClockState
  ev_source_pts :: i64
  ev_source_pts_valid :: bool
  ev_source_timebase :: MeTimebase
  ev_frame_id :: u64
  ev_person_count :: u32
  ev_delta_in :: u32
  ev_delta_out :: u32
  ev_responsible_track_ids :: "u64 list"
  ev_config_version :: u64
  ev_evidence_id :: string

record MeEventTrackState =
  ts_in_use :: bool
  ts_present :: bool
  ts_confirmed :: bool
  ts_track_id :: u64
  ts_seen_frames :: u32
  ts_first_frame_id :: u64
  ts_first_timeline_us :: i64
  ts_first_timeline_valid :: bool
  ts_last_seen_frame_id :: u64
  ts_last_timeline_us :: i64
  ts_last_timeline_valid :: bool
  ts_inside :: bool
  ts_inside_initialized :: bool
  ts_inside_candidate :: bool
  ts_inside_candidate_valid :: bool
  ts_inside_candidate_since_us :: i64

record MeEventRuleFactState =
  rs_in_use :: bool
  rs_track_id :: u64
  rs_direction_present :: "bool list"

record MeEventEngine =
  en_config :: MeAnalyticsConfig
  en_config_version :: u64
  en_order :: MeObservationOrder
  en_have_stream :: bool
  en_channel_id :: string
  en_stream_epoch :: u64
  en_last_observation :: MeNormalizedObservation
  en_have_last_observation :: bool
  en_tracks :: "MeEventTrackState list"
  en_rule_fact_states :: "MeEventRuleFactState list"
  en_active :: bool
  en_active_event :: MeAnalyticsEvent
  en_active_person_count :: u32
  en_latest_person_count :: u32
  en_latest_person_count_valid :: bool
  en_trigger_pending :: bool
  en_trigger_frames :: u32
  en_trigger_since_us :: i64
  en_trigger_since_valid :: bool
  en_absent_since_us :: i64
  en_absent_since_valid :: bool
  en_update_pending :: bool
  en_pending_person_count :: u32
  en_pending_delta_in :: u32
  en_pending_delta_out :: u32
  en_pending_track_ids :: "u64 list"
  en_pending_reason :: MeEventReason
  en_last_emit_timeline_us :: i64
  en_last_emit_timeline_valid :: bool
  en_cooldown_until_us :: i64
  en_cooldown_until_valid :: bool
  en_next_event_serial :: u64
  en_sink :: bool

record MeTimeline =
  tl_us :: i64
  tl_valid :: bool

text \<open>The values that \<open>memset(..., 0, ...)\<close> leaves in these structures.\<close>

definition zero_event :: MeAnalyticsEvent where
  "zero_event =
     \<lparr>ev_contract_version = 0, ev_event_id = [], ev_channel_id = [], ev_stream_epoch = 0,
      ev_event_type = ME_RULE_TYPE_UNKNOWN, ev_rule_id = [], ev_phase = ME_EVENT_PHASE_OTHER 0,
      ev_event_seq = 0, ev_reason = ME_EVENT_REASON_NONE, ev_event_time_us = 0,
      ev_clock_state = ME_CLOCK_STATE_UNAVAILABLE, ev_source_pts = 0, ev_source_pts_valid = False,
      ev_source_timebase = zero_timebase, ev_frame_id = 0, ev_person_count = 0, ev_delta_in = 0,
      ev_delta_out = 0, ev_responsible_track_ids = [], ev_config_version = 0, ev_evidence_id = []\<rparr>"

definition zero_track_state :: MeEventTrackState where
  "zero_track_state =
     \<lparr>ts_in_use = False, ts_present = False, ts_confirmed = False, ts_track_id = 0,
      ts_seen_frames = 0, ts_first_frame_id = 0, ts_first_timeline_us = 0,
      ts_first_timeline_valid = False, ts_last_seen_frame_id = 0, ts_last_timeline_us = 0,
      ts_last_timeline_valid = False, ts_inside = False, ts_inside_initialized = False,
      ts_inside_candidate = False, ts_inside_candidate_valid = False,
      ts_inside_candidate_since_us = 0\<rparr>"

definition zero_rule_fact_state :: MeEventRuleFactState where
  "zero_rule_fact_state =
     \<lparr>rs_in_use = False, rs_track_id = 0, rs_direction_present = replicate 3 False\<rparr>"

definition zero_config :: MeAnalyticsConfig where
  "zero_config =
     \<lparr>cf_enabled = False, cf_backend = [], cf_model = [], cf_width = 0, cf_height = 0,
      cf_fps = 0, cf_score_threshold_q = 0, cf_confirm_frames = 0, cf_confirm_ms = 0,
      cf_debounce_ms = 0, cf_disappear_grace_ms = 0, cf_cooldown_ms = 0,
      cf_update_interval_ms = 0, cf_send_updates = False, cf_send_end = False,
      cf_roi_enabled = False, cf_roi = zero_bbox, cf_line_enabled = False, cf_line_x1 = 0,
      cf_line_y1 = 0, cf_line_x2 = 0, cf_line_y2 = 0, cf_rule_id = [],
      cf_rule_type = ME_RULE_TYPE_UNKNOWN, cf_evidence_mode = [],
      cf_evidence_max_bytes = 0, cf_evidence_retention_s = 0,
      cf_evidence_jpeg_quality = 0, cf_event_log_max_records = 0,
      cf_event_log_max_bytes = 0, cf_event_log_path = []\<rparr>"

definition zero_engine :: MeEventEngine where
  "zero_engine =
     \<lparr>en_config = zero_config, en_config_version = 0, en_order = me_observation_order_init,
      en_have_stream = False, en_channel_id = [], en_stream_epoch = 0,
      en_last_observation = zero_observation, en_have_last_observation = False,
      en_tracks = replicate ME_ANALYTICS_MAX_TRACKS zero_track_state,
      en_rule_fact_states = replicate ME_ANALYTICS_MAX_TRACKS zero_rule_fact_state,
      en_active = False, en_active_event = zero_event, en_active_person_count = 0,
      en_latest_person_count = 0, en_latest_person_count_valid = False,
      en_trigger_pending = False, en_trigger_frames = 0, en_trigger_since_us = 0,
      en_trigger_since_valid = False, en_absent_since_us = 0, en_absent_since_valid = False,
      en_update_pending = False, en_pending_person_count = 0, en_pending_delta_in = 0,
      en_pending_delta_out = 0, en_pending_track_ids = [],
      en_pending_reason = ME_EVENT_REASON_NONE, en_last_emit_timeline_us = 0,
      en_last_emit_timeline_valid = False, en_cooldown_until_us = 0,
      en_cooldown_until_valid = False, en_next_event_serial = 0, en_sink = False\<rparr>"

subsection \<open>Reasons, hashing and time\<close>

definition valid_event_reason :: "MeEventReason \<Rightarrow> bool" where
  "valid_event_reason reason =
     (case reason of ME_EVENT_REASON_NONE \<Rightarrow> False | ME_EVENT_REASON_OTHER _ \<Rightarrow> False | _ \<Rightarrow> True)"

definition channel_hash :: "string \<Rightarrow> u64" where
  "channel_hash channel_id =
     foldl (\<lambda>hash c. (hash XOR word_of_nat (of_char c)) * 1099511628211) 1469598103934665603 channel_id"

text \<open>The product is computed in 128 bits, as \<^verbatim>\<open>__uint128_t\<close>.\<close>

definition scale_to_us :: "u64 \<Rightarrow> u64 \<Rightarrow> u64 \<Rightarrow> i64 option" where
  "scale_to_us value numerator denominator =
     (if denominator = 0 then None
      else (let scaled = (unat value * unat numerator * 1000000) mod 2 ^ 128;
                result = scaled div unat denominator
            in if int result > INT64_MAX then None else Some (int result)))"

definition pts_to_us :: "MeNormalizedObservation \<Rightarrow> i64 option" where
  "pts_to_us observation =
     (if \<not> ob_source_pts_valid observation \<or> ob_source_pts observation < 0 \<or>
         tb_num (ob_source_timebase observation) = 0 \<or> tb_den (ob_source_timebase observation) = 0
      then None
      else scale_to_us (word_of_int (ob_source_pts observation))
             (ucast (tb_num (ob_source_timebase observation)))
             (ucast (tb_den (ob_source_timebase observation))))"

definition observation_timeline :: "MeEventEngine \<Rightarrow> MeNormalizedObservation \<Rightarrow> MeTimeline" where
  "observation_timeline engine observation =
     (case pts_to_us observation of
        Some us \<Rightarrow> \<lparr>tl_us = us, tl_valid = True\<rparr>
      | None \<Rightarrow>
          if (ob_clock_state observation = ME_CLOCK_STATE_SYNCED \<or>
              ob_clock_state observation = ME_CLOCK_STATE_ESTIMATED) \<and>
             ob_capture_time_us observation > 0
          then \<lparr>tl_us = ob_capture_time_us observation, tl_valid = True\<rparr>
          else if cf_fps (en_config engine) > 0 \<and> ob_frame_id observation > 0
          then (case scale_to_us (ob_frame_id observation - 1) 1
                       (word_of_int (cf_fps (en_config engine))) of
                  Some us \<Rightarrow> \<lparr>tl_us = us, tl_valid = True\<rparr>
                | None \<Rightarrow> \<lparr>tl_us = 0, tl_valid = False\<rparr>)
          else \<lparr>tl_us = 0, tl_valid = False\<rparr>)"

text \<open>\<open>(uint64_t)ms * 1000ULL\<close>\<close>

definition ms_to_us :: "u32 \<Rightarrow> u64" where
  "ms_to_us ms = ucast ms * 1000"

definition elapsed_at_least :: "MeTimeline \<Rightarrow> i64 \<Rightarrow> bool \<Rightarrow> u64 \<Rightarrow> bool" where
  "elapsed_at_least now then_us then_valid duration_us =
     (if \<not> tl_valid now \<or> \<not> then_valid \<or> tl_us now < then_us then False
      else (word_of_int (tl_us now - then_us) :: u64) \<ge> duration_us)"

definition time_add_ms :: "i64 \<Rightarrow> u32 \<Rightarrow> i64 option" where
  "time_add_ms start_us duration_ms =
     (let duration_us = int (unat duration_ms) * 1000
      in if start_us < 0 \<or> duration_us < 0 then None
         else if start_us > INT64_MAX - duration_us then Some INT64_MAX
         else Some (start_us + duration_us))"

subsection \<open>Events\<close>

definition emit_event :: "MeEventEngine \<Rightarrow> MeAnalyticsEvent \<Rightarrow> MeAnalyticsEvent list" where
  "emit_event engine event = (if en_sink engine then [event] else [])"

definition increment_event_seq :: "MeAnalyticsEvent \<Rightarrow> MeAnalyticsEvent option" where
  "increment_event_seq event =
     (if ev_event_seq event = UINT64_MAX then None
      else Some (event\<lparr>ev_event_seq := ev_event_seq event + 1\<rparr>))"

definition event_copy_observation_context ::
  "MeAnalyticsEvent \<Rightarrow> MeNormalizedObservation \<Rightarrow> u32 \<Rightarrow> u32 \<Rightarrow> u32 \<Rightarrow> MeAnalyticsEvent" where
  "event_copy_observation_context event observation person_count delta_in delta_out =
     event\<lparr>ev_channel_id := copy_string ME_ANALYTICS_CHANNEL_ID_MAX (ob_channel_id observation),
           ev_stream_epoch := ob_stream_epoch observation,
           ev_event_time_us :=
             (if ob_clock_state observation = ME_CLOCK_STATE_SYNCED \<or>
                 ob_clock_state observation = ME_CLOCK_STATE_ESTIMATED
              then ob_capture_time_us observation else 0),
           ev_clock_state := ob_clock_state observation,
           ev_source_pts := ob_source_pts observation,
           ev_source_pts_valid := ob_source_pts_valid observation,
           ev_source_timebase := ob_source_timebase observation,
           ev_frame_id := ob_frame_id observation,
           ev_person_count := person_count,
           ev_delta_in := delta_in,
           ev_delta_out := delta_out\<rparr>"

definition event_copy_responsible_tracks :: "MeAnalyticsEvent \<Rightarrow> u64 list \<Rightarrow> MeAnalyticsEvent" where
  "event_copy_responsible_tracks event track_ids =
     event\<lparr>ev_responsible_track_ids := take ME_ANALYTICS_EVENT_MAX_TRACKS track_ids\<rparr>"

subsection \<open>Clearing\<close>

definition clear_trigger_candidate :: "MeEventEngine \<Rightarrow> MeEventEngine" where
  "clear_trigger_candidate engine =
     engine\<lparr>en_trigger_pending := False, en_trigger_frames := 0, en_trigger_since_us := 0,
            en_trigger_since_valid := False\<rparr>"

definition clear_pending :: "MeEventEngine \<Rightarrow> MeEventEngine" where
  "clear_pending engine =
     (clear_trigger_candidate engine)
       \<lparr>en_absent_since_us := 0, en_absent_since_valid := False, en_update_pending := False,
        en_pending_person_count := 0, en_pending_delta_in := 0, en_pending_delta_out := 0,
        en_pending_track_ids := [], en_pending_reason := ME_EVENT_REASON_NONE,
        en_last_emit_timeline_us := 0, en_last_emit_timeline_valid := False\<rparr>"

definition clear_tracks :: "MeEventEngine \<Rightarrow> MeEventEngine" where
  "clear_tracks engine =
     engine\<lparr>en_tracks := replicate ME_ANALYTICS_MAX_TRACKS zero_track_state\<rparr>"

definition clear_rule_fact_states :: "MeEventEngine \<Rightarrow> MeEventEngine" where
  "clear_rule_fact_states engine =
     engine\<lparr>en_rule_fact_states := replicate ME_ANALYTICS_MAX_TRACKS zero_rule_fact_state\<rparr>"

definition clear_runtime :: "MeEventEngine \<Rightarrow> MeEventEngine" where
  "clear_runtime engine =
     clear_rule_fact_states (clear_tracks (clear_pending
       (engine\<lparr>en_active := False, en_active_event := zero_event, en_active_person_count := 0,
               en_latest_person_count := 0, en_latest_person_count_valid := False,
               en_cooldown_until_us := 0, en_cooldown_until_valid := False\<rparr>)))"

definition latest_person_count :: "MeEventEngine \<Rightarrow> u32" where
  "latest_person_count engine =
     (if en_latest_person_count_valid engine then en_latest_person_count engine
      else en_active_person_count engine)"

definition cooldown_elapsed :: "MeEventEngine \<Rightarrow> MeTimeline \<Rightarrow> bool" where
  "cooldown_elapsed engine now =
     (if \<not> en_cooldown_until_valid engine then True
      else if \<not> tl_valid now then False
      else tl_us now \<ge> en_cooldown_until_us engine)"

subsection \<open>Event identifiers\<close>

definition hex_digit :: "nat \<Rightarrow> char" where
  "hex_digit n = (if n < 10 then char_of (48 + n) else char_of (87 + n))"

text \<open>\<open>%0*llx\<close> with a field of \<open>k\<close> digits, for a value that fits it.\<close>

primrec hex_fixed :: "nat \<Rightarrow> nat \<Rightarrow> string" where
  "hex_fixed 0 n = []"
| "hex_fixed (Suc k) n = hex_fixed k (n div 16) @ [hex_digit (n mod 16)]"

definition format_event_id :: "string \<Rightarrow> u64 \<Rightarrow> u64 \<Rightarrow> string" where
  "format_event_id channel_id stream_epoch serial =
     ''me-'' @ hex_fixed 16 (unat (channel_hash channel_id)) @ ''-'' @
     hex_fixed 16 (unat stream_epoch) @ ''-'' @ hex_fixed 16 (unat serial)"

definition new_event_id ::
  "MeEventEngine \<Rightarrow> string \<Rightarrow> u64 \<Rightarrow> nat \<Rightarrow> (string \<times> MeEventEngine) option" where
  "new_event_id engine channel_id stream_epoch outsz =
     (if outsz = 0 \<or> en_next_event_serial engine = UINT64_MAX then None
      else (let serial = en_next_event_serial engine + 1;
                out = format_event_id channel_id stream_epoch serial
            in if length out \<ge> outsz then None
               else Some (out, engine\<lparr>en_next_event_serial := serial\<rparr>)))"

subsection \<open>Names\<close>

definition me_event_phase_name :: "MeEventPhase \<Rightarrow> string" where
  "me_event_phase_name phase =
     (case phase of ME_EVENT_PHASE_START \<Rightarrow> ''START'' | ME_EVENT_PHASE_UPDATE \<Rightarrow> ''UPDATE''
      | ME_EVENT_PHASE_END \<Rightarrow> ''END'' | ME_EVENT_PHASE_OTHER _ \<Rightarrow> ''UNKNOWN'')"

definition me_event_reason_name :: "MeEventReason \<Rightarrow> string" where
  "me_event_reason_name reason =
     (case reason of
        ME_EVENT_REASON_NONE \<Rightarrow> ''none''
      | ME_EVENT_REASON_CONFIRMED \<Rightarrow> ''confirmed''
      | ME_EVENT_REASON_COUNT_CHANGED \<Rightarrow> ''count_changed''
      | ME_EVENT_REASON_DIRECTION \<Rightarrow> ''direction''
      | ME_EVENT_REASON_DISAPPEARED \<Rightarrow> ''disappeared''
      | ME_EVENT_REASON_STREAM_RESET \<Rightarrow> ''stream_reset''
      | ME_EVENT_REASON_RECONFIGURED \<Rightarrow> ''reconfigured''
      | ME_EVENT_REASON_ANALYTICS_DISABLED \<Rightarrow> ''analytics_disabled''
      | ME_EVENT_REASON_PROCESS_RESTART \<Rightarrow> ''process_restart''
      | ME_EVENT_REASON_OTHER _ \<Rightarrow> ''unknown'')"

subsection \<open>Lemmas on time\<close>

lemma uint_u32_less: "uint (x :: u32) < 4294967296"
  using unsigned_less [where ?'a = int, of x] by simp

lemma uint_u64_less: "uint (x :: u64) < 18446744073709551616"
  using unsigned_less [where ?'a = int, of x] by simp

lemma ms_to_us_uint: "uint (ms_to_us ms) = uint ms * 1000"
  using uint_u32_less [of ms]
  by (simp add: ms_to_us_def uint_word_ariths unsigned_ucast_eq take_bit_int_eq_self)

lemma ms_to_us_zero_iff: "ms_to_us ms = 0 \<longleftrightarrow> ms = 0"
  using ms_to_us_uint [of ms] by (auto simp: word_uint_eq_iff)

lemma elapsed_at_least_iff:
  assumes "0 \<le> then_us" and "tl_us now \<le> INT64_MAX"
  shows "elapsed_at_least now then_us then_valid d \<longleftrightarrow>
           tl_valid now \<and> then_valid \<and> then_us \<le> tl_us now \<and> uint d \<le> tl_us now - then_us"
proof (cases "then_us \<le> tl_us now")
  case True
  with assms have "0 \<le> tl_us now - then_us" "tl_us now - then_us < 2 ^ 64"
    by (simp_all add: INT64_MAX_def)
  then have "uint (word_of_int (tl_us now - then_us) :: u64) = tl_us now - then_us"
    by (simp only: unsigned_of_int) (simp add: take_bit_int_eq_self)
  with True show ?thesis
    by (auto simp: elapsed_at_least_def word_le_def)
next
  case False
  then show ?thesis by (simp add: elapsed_at_least_def)
qed

lemma time_add_ms_Some:
  assumes "0 \<le> start"
  shows "time_add_ms start ms = Some (min INT64_MAX (start + int (unat ms) * 1000))"
  using assms by (auto simp: time_add_ms_def Let_def min_def)

lemma scale_to_us_bounds:
  "scale_to_us v n d = Some us \<Longrightarrow> 0 \<le> us \<and> us \<le> INT64_MAX"
  by (auto simp: scale_to_us_def Let_def split: if_splits)

lemma observation_timeline_bounds:
  assumes "ob_capture_time_us ob \<le> INT64_MAX"
  shows "0 \<le> tl_us (observation_timeline engine ob) \<and> tl_us (observation_timeline engine ob) \<le> INT64_MAX"
  using assms
  by (auto simp: observation_timeline_def pts_to_us_def INT64_MAX_def
      dest!: scale_to_us_bounds split: option.splits if_splits)

lemma observation_timeline_config:
  "en_config e = en_config e' \<Longrightarrow> observation_timeline e ob = observation_timeline e' ob"
  unfolding observation_timeline_def by (simp only:)

subsection \<open>Lemmas on event identifiers\<close>

lemma hex_digit_inj:
  assumes "m < 16" and "n < 16" and "hex_digit m = hex_digit n"
  shows "m = n"
proof -
  have c: "(of_char (hex_digit k) :: nat) = (if k < 10 then 48 + k else 87 + k)" if "k < 16" for k
    using that by (simp add: hex_digit_def)
  from assms(3) have "(of_char (hex_digit m) :: nat) = of_char (hex_digit n)" by simp
  with assms(1,2) show ?thesis by (auto simp: c split: if_splits)
qed

lemma length_hex_fixed [simp]: "length (hex_fixed k n) = k"
  by (induction k arbitrary: n) auto

lemma hex_fixed_inj:
  "m < 16 ^ k \<Longrightarrow> n < 16 ^ k \<Longrightarrow> hex_fixed k m = hex_fixed k n \<Longrightarrow> m = n"
proof (induction k arbitrary: m n)
  case 0
  then show ?case by simp
next
  case (Suc k)
  then have "hex_fixed k (m div 16) = hex_fixed k (n div 16)" and
    "hex_digit (m mod 16) = hex_digit (n mod 16)" by auto
  moreover have "m div 16 < 16 ^ k" "n div 16 < 16 ^ k"
    using Suc.prems by (simp_all add: less_mult_imp_div_less mult.commute)
  ultimately have "m div 16 = n div 16" "m mod 16 = n mod 16"
    using Suc.IH hex_digit_inj [of "m mod 16" "n mod 16"] by auto
  then show ?case by (metis div_mult_mod_eq)
qed

lemma unat_u64_less: "unat (x :: u64) < 16 ^ 16"
  using unsigned_less [where ?'a = nat, of x] by simp

lemma hex_fixed_u64_inj: "hex_fixed 16 (unat (x :: u64)) = hex_fixed 16 (unat y) \<longleftrightarrow> x = y"
  using hex_fixed_inj [of "unat x" 16 "unat y"] unat_u64_less [of x] unat_u64_less [of y]
  by (auto simp: word_unat_eq_iff)

lemma length_format_event_id: "length (format_event_id c ep s) = 53"
  by (simp add: format_event_id_def)

lemma format_event_id_eq_iff:
  "format_event_id c ep s = format_event_id c' ep' s' \<longleftrightarrow>
     channel_hash c = channel_hash c' \<and> ep = ep' \<and> s = s'"
  by (simp add: format_event_id_def hex_fixed_u64_inj)

lemma new_event_id_eq:
  "new_event_id engine c ep ME_ANALYTICS_EVENT_ID_MAX =
     (if en_next_event_serial engine = UINT64_MAX then None
      else Some (format_event_id c ep (en_next_event_serial engine + 1),
                 engine\<lparr>en_next_event_serial := en_next_event_serial engine + 1\<rparr>))"
  by (simp add: new_event_id_def Let_def length_format_event_id)

end
