(* ===== verification/Event_Tracks.thy ===== *)
theory Event_Tracks
  imports Event_Types
begin

text \<open>
  The tracked persons of the event engine (\<^verbatim>\<open>event_engine.c\<close>, from \<^verbatim>\<open>find_track\<close> to \<^verbatim>\<open>update_tracks\<close>): a table
  of 64 slots keyed by track id, the debounced test whether a person is inside the region of
  interest, the confirmation rule, and the update for one observation, which returns the number
  of confirmed persons inside. The table implements the \<^verbatim>\<open>slot_table\<close> interface of the prelude.
\<close>

subsection \<open>Operations\<close>

definition find_track_slot :: "MeEventTrackState list \<Rightarrow> u64 \<Rightarrow> nat option" where
  "find_track_slot slots track_id = first_index (\<lambda>t. ts_in_use t \<and> ts_track_id t = track_id) slots"

definition fresh_track :: "u64 \<Rightarrow> MeEventTrackState" where
  "fresh_track track_id = zero_track_state\<lparr>ts_in_use := True, ts_track_id := track_id\<rparr>"

definition allocate_track_slot ::
  "MeEventTrackState list \<Rightarrow> u64 \<Rightarrow> (MeEventTrackState list \<times> nat) option" where
  "allocate_track_slot slots track_id =
     (case first_index (\<lambda>t. \<not> ts_in_use t) slots of
        None \<Rightarrow> None
      | Some i \<Rightarrow> Some (slots[i := fresh_track track_id], i))"

definition find_track :: "MeEventEngine \<Rightarrow> u64 \<Rightarrow> nat option" where
  "find_track engine track_id = find_track_slot (en_tracks engine) track_id"

definition allocate_track :: "MeEventEngine \<Rightarrow> u64 \<Rightarrow> (MeEventEngine \<times> nat) option" where
  "allocate_track engine track_id =
     (case allocate_track_slot (en_tracks engine) track_id of
        None \<Rightarrow> None
      | Some (slots, i) \<Rightarrow> Some (engine\<lparr>en_tracks := slots\<rparr>, i))"

definition track_inside :: "MeEventEngine \<Rightarrow> MeNormalizedBBox \<Rightarrow> bool" where
  "track_inside engine bbox =
     (if \<not> cf_roi_enabled (en_config engine) then True
      else (let center_x = (bb_left bbox + bb_right bbox) div 2;
                center_y = (bb_top bbox + bb_bottom bbox) div 2;
                roi = cf_roi (en_config engine)
            in center_x \<ge> bb_left roi \<and> center_x \<le> bb_right roi \<and>
               center_y \<ge> bb_top roi \<and> center_y \<le> bb_bottom roi))"

definition clear_inside_candidate :: "MeEventTrackState \<Rightarrow> MeEventTrackState" where
  "clear_inside_candidate track =
     track\<lparr>ts_inside_candidate := False, ts_inside_candidate_valid := False,
           ts_inside_candidate_since_us := 0\<rparr>"

definition update_track_inside ::
  "MeEventEngine \<Rightarrow> MeEventTrackState \<Rightarrow> bool \<Rightarrow> MeTimeline \<Rightarrow> MeEventTrackState" where
  "update_track_inside engine track raw_inside now =
     (let debounce_us = ms_to_us (cf_debounce_ms (en_config engine)) in
      if \<not> ts_inside_initialized track
      then clear_inside_candidate (track\<lparr>ts_inside := raw_inside, ts_inside_initialized := True\<rparr>)
      else if raw_inside = ts_inside track then clear_inside_candidate track
      else if debounce_us = 0 \<or> \<not> tl_valid now
      then clear_inside_candidate (track\<lparr>ts_inside := raw_inside\<rparr>)
      else if \<not> ts_inside_candidate_valid track \<or> ts_inside_candidate track \<noteq> raw_inside
      then track\<lparr>ts_inside_candidate := raw_inside, ts_inside_candidate_valid := True,
                 ts_inside_candidate_since_us := tl_us now\<rparr>
      else if elapsed_at_least now (ts_inside_candidate_since_us track) True debounce_us
      then clear_inside_candidate (track\<lparr>ts_inside := raw_inside\<rparr>)
      else track)"

definition track_confirmed :: "MeEventEngine \<Rightarrow> MeEventTrackState \<Rightarrow> MeTimeline \<Rightarrow> bool" where
  "track_confirmed engine track now \<longleftrightarrow>
     (cf_confirm_frames (en_config engine) > 0 \<and>
      ts_seen_frames track \<ge> cf_confirm_frames (en_config engine)) \<or>
     elapsed_at_least now (ts_first_timeline_us track) (ts_first_timeline_valid track)
       (ms_to_us (cf_confirm_ms (en_config engine)))"

text \<open>The part of the loop body that works on the slot of a visible person.\<close>

definition see_track ::
  "MeEventEngine \<Rightarrow> MeNormalizedObservation \<Rightarrow> MeTimeline \<Rightarrow> MeTrackObservation \<Rightarrow>
     MeEventTrackState \<Rightarrow> MeEventTrackState" where
  "see_track engine observation now input slot =
     (let track = update_track_inside engine (slot\<lparr>ts_present := True\<rparr>)
                    (track_inside engine (to_bbox input)) now;
          track = (if \<not> ts_confirmed track
                   then (let t1 = (if ts_seen_frames track < UINT32_MAX
                                   then track\<lparr>ts_seen_frames := ts_seen_frames track + 1\<rparr> else track);
                             t2 = (if ts_seen_frames t1 = 1
                                   then t1\<lparr>ts_first_frame_id := ob_frame_id observation,
                                           ts_first_timeline_us := tl_us now,
                                           ts_first_timeline_valid := tl_valid now\<rparr> else t1)
                         in if track_confirmed engine t2 now then t2\<lparr>ts_confirmed := True\<rparr> else t2)
                   else track)
      in track\<lparr>ts_last_seen_frame_id := ob_frame_id observation,
               ts_last_timeline_us := tl_us now,
               ts_last_timeline_valid := tl_valid now\<rparr>)"

definition update_one_track ::
  "MeNormalizedObservation \<Rightarrow> MeTimeline \<Rightarrow> MeTrackObservation \<Rightarrow> MeEventEngine \<Rightarrow> MeEventEngine" where
  "update_one_track observation now input engine =
     (if to_class_id input \<noteq> ME_TRACK_CLASS_PERSON then engine
      else if to_state input = ME_TRACK_STATE_REMOVED
      then (case find_track engine (to_track_id input) of
              None \<Rightarrow> engine
            | Some slot \<Rightarrow> engine\<lparr>en_tracks := (en_tracks engine)[slot := zero_track_state]\<rparr>)
      else if (to_state input \<noteq> ME_TRACK_STATE_NEW \<and> to_state input \<noteq> ME_TRACK_STATE_ACTIVE) \<or>
              to_score_q input < cf_score_threshold_q (en_config engine)
      then engine
      else (case (case find_track engine (to_track_id input) of
                    Some slot \<Rightarrow> Some (engine, slot)
                  | None \<Rightarrow> allocate_track engine (to_track_id input)) of
              None \<Rightarrow> engine
            | Some (engine', slot) \<Rightarrow>
                engine'\<lparr>en_tracks := (en_tracks engine')
                  [slot := see_track engine' observation now input (en_tracks engine' ! slot)]\<rparr>))"

definition expire_track :: "MeEventEngine \<Rightarrow> MeTimeline \<Rightarrow> MeEventTrackState \<Rightarrow> MeEventTrackState" where
  "expire_track engine now track =
     (let grace_us = ms_to_us (cf_disappear_grace_ms (en_config engine)) in
      if \<not> ts_in_use track then track
      else if \<not> ts_confirmed track \<and> \<not> ts_present track then zero_track_state
      else if \<not> ts_present track \<and>
              (grace_us = 0 \<or>
               elapsed_at_least now (ts_last_timeline_us track) (ts_last_timeline_valid track) grace_us)
      then zero_track_state
      else track)"

definition counted_track :: "MeEventTrackState \<Rightarrow> bool" where
  "counted_track track \<longleftrightarrow> ts_in_use track \<and> ts_present track \<and> ts_confirmed track \<and> ts_inside track"

definition update_tracks ::
  "MeEventEngine \<Rightarrow> MeNormalizedObservation \<Rightarrow> MeTimeline \<Rightarrow> u32 \<times> MeEventEngine" where
  "update_tracks engine observation now =
     (let e1 = engine\<lparr>en_tracks := map (\<lambda>t. t\<lparr>ts_present := False\<rparr>) (en_tracks engine)\<rparr>;
          e2 = fold (update_one_track observation now) (live_tracks observation) e1;
          e3 = e2\<lparr>en_tracks := map (expire_track e2 now) (en_tracks e2)\<rparr>
      in (word_of_nat (length (filter counted_track (en_tracks e3))), e3))"

subsection \<open>The table of tracks\<close>

interpretation trk: slot_table ts_in_use ts_track_id find_track_slot allocate_track_slot
proof unfold_locales
  fix xs k i
  assume "find_track_slot xs k = Some i"
  then show "i < length xs \<and> ts_in_use (xs ! i) \<and> ts_track_id (xs ! i) = k"
    by (auto simp: find_track_slot_def dest: first_index_SomeD)
next
  fix xs k s
  assume "find_track_slot xs k = None" "s \<in> set xs" "ts_in_use s"
  then show "ts_track_id s \<noteq> k"
    by (auto simp: find_track_slot_def first_index_None_iff)
next
  fix xs k ys i
  assume "allocate_track_slot xs k = Some (ys, i)"
  then show "i < length xs \<and> \<not> ts_in_use (xs ! i) \<and>
      (\<exists>s. ts_in_use s \<and> ts_track_id s = k \<and> ys = xs[i := s])"
    by (auto simp: allocate_track_slot_def dest: first_index_SomeD split: option.splits
        intro!: exI [of _ "fresh_track k"]) (simp_all add: fresh_track_def)
next
  fix xs k s
  assume "allocate_track_slot xs k = None" "s \<in> set xs"
  then show "ts_in_use s"
    by (auto simp: allocate_track_slot_def first_index_None_iff split: option.splits)
qed

text \<open>The invariant of the table: 64 slots and one slot per track id.\<close>

definition tracks_ok :: "MeEventEngine \<Rightarrow> bool" where
  "tracks_ok engine \<longleftrightarrow>
     length (en_tracks engine) = ME_ANALYTICS_MAX_TRACKS \<and>
     unique_keys ts_in_use ts_track_id (en_tracks engine)"

lemma update_track_inside_identity [simp]:
  "ts_in_use (update_track_inside e t r now) = ts_in_use t"
  "ts_track_id (update_track_inside e t r now) = ts_track_id t"
  "ts_present (update_track_inside e t r now) = ts_present t"
  "ts_confirmed (update_track_inside e t r now) = ts_confirmed t"
  "ts_seen_frames (update_track_inside e t r now) = ts_seen_frames t"
  by (simp_all add: update_track_inside_def clear_inside_candidate_def Let_def)

lemma see_track_identity [simp]:
  "ts_in_use (see_track e ob now i t) = ts_in_use t"
  "ts_track_id (see_track e ob now i t) = ts_track_id t"
  "ts_present (see_track e ob now i t) = True"
  by (simp_all add: see_track_def Let_def)

lemma expire_track_cases:
  "ts_present t \<Longrightarrow> expire_track e now t = t" "expire_track e now zero_track_state = zero_track_state"
  by (simp_all add: expire_track_def Let_def zero_track_state_def)

lemma counted_zero [simp]: "\<not> counted_track zero_track_state"
  by (simp add: counted_track_def zero_track_state_def)

text \<open>Only the configuration of the engine matters for a slot.\<close>

lemma see_track_config:
  assumes "en_config e = en_config e'"
  shows "see_track e ob now i t = see_track e' ob now i t"
  unfolding see_track_def update_track_inside_def track_inside_def track_confirmed_def assms ..

lemma allocate_track_SomeD:
  assumes "allocate_track e k = Some (e', i)"
  shows "\<exists>slots. allocate_track_slot (en_tracks e) k = Some (slots, i) \<and> e' = e\<lparr>en_tracks := slots\<rparr>"
  using assms by (auto simp: allocate_track_def split: option.splits)

text \<open>The slot a visible person gets, found or allocated, keeps ids unique.\<close>

lemma tracks_ok_see:
  assumes "tracks_ok e" and "i < length (en_tracks e)" and "ts_in_use (en_tracks e ! i)"
  shows "tracks_ok (e\<lparr>en_tracks := (en_tracks e)[i := see_track e ob now input (en_tracks e ! i)]\<rparr>)"
  using assms unfolding tracks_ok_def by (simp add: unique_keys_update_same)

lemma tracks_ok_update_one: "tracks_ok e \<Longrightarrow> tracks_ok (update_one_track ob now input e)"
proof -
  assume ok: "tracks_ok e"
  let ?id = "to_track_id input"
  have found: "tracks_ok (e\<lparr>en_tracks := (en_tracks e)[i := see_track e ob now input (en_tracks e ! i)]\<rparr>)"
    if "find_track_slot (en_tracks e) ?id = Some i" for i
    using trk.find_SomeD [OF that] ok by (intro tracks_ok_see) auto
  have fresh: "tracks_ok (e'\<lparr>en_tracks := (en_tracks e')[i := see_track e' ob now input (en_tracks e' ! i)]\<rparr>)"
    if n: "find_track_slot (en_tracks e) ?id = None" and a: "allocate_track e ?id = Some (e', i)" for e' i
  proof -
    from allocate_track_SomeD [OF a] obtain slots where
      s: "allocate_track_slot (en_tracks e) ?id = Some (slots, i)" and e': "e' = e\<lparr>en_tracks := slots\<rparr>"
      by blast
    have "tracks_ok e'"
      using ok trk.alloc_unique [OF _ n s] trk.alloc_length [OF s] by (simp add: tracks_ok_def e')
    then show ?thesis
      using trk.alloc_nth [OF s] by (intro tracks_ok_see) (auto simp: e')
  qed
  have removed: "tracks_ok (e\<lparr>en_tracks := (en_tracks e)[i := zero_track_state]\<rparr>)" for i
    using ok by (auto simp: tracks_ok_def zero_track_state_def intro!: unique_keys_update_unused)
  show ?thesis
    using ok found fresh removed
    by (auto simp: update_one_track_def find_track_def split: option.splits)
qed

lemma update_one_track_frame:
  "\<exists>ts. update_one_track ob now input e = e\<lparr>en_tracks := ts\<rparr>"
proof -
  have "\<exists>ts. e = e\<lparr>en_tracks := ts\<rparr>" by (rule exI [of _ "en_tracks e"]) simp
  then show ?thesis
    by (auto simp: update_one_track_def dest!: allocate_track_SomeD split: option.splits)
qed

lemma fold_update_tracks_frame:
  "\<exists>ts. fold (update_one_track ob now) inputs e = e\<lparr>en_tracks := ts\<rparr>"
proof (induction inputs arbitrary: e)
  case Nil
  then show ?case by (auto intro: exI [of _ "en_tracks e"])
next
  case (Cons i inputs)
  obtain ts where "update_one_track ob now i e = e\<lparr>en_tracks := ts\<rparr>"
    using update_one_track_frame by blast
  with Cons [of "e\<lparr>en_tracks := ts\<rparr>"] show ?case by auto
qed

lemma update_tracks_frame: "\<exists>ts. snd (update_tracks engine ob now) = engine\<lparr>en_tracks := ts\<rparr>"
  using fold_update_tracks_frame [of ob now "live_tracks ob"
      "engine\<lparr>en_tracks := map (\<lambda>t. t\<lparr>ts_present := False\<rparr>) (en_tracks engine)\<rparr>"]
  by (auto simp: update_tracks_def Let_def)

lemma tracks_ok_fold: "tracks_ok e \<Longrightarrow> tracks_ok (fold (update_one_track ob now) inputs e)"
  by (induction inputs arbitrary: e) (auto intro: tracks_ok_update_one)

lemma tracks_ok_expire:
  assumes "tracks_ok e"
  shows "tracks_ok (e\<lparr>en_tracks := map (expire_track e' now) (en_tracks e)\<rparr>)"
  using assms unfolding tracks_ok_def
  by (auto intro!: unique_keys_map simp: expire_track_def zero_track_state_def Let_def split: if_splits)

lemma tracks_ok_update_tracks [wf_rules]:
  assumes "tracks_ok engine"
  shows "tracks_ok (snd (update_tracks engine ob now))"
proof -
  have "tracks_ok (engine\<lparr>en_tracks := map (\<lambda>t. t\<lparr>ts_present := False\<rparr>) (en_tracks engine)\<rparr>)"
    using assms unfolding tracks_ok_def by (auto intro!: unique_keys_map)
  then show ?thesis
    by (auto simp: update_tracks_def Let_def intro!: tracks_ok_expire tracks_ok_fold)
qed

lemma tracks_ok_clear: "tracks_ok (clear_tracks engine)"
  by (simp add: tracks_ok_def clear_tracks_def unique_keys_replicate_unused zero_track_state_def)

subsection \<open>What is counted\<close>

definition zero_timeline :: MeTimeline where
  "zero_timeline = \<lparr>tl_us = 0, tl_valid = True\<rparr>"

text \<open>The ids of the persons that an observation shows with a sufficient score.\<close>

definition visible_person :: "MeEventEngine \<Rightarrow> MeTrackObservation \<Rightarrow> bool" where
  "visible_person e t \<longleftrightarrow>
     to_class_id t = ME_TRACK_CLASS_PERSON \<and> to_state t \<in> {ME_TRACK_STATE_NEW, ME_TRACK_STATE_ACTIVE} \<and>
     to_score_q t \<ge> cf_score_threshold_q (en_config e)"

definition visible_ids :: "MeEventEngine \<Rightarrow> MeNormalizedObservation \<Rightarrow> u64 set" where
  "visible_ids e ob = to_track_id ` {t \<in> set (live_tracks ob). visible_person e t}"

definition present_in :: "u64 set \<Rightarrow> MeEventTrackState list \<Rightarrow> bool" where
  "present_in V ts \<longleftrightarrow> (\<forall>t \<in> set ts. ts_in_use t \<and> ts_present t \<longrightarrow> ts_track_id t \<in> V)"

lemma present_in_update: "present_in V ts \<Longrightarrow> (ts_in_use t \<and> ts_present t \<longrightarrow> ts_track_id t \<in> V) \<Longrightarrow> present_in V (ts[i := t])"
  using set_update_subset_insert [of ts i t] by (auto simp: present_in_def)

lemma present_in_update_one:
  assumes "present_in V (en_tracks e)" and "visible_person e input \<Longrightarrow> to_track_id input \<in> V"
  shows "present_in V (en_tracks (update_one_track ob now input e))"
proof -
  have found: "present_in V ((en_tracks e)[i := see_track e ob now input (en_tracks e ! i)])"
    if "find_track_slot (en_tracks e) (to_track_id input) = Some i" "to_track_id input \<in> V" for i
    using trk.find_SomeD [OF that(1)] that(2) by (intro present_in_update [OF assms(1)]) simp
  have fresh: "present_in V ((en_tracks e')[i := see_track e' ob now input (en_tracks e' ! i)])"
    if "allocate_track e (to_track_id input) = Some (e', i)" "to_track_id input \<in> V" for e' i
  proof -
    have "en_tracks e' = (en_tracks e)[i := fresh_track (to_track_id input)]" "i < length (en_tracks e)"
      using that(1) by (auto simp: allocate_track_def allocate_track_slot_def dest: first_index_SomeD split: option.splits)
    then show ?thesis
      using that(2) by (auto intro!: present_in_update assms(1) simp: fresh_track_def zero_track_state_def)
  qed
  have removed: "present_in V ((en_tracks e)[i := zero_track_state])" for i
    by (intro present_in_update [OF assms(1)]) (simp add: zero_track_state_def)
  show ?thesis
    using assms found fresh removed
    by (auto simp: update_one_track_def find_track_def visible_person_def not_less split: option.splits)
qed

lemma update_one_track_config [simp]: "en_config (update_one_track ob now input e) = en_config e"
  using update_one_track_frame [of ob now input e] by auto

lemma present_in_fold:
  assumes "present_in V (en_tracks e)" and "\<forall>t \<in> set inputs. visible_person e t \<longrightarrow> to_track_id t \<in> V"
  shows "present_in V (en_tracks (fold (update_one_track ob now) inputs e))"
  using assms
proof (induction inputs arbitrary: e)
  case Nil
  then show ?case by simp
next
  case (Cons t inputs)
  have "present_in V (en_tracks (update_one_track ob now t e))"
    using Cons.prems by (intro present_in_update_one) auto
  with Cons.IH Cons.prems show ?case by (simp add: visible_person_def)
qed

lemma present_after_update_tracks: "present_in (visible_ids e ob) (en_tracks (snd (update_tracks e ob now)))"
proof -
  let ?e1 = "e\<lparr>en_tracks := map (\<lambda>t. t\<lparr>ts_present := False\<rparr>) (en_tracks e)\<rparr>"
  let ?e2 = "fold (update_one_track ob now) (live_tracks ob) ?e1"
  have "present_in (visible_ids e ob) (en_tracks ?e2)"
    by (rule present_in_fold) (auto simp: present_in_def visible_ids_def visible_person_def)
  then have "present_in (visible_ids e ob) (map (expire_track ?e2 now) (en_tracks ?e2))"
    by (auto simp: present_in_def expire_track_def zero_track_state_def Let_def)
  then show ?thesis by (simp add: update_tracks_def Let_def)
qed

text \<open>
  the number of persons that an update reports is at most the number of different persons the
  observation shows with a sufficient score; the count does not wrap.
\<close>

theorem count_bounded_by_visible_persons:
  assumes "tracks_ok e"
  shows "unat (fst (update_tracks e ob now)) \<le> card (visible_ids e ob)"
proof -
  let ?ts = "en_tracks (snd (update_tracks e ob now))"
  have ok: "tracks_ok (snd (update_tracks e ob now))" by (rule tracks_ok_update_tracks [OF assms])
  have "length (filter counted_track ?ts) \<le> card (visible_ids e ob)"
    using ok present_after_update_tracks [of e ob now]
    by (intro count_keys [of ts_in_use ts_track_id]) (auto simp: tracks_ok_def present_in_def counted_track_def visible_ids_def)
  moreover have "fst (update_tracks e ob now) = word_of_nat (length (filter counted_track ?ts))"
    by (simp add: update_tracks_def Let_def)
  moreover have "length (filter counted_track ?ts) \<le> 64"
    using ok length_filter_le [of counted_track ?ts] by (simp add: tracks_ok_def)
  ultimately show ?thesis by (simp add: unat_word_of_nat)
qed

theorem count_bounded_by_visible_persons_witness:
  "tracks_ok zero_engine \<and>
   unat (fst (update_tracks zero_engine sample_observation zero_timeline)) \<le> card (visible_ids zero_engine sample_observation)"
proof -
  have "tracks_ok zero_engine"
    by (simp add: tracks_ok_def zero_engine_def unique_keys_replicate_unused zero_track_state_def)
  with count_bounded_by_visible_persons [of zero_engine sample_observation zero_timeline] show ?thesis by blast
qed

text \<open>
  the first sighting of a person confirms it exactly when one frame suffices: for a validated
  configuration with \<open>confirm_frames\<close> of at least two, a person counts only from a later frame on.
\<close>

theorem first_sighting_confirms_iff:
  assumes "config_ok (en_config e)" and "tl_us now \<le> INT64_MAX" and "0 \<le> tl_us now"
  shows "ts_confirmed (see_track e ob now input (fresh_track k)) \<longleftrightarrow> cf_confirm_frames (en_config e) = 1"
proof -
  have c: "cf_confirm_frames (en_config e) \<noteq> 0" "0 < uint (ms_to_us (cf_confirm_ms (en_config e)))"
    using config_ok_intervals [OF assms(1)] by (simp_all add: ms_to_us_uint order_less_le uint_0_iff)
  have "\<not> elapsed_at_least now (tl_us now) v (ms_to_us (cf_confirm_ms (en_config e)))" for v
    using c(2) by (subst elapsed_at_least_iff [OF assms(3,2)]) simp
  moreover have "(0 < cf_confirm_frames (en_config e) \<and> cf_confirm_frames (en_config e) \<le> 1) =
      (cf_confirm_frames (en_config e) = 1)"
  proof -
    have "unat (cf_confirm_frames (en_config e)) \<noteq> 0" using c(1) by (simp add: unat_eq_0)
    then show ?thesis by (simp add: word_le_nat_alt word_less_nat_alt word_unat_eq_iff) linarith
  qed
  ultimately show ?thesis
    by (simp add: see_track_def fresh_track_def zero_track_state_def Let_def track_confirmed_def word_gt_0)
qed

theorem first_sighting_confirms_iff_witness:
  "config_ok (en_config (zero_engine\<lparr>en_config := me_analytics_config_defaults\<rparr>)) \<and>
   \<not> ts_confirmed (see_track (zero_engine\<lparr>en_config := me_analytics_config_defaults\<rparr>) sample_observation
       zero_timeline zero_track (fresh_track 9))"
  using config_defaults_ok
    first_sighting_confirms_iff [of "zero_engine\<lparr>en_config := me_analytics_config_defaults\<rparr>" zero_timeline
      sample_observation zero_track 9]
  by (simp add: zero_timeline_def INT64_MAX_def me_analytics_config_defaults_def)

text \<open>
  the centre test on a validated box is exact: the sums of the 32-bit coordinates do not wrap,
  so a track is inside precisely when the integer centre lies in the closed region.
\<close>

theorem track_inside_exact:
  assumes "track_ok t" and "cf_roi_enabled (en_config e)"
  shows "track_inside e (to_bbox t) \<longleftrightarrow>
    (let x = (unat (bb_left (to_bbox t)) + unat (bb_right (to_bbox t))) div 2;
         y = (unat (bb_top (to_bbox t)) + unat (bb_bottom (to_bbox t))) div 2;
         roi = cf_roi (en_config e)
     in unat (bb_left roi) \<le> x \<and> x \<le> unat (bb_right roi) \<and> unat (bb_top roi) \<le> y \<and> y \<le> unat (bb_bottom roi))"
proof -
  have centre: "unat ((a + b) div 2) = (unat a + unat b) div 2" if "a < b" "b \<le> 10000" for a b :: u32
  proof -
    from that have "unat b \<le> 10000" "unat a < unat b"
      using word_le_nat_alt [of b 10000] word_less_nat_alt [of a b] by auto
    then have "unat (a + b) = unat a + unat b" by (subst unat_plus_if') simp
    then show ?thesis by (simp add: unat_div)
  qed
  show ?thesis
    using assms centre by (simp add: track_inside_def track_ok_def Let_def word_le_nat_alt)
qed

theorem track_inside_exact_witness:
  "track_inside (zero_engine\<lparr>en_config := me_analytics_config_defaults\<lparr>cf_roi_enabled := True,
       cf_roi := \<lparr>bb_left = 0, bb_top = 0, bb_right = 5000, bb_bottom = 5000\<rparr>\<rparr>\<rparr>)
     \<lparr>bb_left = 4000, bb_top = 1000, bb_right = 6001, bb_bottom = 2000\<rparr>"
proof -
  let ?t = "zero_track\<lparr>to_track_id := 5, to_class_id := ME_TRACK_CLASS_PERSON, to_state := ME_TRACK_STATE_NEW,
    to_bbox := \<lparr>bb_left = 4000, bb_top = 1000, bb_right = 6001, bb_bottom = 2000\<rparr>\<rparr>"
  have "track_ok ?t" by (simp add: track_ok_def zero_track_def valid_track_state_def)
  from track_inside_exact [OF this, of "zero_engine\<lparr>en_config := me_analytics_config_defaults\<lparr>cf_roi_enabled := True,
       cf_roi := \<lparr>bb_left = 0, bb_top = 0, bb_right = 5000, bb_bottom = 5000\<rparr>\<rparr>\<rparr>"]
  show ?thesis by (simp add: Let_def)
qed

end
