(* ===== verification/Event_Rules.thy ===== *)
theory Event_Rules
  imports Event_Types
begin

text \<open>
  The directional rule facts of the event engine (\<^verbatim>\<open>event_engine.c\<close>: \<^verbatim>\<open>find_rule_fact_state\<close> to
  \<^verbatim>\<open>remember_rule_facts\<close>, and \<^verbatim>\<open>summary_has_track\<close> to \<^verbatim>\<open>matching_rules\<close>): which facts of an observation
  match the configured rule, which of them are new since the last observation, and the memory
  of the facts of the latest observation. The memory is the second implementation of the
  \<^verbatim>\<open>slot_table\<close> interface. The facts a summary points at are copied into it.
\<close>

subsection \<open>Operations\<close>

record MeRuleSummary =
  su_first :: "MeRuleFact option"
  su_match_count :: u32
  su_new_match_count :: u32
  su_delta_in :: u32
  su_delta_out :: u32
  su_track_ids :: "u64 list"
  su_facts :: "MeRuleFact list"

definition zero_summary :: MeRuleSummary where
  "zero_summary =
     \<lparr>su_first = None, su_match_count = 0, su_new_match_count = 0, su_delta_in = 0,
      su_delta_out = 0, su_track_ids = [], su_facts = []\<rparr>"

text \<open>The index of a direction; \<open>None\<close> beyond \<open>ME_RULE_DIRECTION_OUT\<close>.\<close>

definition direction_index :: "MeRuleDirection \<Rightarrow> nat option" where
  "direction_index d =
     (case d of ME_RULE_DIRECTION_NONE \<Rightarrow> Some 0 | ME_RULE_DIRECTION_IN \<Rightarrow> Some 1
      | ME_RULE_DIRECTION_OUT \<Rightarrow> Some 2 | ME_RULE_DIRECTION_OTHER _ \<Rightarrow> None)"

definition find_fact_slot :: "MeEventRuleFactState list \<Rightarrow> u64 \<Rightarrow> nat option" where
  "find_fact_slot slots track_id = first_index (\<lambda>s. rs_in_use s \<and> rs_track_id s = track_id) slots"

definition fresh_fact_state :: "u64 \<Rightarrow> MeEventRuleFactState" where
  "fresh_fact_state track_id = zero_rule_fact_state\<lparr>rs_in_use := True, rs_track_id := track_id\<rparr>"

definition allocate_fact_slot ::
  "MeEventRuleFactState list \<Rightarrow> u64 \<Rightarrow> (MeEventRuleFactState list \<times> nat) option" where
  "allocate_fact_slot slots track_id =
     (case first_index (\<lambda>s. \<not> rs_in_use s) slots of
        None \<Rightarrow> None
      | Some i \<Rightarrow> Some (slots[i := fresh_fact_state track_id], i))"

definition find_rule_fact_state :: "MeEventEngine \<Rightarrow> u64 \<Rightarrow> nat option" where
  "find_rule_fact_state engine track_id = find_fact_slot (en_rule_fact_states engine) track_id"

definition allocate_rule_fact_state :: "MeEventEngine \<Rightarrow> u64 \<Rightarrow> (MeEventEngine \<times> nat) option" where
  "allocate_rule_fact_state engine track_id =
     (case allocate_fact_slot (en_rule_fact_states engine) track_id of
        None \<Rightarrow> None
      | Some (slots, i) \<Rightarrow> Some (engine\<lparr>en_rule_fact_states := slots\<rparr>, i))"

definition rule_fact_seen :: "MeEventEngine \<Rightarrow> MeRuleFact \<Rightarrow> bool" where
  "rule_fact_seen engine rfact =
     (case direction_index (rf_direction rfact) of
        None \<Rightarrow> False
      | Some d \<Rightarrow>
          (case find_rule_fact_state engine (rf_track_id rfact) of
             None \<Rightarrow> False
           | Some slot \<Rightarrow> rs_direction_present (en_rule_fact_states engine ! slot) ! d))"

definition remember_rule_fact :: "MeEventEngine \<Rightarrow> MeRuleFact \<Rightarrow> bool \<times> MeEventEngine" where
  "remember_rule_fact engine rfact =
     (case direction_index (rf_direction rfact) of
        None \<Rightarrow> (False, engine)
      | Some d \<Rightarrow>
          (case (case find_rule_fact_state engine (rf_track_id rfact) of
                   Some slot \<Rightarrow> Some (engine, slot)
                 | None \<Rightarrow> allocate_rule_fact_state engine (rf_track_id rfact)) of
             None \<Rightarrow> (False, engine)
           | Some (e, slot) \<Rightarrow>
               (True, e\<lparr>en_rule_fact_states := (en_rule_fact_states e)
                  [slot := (en_rule_fact_states e ! slot)
                     \<lparr>rs_direction_present :=
                        (rs_direction_present (en_rule_fact_states e ! slot))[d := True]\<rparr>]\<rparr>)))"

fun remember_all :: "MeEventEngine \<Rightarrow> MeRuleFact list \<Rightarrow> bool \<times> MeEventEngine" where
  "remember_all engine [] = (True, engine)"
| "remember_all engine (rfact # facts) =
     (case remember_rule_fact engine rfact of
        (False, e) \<Rightarrow> (False, e)
      | (True, e) \<Rightarrow> remember_all e facts)"

definition remember_rule_facts :: "MeEventEngine \<Rightarrow> MeRuleSummary \<Rightarrow> bool \<times> MeEventEngine" where
  "remember_rule_facts engine summary =
     remember_all (clear_rule_fact_states engine) (su_facts summary)"

definition summary_has_track :: "MeRuleSummary \<Rightarrow> u64 \<Rightarrow> bool" where
  "summary_has_track summary track_id \<longleftrightarrow> track_id = 0 \<or> track_id \<in> set (su_track_ids summary)"

definition summary_add_track :: "MeRuleSummary \<Rightarrow> u64 \<Rightarrow> MeRuleSummary" where
  "summary_add_track summary track_id =
     (if track_id = 0 \<or> summary_has_track summary track_id \<or>
         length (su_track_ids summary) = ME_ANALYTICS_EVENT_MAX_TRACKS
      then summary
      else summary\<lparr>su_track_ids := su_track_ids summary @ [track_id]\<rparr>)"

definition same_fact :: "MeRuleFact \<Rightarrow> MeRuleFact \<Rightarrow> bool" where
  "same_fact previous rfact \<longleftrightarrow>
     rf_rule_type previous = rf_rule_type rfact \<and> rf_direction previous = rf_direction rfact \<and>
     rf_track_id previous = rf_track_id rfact \<and> rf_rule_id previous = rf_rule_id rfact"

definition summary_has_fact :: "MeRuleSummary \<Rightarrow> MeRuleFact \<Rightarrow> bool" where
  "summary_has_fact summary rfact \<longleftrightarrow> (\<exists>previous \<in> set (su_facts summary). same_fact previous rfact)"

definition rule_matches :: "MeEventEngine \<Rightarrow> MeRuleFact \<Rightarrow> bool" where
  "rule_matches engine rule \<longleftrightarrow>
     rf_rule_type rule = cf_rule_type (en_config engine) \<and>
     rf_rule_id rule = cf_rule_id (en_config engine) \<and>
     rf_score_q rule \<ge> cf_score_threshold_q (en_config engine)"

text \<open>The part of the loop body for a fact not seen before in consecutive observations.\<close>

definition summary_add_new :: "MeRuleFact \<Rightarrow> MeRuleSummary \<Rightarrow> MeRuleSummary" where
  "summary_add_new rule s =
     (let s1 = (if su_new_match_count s < UINT32_MAX
                then s\<lparr>su_new_match_count := su_new_match_count s + 1\<rparr> else s);
          s2 = (case rf_direction rule of
                  ME_RULE_DIRECTION_IN \<Rightarrow> s1\<lparr>su_delta_in := saturating_add_u32 (su_delta_in s1) 1\<rparr>
                | ME_RULE_DIRECTION_OUT \<Rightarrow> s1\<lparr>su_delta_out := saturating_add_u32 (su_delta_out s1) 1\<rparr>
                | _ \<Rightarrow> s1)
      in summary_add_track s2 (rf_track_id rule))"

definition match_one :: "MeEventEngine \<Rightarrow> MeRuleFact \<Rightarrow> MeRuleSummary \<Rightarrow> MeRuleSummary" where
  "match_one engine rule summary =
     (if \<not> rule_matches engine rule then summary
      else if summary_has_fact summary rule then summary
      else (let s1 = (if length (su_facts summary) < ME_ANALYTICS_MAX_RULE_FACTS
                      then summary\<lparr>su_facts := su_facts summary @ [rule]\<rparr> else summary);
                s2 = (if su_first s1 = None then s1\<lparr>su_first := Some rule\<rparr> else s1);
                s3 = (if su_match_count s2 < UINT32_MAX
                      then s2\<lparr>su_match_count := su_match_count s2 + 1\<rparr> else s2)
            in if \<not> rule_fact_seen engine rule then summary_add_new rule s3 else s3))"

definition matching_rules :: "MeEventEngine \<Rightarrow> MeNormalizedObservation \<Rightarrow> MeRuleSummary" where
  "matching_rules engine observation =
     (if cf_rule_type (en_config engine) = ME_RULE_TYPE_OCCUPANCY then zero_summary
      else fold (match_one engine) (live_rules observation) zero_summary)"

subsection \<open>The table of remembered facts\<close>

interpretation fct: slot_table rs_in_use rs_track_id find_fact_slot allocate_fact_slot
proof unfold_locales
  fix xs k i
  assume "find_fact_slot xs k = Some i"
  then show "i < length xs \<and> rs_in_use (xs ! i) \<and> rs_track_id (xs ! i) = k"
    by (auto simp: find_fact_slot_def dest: first_index_SomeD)
next
  fix xs k s
  assume "find_fact_slot xs k = None" "s \<in> set xs" "rs_in_use s"
  then show "rs_track_id s \<noteq> k"
    by (auto simp: find_fact_slot_def first_index_None_iff)
next
  fix xs k ys i
  assume "allocate_fact_slot xs k = Some (ys, i)"
  then show "i < length xs \<and> \<not> rs_in_use (xs ! i) \<and>
      (\<exists>s. rs_in_use s \<and> rs_track_id s = k \<and> ys = xs[i := s])"
    by (auto simp: allocate_fact_slot_def dest: first_index_SomeD split: option.splits
        intro!: exI [of _ "fresh_fact_state k"]) (simp_all add: fresh_fact_state_def)
next
  fix xs k s
  assume "allocate_fact_slot xs k = None" "s \<in> set xs"
  then show "rs_in_use s"
    by (auto simp: allocate_fact_slot_def first_index_None_iff split: option.splits)
qed

definition facts_ok :: "MeEventEngine \<Rightarrow> bool" where
  "facts_ok engine \<longleftrightarrow>
     length (en_rule_fact_states engine) = ME_ANALYTICS_MAX_TRACKS \<and>
     unique_keys rs_in_use rs_track_id (en_rule_fact_states engine) \<and>
     (\<forall>s \<in> set (en_rule_fact_states engine). length (rs_direction_present s) = 3)"

lemma facts_ok_clear: "facts_ok (clear_rule_fact_states engine)"
  by (simp add: facts_ok_def clear_rule_fact_states_def unique_keys_replicate_unused
      zero_rule_fact_state_def)

lemma direction_index_valid: "valid_direction d \<longleftrightarrow> (\<exists>i < 3. direction_index d = Some i)"
  by (cases d) (auto simp: valid_direction_def direction_index_def)

lemma direction_index_lt: "direction_index d = Some i \<Longrightarrow> i < 3"
  by (cases d) (auto simp: direction_index_def)

lemma direction_index_inj: "direction_index d = Some i \<Longrightarrow> direction_index d' = Some i \<Longrightarrow> d = d'"
  by (cases d; cases d') (auto simp: direction_index_def)

lemma allocate_rule_fact_state_SomeD:
  assumes "allocate_rule_fact_state e k = Some (e', i)"
  shows "\<exists>slots. allocate_fact_slot (en_rule_fact_states e) k = Some (slots, i) \<and>
           e' = e\<lparr>en_rule_fact_states := slots\<rparr>"
  using assms by (auto simp: allocate_rule_fact_state_def split: option.splits)

lemma remember_rule_fact_frame:
  "\<exists>ss. snd (remember_rule_fact e rfact) = e\<lparr>en_rule_fact_states := ss\<rparr>"
proof -
  have "\<exists>ss. e = e\<lparr>en_rule_fact_states := ss\<rparr>" by (rule exI [of _ "en_rule_fact_states e"]) simp
  then show ?thesis
    by (auto simp: remember_rule_fact_def dest!: allocate_rule_fact_state_SomeD split: option.splits)
qed

lemma remember_all_frame:
  "\<exists>ss. snd (remember_all e facts) = e\<lparr>en_rule_fact_states := ss\<rparr>"
proof (induction facts arbitrary: e)
  case Nil
  then show ?case by (auto intro: exI [of _ "en_rule_fact_states e"])
next
  case (Cons f facts)
  obtain ss where s: "snd (remember_rule_fact e f) = e\<lparr>en_rule_fact_states := ss\<rparr>"
    using remember_rule_fact_frame by blast
  with Cons [of "e\<lparr>en_rule_fact_states := ss\<rparr>"] show ?case
    by (cases "remember_rule_fact e f") (auto split: bool.splits)
qed

lemma remember_rule_facts_frame:
  "\<exists>ss. snd (remember_rule_facts e summary) = e\<lparr>en_rule_fact_states := ss\<rparr>"
  using remember_all_frame [of "clear_rule_fact_states e" "su_facts summary"]
  by (auto simp: remember_rule_facts_def clear_rule_fact_states_def)

subsection \<open>The memory of facts is a set of pairs\<close>

text \<open>
  Abstractly the memory is a set of pairs of a track id and a direction. Remembering a fact
  inserts its pair, clearing empties the set, and \<open>rule_fact_seen\<close> is membership.
\<close>

definition fact_bit :: "MeEventRuleFactState list \<Rightarrow> u64 \<Rightarrow> nat \<Rightarrow> bool" where
  "fact_bit slots k d =
     (case find_fact_slot slots k of None \<Rightarrow> False | Some i \<Rightarrow> rs_direction_present (slots ! i) ! d)"

definition remembered :: "MeEventEngine \<Rightarrow> (u64 \<times> MeRuleDirection) set" where
  "remembered engine =
     {(k, d). \<exists>i. direction_index d = Some i \<and> fact_bit (en_rule_fact_states engine) k i}"

lemma rule_fact_seen_iff: "rule_fact_seen e f \<longleftrightarrow> (rf_track_id f, rf_direction f) \<in> remembered e"
  by (auto simp: rule_fact_seen_def remembered_def fact_bit_def find_rule_fact_state_def
      split: option.splits)

lemma fact_bit_alloc:
  assumes "unique_keys rs_in_use rs_track_id slots" and "find_fact_slot slots k = None"
    and "allocate_fact_slot slots k = Some (slots', i)" and "d < 3"
  shows "fact_bit slots' k' d = fact_bit slots k' d"
proof -
  from assms(3) have s': "slots' = slots[i := fresh_fact_state k]" and i: "i < length slots"
    by (auto simp: allocate_fact_slot_def dest: first_index_SomeD split: option.splits)
  have empty: "\<not> rs_direction_present (fresh_fact_state k) ! d"
    using assms(4) by (simp add: fresh_fact_state_def zero_rule_fact_state_def)
  show ?thesis
  proof (cases "k' = k")
    case True
    with assms(2) i empty show ?thesis
      by (simp add: fact_bit_def fct.find_alloc [OF assms(1-3)]) (simp add: s')
  next
    case False
    have free: "\<not> rs_in_use (slots ! i)" using fct.alloc_SomeD [OF assms(3)] by blast
    have "slots' ! j = slots ! j" if "find_fact_slot slots k' = Some j" for j
      using fct.find_SomeD [OF that] free by (cases "j = i") (simp_all add: s')
    with False show ?thesis
      by (simp add: fact_bit_def fct.find_alloc [OF assms(1-3)] split: option.split)
  qed
qed

lemma fact_bit_set:
  assumes "unique_keys rs_in_use rs_track_id slots" and "find_fact_slot slots k = Some i"
    and "length (rs_direction_present (slots ! i)) = 3" and "d0 < 3" and "d < 3"
  shows "fact_bit (slots[i := (slots ! i)\<lparr>rs_direction_present := (rs_direction_present (slots ! i))[d0 := True]\<rparr>]) k' d
         = (fact_bit slots k' d \<or> (k' = k \<and> d = d0))"
    (is "fact_bit (slots[i := ?s]) k' d = _")
proof -
  note i = fct.find_SomeD [OF assms(2)]
  have find: "find_fact_slot (slots[i := ?s]) k' = find_fact_slot slots k'"
    by (rule fct.find_update_same [OF assms(1)]) simp_all
  show ?thesis
  proof (cases "k' = k")
    case True
    with assms i find show ?thesis
      by (simp add: fact_bit_def nth_list_update eq_commute [of d0 d])
  next
    case False
    have "slots[i := ?s] ! j = slots ! j" if "find_fact_slot slots k' = Some j" for j
      using fct.find_SomeD [OF that] False i by (cases "j = i") simp_all
    with False show ?thesis by (simp add: fact_bit_def find split: option.split)
  qed
qed

text \<open>The slot of a fact, found or allocated, and the table that has it.\<close>

lemma obtain_fact_slot:
  assumes ok: "facts_ok e"
    and room: "slots_used rs_in_use (en_rule_fact_states e) < ME_ANALYTICS_MAX_TRACKS"
  shows "\<exists>T i. (case find_rule_fact_state e k of Some slot \<Rightarrow> Some (e, slot)
                | None \<Rightarrow> allocate_rule_fact_state e k) = Some (e\<lparr>en_rule_fact_states := T\<rparr>, i) \<and>
           find_fact_slot T k = Some i \<and> facts_ok (e\<lparr>en_rule_fact_states := T\<rparr>) \<and>
           (\<forall>k' d. d < 3 \<longrightarrow> fact_bit T k' d = fact_bit (en_rule_fact_states e) k' d) \<and>
           slots_used rs_in_use T \<le> Suc (slots_used rs_in_use (en_rule_fact_states e))"
proof (cases "find_fact_slot (en_rule_fact_states e) k")
  case (Some i)
  then show ?thesis
    using ok by (intro exI [of _ "en_rule_fact_states e"] exI [of _ i]) (simp add: find_rule_fact_state_def)
next
  let ?S = "en_rule_fact_states e"
  case None
  have u: "unique_keys rs_in_use rs_track_id ?S" and l: "length ?S = 64"
      and len3: "\<forall>s \<in> set ?S. length (rs_direction_present s) = 3"
    using ok by (simp_all add: facts_ok_def)
  from l room have "slots_used rs_in_use ?S < length ?S" by simp
  then obtain T i where a: "allocate_fact_slot ?S k = Some (T, i)"
    using fct.alloc_succeeds by blast
  have "T = ?S[i := fresh_fact_state k]"
    using a by (auto simp: allocate_fact_slot_def split: option.splits)
  then have "\<forall>s \<in> set T. length (rs_direction_present s) = 3"
    using len3 set_update_subset_insert [of ?S i "fresh_fact_state k"]
    by (auto simp: fresh_fact_state_def zero_rule_fact_state_def)
  then have "facts_ok (e\<lparr>en_rule_fact_states := T\<rparr>)"
    using l fct.alloc_unique [OF u None a] fct.alloc_length [OF a] by (simp add: facts_ok_def)
  then show ?thesis
    using a None fct.find_alloc [OF u None a, of k] fct.alloc_slots_used [OF a] fact_bit_alloc [OF u None a]
    by (intro exI [of _ T] exI [of _ i])
      (simp add: find_rule_fact_state_def allocate_rule_fact_state_def)
qed

lemma remembered_update:
  assumes "\<forall>k' d. d < 3 \<longrightarrow> fact_bit T k' d = (fact_bit (en_rule_fact_states e) k' d \<or> (k' = k \<and> d = d0))"
    and "direction_index dir = Some d0"
  shows "remembered (e\<lparr>en_rule_fact_states := T\<rparr>) = insert (k, dir) (remembered e)"
proof (rule set_eqI)
  fix p :: "u64 \<times> MeRuleDirection"
  obtain k' d' where p: "p = (k', d')" by (cases p)
  show "p \<in> remembered (e\<lparr>en_rule_fact_states := T\<rparr>) \<longleftrightarrow> p \<in> insert (k, dir) (remembered e)"
  proof (cases "direction_index d'")
    case None
    with assms(2) show ?thesis by (auto simp: p remembered_def)
  next
    case (Some i)
    then have "i = d0 \<longleftrightarrow> d' = dir" using assms(2) direction_index_inj by auto
    with Some assms(1) direction_index_lt [OF Some] show ?thesis
      by (auto simp: p remembered_def)
  qed
qed

lemma remember_rule_fact_correct:
  assumes ok: "facts_ok e" and dir: "valid_direction (rf_direction f)"
    and room: "slots_used rs_in_use (en_rule_fact_states e) < ME_ANALYTICS_MAX_TRACKS"
  shows "\<exists>e'. remember_rule_fact e f = (True, e') \<and> facts_ok e' \<and>
           remembered e' = insert (rf_track_id f, rf_direction f) (remembered e) \<and>
           slots_used rs_in_use (en_rule_fact_states e') \<le> Suc (slots_used rs_in_use (en_rule_fact_states e))"
proof -
  let ?k = "rf_track_id f" and ?S = "en_rule_fact_states e"
  from dir obtain d0 where d0: "direction_index (rf_direction f) = Some d0" "d0 < 3"
    by (auto simp: direction_index_valid)
  obtain T i where step: "(case find_rule_fact_state e ?k of Some slot \<Rightarrow> Some (e, slot)
        | None \<Rightarrow> allocate_rule_fact_state e ?k) = Some (e\<lparr>en_rule_fact_states := T\<rparr>, i)"
    and T: "find_fact_slot T ?k = Some i" "facts_ok (e\<lparr>en_rule_fact_states := T\<rparr>)"
      "\<forall>k' d. d < 3 \<longrightarrow> fact_bit T k' d = fact_bit ?S k' d"
      "slots_used rs_in_use T \<le> Suc (slots_used rs_in_use ?S)"
    using obtain_fact_slot [OF ok room, of ?k] by blast
  let ?s = "(T ! i)\<lparr>rs_direction_present := (rs_direction_present (T ! i))[d0 := True]\<rparr>"
  let ?e = "e\<lparr>en_rule_fact_states := T[i := ?s]\<rparr>"
  note i = fct.find_SomeD [OF T(1)]
  from T(2) have u: "unique_keys rs_in_use rs_track_id T" and l: "length T = 64"
      and len3: "\<forall>s \<in> set T. length (rs_direction_present s) = 3"
    by (simp_all add: facts_ok_def)
  have r: "remember_rule_fact e f = (True, ?e)"
    by (simp add: remember_rule_fact_def d0 step)
  have len: "length (rs_direction_present (T ! i)) = 3" using len3 i by simp
  have rem: "remembered ?e = insert (?k, rf_direction f) (remembered e)"
    using fact_bit_set [OF u T(1) len d0(2)] T(3) by (intro remembered_update [OF _ d0(1)]) simp
  have "\<forall>s \<in> set (T[i := ?s]). length (rs_direction_present s) = 3"
    using len3 len set_update_subset_insert [of T i ?s] by auto
  then have ok': "facts_ok ?e"
    using l i unique_keys_update_same [OF u, of i ?s] by (simp add: facts_ok_def)
  show ?thesis
    using r rem ok' T(4) i slots_used_update_same [of i T rs_in_use ?s] by simp
qed

lemma remember_all_correct:
  assumes "facts_ok e" and "\<forall>f \<in> set facts. valid_direction (rf_direction f)"
    and "slots_used rs_in_use (en_rule_fact_states e) + length facts \<le> ME_ANALYTICS_MAX_TRACKS"
  shows "\<exists>e'. remember_all e facts = (True, e') \<and> facts_ok e' \<and>
           remembered e' = remembered e \<union> (\<lambda>f. (rf_track_id f, rf_direction f)) ` set facts"
  using assms
proof (induction facts arbitrary: e)
  case Nil
  then show ?case by simp
next
  case (Cons f facts)
  then obtain e1 where e1: "remember_rule_fact e f = (True, e1)" "facts_ok e1"
      "remembered e1 = insert (rf_track_id f, rf_direction f) (remembered e)"
      "slots_used rs_in_use (en_rule_fact_states e1) \<le> Suc (slots_used rs_in_use (en_rule_fact_states e))"
    using remember_rule_fact_correct [of e f] by auto
  with Cons.prems have "slots_used rs_in_use (en_rule_fact_states e1) + length facts \<le> ME_ANALYTICS_MAX_TRACKS"
    by simp
  with Cons.IH [OF e1(2)] Cons.prems e1 show ?case by fastforce
qed

lemma slots_used_clear: "slots_used rs_in_use (en_rule_fact_states (clear_rule_fact_states e)) = 0"
  by (simp add: slots_used_def clear_rule_fact_states_def zero_rule_fact_state_def)

lemma remembered_clear: "remembered (clear_rule_fact_states e) = {}"
proof -
  have "find_fact_slot (replicate 64 zero_rule_fact_state) k = None" for k
    by (simp add: find_fact_slot_def first_index_None_iff zero_rule_fact_state_def)
  then show ?thesis
    by (simp add: remembered_def fact_bit_def clear_rule_fact_states_def)
qed

subsection \<open>Summaries\<close>

lemma summary_add_track_facts [simp]:
  "su_facts (summary_add_track s k) = su_facts s"
  "su_match_count (summary_add_track s k) = su_match_count s"
  by (simp_all add: summary_add_track_def)

lemma summary_add_new_facts [simp]:
  "su_facts (summary_add_new r s) = su_facts s"
  "su_match_count (summary_add_new r s) = su_match_count s"
  by (simp_all add: summary_add_new_def Let_def split: MeRuleDirection.split)

lemma match_one_facts:
  "su_facts (match_one e r s) =
     (if rule_matches e r \<and> \<not> summary_has_fact s r \<and> length (su_facts s) < ME_ANALYTICS_MAX_RULE_FACTS
      then su_facts s @ [r] else su_facts s)"
  by (simp add: match_one_def Let_def)

lemma matching_fold_facts:
  assumes "length (su_facts s) + length rs \<le> ME_ANALYTICS_MAX_RULE_FACTS"
  shows "length (su_facts (fold (match_one e) rs s)) \<le> ME_ANALYTICS_MAX_RULE_FACTS \<and>
         set (su_facts (fold (match_one e) rs s)) \<subseteq> set (su_facts s) \<union> {r \<in> set rs. rule_matches e r}"
  using assms
proof (induction rs arbitrary: s)
  case Nil
  then show ?case by simp
next
  case (Cons r rs)
  then have "length (su_facts (match_one e r s)) + length rs \<le> ME_ANALYTICS_MAX_RULE_FACTS"
    by (auto simp: match_one_facts)
  from Cons.IH [OF this] show ?case
    by (auto simp: match_one_facts split: if_splits)
qed

lemma length_live_rules: "observation_ok ob \<Longrightarrow> length (live_rules ob) \<le> 16"
  by (auto simp: observation_ok_def live_rules_def word_le_nat_alt)

lemma matching_rules_facts:
  assumes "observation_ok ob"
  shows "length (su_facts (matching_rules e ob)) \<le> ME_ANALYTICS_MAX_RULE_FACTS \<and>
         set (su_facts (matching_rules e ob)) \<subseteq> {r \<in> set (live_rules ob). rule_matches e r}"
  using matching_fold_facts [of zero_summary "live_rules ob" e] length_live_rules [OF assms]
  by (auto simp: matching_rules_def zero_summary_def)

text \<open>The summary may come from any engine state: only its facts matter.\<close>

lemma remember_rule_facts_total:
  assumes "observation_ok ob"
  shows "\<exists>e'. remember_rule_facts engine (matching_rules e0 ob) = (True, e') \<and> facts_ok e' \<and>
           remembered e' = (\<lambda>f. (rf_track_id f, rf_direction f)) ` set (su_facts (matching_rules e0 ob))"
proof -
  let ?F = "su_facts (matching_rules e0 ob)"
  note F = matching_rules_facts [OF assms, of e0]
  have "\<forall>f \<in> set ?F. valid_direction (rf_direction f)"
    using F assms by (auto simp: observation_ok_def rule_ok_def)
  then show ?thesis
    using remember_all_correct [OF facts_ok_clear, of ?F engine] F
    by (auto simp: slots_used_clear remembered_clear remember_rule_facts_def)
qed

lemma match_one_first:
  assumes "\<And>r. su_first s = Some r \<Longrightarrow> rule_matches e r" and "su_first (match_one e r s) = Some r'"
  shows "rule_matches e r'"
  using assms
  by (auto simp: match_one_def Let_def summary_add_new_def summary_add_track_def
      split: if_splits MeRuleDirection.splits)

lemma matching_rules_first:
  assumes "su_first (matching_rules e ob) = Some r"
  shows "rule_matches e r"
proof -
  have fold: "rule_matches e r" if "su_first (fold (match_one e) rs s) = Some r"
    "\<And>r. su_first s = Some r \<Longrightarrow> rule_matches e r" for rs s
    using that by (induction rs arbitrary: s) (auto intro: match_one_first)
  show ?thesis
    using assms fold [of "live_rules ob" zero_summary]
    by (simp add: matching_rules_def zero_summary_def split: if_splits)
qed

text \<open>
  the branch that reports an exhausted fact table cannot be taken: for every validated
  observation the facts of its summary are remembered, and afterwards the memory holds exactly
  the (track, direction) pairs of that summary, so a fact that stays present is not counted again
  and one that disappears for a frame counts as a new occurrence.
\<close>

theorem remember_rule_facts_exact:
  assumes "observation_ok ob"
  shows "\<exists>e'. remember_rule_facts engine (matching_rules engine ob) = (True, e') \<and> facts_ok e' \<and>
           (\<forall>f. rule_fact_seen e' f =
              (\<exists>g \<in> set (su_facts (matching_rules engine ob)).
                 rf_track_id g = rf_track_id f \<and> rf_direction g = rf_direction f))"
proof -
  from remember_rule_facts_total [OF assms] obtain e' where
    e': "remember_rule_facts engine (matching_rules engine ob) = (True, e')" "facts_ok e'"
      "remembered e' = (\<lambda>f. (rf_track_id f, rf_direction f)) ` set (su_facts (matching_rules engine ob))"
    by blast
  then show ?thesis by (auto simp: rule_fact_seen_iff intro: rev_image_eqI)
qed

theorem remember_rule_facts_exact_witness:
  "observation_ok sample_observation \<and>
   (\<exists>e'. remember_rule_facts zero_engine (matching_rules zero_engine sample_observation) = (True, e') \<and>
         \<not> rule_fact_seen e' zero_rule)"
proof -
  have "su_facts (matching_rules zero_engine sample_observation) = []"
    by (simp add: matching_rules_def live_rules_def sample_observation_def me_observation_init_def
        zero_observation_def zero_summary_def)
  with remember_rule_facts_exact [OF sample_observation_ok, of zero_engine] show ?thesis
    using sample_observation_ok by auto
qed

end
