(* ===== verification/Event_Engine.thy ===== *)
theory Event_Engine
  imports Event_Tracks Event_Rules
begin

text \<open>
  The lifecycle of an event (\<^verbatim>\<open>event_engine.c\<close>, from \<^verbatim>\<open>emit_start\<close> to the end): emission of START,
  UPDATE and END records, the trigger, the handling of one accepted observation, and the public
  operations. An operation returns its C result (an error, or the number of records), the new
  engine and the records handed to the sink, oldest first. Records handed over before an error
  stay handed over.
\<close>

subsection \<open>Operations\<close>

datatype EngineError =
    EE_Null
  | EE_Observation ObservationError
  | EE_Config ConfigError
  | EE_Event_Id_Exhausted
  | EE_Sequence_Exhausted
  | EE_Facts_Exhausted
  | EE_Order_Invalid
  | EE_Close_Reason
  | EE_Version_Not_Increasing
  | EE_Version_Exhausted

type_synonym engine_result = "(EngineError + nat) \<times> MeEventEngine \<times> MeAnalyticsEvent list"

text \<open>The record that \<open>emit_start\<close> fills in after the identifier has been made.\<close>

definition start_event ::
  "MeEventEngine \<Rightarrow> string \<Rightarrow> MeNormalizedObservation \<Rightarrow> MeRuleSummary \<Rightarrow> u32 \<Rightarrow> MeAnalyticsEvent" where
  "start_event engine event_id observation summary person_count =
     (let ev1 = (en_active_event engine)
                  \<lparr>ev_event_id := event_id,
                   ev_event_type := cf_rule_type (en_config engine),
                   ev_rule_id := copy_string ME_ANALYTICS_RULE_ID_MAX (cf_rule_id (en_config engine)),
                   ev_phase := ME_EVENT_PHASE_START, ev_event_seq := 1,
                   ev_reason := ME_EVENT_REASON_CONFIRMED,
                   ev_config_version := en_config_version engine\<rparr>;
          ev2 = (case su_first summary of
                   Some rule \<Rightarrow> ev1\<lparr>ev_rule_id := copy_string ME_ANALYTICS_RULE_ID_MAX (rf_rule_id rule)\<rparr>
                 | None \<Rightarrow> ev1);
          ev3 = event_copy_observation_context ev2 observation person_count
                  (su_delta_in summary) (su_delta_out summary)
      in event_copy_responsible_tracks ev3 (su_track_ids summary))"

definition emit_start ::
  "MeEventEngine \<Rightarrow> MeNormalizedObservation \<Rightarrow> MeRuleSummary \<Rightarrow> u32 \<Rightarrow> MeTimeline \<Rightarrow> engine_result" where
  "emit_start engine observation summary person_count now =
     (let e0 = engine\<lparr>en_active_event :=
                 zero_event\<lparr>ev_contract_version := ME_ANALYTICS_EVENT_CONTRACT_VERSION\<rparr>\<rparr>
      in case new_event_id e0 (ob_channel_id observation) (ob_stream_epoch observation)
                ME_ANALYTICS_EVENT_ID_MAX of
           None \<Rightarrow> (Inl EE_Event_Id_Exhausted, e0, [])
         | Some (event_id, e1) \<Rightarrow>
             (case remember_rule_facts
                     (e1\<lparr>en_active_event := start_event e1 event_id observation summary person_count\<rparr>)
                     summary of
                (False, e2) \<Rightarrow> (Inl EE_Facts_Exhausted, e2, [])
              | (True, e2) \<Rightarrow>
                  (let e3 = e2\<lparr>en_active := True, en_active_person_count := person_count,
                               en_last_emit_timeline_us := tl_us now,
                               en_last_emit_timeline_valid := tl_valid now\<rparr>
                   in (Inr 1, e3, emit_event e3 (en_active_event e3)))))"

definition add_pending_track :: "u64 \<Rightarrow> u64 list \<Rightarrow> u64 list" where
  "add_pending_track track_id pending =
     (if track_id \<notin> set pending \<and> length pending < ME_ANALYTICS_EVENT_MAX_TRACKS
      then pending @ [track_id] else pending)"

definition mark_update ::
  "MeEventEngine \<Rightarrow> u32 \<Rightarrow> u32 \<Rightarrow> u32 \<Rightarrow> u64 list option \<Rightarrow> MeEventReason \<Rightarrow> MeEventEngine" where
  "mark_update engine person_count delta_in delta_out track_ids reason =
     engine\<lparr>en_update_pending := True,
            en_pending_person_count := person_count,
            en_pending_delta_in :=
              (if delta_in > 0 then saturating_add_u32 (en_pending_delta_in engine) delta_in
               else en_pending_delta_in engine),
            en_pending_delta_out :=
              (if delta_out > 0 then saturating_add_u32 (en_pending_delta_out engine) delta_out
               else en_pending_delta_out engine),
            en_pending_track_ids :=
              fold add_pending_track (case track_ids of None \<Rightarrow> [] | Some ids \<Rightarrow> ids)
                (en_pending_track_ids engine),
            en_pending_reason := reason\<rparr>"

definition maybe_emit_update ::
  "MeEventEngine \<Rightarrow> MeNormalizedObservation \<Rightarrow> u32 \<Rightarrow> MeTimeline \<Rightarrow> engine_result" where
  "maybe_emit_update engine observation person_count now =
     (if \<not> en_update_pending engine then (Inr 0, engine, [])
      else if en_last_emit_timeline_valid engine \<and> tl_valid now \<and>
              \<not> elapsed_at_least now (en_last_emit_timeline_us engine) True
                  (ms_to_us (cf_update_interval_ms (en_config engine)))
      then (Inr 0, engine, [])
      else case increment_event_seq (en_active_event engine) of
             None \<Rightarrow> (Inl EE_Sequence_Exhausted, engine, [])
           | Some event \<Rightarrow>
               (let ev1 = event\<lparr>ev_phase := ME_EVENT_PHASE_UPDATE,
                                ev_reason := en_pending_reason engine\<rparr>;
                    ev2 = event_copy_observation_context ev1 observation person_count
                            (en_pending_delta_in engine) (en_pending_delta_out engine);
                    ev3 = event_copy_responsible_tracks ev2 (en_pending_track_ids engine);
                    e1 = engine\<lparr>en_active_event := ev3,
                                en_active_person_count := person_count,
                                en_last_emit_timeline_us := tl_us now,
                                en_last_emit_timeline_valid := tl_valid now,
                                en_update_pending := False,
                                en_pending_person_count := 0,
                                en_pending_delta_in := 0,
                                en_pending_delta_out := 0,
                                en_pending_reason := ME_EVENT_REASON_NONE\<rparr>
                in (Inr 1, e1, emit_event e1 ev3)))"

text \<open>The END record, from the active event with its sequence number advanced, and the cooldown.\<close>

definition end_event ::
  "MeEventEngine \<Rightarrow> MeAnalyticsEvent \<Rightarrow> MeNormalizedObservation \<Rightarrow> MeEventReason \<Rightarrow> u32 \<Rightarrow> MeAnalyticsEvent" where
  "end_event engine event observation reason person_count =
     (let ev1 = event\<lparr>ev_phase := ME_EVENT_PHASE_END, ev_reason := reason\<rparr>;
          ev2 = event_copy_observation_context ev1 observation person_count
                  (en_pending_delta_in engine) (en_pending_delta_out engine)
      in if en_pending_track_ids engine \<noteq> []
         then event_copy_responsible_tracks ev2 (en_pending_track_ids engine)
         else ev2)"

definition set_cooldown :: "MeEventEngine \<Rightarrow> MeTimeline \<Rightarrow> bool \<Rightarrow> MeEventEngine" where
  "set_cooldown engine now apply_cooldown =
     (if apply_cooldown \<and> tl_valid now \<and> cf_cooldown_ms (en_config engine) > 0
      then (case time_add_ms (tl_us now) (cf_cooldown_ms (en_config engine)) of
              None \<Rightarrow> engine\<lparr>en_cooldown_until_valid := False\<rparr>
            | Some until \<Rightarrow> engine\<lparr>en_cooldown_until_us := until, en_cooldown_until_valid := True\<rparr>)
      else engine)"

definition emit_end ::
  "MeEventEngine \<Rightarrow> MeNormalizedObservation \<Rightarrow> MeEventReason \<Rightarrow> u32 \<Rightarrow> MeTimeline \<Rightarrow> bool \<Rightarrow> engine_result" where
  "emit_end engine observation reason person_count now apply_cooldown =
     (if \<not> en_active engine then (Inr 0, engine, [])
      else case increment_event_seq (en_active_event engine) of
             None \<Rightarrow> (Inl EE_Sequence_Exhausted, engine, [])
           | Some event \<Rightarrow>
               (let ev = end_event engine event observation reason person_count;
                    e1 = set_cooldown (engine\<lparr>en_active_event := ev\<rparr>) now apply_cooldown;
                    e2 = clear_rule_fact_states (clear_pending
                           (e1\<lparr>en_active := False, en_active_person_count := 0\<rparr>))
                in (Inr 1, e2, emit_event engine ev)))"

definition update_trigger_candidate :: "MeEventEngine \<Rightarrow> bool \<Rightarrow> MeTimeline \<Rightarrow> MeEventEngine" where
  "update_trigger_candidate engine condition now =
     (if \<not> condition then clear_trigger_candidate engine
      else if \<not> en_trigger_pending engine
      then engine\<lparr>en_trigger_pending := True, en_trigger_frames := 1,
                  en_trigger_since_us := tl_us now, en_trigger_since_valid := tl_valid now\<rparr>
      else if en_trigger_frames engine < UINT32_MAX
      then engine\<lparr>en_trigger_frames := en_trigger_frames engine + 1\<rparr>
      else engine)"

definition trigger_qualified :: "MeEventEngine \<Rightarrow> MeTimeline \<Rightarrow> bool" where
  "trigger_qualified engine now =
     (let confirm_us = ms_to_us (cf_confirm_ms (en_config engine));
          debounce_us = ms_to_us (cf_debounce_ms (en_config engine));
          confirmed =
            (cf_confirm_frames (en_config engine) > 0 \<and>
             en_trigger_frames engine \<ge> cf_confirm_frames (en_config engine)) \<or>
            elapsed_at_least now (en_trigger_since_us engine) (en_trigger_since_valid engine) confirm_us
      in if \<not> en_trigger_pending engine then False
         else if \<not> confirmed \<or> \<not> cooldown_elapsed engine now then False
         else debounce_us = 0 \<or>
              elapsed_at_least now (en_trigger_since_us engine) (en_trigger_since_valid engine) debounce_us \<or>
              \<not> tl_valid now)"

text \<open>The three continuations of \<open>process_accepted\<close> once the tracks and the rules are known.\<close>

definition accepted_idle ::
  "MeEventEngine \<Rightarrow> MeNormalizedObservation \<Rightarrow> MeRuleSummary \<Rightarrow> u32 \<Rightarrow> bool \<Rightarrow> MeTimeline \<Rightarrow> engine_result" where
  "accepted_idle engine observation summary person_count condition now =
     (let e1 = update_trigger_candidate engine condition now in
      if trigger_qualified e1 now
      then (case emit_start e1 observation summary person_count now of
              (Inl err, e2, evs) \<Rightarrow> (Inl err, e2, evs)
            | (Inr started, e2, evs) \<Rightarrow>
                (Inr started, (clear_trigger_candidate e2)\<lparr>en_absent_since_valid := False\<rparr>, evs))
      else (Inr 0, e1, []))"

definition accepted_absent ::
  "MeEventEngine \<Rightarrow> MeNormalizedObservation \<Rightarrow> u32 \<Rightarrow> MeTimeline \<Rightarrow> engine_result" where
  "accepted_absent engine observation person_count now =
     (let absence_us = ms_to_us (cf_disappear_grace_ms (en_config engine));
          e1 = (if \<not> en_absent_since_valid engine
                then engine\<lparr>en_absent_since_us := tl_us now, en_absent_since_valid := tl_valid now\<rparr>
                else engine)
      in if absence_us = 0 \<or>
            elapsed_at_least now (en_absent_since_us e1) (en_absent_since_valid e1) absence_us
         then emit_end e1 observation ME_EVENT_REASON_DISAPPEARED person_count now True
         else (Inr 0, e1, []))"

definition accepted_present ::
  "MeEventEngine \<Rightarrow> MeNormalizedObservation \<Rightarrow> MeRuleSummary \<Rightarrow> u32 \<Rightarrow> MeTimeline \<Rightarrow> engine_result" where
  "accepted_present engine observation summary person_count now =
     (let e1 = engine\<lparr>en_absent_since_valid := False\<rparr>;
          e2 = (if cf_rule_type (en_config e1) = ME_RULE_TYPE_OCCUPANCY
                then (if person_count \<noteq> en_active_person_count e1
                      then mark_update e1 person_count 0 0 None ME_EVENT_REASON_COUNT_CHANGED
                      else e1)
                else if su_new_match_count summary > 0
                then mark_update e1 person_count (su_delta_in summary) (su_delta_out summary)
                       (Some (su_track_ids summary)) ME_EVENT_REASON_DIRECTION
                else e1)
      in maybe_emit_update e2 observation person_count now)"

definition process_accepted :: "MeEventEngine \<Rightarrow> MeNormalizedObservation \<Rightarrow> engine_result" where
  "process_accepted engine observation =
     (let now = observation_timeline engine observation in
      if \<not> cf_enabled (en_config engine)
      then (Inr 0,
            clear_pending (clear_tracks
              (engine\<lparr>en_latest_person_count := 0, en_latest_person_count_valid := True\<rparr>)), [])
      else
        (let (person_count, e0) = update_tracks engine observation now;
             e1 = e0\<lparr>en_latest_person_count := person_count, en_latest_person_count_valid := True\<rparr>;
             summary = matching_rules e1 observation;
             condition = (if cf_rule_type (en_config e1) = ME_RULE_TYPE_OCCUPANCY
                          then person_count > 0 else su_match_count summary > 0);
             (remembered, e2) =
               (if en_active e1 \<and> cf_rule_type (en_config e1) \<noteq> ME_RULE_TYPE_OCCUPANCY
                then remember_rule_facts e1 summary else (True, e1))
         in if \<not> remembered then (Inl EE_Facts_Exhausted, e2, [])
            else if \<not> en_active e2
            then accepted_idle e2 observation summary person_count condition now
            else if \<not> condition then accepted_absent e2 observation person_count now
            else accepted_present e2 observation summary person_count now))"

definition me_event_engine_init ::
  "MeAnalyticsConfig option \<Rightarrow> u64 \<Rightarrow> bool \<Rightarrow> EngineError + MeEventEngine" where
  "me_event_engine_init config config_version sink =
     (case config of
        None \<Rightarrow> Inl EE_Null
      | Some c \<Rightarrow>
          (case me_analytics_config_validate (Some c) of
             Inl err \<Rightarrow> Inl (EE_Config err)
           | Inr _ \<Rightarrow>
               Inr (zero_engine\<lparr>en_config := c,
                      en_config_version := (if config_version \<noteq> 0 then config_version else 1),
                      en_sink := sink, en_order := me_observation_order_init\<rparr>)))"

text \<open>
  The common END of \<open>me_event_engine_deinit\<close>, \<open>process\<close>, \<open>close\<close> and \<open>reconfigure\<close>: it refers to the
  last observation and applies no cooldown.
\<close>

definition end_active :: "MeEventEngine \<Rightarrow> MeEventReason \<Rightarrow> engine_result" where
  "end_active engine reason =
     (if en_active engine \<and> en_have_last_observation engine
      then emit_end engine (en_last_observation engine) reason (latest_person_count engine)
             (observation_timeline engine (en_last_observation engine)) False
      else (Inr 0, engine, []))"

definition me_event_engine_deinit :: "MeEventEngine \<Rightarrow> engine_result" where
  "me_event_engine_deinit engine =
     (case end_active engine ME_EVENT_REASON_PROCESS_RESTART of
        (Inl err, e1, evs) \<Rightarrow> (Inl err, e1, evs)
      | (Inr emitted, e1, evs) \<Rightarrow> (Inr emitted, zero_engine, evs))"

text \<open>The channel switch at the start of \<open>me_event_engine_process\<close>.\<close>

definition switch_channel :: "MeEventEngine \<Rightarrow> MeNormalizedObservation \<Rightarrow> engine_result" where
  "switch_channel engine observation =
     (if en_have_stream engine \<and> en_channel_id engine \<noteq> ob_channel_id observation
      then (case end_active engine ME_EVENT_REASON_STREAM_RESET of
              (Inl err, e1, evs) \<Rightarrow> (Inl err, e1, evs)
            | (Inr ended, e1, evs) \<Rightarrow>
                (Inr ended, (clear_runtime e1)\<lparr>en_have_stream := False,
                                               en_order := me_observation_order_init\<rparr>, evs))
      else (Inr 0, engine, []))"

definition advance_epoch :: "MeEventEngine \<Rightarrow> MeObservationOrderResult \<Rightarrow> engine_result" where
  "advance_epoch engine order_result =
     (if order_result = ME_OBSERVATION_ORDER_EPOCH_ADVANCE
      then (case end_active engine ME_EVENT_REASON_STREAM_RESET of
              (Inl err, e1, evs) \<Rightarrow> (Inl err, e1, evs)
            | (Inr ended, e1, evs) \<Rightarrow> (Inr ended, clear_runtime e1, evs))
      else (Inr 0, engine, []))"

definition accept_observation ::
  "MeEventEngine \<Rightarrow> MeObservationOrder \<Rightarrow> MeNormalizedObservation \<Rightarrow> MeEventEngine" where
  "accept_observation engine next_order observation =
     engine\<lparr>en_order := next_order, en_have_stream := True,
            en_channel_id := copy_string ME_ANALYTICS_CHANNEL_ID_MAX (ob_channel_id observation),
            en_stream_epoch := ob_stream_epoch observation,
            en_last_observation := observation, en_have_last_observation := True\<rparr>"

definition me_event_engine_process ::
  "MeEventEngine \<Rightarrow> MeNormalizedObservation option \<Rightarrow> engine_result" where
  "me_event_engine_process engine ob =
     (case ob of
        None \<Rightarrow> (Inl EE_Null, engine, [])
      | Some observation \<Rightarrow>
          (case me_observation_validate (Some observation) of
             Inl err \<Rightarrow> (Inl (EE_Observation err), engine, [])
           | Inr _ \<Rightarrow>
               (case switch_channel engine observation of
                  (Inl err, e1, evs1) \<Rightarrow> (Inl err, e1, evs1)
                | (Inr ended1, e1, evs1) \<Rightarrow>
                    (let (order_result, next_order) =
                           me_observation_order_classify (en_order e1) (Some observation) in
                     if order_result = ME_OBSERVATION_ORDER_INVALID
                     then (Inl EE_Order_Invalid, e1, evs1)
                     else if order_result = ME_OBSERVATION_ORDER_DUPLICATE \<or>
                             order_result = ME_OBSERVATION_ORDER_OUT_OF_ORDER
                     then (Inr ended1, e1, evs1)
                     else
                       (case advance_epoch e1 order_result of
                          (Inl err, e2, evs2) \<Rightarrow> (Inl err, e2, evs1 @ evs2)
                        | (Inr ended2, e2, evs2) \<Rightarrow>
                            (case process_accepted (accept_observation e2 next_order observation)
                                    observation of
                               (Inl err, e3, evs3) \<Rightarrow> (Inl err, e3, evs1 @ evs2 @ evs3)
                             | (Inr accepted, e3, evs3) \<Rightarrow>
                                 (Inr (ended1 + ended2 + accepted), e3, evs1 @ evs2 @ evs3)))))))"

definition me_event_engine_close :: "MeEventEngine \<Rightarrow> MeEventReason \<Rightarrow> engine_result" where
  "me_event_engine_close engine reason =
     (if \<not> valid_event_reason reason then (Inl EE_Close_Reason, engine, [])
      else (case end_active engine reason of
              (Inl err, e1, evs) \<Rightarrow> (Inl err, e1, evs)
            | (Inr emitted, e1, evs) \<Rightarrow> (Inr emitted, clear_runtime e1, evs)))"

text \<open>The version a reconfiguration would install.\<close>

definition next_config_version :: "MeEventEngine \<Rightarrow> u64 \<Rightarrow> EngineError + u64" where
  "next_config_version engine config_version =
     (if config_version \<noteq> 0
      then (if config_version \<le> en_config_version engine then Inl EE_Version_Not_Increasing
            else Inr config_version)
      else if en_config_version engine = UINT64_MAX then Inl EE_Version_Exhausted
      else Inr (en_config_version engine + 1))"

definition me_event_engine_reconfigure ::
  "MeEventEngine \<Rightarrow> MeAnalyticsConfig option \<Rightarrow> u64 \<Rightarrow> engine_result" where
  "me_event_engine_reconfigure engine config config_version =
     (case config of
        None \<Rightarrow> (Inl EE_Null, engine, [])
      | Some c \<Rightarrow>
          (case me_analytics_config_validate (Some c) of
             Inl err \<Rightarrow> (Inl (EE_Config err), engine, [])
           | Inr _ \<Rightarrow>
               (case next_config_version engine config_version of
                  Inl err \<Rightarrow> (Inl err, engine, [])
                | Inr next_version \<Rightarrow>
                    (case end_active engine
                            (if cf_enabled c then ME_EVENT_REASON_RECONFIGURED
                             else ME_EVENT_REASON_ANALYTICS_DISABLED) of
                       (Inl err, e1, evs) \<Rightarrow> (Inl err, e1, evs)
                     | (Inr emitted, e1, evs) \<Rightarrow>
                         (Inr emitted, (clear_runtime e1)\<lparr>en_config := c,
                                          en_config_version := next_version\<rparr>, evs)))))"

definition me_event_engine_is_active :: "MeEventEngine option \<Rightarrow> bool" where
  "me_event_engine_is_active engine = (case engine of None \<Rightarrow> False | Some e \<Rightarrow> en_active e)"

end
