(* ===== verification/Event_Lifecycle.thy ===== *)
theory Event_Lifecycle
  imports Event_Engine
begin

text \<open>
  Correctness of the event engine as a producer of records. The abstract specification is an
  automaton over the records: a START with sequence number 1 and a fresh identifier, then UPDATEs
  and one END of the same event with consecutive sequence numbers. Every operation of the engine
  refines it; the consequences for whole runs are proved once in a locale.
\<close>

subsection \<open>The abstract automaton\<close>

text \<open>
  An abstract state is the number of the last identifier and the latest record of the running
  event, if there is one.
\<close>

type_synonym life = "u64 \<times> MeAnalyticsEvent option"

definition same_event :: "MeAnalyticsEvent \<Rightarrow> MeAnalyticsEvent \<Rightarrow> bool" where
  "same_event p ev \<longleftrightarrow>
     ev_contract_version ev = ev_contract_version p \<and> ev_event_id ev = ev_event_id p \<and>
     ev_channel_id ev = ev_channel_id p \<and> ev_stream_epoch ev = ev_stream_epoch p \<and>
     ev_event_type ev = ev_event_type p \<and> ev_rule_id ev = ev_rule_id p \<and>
     ev_config_version ev = ev_config_version p \<and> ev_frame_id p \<le> ev_frame_id ev"

definition life_start :: "u64 \<Rightarrow> MeAnalyticsEvent \<Rightarrow> life option" where
  "life_start n ev =
     (if ev_phase ev = ME_EVENT_PHASE_START \<and> ev_event_seq ev = 1 \<and> n \<noteq> UINT64_MAX \<and>
         ev_contract_version ev = ME_ANALYTICS_EVENT_CONTRACT_VERSION \<and>
         ev_reason ev = ME_EVENT_REASON_CONFIRMED \<and>
         ev_event_id ev = format_event_id (ev_channel_id ev) (ev_stream_epoch ev) (n + 1)
      then Some (n + 1, Some ev) else None)"

definition life_continue :: "u64 \<Rightarrow> MeAnalyticsEvent \<Rightarrow> MeAnalyticsEvent \<Rightarrow> life option" where
  "life_continue n p ev =
     (if same_event p ev \<and> ev_event_seq p \<noteq> UINT64_MAX \<and> ev_event_seq ev = ev_event_seq p + 1
      then (case ev_phase ev of
              ME_EVENT_PHASE_UPDATE \<Rightarrow> Some (n, Some ev)
            | ME_EVENT_PHASE_END \<Rightarrow> Some (n, None)
            | _ \<Rightarrow> None)
      else None)"

fun life_step :: "life \<Rightarrow> MeAnalyticsEvent \<Rightarrow> life option" where
  "life_step (n, None) ev = life_start n ev"
| "life_step (n, Some p) ev = life_continue n p ev"

fun life_run :: "life \<Rightarrow> MeAnalyticsEvent list \<Rightarrow> life option" where
  "life_run s [] = Some s"
| "life_run s (ev # evs) = (case life_step s ev of None \<Rightarrow> None | Some s' \<Rightarrow> life_run s' evs)"

lemma life_run_append:
  "life_run s (xs @ ys) = (case life_run s xs of None \<Rightarrow> None | Some s' \<Rightarrow> life_run s' ys)"
  by (induction s xs rule: life_run.induct) (auto split: option.splits)

definition life_of :: "MeEventEngine \<Rightarrow> life" where
  "life_of e = (en_next_event_serial e, if en_active e then Some (en_active_event e) else None)"

subsection \<open>The invariant of the engine\<close>

definition order_of :: "MeNormalizedObservation \<Rightarrow> MeObservationOrder" where
  "order_of ob = order_commit me_observation_order_init ob"

lemma order_commit_eq: "order_commit order ob = order_of ob"
  by (cases order) (simp add: order_of_def order_commit_def me_observation_order_init_def)

text \<open>The ordering state and the last observation describe the same frame.\<close>

definition stream_ok :: "MeEventEngine \<Rightarrow> bool" where
  "stream_ok e \<longleftrightarrow>
     (if en_have_stream e
      then en_have_last_observation e \<and> observation_ok (en_last_observation e) \<and>
           en_channel_id e = ob_channel_id (en_last_observation e) \<and>
           en_stream_epoch e = ob_stream_epoch (en_last_observation e) \<and>
           en_order e = order_of (en_last_observation e)
      else en_order e = me_observation_order_init \<and> \<not> en_active e)"

text \<open>An active event belongs to the current stream, configuration and serial number.\<close>

definition active_ok :: "MeEventEngine \<Rightarrow> bool" where
  "active_ok e \<longleftrightarrow>
     (en_active e \<longrightarrow>
        cf_enabled (en_config e) \<and>
        ev_contract_version (en_active_event e) = ME_ANALYTICS_EVENT_CONTRACT_VERSION \<and>
        ev_channel_id (en_active_event e) = en_channel_id e \<and>
        ev_stream_epoch (en_active_event e) = en_stream_epoch e \<and>
        ev_frame_id (en_active_event e) \<le> ob_frame_id (en_last_observation e) \<and>
        ev_event_type (en_active_event e) = cf_rule_type (en_config e) \<and>
        ev_rule_id (en_active_event e) = cf_rule_id (en_config e) \<and>
        ev_config_version (en_active_event e) = en_config_version e \<and>
        ev_event_id (en_active_event e) =
          format_event_id (en_channel_id e) (en_stream_epoch e) (en_next_event_serial e))"

definition engine_ok :: "MeEventEngine \<Rightarrow> bool" where
  "engine_ok e \<longleftrightarrow>
     config_ok (en_config e) \<and> en_config_version e \<noteq> 0 \<and> tracks_ok e \<and> facts_ok e \<and>
     length (en_pending_track_ids e) \<le> ME_ANALYTICS_EVENT_MAX_TRACKS \<and>
     stream_ok e \<and> active_ok e"

lemmas engine_ok_defs = engine_ok_def stream_ok_def active_ok_def

text \<open>
  A step that keeps the invariant and the sink, whose records the abstract automaton accepts and
  whose result counts them.
\<close>

definition good_step :: "MeEventEngine \<Rightarrow> engine_result \<Rightarrow> bool" where
  "good_step e res =
     (case res of (r, e', evs) \<Rightarrow>
        engine_ok e' \<and> en_sink e' = en_sink e \<and>
        (if en_sink e then life_run (life_of e) evs = Some (life_of e') else evs = []) \<and>
        (case r of Inl _ \<Rightarrow> True | Inr n \<Rightarrow> en_sink e \<longrightarrow> length evs = n))"

lemma good_step_refl: "engine_ok e \<Longrightarrow> good_step e (Inl err, e, [])" "engine_ok e \<Longrightarrow> good_step e (Inr 0, e, [])"
  by (simp_all add: good_step_def)

lemma good_step_silent:
  assumes "engine_ok e'" and "en_sink e' = en_sink e" and "life_of e' = life_of e"
  shows "good_step e (Inr 0, e', [])" "good_step e (Inl err, e', [])"
  using assms by (simp_all add: good_step_def)

lemma good_step_trans:
  assumes "good_step e (Inr n, e1, evs1)" and "good_step e1 (r, e2, evs2)"
  shows "good_step e (map_sum id (\<lambda>m. n + m) r, e2, evs1 @ evs2)"
  using assms by (auto simp: good_step_def life_run_append split: sum.splits if_splits)

text \<open>A silent change before a step does not matter.\<close>

lemma good_step_from:
  assumes "good_step e1 res" and "life_of e1 = life_of e" and "en_sink e1 = en_sink e"
  shows "good_step e res"
  using assms by (cases res) (auto simp: good_step_def split: sum.splits)

subsection \<open>Every operation refines the automaton\<close>

lemma tracks_ok_cong: "en_tracks e' = en_tracks e \<Longrightarrow> tracks_ok e' = tracks_ok e"
  by (simp add: tracks_ok_def)

lemma facts_ok_cong: "en_rule_fact_states e' = en_rule_fact_states e \<Longrightarrow> facts_ok e' = facts_ok e"
  by (simp add: facts_ok_def)

lemma increment_event_seq_SomeD:
  "increment_event_seq ev = Some ev' \<Longrightarrow>
     ev_event_seq ev \<noteq> UINT64_MAX \<and> ev' = ev\<lparr>ev_event_seq := ev_event_seq ev + 1\<rparr>"
  by (auto simp: increment_event_seq_def split: if_splits)

text \<open>The fields that the clearing operations leave alone, and the invariants they establish.\<close>

lemma clear_pending_frame [record_frame]:
  "en_tracks (clear_pending e) = en_tracks e" "en_rule_fact_states (clear_pending e) = en_rule_fact_states e"
  "en_config (clear_pending e) = en_config e" "en_config_version (clear_pending e) = en_config_version e"
  "en_active (clear_pending e) = en_active e" "en_active_event (clear_pending e) = en_active_event e"
  "en_sink (clear_pending e) = en_sink e" "en_next_event_serial (clear_pending e) = en_next_event_serial e"
  "en_have_stream (clear_pending e) = en_have_stream e" "en_order (clear_pending e) = en_order e"
  "en_channel_id (clear_pending e) = en_channel_id e" "en_stream_epoch (clear_pending e) = en_stream_epoch e"
  "en_last_observation (clear_pending e) = en_last_observation e"
  "en_have_last_observation (clear_pending e) = en_have_last_observation e"
  "en_pending_track_ids (clear_pending e) = []"
  "en_cooldown_until_us (clear_pending e) = en_cooldown_until_us e"
  "en_cooldown_until_valid (clear_pending e) = en_cooldown_until_valid e"
  by (simp_all add: clear_pending_def clear_trigger_candidate_def)

lemma set_cooldown_frame:
  "\<exists>us v. set_cooldown e now cd = e\<lparr>en_cooldown_until_us := us, en_cooldown_until_valid := v\<rparr>"
proof -
  have "\<exists>us v. e = e\<lparr>en_cooldown_until_us := us, en_cooldown_until_valid := v\<rparr>"
    by (intro exI [of _ "en_cooldown_until_us e"] exI [of _ "en_cooldown_until_valid e"]) simp
  moreover have "\<exists>us v. e\<lparr>en_cooldown_until_valid := False\<rparr> =
      e\<lparr>en_cooldown_until_us := us, en_cooldown_until_valid := v\<rparr>"
    by (intro exI [of _ "en_cooldown_until_us e"] exI [of _ False]) simp
  ultimately show ?thesis by (auto simp: set_cooldown_def split: option.split)
qed

text \<open>The END record continues the active event.\<close>

lemma end_event_fields:
  "ev_phase (end_event e ev ob reason n) = ME_EVENT_PHASE_END"
  "ev_reason (end_event e ev ob reason n) = reason"
  "ev_event_seq (end_event e ev ob reason n) = ev_event_seq ev"
  "ev_event_id (end_event e ev ob reason n) = ev_event_id ev"
  "ev_contract_version (end_event e ev ob reason n) = ev_contract_version ev"
  "ev_event_type (end_event e ev ob reason n) = ev_event_type ev"
  "ev_rule_id (end_event e ev ob reason n) = ev_rule_id ev"
  "ev_config_version (end_event e ev ob reason n) = ev_config_version ev"
  "ev_channel_id (end_event e ev ob reason n) = copy_string ME_ANALYTICS_CHANNEL_ID_MAX (ob_channel_id ob)"
  "ev_stream_epoch (end_event e ev ob reason n) = ob_stream_epoch ob"
  "ev_frame_id (end_event e ev ob reason n) = ob_frame_id ob"
  "ev_person_count (end_event e ev ob reason n) = n"
  by (simp_all add: end_event_def Let_def event_copy_observation_context_def
      event_copy_responsible_tracks_def)

text \<open>Ending a state: what remains when the active event is over.\<close>

lemma engine_ok_idle:
  assumes "engine_ok e" and "en_config e' = en_config e" and "en_config_version e' = en_config_version e"
    and "tracks_ok e'" and "facts_ok e'" and "length (en_pending_track_ids e') \<le> ME_ANALYTICS_EVENT_MAX_TRACKS"
    and "en_have_stream e' = en_have_stream e" and "en_order e' = en_order e"
    and "en_channel_id e' = en_channel_id e" and "en_stream_epoch e' = en_stream_epoch e"
    and "en_last_observation e' = en_last_observation e"
    and "en_have_last_observation e' = en_have_last_observation e" and "\<not> en_active e'"
  shows "engine_ok e'"
  using assms unfolding engine_ok_defs by (simp split: if_splits)

lemma emit_end_good:
  assumes ok: "engine_ok e" and "bounded_string (ob_channel_id ob) ME_ANALYTICS_CHANNEL_ID_MAX"
    and "en_channel_id e = ob_channel_id ob" and "en_stream_epoch e = ob_stream_epoch ob"
    and "ob_frame_id (en_last_observation e) \<le> ob_frame_id ob"
  shows "good_step e (emit_end e ob reason n now cd)"
proof (cases "en_active e")
  case False
  with ok show ?thesis by (simp add: emit_end_def good_step_refl)
next
  case True
  show ?thesis
  proof (cases "increment_event_seq (en_active_event e)")
    case None
    with ok True show ?thesis by (simp add: emit_end_def good_step_refl)
  next
    case (Some ev)
    let ?ev = "end_event e ev ob reason n"
    obtain us v where cd: "set_cooldown (e\<lparr>en_active_event := ?ev\<rparr>) now cd =
        e\<lparr>en_active_event := ?ev, en_cooldown_until_us := us, en_cooldown_until_valid := v\<rparr>"
      using set_cooldown_frame [of "e\<lparr>en_active_event := ?ev\<rparr>" now cd] by auto
    define e' where "e' = clear_rule_fact_states (clear_pending
      (e\<lparr>en_active_event := ?ev, en_cooldown_until_us := us, en_cooldown_until_valid := v,
         en_active := False, en_active_person_count := 0\<rparr>))"
    have r: "emit_end e ob reason n now cd = (Inr 1, e', emit_event e ?ev)"
      using True Some cd by (simp add: emit_end_def Let_def e'_def)
    have "facts_ok e'" by (simp add: e'_def facts_ok_clear)
    moreover have "tracks_ok e'"
      using ok by (simp add: e'_def clear_rule_fact_states_def engine_ok_def tracks_ok_def record_frame)
    ultimately have "engine_ok e'"
      by (intro engine_ok_idle [OF ok]) (simp_all add: e'_def clear_rule_fact_states_def record_frame)
    moreover have "life_of e' = (en_next_event_serial e, None)" "en_sink e' = en_sink e"
      by (simp_all add: e'_def clear_rule_fact_states_def record_frame life_of_def)
    moreover have "life_continue (en_next_event_serial e) (en_active_event e) ?ev = Some (en_next_event_serial e, None)"
      using ok True assms(2-) increment_event_seq_SomeD [OF Some]
      by (auto simp: life_continue_def same_event_def end_event_fields engine_ok_defs split: if_splits)
    ultimately show ?thesis using True by (simp add: r good_step_def emit_event_def life_of_def)
  qed
qed

lemma start_event_fields:
  "ev_phase (start_event e eid ob s n) = ME_EVENT_PHASE_START"
  "ev_reason (start_event e eid ob s n) = ME_EVENT_REASON_CONFIRMED"
  "ev_event_seq (start_event e eid ob s n) = 1"
  "ev_event_id (start_event e eid ob s n) = eid"
  "ev_contract_version (start_event e eid ob s n) = ev_contract_version (en_active_event e)"
  "ev_event_type (start_event e eid ob s n) = cf_rule_type (en_config e)"
  "ev_config_version (start_event e eid ob s n) = en_config_version e"
  "ev_channel_id (start_event e eid ob s n) = copy_string ME_ANALYTICS_CHANNEL_ID_MAX (ob_channel_id ob)"
  "ev_stream_epoch (start_event e eid ob s n) = ob_stream_epoch ob"
  "ev_frame_id (start_event e eid ob s n) = ob_frame_id ob"
  "ev_person_count (start_event e eid ob s n) = n"
  "ev_delta_in (start_event e eid ob s n) = su_delta_in s"
  "ev_delta_out (start_event e eid ob s n) = su_delta_out s"
  by (simp_all add: start_event_def Let_def event_copy_observation_context_def
      event_copy_responsible_tracks_def split: option.split)

lemma start_event_rule:
  assumes "length (cf_rule_id (en_config e)) < ME_ANALYTICS_RULE_ID_MAX"
    and "\<And>r. su_first s = Some r \<Longrightarrow> rf_rule_id r = cf_rule_id (en_config e)"
  shows "ev_rule_id (start_event e eid ob s n) = cf_rule_id (en_config e)"
  using assms
  by (cases "su_first s") (simp_all add: start_event_def Let_def event_copy_observation_context_def
      event_copy_responsible_tracks_def)

lemma emit_start_good:
  assumes ok: "engine_ok e" and idle: "\<not> en_active e" and stream: "en_have_stream e" "en_last_observation e = ob"
    and on: "cf_enabled (en_config e)"
    and rule: "\<And>r. su_first s = Some r \<Longrightarrow> rf_rule_id r = cf_rule_id (en_config e)"
    and mem: "\<And>e0. fst (remember_rule_facts e0 s) \<and> facts_ok (snd (remember_rule_facts e0 s))"
  shows "good_step e (emit_start e ob s n now)"
proof (cases "en_next_event_serial e = UINT64_MAX")
  case True
  have "engine_ok (e\<lparr>en_active_event := ev\<rparr>)" for ev
    using ok idle tracks_ok_cong facts_ok_cong by (intro engine_ok_idle [OF ok]) (simp_all add: engine_ok_def tracks_ok_def facts_ok_def)
  with True idle show ?thesis
    by (simp add: emit_start_def Let_def new_event_id_eq good_step_silent life_of_def)
next
  case False
  define eid where "eid = format_event_id (ob_channel_id ob) (ob_stream_epoch ob) (en_next_event_serial e + 1)"
  define e1 where "e1 = e\<lparr>en_active_event := zero_event\<lparr>ev_contract_version := ME_ANALYTICS_EVENT_CONTRACT_VERSION\<rparr>,
      en_next_event_serial := en_next_event_serial e + 1\<rparr>"
  define ev where "ev = start_event e1 eid ob s n"
  obtain ss where ss: "remember_rule_facts (e1\<lparr>en_active_event := ev\<rparr>) s =
      (True, e1\<lparr>en_active_event := ev, en_rule_fact_states := ss\<rparr>)"
    using mem [of "e1\<lparr>en_active_event := ev\<rparr>"] remember_rule_facts_frame [of "e1\<lparr>en_active_event := ev\<rparr>" s]
    by (cases "remember_rule_facts (e1\<lparr>en_active_event := ev\<rparr>) s") auto
  define e2 where "e2 = e1\<lparr>en_active_event := ev, en_rule_fact_states := ss, en_active := True,
      en_active_person_count := n, en_last_emit_timeline_us := tl_us now, en_last_emit_timeline_valid := tl_valid now\<rparr>"
  have r: "emit_start e ob s n now = (Inr 1, e2, emit_event e2 ev)"
    using False ss by (simp add: emit_start_def Let_def new_event_id_eq eid_def e1_def ev_def e2_def)
  have ob: "bounded_string (ob_channel_id ob) 64" "en_channel_id e = ob_channel_id ob" "en_stream_epoch e = ob_stream_epoch ob"
    using ok stream by (simp_all add: engine_ok_defs observation_ok_def)
  have rid: "ev_rule_id ev = cf_rule_id (en_config e)"
    unfolding ev_def using ok rule config_ok_rule [of "en_config e"]
    by (subst start_event_rule) (simp_all add: e1_def engine_ok_def bounded_string_def)
  have facts: "facts_ok e2"
    using mem [of "e1\<lparr>en_active_event := ev\<rparr>"] by (simp add: ss e2_def facts_ok_def)
  have "engine_ok e2"
    using ok stream on ob rid facts
    by (simp add: engine_ok_defs e2_def e1_def ev_def start_event_fields eid_def tracks_ok_def)
  moreover have "life_start (en_next_event_serial e) ev = Some (en_next_event_serial e + 1, Some ev)"
    using False ob by (simp add: life_start_def ev_def start_event_fields eid_def e1_def)
  ultimately show ?thesis
    using idle by (simp add: r good_step_def emit_event_def life_of_def e2_def e1_def)
qed

lemma update_event_good:
  assumes ok: "engine_ok e" and act: "en_active e" and stream: "en_have_stream e" "en_last_observation e = ob"
  shows "good_step e (maybe_emit_update e ob n now)"
proof (cases "increment_event_seq (en_active_event e)")
  case None
  with ok show ?thesis by (simp add: maybe_emit_update_def good_step_refl)
next
  case (Some ev)
  note inc = increment_event_seq_SomeD [OF Some]
  show ?thesis
    using ok act stream inc
    by (auto simp: maybe_emit_update_def Some Let_def good_step_refl)
      (simp add: good_step_def emit_event_def life_of_def life_continue_def same_event_def engine_ok_defs
        event_copy_observation_context_def event_copy_responsible_tracks_def tracks_ok_def facts_ok_def observation_ok_def)+
qed

text \<open>Silent changes: fields that neither the invariant nor the automaton reads.\<close>

lemma engine_ok_silent:
  assumes "engine_ok e" and "tracks_ok e'" and "facts_ok e'"
    and "length (en_pending_track_ids e') \<le> ME_ANALYTICS_EVENT_MAX_TRACKS"
    and "en_config e' = en_config e" and "en_config_version e' = en_config_version e"
    and "en_have_stream e' = en_have_stream e" and "en_order e' = en_order e"
    and "en_channel_id e' = en_channel_id e" and "en_stream_epoch e' = en_stream_epoch e"
    and "en_last_observation e' = en_last_observation e"
    and "en_have_last_observation e' = en_have_last_observation e"
    and "life_of e' = life_of e"
  shows "engine_ok e'"
  using assms unfolding engine_ok_defs life_of_def by (auto split: if_splits)

lemma update_trigger_candidate_frame:
  "\<exists>p f u v. update_trigger_candidate e c now =
     e\<lparr>en_trigger_pending := p, en_trigger_frames := f, en_trigger_since_us := u, en_trigger_since_valid := v\<rparr>"
proof -
  have "e = e\<lparr>en_trigger_pending := en_trigger_pending e, en_trigger_frames := en_trigger_frames e,
      en_trigger_since_us := en_trigger_since_us e, en_trigger_since_valid := en_trigger_since_valid e\<rparr>" by simp
  moreover have "e\<lparr>en_trigger_frames := n\<rparr> =
      e\<lparr>en_trigger_pending := en_trigger_pending e, en_trigger_frames := n,
      en_trigger_since_us := en_trigger_since_us e, en_trigger_since_valid := en_trigger_since_valid e\<rparr>" for n by simp
  ultimately show ?thesis
    unfolding update_trigger_candidate_def clear_trigger_candidate_def by (simp only: split: if_split) blast
qed

lemma length_add_pending:
  "length ps \<le> ME_ANALYTICS_EVENT_MAX_TRACKS \<Longrightarrow>
     length (fold add_pending_track ids ps) \<le> ME_ANALYTICS_EVENT_MAX_TRACKS"
  by (induction ids arbitrary: ps) (auto simp: add_pending_track_def)

lemma accepted_idle_good:
  assumes ok: "engine_ok e" and idle: "\<not> en_active e" and stream: "en_have_stream e" "en_last_observation e = ob"
    and on: "cf_enabled (en_config e)"
    and rule: "\<And>r. su_first s = Some r \<Longrightarrow> rf_rule_id r = cf_rule_id (en_config e)"
    and mem: "\<And>e0. fst (remember_rule_facts e0 s) \<and> facts_ok (snd (remember_rule_facts e0 s))"
  shows "good_step e (accepted_idle e ob s n c now)"
proof -
  obtain p f u v where tc: "update_trigger_candidate e c now =
      e\<lparr>en_trigger_pending := p, en_trigger_frames := f, en_trigger_since_us := u, en_trigger_since_valid := v\<rparr>" (is "_ = ?e1")
    using update_trigger_candidate_frame by blast
  have ok1: "engine_ok ?e1"
    using ok by (intro engine_ok_silent [OF ok]) (simp_all add: engine_ok_def tracks_ok_def facts_ok_def life_of_def)
  have same: "life_of ?e1 = life_of e" by (simp add: life_of_def)
  have g: "good_step e (emit_start ?e1 ob s n now)"
    using assms ok1 same by (intro good_step_from [OF emit_start_good]) simp_all
  obtain r e2 evs where es: "emit_start ?e1 ob s n now = (r, e2, evs)" by (cases "emit_start ?e1 ob s n now")
  have "good_step e (r, (clear_trigger_candidate e2)\<lparr>en_absent_since_valid := False\<rparr>, evs)" (is "good_step e (r, ?e3, evs)")
  proof -
    have ok2: "engine_ok e2" using g by (simp add: es good_step_def)
    then have "engine_ok ?e3"
      by (intro engine_ok_silent [OF ok2])
        (simp_all add: engine_ok_def tracks_ok_def facts_ok_def life_of_def clear_trigger_candidate_def)
    moreover have "life_of ?e3 = life_of e2" "en_sink ?e3 = en_sink e2"
      by (simp_all add: life_of_def clear_trigger_candidate_def)
    ultimately show ?thesis using g by (simp add: es good_step_def)
  qed
  with g show ?thesis
    using good_step_silent(1) [OF ok1 _ same]
    by (cases r) (simp_all add: accepted_idle_def Let_def tc es)
qed

lemma accepted_absent_good:
  assumes ok: "engine_ok e" and stream: "en_have_stream e" "en_last_observation e = ob"
  shows "good_step e (accepted_absent e ob n now)"
proof -
  define e1 where "e1 = (if \<not> en_absent_since_valid e
    then e\<lparr>en_absent_since_us := tl_us now, en_absent_since_valid := tl_valid now\<rparr> else e)"
  have ok1: "engine_ok e1"
    using ok by (intro engine_ok_silent [OF ok]) (simp_all add: engine_ok_def tracks_ok_def facts_ok_def life_of_def e1_def)
  have same: "life_of e1 = life_of e" "en_sink e1 = en_sink e" by (simp_all add: life_of_def e1_def)
  have "good_step e1 (emit_end e1 ob r n now True)" for r
    using ok stream ok1 by (intro emit_end_good) (simp_all add: e1_def engine_ok_defs observation_ok_def)
  then show ?thesis
    using good_step_from [OF _ same] good_step_silent [OF ok1 same(2,1)]
    by (auto simp: accepted_absent_def Let_def e1_def [symmetric])
qed

lemma accepted_present_good:
  assumes ok: "engine_ok e" and act: "en_active e" and stream: "en_have_stream e" "en_last_observation e = ob"
  shows "good_step e (accepted_present e ob s n now)"
proof -
  have step: "good_step e (maybe_emit_update e2 ob n now)"
    if "engine_ok e2" "life_of e2 = life_of e" "en_sink e2 = en_sink e" "en_have_stream e2" "en_last_observation e2 = ob"
    for e2
    using that act by (intro good_step_from [OF update_event_good]) (auto simp: life_of_def split: if_splits)
  have ok1: "engine_ok (e\<lparr>en_absent_since_valid := False\<rparr>)"
    using ok by (intro engine_ok_silent [OF ok]) (simp_all add: engine_ok_def tracks_ok_def facts_ok_def life_of_def)
  have "engine_ok (mark_update (e\<lparr>en_absent_since_valid := False\<rparr>) n di do ids r)" for di do ids r
    using ok1 by (intro engine_ok_silent [OF ok1])
      (simp_all add: engine_ok_def tracks_ok_def facts_ok_def life_of_def mark_update_def length_add_pending)
  then have marked: "good_step e (maybe_emit_update (mark_update (e\<lparr>en_absent_since_valid := False\<rparr>) n di do ids r) ob n now)"
    for di do ids r
    by (rule step) (simp_all add: mark_update_def life_of_def stream)
  have unmarked: "good_step e (maybe_emit_update (e\<lparr>en_absent_since_valid := False\<rparr>) ob n now)"
    using ok1 stream by (intro step) (simp_all add: life_of_def)
  show ?thesis
    unfolding accepted_present_def Let_def by (simp only: marked unmarked split: if_split) simp
qed

lemma remember_when_active:
  assumes "facts_ok e" and "fst (remember_rule_facts e s) \<and> facts_ok (snd (remember_rule_facts e s))"
  shows "\<exists>ss. (if c then remember_rule_facts e s else (True, e)) = (True, e\<lparr>en_rule_fact_states := ss\<rparr>) \<and>
           facts_ok (e\<lparr>en_rule_fact_states := ss\<rparr>)"
proof (cases c)
  case True
  obtain ss where "snd (remember_rule_facts e s) = e\<lparr>en_rule_fact_states := ss\<rparr>"
    using remember_rule_facts_frame by blast
  with True assms show ?thesis by (intro exI [of _ ss]) (auto simp: prod_eq_iff)
next
  case False
  with assms show ?thesis by (intro exI [of _ "en_rule_fact_states e"]) simp
qed

lemma process_accepted_good:
  assumes ok: "engine_ok e" and stream: "en_have_stream e" "en_last_observation e = ob"
  shows "good_step e (process_accepted e ob)"
proof (cases "cf_enabled (en_config e)")
  case False
  let ?e = "clear_pending (clear_tracks (e\<lparr>en_latest_person_count := 0, en_latest_person_count_valid := True\<rparr>))"
  have "tracks_ok ?e"
    by (simp add: tracks_ok_def record_frame tracks_ok_clear [unfolded tracks_ok_def])
  then have "engine_ok ?e"
    using ok by (intro engine_ok_silent [OF ok])
      (simp_all add: record_frame clear_tracks_def engine_ok_def facts_ok_def life_of_def)
  moreover have "life_of ?e = life_of e" by (simp add: record_frame clear_tracks_def life_of_def)
  ultimately show ?thesis using False
    by (simp add: process_accepted_def Let_def good_step_silent record_frame clear_tracks_def)
next
  case True
  let ?now = "observation_timeline e ob"
  have obs: "observation_ok ob" using ok stream by (simp add: engine_ok_defs)
  obtain n ts where ut: "update_tracks e ob ?now = (n, e\<lparr>en_tracks := ts\<rparr>)"
    using update_tracks_frame [of e ob ?now] by (cases "update_tracks e ob ?now") auto
  have ts: "tracks_ok (e\<lparr>en_tracks := ts\<rparr>)"
    using tracks_ok_update_tracks [of e ob ?now] ok by (simp add: ut engine_ok_def)
  define e1 where "e1 = e\<lparr>en_tracks := ts, en_latest_person_count := n, en_latest_person_count_valid := True\<rparr>"
  define s where "s = matching_rules e1 ob"
  have mem: "fst (remember_rule_facts e0 s) \<and> facts_ok (snd (remember_rule_facts e0 s))" for e0
    using remember_rule_facts_total [OF obs, of e0 e1] by (auto simp: s_def)
  have rule: "rf_rule_id r = cf_rule_id (en_config e)" if "su_first s = Some r" for r
    using matching_rules_first [of e1 ob r] that by (simp add: s_def e1_def rule_matches_def)
  have ok1: "engine_ok (e1\<lparr>en_rule_fact_states := ss\<rparr>)" if "facts_ok (e1\<lparr>en_rule_fact_states := ss\<rparr>)" for ss
    using that ts ok
    by (intro engine_ok_silent [OF ok]) (simp_all add: e1_def tracks_ok_def engine_ok_def life_of_def)
  have f1: "facts_ok e1" using ok by (simp add: e1_def engine_ok_def facts_ok_def)
  obtain ss where rem: "(if en_active e1 \<and> cf_rule_type (en_config e1) \<noteq> ME_RULE_TYPE_OCCUPANCY
      then remember_rule_facts e1 s else (True, e1)) = (True, e1\<lparr>en_rule_fact_states := ss\<rparr>)"
      "facts_ok (e1\<lparr>en_rule_fact_states := ss\<rparr>)"
    using remember_when_active [OF f1 mem] by blast
  define e2 where "e2 = e1\<lparr>en_rule_fact_states := ss\<rparr>"
  have e2: "engine_ok e2" "en_have_stream e2" "en_last_observation e2 = ob" "cf_enabled (en_config e2)"
      "en_config e2 = en_config e" "life_of e2 = life_of e" "en_sink e2 = en_sink e"
    using ok1 [OF rem(2)] stream True by (simp_all add: e2_def e1_def life_of_def)
  have step: "good_step e (if \<not> en_active e2 then accepted_idle e2 ob s n c ?now
      else if \<not> c then accepted_absent e2 ob n ?now else accepted_present e2 ob s n ?now)" for c
    using e2 mem rule
    by (intro good_step_from [OF _ e2(6,7)])
      (simp add: accepted_idle_good accepted_absent_good accepted_present_good)
  show ?thesis
    unfolding process_accepted_def Let_def
    by (simp only: True ut prod.case e1_def [symmetric] s_def [symmetric] rem(1) e2_def [symmetric]
        not_True_eq_False if_False step)
qed

text \<open>Ending the active event and clearing the runtime state.\<close>

lemma engine_ok_clear_runtime:
  assumes "engine_ok e"
  shows "engine_ok (clear_runtime e)" "life_of (clear_runtime e) = (en_next_event_serial e, None)"
    "en_sink (clear_runtime e) = en_sink e"
  using assms tracks_ok_clear facts_ok_clear
  by (auto intro!: engine_ok_idle [OF assms]
      simp: clear_runtime_def clear_rule_fact_states_def clear_tracks_def record_frame life_of_def
        tracks_ok_def facts_ok_def)

lemma end_active_good:
  assumes ok: "engine_ok e"
  shows "good_step e (end_active e reason)"
proof (cases "en_active e \<and> en_have_last_observation e")
  case True
  with ok have "en_have_stream e" by (auto simp: engine_ok_defs split: if_splits)
  with True ok show ?thesis
    by (auto simp: end_active_def engine_ok_defs observation_ok_def intro!: emit_end_good)
next
  case False
  with ok show ?thesis by (auto simp: end_active_def good_step_refl)
qed

lemma end_active_idle:
  assumes "engine_ok e" and "end_active e reason = (Inr n, e', evs)"
  shows "\<not> en_active e'"
  using assms
  by (auto simp: end_active_def emit_end_def engine_ok_defs Let_def clear_rule_fact_states_def record_frame
      split: if_splits option.splits)

text \<open>Ending, then clearing, is one good step to an idle engine of the same stream.\<close>

lemma end_and_clear_good:
  assumes ok: "engine_ok e" and r: "end_active e reason = (Inr n, e', evs)"
  shows "good_step e (Inr n, clear_runtime e', evs)"
proof -
  have g: "good_step e (Inr n, e', evs)" using end_active_good [OF ok, of reason] r by simp
  then have ok': "engine_ok e'" by (simp add: good_step_def)
  have "life_of e' = (en_next_event_serial e', None)"
    using end_active_idle [OF ok r] by (simp add: life_of_def)
  with g engine_ok_clear_runtime [OF ok'] show ?thesis by (simp add: good_step_def)
qed

lemma switch_channel_good:
  assumes ok: "engine_ok e"
  shows "good_step e (switch_channel e ob)"
    "switch_channel e ob = (Inr n, e', evs) \<Longrightarrow> en_have_stream e' \<Longrightarrow> en_channel_id e' = ob_channel_id ob"
proof -
  obtain r e1 evs1 where ea: "end_active e ME_EVENT_REASON_STREAM_RESET = (r, e1, evs1)"
    by (cases "end_active e ME_EVENT_REASON_STREAM_RESET")
  have "good_step e (Inr m, (clear_runtime e1)\<lparr>en_have_stream := False, en_order := me_observation_order_init\<rparr>, evs1)"
    if "r = Inr m" for m
  proof -
    let ?c = "clear_runtime e1"
    have g: "good_step e (Inr m, ?c, evs1)" using end_and_clear_good [OF ok] ea that by simp
    then have "engine_ok ?c" by (simp add: good_step_def)
    moreover have "\<not> en_active ?c"
      by (simp add: clear_runtime_def clear_rule_fact_states_def clear_tracks_def record_frame)
    ultimately have "engine_ok (?c\<lparr>en_have_stream := False, en_order := me_observation_order_init\<rparr>)"
      by (simp add: engine_ok_defs tracks_ok_def facts_ok_def)
    moreover have "life_of (?c\<lparr>en_have_stream := False, en_order := me_observation_order_init\<rparr>) = life_of ?c"
      by (simp add: life_of_def)
    ultimately show ?thesis using g by (simp add: good_step_def)
  qed
  with ok end_active_good [OF ok, of ME_EVENT_REASON_STREAM_RESET] ea show "good_step e (switch_channel e ob)"
    by (cases r) (simp_all add: switch_channel_def good_step_refl)
next
  show "switch_channel e ob = (Inr n, e', evs) \<Longrightarrow> en_have_stream e' \<Longrightarrow> en_channel_id e' = ob_channel_id ob"
    by (auto simp: switch_channel_def split: if_splits sum.splits prod.splits)
qed

lemma advance_epoch_good:
  assumes ok: "engine_ok e"
  shows "good_step e (advance_epoch e r)"
proof -
  obtain q e1 evs where ea: "end_active e ME_EVENT_REASON_STREAM_RESET = (q, e1, evs)"
    by (cases "end_active e ME_EVENT_REASON_STREAM_RESET")
  with ok end_active_good [OF ok, of ME_EVENT_REASON_STREAM_RESET] end_and_clear_good [OF ok, of ME_EVENT_REASON_STREAM_RESET]
  show ?thesis by (cases q) (auto simp: advance_epoch_def good_step_refl)
qed

lemma advance_epoch_Inr:
  assumes "engine_ok e" and "advance_epoch e r = (Inr n, e', evs)"
  shows "if r = ME_OBSERVATION_ORDER_EPOCH_ADVANCE then \<not> en_active e' else e' = e"
  using assms
  by (auto simp: advance_epoch_def clear_runtime_def clear_rule_fact_states_def clear_tracks_def record_frame
      split: if_splits sum.splits prod.splits)

lemma engine_ok_accept:
  assumes ok: "engine_ok e" and obs: "observation_ok ob"
    and act: "en_active e \<Longrightarrow> en_channel_id e = ob_channel_id ob \<and> en_stream_epoch e = ob_stream_epoch ob \<and>
               ob_frame_id (en_last_observation e) \<le> ob_frame_id ob"
  shows "engine_ok (accept_observation e (order_of ob) ob)"
    "life_of (accept_observation e (order_of ob) ob) = life_of e"
proof -
  have "bounded_string (ob_channel_id ob) 64" using obs by (simp add: observation_ok_def)
  then show "engine_ok (accept_observation e (order_of ob) ob)"
    using ok obs act
    by (auto simp: engine_ok_defs accept_observation_def tracks_ok_def facts_ok_def split: if_splits)
  show "life_of (accept_observation e (order_of ob) ob) = life_of e"
    by (simp add: accept_observation_def life_of_def)
qed

text \<open>What the ordering filter says about the active event.\<close>

lemma classify_active:
  assumes ok: "engine_ok e" and obs: "observation_ok ob"
    and cl: "me_observation_order_classify (en_order e) (Some ob) = (r, order')"
  shows "r \<noteq> ME_OBSERVATION_ORDER_INVALID"
    "order_advances r \<Longrightarrow> order' = order_of ob"
    "en_active e \<Longrightarrow> order_advances r \<Longrightarrow> r \<noteq> ME_OBSERVATION_ORDER_EPOCH_ADVANCE \<Longrightarrow>
       en_have_stream e \<and> en_stream_epoch e = ob_stream_epoch ob \<and>
       ob_frame_id (en_last_observation e) \<le> ob_frame_id ob"
proof -
  note c = cl [unfolded classify_cases [OF obs]]
  show "r \<noteq> ME_OBSERVATION_ORDER_INVALID" using c by (auto split: if_splits)
  show "order_advances r \<Longrightarrow> order' = order_of ob"
    using c by (auto simp: order_advances_def order_commit_eq split: if_splits)
  assume "en_active e" "order_advances r" "r \<noteq> ME_OBSERVATION_ORDER_EPOCH_ADVANCE"
  with ok c show "en_have_stream e \<and> en_stream_epoch e = ob_stream_epoch ob \<and>
       ob_frame_id (en_last_observation e) \<le> ob_frame_id ob"
    by (auto simp: engine_ok_defs order_advances_def order_of_def order_commit_def split: if_splits)
qed

text \<open>The processing of a valid observation, phase by phase.\<close>

lemma process_phases:
  assumes ok: "engine_ok e" and obs: "observation_ok ob" and sw: "switch_channel e ob = (r1, e1, evs1)"
    and cl: "me_observation_order_classify (en_order e1) (Some ob) = (r, order')"
    and ad: "advance_epoch e1 r = (r2, e2, evs2)"
    and pa: "process_accepted (accept_observation e2 order' ob) ob = (r3, e3, evs3)"
  shows "me_event_engine_process e (Some ob) =
    (case r1 of Inl err \<Rightarrow> (Inl err, e1, evs1)
     | Inr m \<Rightarrow>
         if \<not> order_advances r then (Inr m, e1, evs1)
         else (case r2 of Inl err \<Rightarrow> (Inl err, e2, evs1 @ evs2)
               | Inr n \<Rightarrow> (map_sum id (\<lambda>k. m + n + k) r3, e3, evs1 @ evs2 @ evs3)))"
proof -
  have v: "me_observation_validate (Some ob) = Inr ()" using obs by (simp add: validate_Inr_iff)
  have "engine_ok e1" using switch_channel_good(1) [OF ok, of ob] by (simp add: sw good_step_def)
  from classify_active(1) [OF this obs cl]
  have adv: "order_advances r \<longleftrightarrow>
      \<not> (r = ME_OBSERVATION_ORDER_DUPLICATE \<or> r = ME_OBSERVATION_ORDER_OUT_OF_ORDER)"
      "r \<noteq> ME_OBSERVATION_ORDER_INVALID"
    by (cases r; simp add: order_advances_def)+
  show ?thesis
    by (cases r1; cases r2; cases r3) (simp_all add: me_event_engine_process_def v sw cl ad pa adv)
qed

lemma process_good:
  assumes ok: "engine_ok e"
  shows "good_step e (me_event_engine_process e obo)"
proof (cases "\<exists>ob. obo = Some ob \<and> observation_ok ob")
  case False
  with ok show ?thesis
    by (auto simp: me_event_engine_process_def validate_Inr_iff [symmetric] good_step_refl
        split: option.split sum.split)
next
  case True
  then obtain ob where ob: "obo = Some ob" and obs: "observation_ok ob" by blast
  obtain r1 e1 evs1 where sw: "switch_channel e ob = (r1, e1, evs1)" by (cases "switch_channel e ob")
  have g1: "good_step e (r1, e1, evs1)" and ok1: "engine_ok e1"
    using switch_channel_good(1) [OF ok, of ob] by (simp_all add: sw good_step_def)
  obtain r order' where cl: "me_observation_order_classify (en_order e1) (Some ob) = (r, order')"
    by (cases "me_observation_order_classify (en_order e1) (Some ob)")
  obtain r2 e2 evs2 where ad: "advance_epoch e1 r = (r2, e2, evs2)" by (cases "advance_epoch e1 r")
  have g2: "good_step e1 (r2, e2, evs2)" and ok2: "engine_ok e2"
    using advance_epoch_good [OF ok1, of r] by (simp_all add: ad good_step_def)
  obtain r3 e3 evs3 where pa: "process_accepted (accept_observation e2 order' ob) ob = (r3, e3, evs3)"
    by (cases "process_accepted (accept_observation e2 order' ob) ob")
  have g3: "good_step e2 (r3, e3, evs3)"
    if "r1 = Inr m" "r2 = Inr n" "order_advances r" for m n
  proof -
    note ca = classify_active [OF ok1 obs cl]
    have "en_channel_id e2 = ob_channel_id ob \<and> en_stream_epoch e2 = ob_stream_epoch ob \<and>
        ob_frame_id (en_last_observation e2) \<le> ob_frame_id ob" if act: "en_active e2"
      using advance_epoch_Inr [OF ok1, of r n e2 evs2] ad \<open>r2 = Inr n\<close> act ca(3)
        switch_channel_good(2) [OF ok, of ob m e1 evs1] sw \<open>r1 = Inr m\<close> \<open>order_advances r\<close>
      by (auto split: if_splits)
    note acc = engine_ok_accept [OF ok2 obs this]
    have "good_step (accept_observation e2 (order_of ob) ob) (process_accepted (accept_observation e2 (order_of ob) ob) ob)"
      using acc by (intro process_accepted_good) (simp_all add: accept_observation_def)
    from good_step_from [OF this acc(2)] show ?thesis
      using pa ca(2) [OF \<open>order_advances r\<close>] by (simp add: accept_observation_def)
  qed
  have first: "good_step e (Inr m, e1, evs1)" if "r1 = Inr m" for m using g1 that by simp
  have second: "good_step e (map_sum id ((+) m) r2, e2, evs1 @ evs2)" if "r1 = Inr m" for m
    using good_step_trans [OF first [OF that] g2] by simp
  have third: "good_step e (map_sum id (\<lambda>k. m + n + k) r3, e3, evs1 @ evs2 @ evs3)"
    if "r1 = Inr m" "r2 = Inr n" "order_advances r" for m n
  proof -
    have "good_step e (Inr (m + n), e2, evs1 @ evs2)" using second [OF that(1)] that(2) by simp
    from good_step_trans [OF this g3 [OF that]] show ?thesis by simp
  qed
  show ?thesis
    unfolding ob process_phases [OF ok obs sw cl ad pa]
    by (cases r1; cases r2; cases "order_advances r") (use g1 second third in simp_all)
qed

lemma close_good:
  assumes ok: "engine_ok e"
  shows "good_step e (me_event_engine_close e reason)"
proof -
  obtain r e1 evs where ea: "end_active e reason = (r, e1, evs)" by (cases "end_active e reason")
  with ok end_active_good [OF ok, of reason] end_and_clear_good [OF ok, of reason]
  show ?thesis by (cases r) (auto simp: me_event_engine_close_def good_step_refl)
qed

lemma next_config_version_Inr:
  assumes "next_config_version e v = Inr w"
  shows "en_config_version e < w"
proof (cases "v = 0")
  case True
  with assms have "en_config_version e \<noteq> UINT64_MAX" "w = en_config_version e + 1"
    by (auto simp: next_config_version_def split: if_splits)
  then show ?thesis by (simp add: word_less_plus_one)
next
  case False
  with assms show ?thesis by (auto simp: next_config_version_def split: if_splits)
qed

lemma reconfigure_good:
  assumes ok: "engine_ok e"
  shows "good_step e (me_event_engine_reconfigure e co v)"
proof (cases "\<exists>c w. co = Some c \<and> config_ok c \<and> next_config_version e v = Inr w")
  case False
  with ok show ?thesis
    by (auto simp: me_event_engine_reconfigure_def config_ok_def good_step_refl split: option.split sum.split)
next
  case True
  then obtain c w where co: "co = Some c" and c: "config_ok c" and w: "next_config_version e v = Inr w" by blast
  let ?reason = "if cf_enabled c then ME_EVENT_REASON_RECONFIGURED else ME_EVENT_REASON_ANALYTICS_DISABLED"
  obtain r e1 evs where ea: "end_active e ?reason = (r, e1, evs)" by (cases "end_active e ?reason")
  have "w \<noteq> 0" using next_config_version_Inr [OF w] by auto
  then have "good_step e (Inr m, (clear_runtime e1)\<lparr>en_config := c, en_config_version := w\<rparr>, evs)" if "r = Inr m" for m
  proof -
    let ?c = "clear_runtime e1"
    have g: "good_step e (Inr m, ?c, evs)" using end_and_clear_good [OF ok] ea that by simp
    then have "engine_ok ?c" by (simp add: good_step_def)
    moreover have "\<not> en_active ?c"
      by (simp add: clear_runtime_def clear_rule_fact_states_def clear_tracks_def record_frame)
    ultimately have "engine_ok (?c\<lparr>en_config := c, en_config_version := w\<rparr>)"
      using c \<open>w \<noteq> 0\<close> by (simp add: engine_ok_defs tracks_ok_def facts_ok_def)
    moreover have "life_of (?c\<lparr>en_config := c, en_config_version := w\<rparr>) = life_of ?c" by (simp add: life_of_def)
    ultimately show ?thesis using g by (simp add: good_step_def)
  qed
  with end_active_good [OF ok, of ?reason] ea c show ?thesis
    by (cases r) (simp_all add: me_event_engine_reconfigure_def co config_ok_def w)
qed

lemma init_ok:
  assumes "me_event_engine_init co v sink = Inr e"
  shows "engine_ok e" "life_of e = (0, None)" "en_sink e = sink"
proof -
  from assms obtain c where c: "config_ok c" and e: "e = zero_engine\<lparr>en_config := c,
      en_config_version := (if v \<noteq> 0 then v else 1), en_sink := sink, en_order := me_observation_order_init\<rparr>"
    by (auto simp: me_event_engine_init_def config_ok_def split: option.splits sum.splits)
  show "engine_ok e"
    using c tracks_ok_clear [of zero_engine] facts_ok_clear [of zero_engine]
    by (simp add: e engine_ok_defs zero_engine_def tracks_ok_def facts_ok_def clear_tracks_def clear_rule_fact_states_def)
  show "life_of e = (0, None)" "en_sink e = sink" by (simp_all add: e life_of_def zero_engine_def)
qed

end
