(* ===== verification/Event_Demo.thy ===== *)
theory Event_Demo
  imports Event_Lifecycle
begin

text \<open>
  A concrete run that the examples of the later theories use: an enabled occupancy rule that
  confirms after one frame, and an observation with one person in it. The engine reacts with a
  START record. The values are computed from the definitions by simplification.
\<close>

definition demo_config :: MeAnalyticsConfig where
  "demo_config =
     me_analytics_config_defaults\<lparr>cf_enabled := True, cf_width := 640, cf_height := 360, cf_fps := 5,
       cf_model := ''pfp'', cf_confirm_frames := 1, cf_debounce_ms := 0,
       cf_disappear_grace_ms := 0\<rparr>"

definition demo_track :: MeTrackObservation where
  "demo_track =
     \<lparr>to_track_id = 42, to_class_id = ME_TRACK_CLASS_PERSON, to_state = ME_TRACK_STATE_NEW,
      to_bbox = \<lparr>bb_left = 1000, bb_top = 1000, bb_right = 2000, bb_bottom = 3000\<rparr>, to_score_q = 9000\<rparr>"

definition demo_observation :: MeNormalizedObservation where
  "demo_observation =
     sample_observation\<lparr>ob_track_count := 1, ob_tracks := demo_track # replicate 63 zero_track\<rparr>"

definition demo_engine :: MeEventEngine where
  "demo_engine = zero_engine\<lparr>en_config := demo_config, en_config_version := 1, en_sink := True\<rparr>"

definition demo_now :: MeTimeline where
  "demo_now = \<lparr>tl_us = 1200000, tl_valid = True\<rparr>"

lemma demo_observation_fields:
  "ob_channel_id demo_observation = ''camera-0''" "ob_stream_epoch demo_observation = 1"
  "ob_frame_id demo_observation = 7"
  by (simp_all add: demo_observation_def sample_observation_def)

lemma demo_live: "live_tracks demo_observation = [demo_track]" "live_rules demo_observation = []"
  by (simp_all add: live_tracks_def live_rules_def demo_observation_def sample_observation_def
      me_observation_init_def zero_observation_def)

lemma demo_observation_ok: "observation_ok demo_observation"
  using sample_observation_ok
  by (simp add: observation_ok_def demo_live)
    (simp add: demo_observation_def demo_track_def track_ok_def valid_track_state_def live_rules_def)

lemma demo_config_ok: "config_ok demo_config"
  by (simp add: config_ok_def me_analytics_config_validate_def demo_config_def me_analytics_config_defaults_def
      bounded_string_def valid_rule_type_def me_analytics_evidence_mode_valid_def strcaseeq_def to_lower_def
      ME_ANALYTICS_COORD_SCALE_def)

lemma demo_config_fields:
  "cf_enabled demo_config" "cf_rule_type demo_config = ME_RULE_TYPE_OCCUPANCY"
  "cf_confirm_frames demo_config = 1" "cf_debounce_ms demo_config = 0"
  "cf_score_threshold_q demo_config = 0" "cf_fps demo_config = 5" "\<not> cf_roi_enabled demo_config"
  "cf_rule_id demo_config = ''people-flow''" "cf_update_interval_ms demo_config = 5000"
  "cf_disappear_grace_ms demo_config = 0" "cf_cooldown_ms demo_config = 5000"
  by (simp_all add: demo_config_def me_analytics_config_defaults_def)

lemma demo_init: "me_event_engine_init (Some demo_config) 0 True = Inr demo_engine"
  using demo_config_ok by (simp add: me_event_engine_init_def config_ok_def demo_engine_def zero_engine_def)

lemma demo_timeline: "en_config e = demo_config \<Longrightarrow> observation_timeline e demo_observation = demo_now"
  by (simp add: demo_now_def observation_timeline_def pts_to_us_def demo_observation_def sample_observation_def
      me_observation_init_def zero_observation_def demo_config_fields scale_to_us_def INT64_MAX_def)

definition demo_slot :: MeEventTrackState where
  "demo_slot = see_track demo_engine demo_observation demo_now demo_track (fresh_track 42)"

lemma demo_slot_fields:
  "ts_in_use demo_slot" "ts_present demo_slot" "ts_confirmed demo_slot" "ts_inside demo_slot"
  "ts_track_id demo_slot = 42" "ts_inside_initialized demo_slot"
  by (simp_all add: demo_slot_def see_track_def fresh_track_def zero_track_state_def demo_now_def
      update_track_inside_def track_inside_def demo_engine_def demo_config_fields clear_inside_candidate_def
      track_confirmed_def demo_observation_fields Let_def word_gt_0)

lemma demo_update_one:
  assumes "en_config e = demo_config" and "en_tracks e = replicate 64 zero_track_state"
  shows "update_one_track demo_observation demo_now demo_track e =
           e\<lparr>en_tracks := demo_slot # replicate 63 zero_track_state\<rparr>"
proof -
  have r64: "replicate 64 x = x # replicate 63 x" for x :: MeEventTrackState by (simp add: numeral_eq_Suc)
  have track: "to_class_id demo_track = ME_TRACK_CLASS_PERSON" "to_state demo_track = ME_TRACK_STATE_NEW"
      "to_track_id demo_track = 42" "\<not> ts_in_use zero_track_state"
    by (simp_all add: demo_track_def zero_track_state_def)
  have see: "see_track e' demo_observation demo_now demo_track t = see_track demo_engine demo_observation demo_now demo_track t"
    if "en_config e' = demo_config" for e' t
    using that by (intro see_track_config) (simp add: demo_engine_def)
  show ?thesis
    using assms
    by (simp add: update_one_track_def find_track_def find_track_slot_def allocate_track_def allocate_track_slot_def
        first_index_replicate see demo_slot_def track demo_config_fields) (simp add: r64)
qed

lemma demo_update_tracks:
  assumes "en_config e = demo_config" and "en_tracks e = replicate 64 zero_track_state"
  shows "update_tracks e demo_observation demo_now =
           (1, e\<lparr>en_tracks := demo_slot # replicate 63 zero_track_state\<rparr>)"
proof -
  have zp: "zero_track_state\<lparr>ts_present := False\<rparr> = zero_track_state" by (simp add: zero_track_state_def)
  have one: "update_one_track demo_observation demo_now demo_track (e\<lparr>en_tracks := replicate 64 zero_track_state\<rparr>) =
      e\<lparr>en_tracks := demo_slot # replicate 63 zero_track_state\<rparr>"
    using demo_update_one [of "e\<lparr>en_tracks := replicate 64 zero_track_state\<rparr>"] assms by simp
  show ?thesis
    unfolding update_tracks_def Let_def demo_live assms(2) map_replicate zp
    by (simp add: one) (simp add: expire_track_def demo_slot_fields zero_track_state_def counted_track_def)
qed

definition demo_accepted :: MeEventEngine where
  "demo_accepted = accept_observation demo_engine (order_of demo_observation) demo_observation"

lemma demo_accepted_fields:
  "en_config demo_accepted = demo_config" "en_tracks demo_accepted = replicate 64 zero_track_state"
  "\<not> en_active demo_accepted" "\<not> en_trigger_pending demo_accepted" "\<not> en_cooldown_until_valid demo_accepted"
  "en_next_event_serial demo_accepted = 0" "en_sink demo_accepted"
  by (simp_all add: demo_accepted_def accept_observation_def demo_engine_def zero_engine_def)

definition demo_started :: MeEventEngine where
  "demo_started = fst (snd (me_event_engine_process demo_engine (Some demo_observation)))"

lemma demo_process_accepted:
  "\<exists>e'. process_accepted demo_accepted demo_observation = (Inr 1, e', [en_active_event e']) \<and> en_active e' \<and>
      ev_phase (en_active_event e') = ME_EVENT_PHASE_START \<and> ev_event_seq (en_active_event e') = 1 \<and>
      ev_person_count (en_active_event e') = 1 \<and> ev_event_id (en_active_event e') = format_event_id ''camera-0'' 1 1 \<and>
      en_last_observation e' = demo_observation \<and> en_have_stream e' \<and> en_config e' = demo_config \<and>
      en_tracks e' = demo_slot # replicate 63 zero_track_state \<and> en_last_emit_timeline_us e' = 1200000 \<and>
      en_last_emit_timeline_valid e' \<and> en_active_person_count e' = 1 \<and> en_sink e'"
  by (simp add: process_accepted_def Let_def demo_timeline demo_accepted_fields demo_update_tracks
      demo_config_fields matching_rules_def accepted_idle_def update_trigger_candidate_def
      trigger_qualified_def cooldown_elapsed_def ms_to_us_def emit_start_def new_event_id_eq
      remember_rule_facts_def zero_summary_def emit_event_def clear_rule_fact_states_def
      clear_trigger_candidate_def start_event_fields demo_observation_fields)
    (simp add: demo_accepted_def accept_observation_def demo_engine_def demo_now_def)

lemma demo_process_all:
  "me_event_engine_process demo_engine (Some demo_observation) = (Inr 1, demo_started, [en_active_event demo_started]) \<and>
   en_active demo_started \<and> ev_phase (en_active_event demo_started) = ME_EVENT_PHASE_START \<and>
   ev_event_seq (en_active_event demo_started) = 1 \<and>
   ev_person_count (en_active_event demo_started) = 1 \<and>
   ev_event_id (en_active_event demo_started) = format_event_id ''camera-0'' 1 1 \<and>
   en_last_observation demo_started = demo_observation \<and> en_have_stream demo_started \<and>
   en_config demo_started = demo_config \<and>
   en_tracks demo_started = demo_slot # replicate 63 zero_track_state \<and>
   en_last_emit_timeline_us demo_started = 1200000 \<and> en_last_emit_timeline_valid demo_started \<and>
   en_active_person_count demo_started = 1 \<and> en_sink demo_started"
proof -
  have sw: "switch_channel demo_engine demo_observation = (Inr 0, demo_engine, [])"
    by (simp add: switch_channel_def demo_engine_def zero_engine_def)
  have cl: "me_observation_order_classify (en_order demo_engine) (Some demo_observation) =
      (ME_OBSERVATION_ORDER_FIRST, order_of demo_observation)"
    by (simp add: classify_cases [OF demo_observation_ok] order_commit_eq)
      (simp add: demo_engine_def zero_engine_def me_observation_order_init_def)
  have ad: "advance_epoch demo_engine ME_OBSERVATION_ORDER_FIRST = (Inr 0, demo_engine, [])"
    by (simp add: advance_epoch_def)
  from demo_process_accepted obtain e' where
    e': "process_accepted demo_accepted demo_observation = (Inr 1, e', [en_active_event e'])" "en_active e'"
      "ev_phase (en_active_event e') = ME_EVENT_PHASE_START" "ev_event_seq (en_active_event e') = 1"
      "ev_person_count (en_active_event e') = 1" "ev_event_id (en_active_event e') = format_event_id ''camera-0'' 1 1"
      "en_last_observation e' = demo_observation" "en_have_stream e'" "en_config e' = demo_config"
      "en_tracks e' = demo_slot # replicate 63 zero_track_state" "en_last_emit_timeline_us e' = 1200000"
      "en_last_emit_timeline_valid e'" "en_active_person_count e' = 1" "en_sink e'"
    by blast
  have "me_event_engine_process demo_engine (Some demo_observation) = (Inr 1, e', [en_active_event e'])"
    by (simp add: process_phases [OF init_ok(1) [OF demo_init] demo_observation_ok sw cl ad e'(1) [unfolded demo_accepted_def]]
        order_advances_def)
  with e' show ?thesis by (simp add: demo_started_def)
qed

lemma demo_process:
  "me_event_engine_process demo_engine (Some demo_observation) = (Inr 1, demo_started, [en_active_event demo_started])"
  "en_active demo_started" "ev_phase (en_active_event demo_started) = ME_EVENT_PHASE_START"
  "ev_event_seq (en_active_event demo_started) = 1" "ev_person_count (en_active_event demo_started) = 1"
  "ev_event_id (en_active_event demo_started) = format_event_id ''camera-0'' 1 1"
  using demo_process_all by blast+

lemma demo_last:
  "en_last_observation demo_started = demo_observation" "en_have_stream demo_started"
  "en_config demo_started = demo_config" "en_tracks demo_started = demo_slot # replicate 63 zero_track_state"
  "en_last_emit_timeline_us demo_started = 1200000" "en_last_emit_timeline_valid demo_started"
  "en_active_person_count demo_started = 1" "en_sink demo_started"
  using demo_process_all by blast+

subsection \<open>Two later observations\<close>

text \<open>Frame 40 shows a second person; frame 8 shows nobody.\<close>

definition demo_second :: MeTrackObservation where
  "demo_second = demo_track\<lparr>to_track_id := 43\<rparr>"

definition demo_two :: MeNormalizedObservation where
  "demo_two = demo_observation\<lparr>ob_frame_id := 40, ob_track_count := 2,
     ob_tracks := demo_track # demo_second # replicate 62 zero_track\<rparr>"

definition demo_empty :: MeNormalizedObservation where
  "demo_empty = demo_observation\<lparr>ob_frame_id := 8, ob_track_count := 0\<rparr>"

lemma demo_later_live:
  "live_tracks demo_two = [demo_track, demo_second]" "live_rules demo_two = []"
  "live_tracks demo_empty = []" "live_rules demo_empty = []"
  by (simp_all add: live_tracks_def live_rules_def demo_two_def demo_empty_def demo_observation_def
      sample_observation_def me_observation_init_def zero_observation_def)

lemma demo_later_fields:
  "ob_channel_id demo_two = ''camera-0''" "ob_stream_epoch demo_two = 1" "ob_frame_id demo_two = 40"
  "ob_channel_id demo_empty = ''camera-0''" "ob_stream_epoch demo_empty = 1" "ob_frame_id demo_empty = 8"
  "\<not> ob_source_pts_valid demo_two" "\<not> ob_source_pts_valid demo_empty" "ob_capture_time_us demo_two = 0"
  by (simp_all add: demo_two_def demo_empty_def demo_observation_def sample_observation_def
      me_observation_init_def zero_observation_def)

lemma demo_two_ok: "observation_ok demo_two"
  using sample_observation_ok
  by (simp add: observation_ok_def demo_later_live)
    (simp add: demo_two_def demo_observation_def demo_track_def demo_second_def track_ok_def
      valid_track_state_def live_rules_def)

lemma demo_empty_ok: "observation_ok demo_empty"
  using demo_observation_ok
  by (simp add: observation_ok_def demo_later_live demo_live) (simp add: demo_empty_def)

lemma demo_later_timeline:
  "en_config e = demo_config \<Longrightarrow> observation_timeline e demo_two = \<lparr>tl_us = 7800000, tl_valid = True\<rparr>"
  "en_config e = demo_config \<Longrightarrow> observation_timeline e demo_empty = \<lparr>tl_us = 1400000, tl_valid = True\<rparr>"
  by (simp_all add: observation_timeline_def pts_to_us_def demo_two_def demo_empty_def demo_observation_def
      sample_observation_def me_observation_init_def zero_observation_def demo_config_fields scale_to_us_def INT64_MAX_def)

lemma see_track_inside:
  "ts_inside (see_track e ob now t x) = ts_inside (update_track_inside e (x\<lparr>ts_present := True\<rparr>) (track_inside e (to_bbox t)) now)"
  "ts_inside_initialized (see_track e ob now t x) =
     ts_inside_initialized (update_track_inside e (x\<lparr>ts_present := True\<rparr>) (track_inside e (to_bbox t)) now)"
  by (simp_all add: see_track_def Let_def)

lemma demo_see_inside:
  assumes "en_config e = demo_config" and "ts_inside x \<or> \<not> ts_inside_initialized x"
  shows "ts_inside (see_track e ob now t x)" "ts_inside_initialized (see_track e ob now t x)"
  using assms
  by (auto simp: see_track_inside track_inside_def demo_config_fields update_track_inside_def clear_inside_candidate_def Let_def)

lemma demo_see_confirmed:
  assumes "en_config e = demo_config" and "ts_confirmed x \<or> ts_seen_frames x = 0"
  shows "ts_confirmed (see_track e ob now t x)"
  using assms by (cases "ts_confirmed x") (auto simp: see_track_def Let_def track_confirmed_def demo_config_fields word_gt_0)

lemma demo_update_head:
  assumes "en_config e = demo_config" and "en_tracks e = x # ys" and "ts_in_use x" and "ts_track_id x = 42"
  shows "update_one_track ob now demo_track e = e\<lparr>en_tracks := see_track e ob now demo_track x # ys\<rparr>"
proof -
  have track: "to_class_id demo_track = ME_TRACK_CLASS_PERSON" "to_state demo_track = ME_TRACK_STATE_NEW"
      "to_track_id demo_track = 42"
    by (simp_all add: demo_track_def)
  with assms show ?thesis
    by (simp add: update_one_track_def find_track_def find_track_slot_def demo_config_fields)
qed

lemma demo_update_next:
  assumes "en_config e = demo_config" and "en_tracks e = x # replicate 63 zero_track_state" and "ts_in_use x"
    and "ts_track_id x = 42"
  shows "update_one_track ob now demo_second e =
           e\<lparr>en_tracks := x # see_track e ob now demo_second (fresh_track 43) # replicate 62 zero_track_state\<rparr>"
proof -
  have r63: "replicate 63 z = z # replicate 62 z" for z :: MeEventTrackState by (simp add: numeral_eq_Suc)
  have track: "to_class_id demo_second = ME_TRACK_CLASS_PERSON" "to_state demo_second = ME_TRACK_STATE_NEW"
      "to_track_id demo_second = 43" "\<not> ts_in_use zero_track_state"
    by (simp_all add: demo_track_def demo_second_def zero_track_state_def)
  have see: "see_track (e\<lparr>en_tracks := ts\<rparr>) ob now i t = see_track e ob now i t" for ts i t
    by (rule see_track_config) simp
  show ?thesis
    using assms
    by (simp add: update_one_track_def find_track_def find_track_slot_def allocate_track_def allocate_track_slot_def
        first_index_replicate track demo_config_fields see) (simp add: r63 see)
qed

lemma demo_count_two:
  assumes "en_config e = demo_config" and "en_tracks e = demo_slot # replicate 63 zero_track_state"
  shows "fst (update_tracks e demo_two now) = 2"
proof -
  have zp: "zero_track_state\<lparr>ts_present := False\<rparr> = zero_track_state" by (simp add: zero_track_state_def)
  let ?h = "demo_slot\<lparr>ts_present := False\<rparr>"
  let ?a = "see_track e demo_two now demo_track ?h" and ?b = "see_track e demo_two now demo_second (fresh_track 43)"
  have see: "see_track (e\<lparr>en_tracks := ts\<rparr>) ob now i t = see_track e ob now i t" for ts ob i t
    by (rule see_track_config) simp
  have one: "update_one_track demo_two now demo_track (e\<lparr>en_tracks := ?h # replicate 63 zero_track_state\<rparr>) =
      e\<lparr>en_tracks := ?a # replicate 63 zero_track_state\<rparr>"
    using demo_update_head [of "e\<lparr>en_tracks := ?h # replicate 63 zero_track_state\<rparr>"] assms
    by (simp add: demo_slot_fields see)
  have two: "update_one_track demo_two now demo_second (e\<lparr>en_tracks := ?a # replicate 63 zero_track_state\<rparr>) =
      e\<lparr>en_tracks := ?a # ?b # replicate 62 zero_track_state\<rparr>"
    using demo_update_next [of "e\<lparr>en_tracks := ?a # replicate 63 zero_track_state\<rparr>"] assms
    by (simp add: demo_slot_fields see)
  have fields: "ts_in_use ?a" "ts_present ?a" "ts_confirmed ?a" "ts_inside ?a" "ts_in_use ?b" "ts_present ?b"
      "ts_confirmed ?b" "ts_inside ?b"
    using demo_see_inside [OF assms(1), of ?h] demo_see_inside [OF assms(1), of "fresh_track 43"]
      demo_see_confirmed [OF assms(1), of ?h] demo_see_confirmed [OF assms(1), of "fresh_track 43"]
    by (simp_all add: demo_slot_fields fresh_track_def zero_track_state_def)
  show ?thesis
    unfolding update_tracks_def Let_def demo_later_live assms(2) list.map map_replicate zp
    by (simp add: one two expire_track_cases) (simp add: counted_track_def fields demo_slot_fields, simp add: fresh_track_def)
qed

lemma demo_count_none:
  assumes "en_config e = demo_config" and "en_tracks e = demo_slot # replicate 63 zero_track_state"
  shows "fst (update_tracks e demo_empty now) = 0"
  using assms
  by (simp add: update_tracks_def Let_def demo_later_live)
    (simp add: expire_track_def zero_track_state_def counted_track_def demo_config_fields ms_to_us_def)

end
