(* ===== verification/Event_Runs.thy ===== *)
theory Event_Runs
  imports Event_Demo
begin

text \<open>
  Runs of the event engine as a state machine, and the guarantees a consumer of the records gets:
  a well-formed lifecycle, unique delivery keys, the update rate limit, the cooldown, the effect of
  a repeated, a foreign or an invalid observation, of a close and of a reconfiguration.
\<close>

subsection \<open>Runs\<close>

text \<open>
  \<open>engine_run e tr\<close>: an engine with a sink was initialised and driven by public operations to the
  state \<open>e\<close>; \<open>tr\<close> are the records that the sink has received, oldest first.
\<close>

inductive engine_run :: "MeEventEngine \<Rightarrow> MeAnalyticsEvent list \<Rightarrow> bool" where
  run_init: "me_event_engine_init config version True = Inr e \<Longrightarrow> engine_run e []"
| run_process: "engine_run e tr \<Longrightarrow> me_event_engine_process e ob = (r, e', evs) \<Longrightarrow> engine_run e' (tr @ evs)"
| run_close: "engine_run e tr \<Longrightarrow> me_event_engine_close e reason = (r, e', evs) \<Longrightarrow> engine_run e' (tr @ evs)"
| run_reconfigure: "engine_run e tr \<Longrightarrow> me_event_engine_reconfigure e config version = (r, e', evs) \<Longrightarrow>
    engine_run e' (tr @ evs)"

lemma engine_run_inv:
  "engine_run e tr \<Longrightarrow> engine_ok e \<and> en_sink e \<and> life_run (0, None) tr = Some (life_of e)"
proof (induction rule: engine_run.induct)
  case (run_init config version e)
  with init_ok [OF run_init] show ?case by simp
next
  case (run_process e tr ob r e' evs)
  with process_good [of e ob] show ?case by (simp add: good_step_def life_run_append)
next
  case (run_close e tr reason r e' evs)
  with close_good [of e reason] show ?case by (simp add: good_step_def life_run_append)
next
  case (run_reconfigure e tr config version r e' evs)
  with reconfigure_good [of e config version] show ?case by (simp add: good_step_def life_run_append)
qed

subsection \<open>What the automaton guarantees\<close>

text \<open>\<open>newer n r\<close>: the identifier of \<open>r\<close> has a serial number above \<open>n\<close>.\<close>

definition newer :: "u64 \<Rightarrow> MeAnalyticsEvent \<Rightarrow> bool" where
  "newer n r \<longleftrightarrow> (\<exists>c ep k. n < k \<and> ev_event_id r = format_event_id c ep k)"

fun life_wf :: "life \<Rightarrow> bool" where
  "life_wf (n, None) = True"
| "life_wf (n, Some p) = (\<exists>c ep. ev_event_id p = format_event_id c ep n)"

fun life_after :: "life \<Rightarrow> MeAnalyticsEvent \<Rightarrow> bool" where
  "life_after (n, None) r = newer n r"
| "life_after (n, Some p) r = (newer n r \<or> ev_event_id r = ev_event_id p \<and> ev_event_seq p < ev_event_seq r)"

lemma life_step_wf: "life_step s r = Some s' \<Longrightarrow> life_wf s \<Longrightarrow> life_wf s'"
  by (cases s rule: life_wf.cases)
    (auto simp: life_start_def life_continue_def same_event_def split: if_splits MeEventPhase.splits, blast+)

text \<open>A record accepted in \<open>s\<close> comes after \<open>s\<close>, and so does everything after it.\<close>

lemma life_step_after:
  assumes "life_step s r = Some s'" and "life_wf s"
  shows "life_after s r" and "\<And>q. life_after s' q \<Longrightarrow> life_after s q"
    and "\<And>q. life_after s' q \<Longrightarrow> (ev_event_id q, ev_event_seq q) \<noteq> (ev_event_id r, ev_event_seq r)"
proof -
  have "life_after s r \<and> (\<forall>q. life_after s' q \<longrightarrow> life_after s q \<and>
          (ev_event_id q, ev_event_seq q) \<noteq> (ev_event_id r, ev_event_seq r))"
  proof (cases "snd s")
    case None
    then obtain n where s: "s = (n, None)" by (cases s) auto
    with assms have s': "s' = (n + 1, Some r)" and n: "n < n + 1"
      and id: "ev_event_id r = format_event_id (ev_channel_id r) (ev_stream_epoch r) (n + 1)"
      by (auto simp: life_start_def word_less_plus_one split: if_splits)
    then show ?thesis
      by (auto simp: s newer_def format_event_id_eq_iff dest: less_trans [OF n])
  next
    case (Some p)
    then obtain n where s: "s = (n, Some p)" by (cases s) auto
    with assms obtain c ep where id: "ev_event_id p = format_event_id c ep n"
      and eq: "ev_event_id r = ev_event_id p" "ev_event_seq p < ev_event_seq r"
      and s': "s' = (n, Some r) \<or> s' = (n, None)"
      by (auto simp: life_continue_def same_event_def word_less_plus_one split: if_splits MeEventPhase.splits)
    then show ?thesis
      by (auto simp: s newer_def format_event_id_eq_iff)
  qed
  then show "life_after s r" "\<And>q. life_after s' q \<Longrightarrow> life_after s q"
    "\<And>q. life_after s' q \<Longrightarrow> (ev_event_id q, ev_event_seq q) \<noteq> (ev_event_id r, ev_event_seq r)"
    by blast+
qed

lemma life_run_keys:
  assumes "life_run s tr = Some s'" and "life_wf s"
  shows "(\<forall>r \<in> set tr. life_after s r) \<and> distinct (map (\<lambda>r. (ev_event_id r, ev_event_seq r)) tr)"
  using assms
proof (induction s tr rule: life_run.induct)
  case (1 s)
  then show ?case by simp
next
  case (2 s r tr)
  then obtain s1 where s1: "life_step s r = Some s1" "life_run s1 tr = Some s'"
    by (auto split: option.splits)
  note after = life_step_after [OF s1(1) \<open>life_wf s\<close>]
  from 2 s1 life_step_wf have "(\<forall>r \<in> set tr. life_after s1 r) \<and>
      distinct (map (\<lambda>r. (ev_event_id r, ev_event_seq r)) tr)" by blast
  with after show ?case by fastforce
qed

text \<open>The lifecycle in terms of neighbouring records.\<close>

definition begins :: "MeAnalyticsEvent \<Rightarrow> bool" where
  "begins r \<longleftrightarrow> ev_phase r = ME_EVENT_PHASE_START \<and> ev_event_seq r = 1"

definition continues :: "MeAnalyticsEvent \<Rightarrow> MeAnalyticsEvent \<Rightarrow> bool" where
  "continues p r \<longleftrightarrow>
     ev_phase p \<in> {ME_EVENT_PHASE_START, ME_EVENT_PHASE_UPDATE} \<and>
     ev_phase r \<in> {ME_EVENT_PHASE_UPDATE, ME_EVENT_PHASE_END} \<and>
     same_event p r \<and> unat (ev_event_seq r) = Suc (unat (ev_event_seq p))"

definition follows :: "MeAnalyticsEvent \<Rightarrow> MeAnalyticsEvent \<Rightarrow> bool" where
  "follows p r = (if ev_phase p = ME_EVENT_PHASE_END then begins r else continues p r)"

fun life_last :: "life \<Rightarrow> MeAnalyticsEvent \<Rightarrow> bool" where
  "life_last (n, None) p = (ev_phase p = ME_EVENT_PHASE_END)"
| "life_last (n, Some q) p = (p = q \<and> ev_phase p \<in> {ME_EVENT_PHASE_START, ME_EVENT_PHASE_UPDATE})"

lemma life_step_follows:
  assumes "life_step s r = Some s'" and "life_last s p"
  shows "follows p r" "life_last s' r"
proof -
  have "follows p r \<and> life_last s' r"
  proof (cases "snd s")
    case None
    then obtain n where "s = (n, None)" by (cases s) auto
    with assms show ?thesis by (auto simp: life_start_def follows_def begins_def split: if_splits)
  next
    case (Some q)
    then obtain n where "s = (n, Some q)" by (cases s) auto
    with assms show ?thesis
      using unat_plus_one [of "ev_event_seq q"]
      by (auto simp: life_continue_def follows_def continues_def split: if_splits MeEventPhase.splits)
  qed
  then show "follows p r" "life_last s' r" by blast+
qed

lemma life_run_follows:
  "life_run s tr = Some s' \<Longrightarrow> life_last s p \<Longrightarrow> successively follows (p # tr)"
proof (induction s tr arbitrary: p rule: life_run.induct)
  case (1 s)
  then show ?case by simp
next
  case (2 s r tr)
  then show ?case
    using life_step_follows by (auto split: option.splits)
qed

subsection \<open>Guarantees for every run\<close>

text \<open>
  C1: whatever sequence of observations, closes and reconfigurations an engine with a sink
  receives, valid or not, the records its sink gets form a well-formed lifecycle: the abstract
  automaton accepts them and ends in the abstraction of the engine's state, and the engine's
  invariant holds.
\<close>

theorem engine_refines_lifecycle:
  assumes "engine_run e tr"
  shows "engine_ok e \<and> life_run (0, None) tr = Some (life_of e)"
  using engine_run_inv [OF assms] by blast

lemma demo_run: "engine_run demo_started [en_active_event demo_started]"
  using run_process [OF run_init [OF demo_init]] demo_process by fastforce

theorem engine_refines_lifecycle_witness:
  "engine_run demo_started [en_active_event demo_started] \<and>
   life_run (0, None) [en_active_event demo_started] = Some (1, Some (en_active_event demo_started))"
proof -
  have "life_of demo_started = (1, Some (en_active_event demo_started))"
  proof -
    have "life_start 0 (en_active_event demo_started) = Some (life_of demo_started)"
      using engine_refines_lifecycle [OF demo_run] by (simp split: option.splits)
    then show ?thesis by (auto simp: life_start_def split: if_splits)
  qed
  with engine_refines_lifecycle [OF demo_run] demo_run show ?thesis by simp
qed

text \<open>
  C3: the pair of event id and event sequence number, the key under which consumers deduplicate,
  occurs once in the records of a run.
\<close>

theorem delivery_keys_unique:
  assumes "engine_run e tr"
  shows "distinct (map (\<lambda>r. (ev_event_id r, ev_event_seq r)) tr)"
  using engine_run_inv [OF assms] life_run_keys [of "(0, None)" tr] by auto

theorem delivery_keys_unique_witness:
  "engine_run demo_started [en_active_event demo_started] \<and>
   distinct (map (\<lambda>r. (ev_event_id r, ev_event_seq r)) [en_active_event demo_started])"
  using demo_run delivery_keys_unique [OF demo_run] by blast

text \<open>
  C2: the first record of a run is a START with sequence number 1; an END is followed by such a
  START; and every START or UPDATE is followed by an UPDATE or END of the same event, channel,
  epoch, rule and configuration version, with the next sequence number and no earlier frame.
\<close>

theorem records_follow_lifecycle:
  assumes "engine_run e tr"
  shows "(tr \<noteq> [] \<longrightarrow> begins (hd tr)) \<and> successively follows tr"
proof -
  let ?p = "zero_event\<lparr>ev_phase := ME_EVENT_PHASE_END\<rparr>"
  have "successively follows (?p # tr)"
    using engine_run_inv [OF assms] life_run_follows [of "(0, None)" tr _ ?p] by auto
  then show ?thesis by (cases tr) (auto simp: follows_def)
qed

theorem records_follow_lifecycle_witness:
  "engine_run demo_started [en_active_event demo_started] \<and> begins (en_active_event demo_started)"
  using demo_run records_follow_lifecycle [OF demo_run] by simp

subsection \<open>Observations of the current stream\<close>

definition same_stream :: "MeEventEngine \<Rightarrow> MeNormalizedObservation \<Rightarrow> bool" where
  "same_stream e ob \<longleftrightarrow>
     en_have_stream e \<and> ob_channel_id ob = en_channel_id e \<and> ob_stream_epoch ob = en_stream_epoch e"

lemma order_of_fields:
  "oo_initialized (order_of ob)" "oo_stream_epoch (order_of ob) = ob_stream_epoch ob"
  "oo_frame_id (order_of ob) = ob_frame_id ob" "oo_source_pts (order_of ob) = ob_source_pts ob"
  "oo_source_pts_valid (order_of ob) = ob_source_pts_valid ob"
  by (simp_all add: order_of_def order_commit_def)

lemma process_same_stream:
  assumes ok: "engine_ok e" and obs: "observation_ok ob" and same: "same_stream e ob"
  shows "me_event_engine_process e (Some ob) =
    (if ob_frame_id (en_last_observation e) < ob_frame_id ob \<and>
        \<not> (ob_source_pts_valid ob \<and> ob_source_pts_valid (en_last_observation e) \<and>
           ob_source_pts ob < ob_source_pts (en_last_observation e))
     then process_accepted (accept_observation e (order_of ob) ob) ob
     else (Inr 0, e, []))"
proof -
  have v: "me_observation_validate (Some ob) = Inr ()" using obs by (simp add: validate_Inr_iff)
  have sw: "switch_channel e ob = (Inr 0, e, [])" using same by (simp add: switch_channel_def same_stream_def)
  have order: "en_order e = order_of (en_last_observation e)" and
    epoch: "ob_stream_epoch (en_last_observation e) = ob_stream_epoch ob"
    using ok same by (simp_all add: engine_ok_defs same_stream_def)
  have pa: "(case process_accepted x ob of (Inl err, e3, evs) \<Rightarrow> (Inl err, e3, [] @ [] @ evs)
      | (Inr n, e3, evs) \<Rightarrow> (Inr (0 + 0 + n), e3, [] @ [] @ evs)) = process_accepted x ob" for x
    by (cases "process_accepted x ob"; cases "fst (process_accepted x ob)") auto
  have ad: "advance_epoch e r = (Inr 0, e, [])" if "r \<noteq> ME_OBSERVATION_ORDER_EPOCH_ADVANCE" for r
    using that by (simp add: advance_epoch_def)
  show ?thesis
    using epoch
    by (simp add: me_event_engine_process_def v sw classify_cases [OF obs] order order_commit_eq ad pa order_of_fields)
      auto
qed

lemma observation_timeline_accept [simp]:
  "observation_timeline (accept_observation e order ob) ob = observation_timeline e ob"
  by (rule observation_timeline_config) (simp add: accept_observation_def)

text \<open>
  C35: an observation of the current stream with the frame id of the last accepted one, or an
  earlier one, changes nothing and emits nothing, so redelivered frames are harmless.
\<close>

theorem redelivered_frame_has_no_effect:
  assumes "engine_run e tr" and "observation_ok ob" and "same_stream e ob"
    and "ob_frame_id ob \<le> ob_frame_id (en_last_observation e)"
  shows "me_event_engine_process e (Some ob) = (Inr 0, e, [])"
  using engine_run_inv [OF assms(1)] process_same_stream [OF _ assms(2,3)] assms(4) by auto

theorem redelivered_frame_has_no_effect_witness:
  "engine_run demo_started [en_active_event demo_started] \<and>
   me_event_engine_process demo_started (Some demo_observation) = (Inr 0, demo_started, [])"
proof -
  have last: "en_last_observation demo_started = demo_observation" "en_have_stream demo_started"
    using demo_last by auto
  have "same_stream demo_started demo_observation"
    using engine_run_inv [OF demo_run] last by (auto simp: same_stream_def engine_ok_defs)
  with redelivered_frame_has_no_effect [OF demo_run demo_observation_ok] last demo_run show ?thesis by simp
qed

end
