(* ===== verification/Event_Guarantees.thy ===== *)
theory Event_Guarantees
  imports Event_Runs
begin

text \<open>
  The operations of the event engine one by one: how an active event ends on a stream change, a
  close or a reconfiguration, what an event needs to start, and the timing of UPDATE records and
  of the cooldown.
\<close>

lemma accept_observation_frame [record_frame]:
  "en_config (accept_observation e order ob) = en_config e" "en_active (accept_observation e order ob) = en_active e"
  "en_cooldown_until_us (accept_observation e order ob) = en_cooldown_until_us e"
  "en_cooldown_until_valid (accept_observation e order ob) = en_cooldown_until_valid e"
  "en_last_emit_timeline_us (accept_observation e order ob) = en_last_emit_timeline_us e"
  "en_last_emit_timeline_valid (accept_observation e order ob) = en_last_emit_timeline_valid e"
  "en_have_stream (accept_observation e order ob)"
  "en_channel_id (accept_observation e order ob) = copy_string ME_ANALYTICS_CHANNEL_ID_MAX (ob_channel_id ob)"
  "en_stream_epoch (accept_observation e order ob) = ob_stream_epoch ob"
  "en_last_observation (accept_observation e order ob) = ob"
  "en_active_event (accept_observation e order ob) = en_active_event e"
  "en_active_person_count (accept_observation e order ob) = en_active_person_count e"
  "en_sink (accept_observation e order ob) = en_sink e"
  by (simp_all add: accept_observation_def)

subsection \<open>The records of one accepted observation\<close>

definition record_of :: "MeNormalizedObservation \<Rightarrow> u32 \<Rightarrow> MeAnalyticsEvent \<Rightarrow> bool" where
  "record_of ob n r \<longleftrightarrow>
     ev_channel_id r = copy_string ME_ANALYTICS_CHANNEL_ID_MAX (ob_channel_id ob) \<and>
     ev_stream_epoch r = ob_stream_epoch ob \<and> ev_frame_id r = ob_frame_id ob \<and> ev_person_count r = n"

lemma emit_start_records:
  assumes "emit_start e ob s n now = (res, e', evs)"
  shows "\<forall>r \<in> set evs. ev_phase r = ME_EVENT_PHASE_START \<and> record_of ob n r \<and>
           ev_delta_in r = su_delta_in s \<and> ev_delta_out r = su_delta_out s"
proof (cases "en_next_event_serial e = UINT64_MAX")
  case True
  with assms show ?thesis by (auto simp: emit_start_def Let_def new_event_id_eq)
next
  case False
  define eid where "eid = format_event_id (ob_channel_id ob) (ob_stream_epoch ob) (en_next_event_serial e + 1)"
  define e1 where "e1 = e\<lparr>en_active_event := zero_event\<lparr>ev_contract_version := ME_ANALYTICS_EVENT_CONTRACT_VERSION\<rparr>,
      en_next_event_serial := en_next_event_serial e + 1\<rparr>"
  define e2 where "e2 = e1\<lparr>en_active_event := start_event e1 eid ob s n\<rparr>"
  obtain ok ss where "remember_rule_facts e2 s = (ok, e2\<lparr>en_rule_fact_states := ss\<rparr>)"
    using remember_rule_facts_frame [of e2 s] by (cases "remember_rule_facts e2 s") auto
  with False assms show ?thesis
    by (cases ok)
      (auto simp: emit_start_def Let_def new_event_id_eq emit_event_def record_of_def start_event_fields
        e2_def [symmetric] e1_def [symmetric] eid_def [symmetric] split: if_splits, simp_all add: e2_def start_event_fields)
qed

lemma maybe_emit_update_records:
  assumes "maybe_emit_update e ob n now = (res, e', evs)"
  shows "\<forall>r \<in> set evs. ev_phase r = ME_EVENT_PHASE_UPDATE \<and> record_of ob n r \<and> en_update_pending e \<and>
           ev_reason r = en_pending_reason e \<and>
           (en_last_emit_timeline_valid e \<and> tl_valid now \<longrightarrow>
              elapsed_at_least now (en_last_emit_timeline_us e) True (ms_to_us (cf_update_interval_ms (en_config e))))"
  using assms
  by (auto simp: maybe_emit_update_def Let_def emit_event_def record_of_def event_copy_observation_context_def
      event_copy_responsible_tracks_def split: if_splits option.splits)

lemma emit_end_records:
  assumes "emit_end e ob reason n now cd = (res, e', evs)"
  shows "\<forall>r \<in> set evs. ev_phase r = ME_EVENT_PHASE_END \<and> ev_reason r = reason \<and> record_of ob n r"
  using assms
  by (auto simp: emit_end_def Let_def emit_event_def record_of_def end_event_fields split: if_splits option.splits)

text \<open>
  Which continuation emitted a record, and under which condition. The engine \<open>e\<close> has accepted the
  observation \<open>ob\<close>.
\<close>

definition observed_count :: "MeEventEngine \<Rightarrow> MeNormalizedObservation \<Rightarrow> u32" where
  "observed_count e ob = fst (update_tracks e ob (observation_timeline e ob))"

lemma accepted_idle_records:
  assumes "accepted_idle e ob s n c now = (res, e', evs)"
  shows "\<forall>r \<in> set evs. ev_phase r = ME_EVENT_PHASE_START \<and> record_of ob n r \<and>
           ev_delta_in r = su_delta_in s \<and> ev_delta_out r = su_delta_out s \<and>
           trigger_qualified (update_trigger_candidate e c now) now"
proof (cases "trigger_qualified (update_trigger_candidate e c now) now")
  case True
  obtain res1 e1 evs1 where es: "emit_start (update_trigger_candidate e c now) ob s n now = (res1, e1, evs1)"
    by (cases "emit_start (update_trigger_candidate e c now) ob s n now")
  with assms True have "evs = evs1" by (cases res1) (simp_all add: accepted_idle_def Let_def)
  with emit_start_records [OF es] True show ?thesis by simp
next
  case False
  with assms show ?thesis by (simp add: accepted_idle_def Let_def)
qed

lemma accepted_absent_records:
  assumes "accepted_absent e ob n now = (res, e', evs)"
  shows "\<forall>r \<in> set evs. ev_phase r = ME_EVENT_PHASE_END \<and> ev_reason r = ME_EVENT_REASON_DISAPPEARED \<and> record_of ob n r"
  using assms
  by (auto simp: accepted_absent_def Let_def dest!: emit_end_records split: if_splits)

lemma mark_update_frame [record_frame]:
  "en_last_emit_timeline_valid (mark_update e n di do ids reason) = en_last_emit_timeline_valid e"
  "en_last_emit_timeline_us (mark_update e n di do ids reason) = en_last_emit_timeline_us e"
  "en_config (mark_update e n di do ids reason) = en_config e"
  "en_active_event (mark_update e n di do ids reason) = en_active_event e"
  "en_sink (mark_update e n di do ids reason) = en_sink e"
  "en_update_pending (mark_update e n di do ids reason)"
  by (simp_all add: mark_update_def)

lemma accepted_present_records:
  assumes "accepted_present e ob s n now = (res, e', evs)"
  shows "\<forall>r \<in> set evs. ev_phase r = ME_EVENT_PHASE_UPDATE \<and> record_of ob n r \<and>
           (en_last_emit_timeline_valid e \<and> tl_valid now \<longrightarrow>
              elapsed_at_least now (en_last_emit_timeline_us e) True (ms_to_us (cf_update_interval_ms (en_config e))))"
  using assms
  by (auto simp: accepted_present_def Let_def record_frame dest!: maybe_emit_update_records split: if_splits)

lemma matching_rules_cong:
  assumes "en_config e = en_config e'" and "en_rule_fact_states e = en_rule_fact_states e'"
  shows "matching_rules e ob = matching_rules e' ob"
proof -
  have "match_one e = match_one e'"
    by (intro ext) (simp only: match_one_def rule_matches_def rule_fact_seen_def find_rule_fact_state_def assms)
  with assms show ?thesis by (simp only: matching_rules_def)
qed

text \<open>The condition of the configured rule on an observation.\<close>

definition trigger_condition :: "MeEventEngine \<Rightarrow> MeNormalizedObservation \<Rightarrow> bool" where
  "trigger_condition e ob =
     (if cf_rule_type (en_config e) = ME_RULE_TYPE_OCCUPANCY then observed_count e ob > 0
      else su_match_count (matching_rules e ob) > 0)"

lemma trigger_qualified_needs:
  assumes "trigger_qualified (update_trigger_candidate e c now) now"
  shows "c" "cooldown_elapsed e now"
  using assms
  by (auto simp: trigger_qualified_def update_trigger_candidate_def clear_trigger_candidate_def cooldown_elapsed_def
      Let_def split: if_splits)

text \<open>The state after the tracks and the facts of an observation have been recorded.\<close>

definition observed_state ::
  "MeEventEngine \<Rightarrow> MeNormalizedObservation \<Rightarrow> MeEventTrackState list \<Rightarrow> MeEventRuleFactState list \<Rightarrow> MeEventEngine" where
  "observed_state e ob ts ss =
     e\<lparr>en_tracks := ts, en_latest_person_count := observed_count e ob, en_latest_person_count_valid := True,
       en_rule_fact_states := ss\<rparr>"

lemma observed_state_frame [record_frame]:
  "en_config (observed_state e ob ts ss) = en_config e" "en_active (observed_state e ob ts ss) = en_active e"
  "en_last_emit_timeline_us (observed_state e ob ts ss) = en_last_emit_timeline_us e"
  "en_last_emit_timeline_valid (observed_state e ob ts ss) = en_last_emit_timeline_valid e"
  "en_cooldown_until_us (observed_state e ob ts ss) = en_cooldown_until_us e"
  "en_cooldown_until_valid (observed_state e ob ts ss) = en_cooldown_until_valid e"
  "en_last_observation (observed_state e ob ts ss) = en_last_observation e"
  "en_have_stream (observed_state e ob ts ss) = en_have_stream e"
  "en_channel_id (observed_state e ob ts ss) = en_channel_id e"
  "en_stream_epoch (observed_state e ob ts ss) = en_stream_epoch e"
  "en_active_event (observed_state e ob ts ss) = en_active_event e"
  "en_active_person_count (observed_state e ob ts ss) = en_active_person_count e"
  "en_sink (observed_state e ob ts ss) = en_sink e"
  by (simp_all add: observed_state_def)

lemma process_accepted_dispatch:
  assumes "cf_enabled (en_config e)"
  shows "\<exists>ts ss. process_accepted e ob =
    (let now = observation_timeline e ob; n = observed_count e ob; e2 = observed_state e ob ts ss;
         s = matching_rules e ob
     in if \<not> en_active e then accepted_idle e2 ob s n (trigger_condition e ob) now
        else if \<not> trigger_condition e ob then accepted_absent e2 ob n now
        else accepted_present e2 ob s n now) \<or>
   process_accepted e ob = (Inl EE_Facts_Exhausted, observed_state e ob ts ss, []) \<and> \<not> observation_ok ob"
proof -
  let ?now = "observation_timeline e ob"
  obtain n ts where ut: "update_tracks e ob ?now = (n, e\<lparr>en_tracks := ts\<rparr>)"
    using update_tracks_frame [of e ob ?now] by (cases "update_tracks e ob ?now") auto
  have n: "observed_count e ob = n" by (simp add: observed_count_def ut)
  define e1 where "e1 = e\<lparr>en_tracks := ts, en_latest_person_count := n, en_latest_person_count_valid := True\<rparr>"
  have s: "matching_rules e1 ob = matching_rules e ob" by (rule matching_rules_cong) (simp_all add: e1_def)
  have c: "(if cf_rule_type (en_config e1) = ME_RULE_TYPE_OCCUPANCY then n > 0
      else su_match_count (matching_rules e ob) > 0) = trigger_condition e ob"
    by (simp add: trigger_condition_def n e1_def)
  obtain rem ss where rem: "(if en_active e1 \<and> cf_rule_type (en_config e1) \<noteq> ME_RULE_TYPE_OCCUPANCY
      then remember_rule_facts e1 (matching_rules e ob) else (True, e1)) = (rem, e1\<lparr>en_rule_fact_states := ss\<rparr>)"
  proof -
    obtain ss where "snd (remember_rule_facts e1 (matching_rules e ob)) = e1\<lparr>en_rule_fact_states := ss\<rparr>"
      using remember_rule_facts_frame by blast
    moreover have "e1 = e1\<lparr>en_rule_fact_states := en_rule_fact_states e1\<rparr>" by simp
    ultimately show ?thesis
      using that by (cases "en_active e1 \<and> cf_rule_type (en_config e1) \<noteq> ME_RULE_TYPE_OCCUPANCY")
        (metis prod.collapse)+
  qed
  have act: "en_active (e1\<lparr>en_rule_fact_states := ss\<rparr>) = en_active e" by (simp add: e1_def)
  have eq: "process_accepted e ob =
    (if \<not> rem then (Inl EE_Facts_Exhausted, e1\<lparr>en_rule_fact_states := ss\<rparr>, [])
     else if \<not> en_active e then accepted_idle (e1\<lparr>en_rule_fact_states := ss\<rparr>) ob (matching_rules e ob) n (trigger_condition e ob) ?now
     else if \<not> trigger_condition e ob then accepted_absent (e1\<lparr>en_rule_fact_states := ss\<rparr>) ob n ?now
     else accepted_present (e1\<lparr>en_rule_fact_states := ss\<rparr>) ob (matching_rules e ob) n ?now)"
    unfolding process_accepted_def Let_def
    by (simp only: assms ut prod.case e1_def [symmetric] s c rem not_True_eq_False if_False act)
  moreover have "rem" if "observation_ok ob"
    using rem remember_rule_facts_total [OF that, of e1 e] by (auto split: if_splits)
  ultimately show ?thesis
    by (intro exI [of _ ts] exI [of _ ss]) (cases rem; auto simp: Let_def n e1_def observed_state_def)
qed

text \<open>The cases of \<open>process_accepted\<close> with the state each continuation starts from.\<close>

lemma process_accepted_cases:
  assumes "process_accepted e ob = (res, e', evs)"
  obtains (disabled) "\<not> cf_enabled (en_config e)" "evs = []"
      "e' = clear_pending (clear_tracks (e\<lparr>en_latest_person_count := 0, en_latest_person_count_valid := True\<rparr>))"
    | (exhausted) ts ss where "cf_enabled (en_config e)" "evs = []" "e' = observed_state e ob ts ss"
      "\<not> observation_ok ob"
    | (idle) ts ss where "cf_enabled (en_config e)" "\<not> en_active e"
      "accepted_idle (observed_state e ob ts ss) ob (matching_rules e ob) (observed_count e ob)
         (trigger_condition e ob) (observation_timeline e ob) = (res, e', evs)"
    | (absent) ts ss where "cf_enabled (en_config e)" "en_active e" "\<not> trigger_condition e ob"
      "accepted_absent (observed_state e ob ts ss) ob (observed_count e ob) (observation_timeline e ob) = (res, e', evs)"
    | (present) ts ss where "cf_enabled (en_config e)" "en_active e" "trigger_condition e ob"
      "accepted_present (observed_state e ob ts ss) ob (matching_rules e ob) (observed_count e ob)
         (observation_timeline e ob) = (res, e', evs)"
proof (cases "cf_enabled (en_config e)")
  case False
  with assms show ?thesis by (intro disabled) (auto simp: process_accepted_def Let_def)
next
  case True
  from process_accepted_dispatch [OF True, of ob] obtain ts ss where
    d: "process_accepted e ob =
      (let now = observation_timeline e ob; n = observed_count e ob; e2 = observed_state e ob ts ss;
           s = matching_rules e ob
       in if \<not> en_active e then accepted_idle e2 ob s n (trigger_condition e ob) now
          else if \<not> trigger_condition e ob then accepted_absent e2 ob n now
          else accepted_present e2 ob s n now) \<or>
      process_accepted e ob = (Inl EE_Facts_Exhausted, observed_state e ob ts ss, []) \<and> \<not> observation_ok ob"
    by blast
  show ?thesis
    using d True assms idle [of ts ss] absent [of ts ss] present [of ts ss] exhausted [of ts ss]
    by (cases "en_active e"; cases "trigger_condition e ob") (auto simp: Let_def)
qed

definition rate_limit_passed :: "MeEventEngine \<Rightarrow> MeTimeline \<Rightarrow> bool" where
  "rate_limit_passed e now \<longleftrightarrow>
     (en_last_emit_timeline_valid e \<and> tl_valid now \<longrightarrow>
        elapsed_at_least now (en_last_emit_timeline_us e) True (ms_to_us (cf_update_interval_ms (en_config e))))"

lemma process_accepted_records:
  assumes "process_accepted e ob = (res, e', evs)" and "r \<in> set evs"
  shows "cf_enabled (en_config e) \<and> record_of ob (observed_count e ob) r \<and>
    (case ev_phase r of
       ME_EVENT_PHASE_START \<Rightarrow> \<not> en_active e \<and> trigger_condition e ob \<and> cooldown_elapsed e (observation_timeline e ob)
     | ME_EVENT_PHASE_UPDATE \<Rightarrow> en_active e \<and> trigger_condition e ob \<and> rate_limit_passed e (observation_timeline e ob)
     | ME_EVENT_PHASE_END \<Rightarrow> en_active e \<and> \<not> trigger_condition e ob \<and> ev_reason r = ME_EVENT_REASON_DISAPPEARED
     | ME_EVENT_PHASE_OTHER _ \<Rightarrow> False)"
  using assms(1)
proof (cases rule: process_accepted_cases)
  case (idle ts ss)
  have "cooldown_elapsed (observed_state e ob ts ss) now = cooldown_elapsed e now" for now
    by (simp add: cooldown_elapsed_def record_frame)
  with idle accepted_idle_records [OF idle(3)] assms(2) trigger_qualified_needs show ?thesis by fastforce
next
  case (absent ts ss)
  with accepted_absent_records [OF absent(4)] assms(2) show ?thesis by auto
next
  case (present ts ss)
  with accepted_present_records [OF present(4)] assms(2) show ?thesis
    by (auto simp: rate_limit_passed_def record_frame)
qed (use assms(2) in auto)

subsection \<open>Ends of events\<close>

text \<open>The END record of the active event for the last observation.\<close>

definition final_record :: "MeEventEngine \<Rightarrow> MeEventReason \<Rightarrow> MeAnalyticsEvent \<Rightarrow> bool" where
  "final_record e reason r \<longleftrightarrow>
     ev_phase r = ME_EVENT_PHASE_END \<and> ev_reason r = reason \<and> same_event (en_active_event e) r \<and>
     ev_event_seq r = ev_event_seq (en_active_event e) + 1 \<and>
     ev_frame_id r = ob_frame_id (en_last_observation e) \<and> ev_person_count r = latest_person_count e"

lemma end_active_emits:
  assumes ok: "engine_ok e" and act: "en_active e" and sink: "en_sink e"
    and seq: "ev_event_seq (en_active_event e) \<noteq> UINT64_MAX"
  shows "\<exists>e' r. end_active e reason = (Inr 1, e', [r]) \<and> final_record e reason r \<and> \<not> en_active e'"
proof -
  have st: "en_have_stream e" "en_have_last_observation e" "observation_ok (en_last_observation e)"
    using ok act by (auto simp: engine_ok_defs split: if_splits)
  let ?r = "end_event e ((en_active_event e)\<lparr>ev_event_seq := ev_event_seq (en_active_event e) + 1\<rparr>)
              (en_last_observation e) reason (latest_person_count e)"
  obtain e' where e': "end_active e reason = (Inr 1, e', [?r])"
    using act seq sink st by (simp add: end_active_def emit_end_def increment_event_seq_def emit_event_def Let_def)
  have "bounded_string (ob_channel_id (en_last_observation e)) 64" using st by (simp add: observation_ok_def)
  then have "final_record e reason ?r"
    using ok act st by (simp add: final_record_def same_event_def end_event_fields engine_ok_defs)
  with e' end_active_idle [OF ok e'] show ?thesis by blast
qed

lemma clear_runtime_idle: "\<not> en_active (clear_runtime e)"
  by (simp add: clear_runtime_def clear_rule_fact_states_def clear_tracks_def record_frame)

text \<open>
  C36: closing an engine with an active event emits exactly one record, the END of that event with
  the given reason, the next sequence number and the latest person count, and leaves the engine
  idle.
\<close>

theorem close_ends_active_event:
  assumes "engine_run e tr" and "en_active e" and "valid_event_reason reason"
    and "ev_event_seq (en_active_event e) \<noteq> UINT64_MAX"
  shows "\<exists>e' r. me_event_engine_close e reason = (Inr 1, e', [r]) \<and> final_record e reason r \<and> \<not> en_active e'"
proof -
  have ok: "engine_ok e" "en_sink e" using engine_run_inv [OF assms(1)] by auto
  with end_active_emits [OF ok(1) assms(2) ok(2) assms(4), of reason] assms(3) show ?thesis
    by (auto simp: me_event_engine_close_def clear_runtime_idle)
qed

theorem close_ends_active_event_witness:
  "engine_run demo_started [en_active_event demo_started] \<and>
   (\<exists>e' r. me_event_engine_close demo_started ME_EVENT_REASON_PROCESS_RESTART = (Inr 1, e', [r]) \<and>
      ev_phase r = ME_EVENT_PHASE_END \<and> ev_event_seq r = 2 \<and>
      ev_event_id r = format_event_id ''camera-0'' 1 1 \<and> \<not> en_active e')"
proof -
  have "\<exists>e' r. me_event_engine_close demo_started ME_EVENT_REASON_PROCESS_RESTART = (Inr 1, e', [r]) \<and>
      final_record demo_started ME_EVENT_REASON_PROCESS_RESTART r \<and> \<not> en_active e'"
    by (rule close_ends_active_event [OF demo_run demo_process(2)])
      (simp_all add: valid_event_reason_def demo_process)
  with demo_run show ?thesis by (auto simp: final_record_def demo_process same_event_def)
qed



subsection \<open>Timing\<close>

lemma observation_timeline_nonneg: "0 \<le> tl_us (observation_timeline e ob)"
  by (auto simp: observation_timeline_def pts_to_us_def dest!: scale_to_us_bounds split: option.splits if_splits)

text \<open>The time of the last record is never negative.\<close>

definition emit_time_ok :: "MeEventEngine \<Rightarrow> bool" where
  "emit_time_ok e \<longleftrightarrow> 0 \<le> en_last_emit_timeline_us e"

lemma emit_time_clear:
  "emit_time_ok (clear_pending e)" "emit_time_ok (clear_runtime e)"
  "emit_time_ok (clear_rule_fact_states e) = emit_time_ok e"
  "emit_time_ok (clear_tracks e) = emit_time_ok e"
  by (simp_all add: emit_time_ok_def clear_pending_def clear_runtime_def clear_rule_fact_states_def clear_tracks_def)

lemma emit_time_emit_end: "emit_end e ob reason n now cd = (res, e', evs) \<Longrightarrow> emit_time_ok e \<Longrightarrow> emit_time_ok e'"
  by (auto simp: emit_end_def Let_def emit_time_clear split: if_splits option.splits)

lemma emit_time_end_active: "end_active e reason = (res, e', evs) \<Longrightarrow> emit_time_ok e \<Longrightarrow> emit_time_ok e'"
  by (auto simp: end_active_def dest: emit_time_emit_end split: if_splits)

lemma emit_time_emit_start:
  assumes "emit_start e ob s n now = (res, e', evs)" and "emit_time_ok e" and "0 \<le> tl_us now"
  shows "emit_time_ok e'"
proof -
  have rem: "emit_time_ok e2" if "remember_rule_facts x s = (b, e2)" "emit_time_ok x" for x b e2
    using remember_rule_facts_frame [of x s] that by (auto simp: emit_time_ok_def)
  show ?thesis
    using assms rem
    by (auto simp: emit_start_def Let_def new_event_id_eq split: if_splits prod.splits bool.splits)
      (auto simp: emit_time_ok_def)
qed

lemma emit_time_accepted_idle:
  assumes "accepted_idle e ob s n c now = (res, e', evs)" and "emit_time_ok e" and "0 \<le> tl_us now"
  shows "emit_time_ok e'"
proof -
  have tc: "emit_time_ok (update_trigger_candidate e c now)"
    using update_trigger_candidate_frame [of e c now] assms(2) by (auto simp: emit_time_ok_def)
  obtain r e1 evs1 where es: "emit_start (update_trigger_candidate e c now) ob s n now = (r, e1, evs1)"
    by (metis prod_cases3)
  from emit_time_emit_start [OF es tc assms(3)] have "emit_time_ok e1"
      "emit_time_ok ((clear_trigger_candidate e1)\<lparr>en_absent_since_valid := False\<rparr>)"
    by (simp_all add: emit_time_ok_def clear_trigger_candidate_def)
  with assms(1) es tc show ?thesis
    by (cases r) (auto simp: accepted_idle_def Let_def split: if_splits)
qed

lemma emit_time_accepted_present:
  assumes "accepted_present e ob s n now = (res, e', evs)" and "emit_time_ok e" and "0 \<le> tl_us now"
  shows "emit_time_ok e'"
  using assms
  by (auto simp: accepted_present_def maybe_emit_update_def Let_def emit_time_ok_def record_frame
      split: if_splits option.splits)

lemma emit_time_accepted_absent:
  assumes "accepted_absent e ob n now = (res, e', evs)" and "emit_time_ok e"
  shows "emit_time_ok e'"
proof -
  let ?e1 = "if \<not> en_absent_since_valid e
    then e\<lparr>en_absent_since_us := tl_us now, en_absent_since_valid := tl_valid now\<rparr> else e"
  have "emit_time_ok ?e1" using assms(2) by (simp add: emit_time_ok_def)
  with assms(1) emit_time_emit_end [of ?e1] show ?thesis
    unfolding accepted_absent_def Let_def by (auto simp only: prod.inject split: if_split_asm)
qed

lemma emit_time_process_accepted:
  assumes "process_accepted e ob = (res, e', evs)" and "emit_time_ok e"
  shows "emit_time_ok e'"
proof -
  have ok: "emit_time_ok (observed_state e ob ts ss)" for ts ss
    using assms(2) by (simp add: emit_time_ok_def record_frame)
  from assms(1) show ?thesis
  proof (cases rule: process_accepted_cases)
    case (idle ts ss)
    from emit_time_accepted_idle [OF idle(3) ok observation_timeline_nonneg] show ?thesis .
  next
    case (absent ts ss)
    from emit_time_accepted_absent [OF absent(4) ok] show ?thesis .
  next
    case (present ts ss)
    from emit_time_accepted_present [OF present(4) ok observation_timeline_nonneg] show ?thesis .
  qed (simp_all add: emit_time_clear ok)
qed

lemma emit_time_switch_channel: "switch_channel e ob = (res, e', evs) \<Longrightarrow> emit_time_ok e \<Longrightarrow> emit_time_ok e'"
  by (auto simp: switch_channel_def emit_time_ok_def clear_runtime_def clear_rule_fact_states_def clear_tracks_def clear_pending_def
      dest: emit_time_end_active [unfolded emit_time_ok_def] split: if_splits prod.splits sum.splits)

lemma emit_time_advance_epoch: "advance_epoch e r = (res, e', evs) \<Longrightarrow> emit_time_ok e \<Longrightarrow> emit_time_ok e'"
  by (auto simp: advance_epoch_def emit_time_clear dest: emit_time_end_active split: if_splits prod.splits sum.splits)

lemma emit_time_process:
  assumes ok: "engine_ok e" and p: "me_event_engine_process e obo = (res, e', evs)" and "emit_time_ok e"
  shows "emit_time_ok e'"
proof (cases "\<exists>ob. obo = Some ob \<and> observation_ok ob")
  case False
  with p assms(3) show ?thesis
    by (auto simp: me_event_engine_process_def validate_Inr_iff [symmetric] split: option.splits sum.splits)
next
  case True
  then obtain ob where ob: "obo = Some ob" and obs: "observation_ok ob" by blast
  obtain r1 e1 evs1 where sw: "switch_channel e ob = (r1, e1, evs1)" by (metis prod_cases3)
  obtain r order' where cl: "me_observation_order_classify (en_order e1) (Some ob) = (r, order')" by (metis prod.exhaust)
  obtain r2 e2 evs2 where ad: "advance_epoch e1 r = (r2, e2, evs2)" by (metis prod_cases3)
  obtain r3 e3 evs3 where pa: "process_accepted (accept_observation e2 order' ob) ob = (r3, e3, evs3)"
    by (metis prod_cases3)
  have t1: "emit_time_ok e1" using emit_time_switch_channel [OF sw assms(3)] .
  have t2: "emit_time_ok e2" using emit_time_advance_epoch [OF ad t1] .
  then have "emit_time_ok (accept_observation e2 order' ob)" by (simp add: emit_time_ok_def accept_observation_def)
  from emit_time_process_accepted [OF pa this] t1 t2 p show ?thesis
    unfolding ob process_phases [OF ok obs sw cl ad pa] by (auto split: sum.splits if_splits)
qed

lemma engine_run_emit_time: "engine_run e tr \<Longrightarrow> emit_time_ok e"
proof (induction rule: engine_run.induct)
  case (run_init config version e)
  then show ?case
    by (auto simp: me_event_engine_init_def emit_time_ok_def zero_engine_def split: option.splits sum.splits)
next
  case (run_process e tr ob r e' evs)
  with emit_time_process engine_run_inv show ?case by blast
next
  case (run_close e tr reason r e' evs)
  then show ?case
    by (auto simp: me_event_engine_close_def emit_time_clear dest: emit_time_end_active
        split: if_splits prod.splits sum.splits)
next
  case (run_reconfigure e tr config version r e' evs)
  then show ?case
    by (auto simp: me_event_engine_reconfigure_def emit_time_ok_def clear_runtime_def clear_rule_fact_states_def
        clear_tracks_def clear_pending_def dest: emit_time_end_active [unfolded emit_time_ok_def]
        split: option.splits prod.splits sum.splits)
qed


text \<open>The second observation of the example: the count changes from one to two and an UPDATE is due.\<close>

lemma demo_same_stream: "same_stream demo_started demo_two" "same_stream demo_started demo_empty"
  using engine_run_inv [OF demo_run] demo_last
  by (simp_all add: same_stream_def engine_ok_defs demo_later_fields demo_observation_fields)

lemma demo_observed:
  "observed_count (accept_observation demo_started order demo_two) demo_two = 2"
  "observed_count (accept_observation demo_started order demo_empty) demo_empty = 0"
  unfolding observed_count_def
  by (simp_all add: demo_count_two demo_count_none accept_observation_def demo_last)

lemma demo_process_later:
  "me_event_engine_process demo_started (Some demo_two) =
     process_accepted (accept_observation demo_started (order_of demo_two) demo_two) demo_two"
  "me_event_engine_process demo_started (Some demo_empty) =
     process_accepted (accept_observation demo_started (order_of demo_empty) demo_empty) demo_empty"
  using engine_run_inv [OF demo_run]
  by (simp_all add: process_same_stream demo_two_ok demo_empty_ok demo_same_stream demo_last
      demo_later_fields demo_observation_fields)

lemma demo_update:
  "\<exists>res e' r. me_event_engine_process demo_started (Some demo_two) = (res, e', [r]) \<and> ev_phase r = ME_EVENT_PHASE_UPDATE"
proof -
  let ?a = "accept_observation demo_started (order_of demo_two) demo_two"
  obtain res e' evs where pa: "process_accepted ?a demo_two = (res, e', evs)" by (metis prod_cases3)
  have cond: "trigger_condition ?a demo_two" "en_active ?a"
    by (simp_all add: trigger_condition_def record_frame demo_last demo_config_fields demo_observed demo_process)
  have elapsed: "elapsed_at_least \<lparr>tl_us = 7800000, tl_valid = True\<rparr> 1200000 True (ms_to_us 5000)"
    by (simp add: elapsed_at_least_def ms_to_us_def)
  from pa have "\<exists>r. evs = [r] \<and> ev_phase r = ME_EVENT_PHASE_UPDATE"
  proof (cases rule: process_accepted_cases)
    case (present ts ss)
    then show ?thesis
      using elapsed
      by (auto simp: accepted_present_def Let_def record_frame demo_last demo_config_fields demo_observed
          demo_later_timeline maybe_emit_update_def increment_event_seq_def emit_event_def
          demo_process event_copy_observation_context_def event_copy_responsible_tracks_def)
  qed (use cond demo_two_ok in \<open>auto simp: record_frame demo_last demo_config_fields\<close>)
  with pa show ?thesis by (auto simp: demo_process_later)
qed


lemma demo_end:
  "\<exists>res e' r. me_event_engine_process demo_started (Some demo_empty) = (res, e', [r]) \<and> ev_phase r = ME_EVENT_PHASE_END"
proof -
  let ?a = "accept_observation demo_started (order_of demo_empty) demo_empty"
  obtain res e' evs where pa: "process_accepted ?a demo_empty = (res, e', evs)" by (metis prod_cases3)
  have cond: "\<not> trigger_condition ?a demo_empty" "en_active ?a"
    by (simp_all add: trigger_condition_def record_frame demo_last demo_config_fields demo_observed demo_process)
  from pa have "\<exists>r. evs = [r] \<and> ev_phase r = ME_EVENT_PHASE_END"
  proof (cases rule: process_accepted_cases)
    case (absent ts ss)
    then show ?thesis
      by (auto simp: accepted_absent_def Let_def record_frame demo_last demo_config_fields ms_to_us_def
          emit_end_def increment_event_seq_def emit_event_def demo_process end_event_fields split: if_splits)
  qed (use cond demo_empty_ok in \<open>auto simp: record_frame demo_last demo_config_fields\<close>)
  with pa show ?thesis by (auto simp: demo_process_later)
qed

text \<open>Feeding a list of observations, and the records that come out.\<close>

fun engine_feed :: "MeEventEngine \<Rightarrow> MeNormalizedObservation list \<Rightarrow> MeEventEngine \<times> MeAnalyticsEvent list" where
  "engine_feed e [] = (e, [])"
| "engine_feed e (ob # obs) =
     (case me_event_engine_process e (Some ob) of (res, e1, evs) \<Rightarrow>
        (case engine_feed e1 obs of (e2, evs') \<Rightarrow> (e2, evs @ evs')))"

text \<open>An idle engine in cooldown until \<open>u\<close> on a stream.\<close>

definition cooling :: "i64 \<Rightarrow> MeAnalyticsConfig \<Rightarrow> string \<Rightarrow> u64 \<Rightarrow> MeEventEngine \<Rightarrow> bool" where
  "cooling u c ch ep e \<longleftrightarrow>
     engine_ok e \<and> \<not> en_active e \<and> en_cooldown_until_valid e \<and> en_cooldown_until_us e = u \<and> en_config e = c \<and>
     en_have_stream e \<and> en_channel_id e = ch \<and> en_stream_epoch e = ep"

lemma cooling_step:
  assumes cool: "cooling u c ch ep e" and obs: "observation_ok ob"
    and st: "ob_channel_id ob = ch" "ob_stream_epoch ob = ep"
    and now: "tl_valid (observation_timeline e ob)" "tl_us (observation_timeline e ob) < u"
    and p: "me_event_engine_process e (Some ob) = (res, e', evs)"
  shows "evs = [] \<and> cooling u c ch ep e'"
proof -
  have ok: "engine_ok e" and same: "same_stream e ob" using cool st by (auto simp: cooling_def same_stream_def)
  have good: "engine_ok e'" using process_good [OF ok, of "Some ob"] p by (simp add: good_step_def)
  have ch: "copy_string ME_ANALYTICS_CHANNEL_ID_MAX ch = ch" using obs st by (auto simp: observation_ok_def)
  let ?a = "accept_observation e (order_of ob) ob"
  have acc: "evs = [] \<and> cooling u c ch ep e'" if pa: "process_accepted ?a ob = (res, e', evs)"
    using pa
  proof (cases rule: process_accepted_cases)
    case (idle ts ss)
    let ?o = "observed_state ?a ob ts ss"
    have "\<not> cooldown_elapsed ?o (observation_timeline e ob)"
      using cool now by (simp add: cooldown_elapsed_def record_frame cooling_def)
    then have "\<not> trigger_qualified (update_trigger_candidate ?o (trigger_condition ?a ob) (observation_timeline e ob))
        (observation_timeline e ob)"
      using trigger_qualified_needs(2) by blast
    with idle have "evs = []" "e' = update_trigger_candidate ?o (trigger_condition ?a ob) (observation_timeline e ob)"
      by (simp_all add: accepted_idle_def Let_def)
    with update_trigger_candidate_frame [of ?o "trigger_condition ?a ob" "observation_timeline e ob"] good cool st ch
    show ?thesis by (auto simp: cooling_def record_frame)
  qed (use good cool st ch in \<open>auto simp: cooling_def record_frame clear_tracks_def\<close>)
  show ?thesis
    using acc p cool process_same_stream [OF ok obs same] by (auto split: if_splits)
qed

lemma cooling_feed:
  assumes "cooling u c ch ep e"
    and "\<forall>ob \<in> set obs. observation_ok ob \<and> ob_channel_id ob = ch \<and> ob_stream_epoch ob = ep \<and>
           tl_valid (observation_timeline e ob) \<and> tl_us (observation_timeline e ob) < u"
  shows "snd (engine_feed e obs) = []"
  using assms
proof (induction obs arbitrary: e)
  case Nil
  then show ?case by simp
next
  case (Cons ob obs)
  obtain res e1 evs where p: "me_event_engine_process e (Some ob) = (res, e1, evs)" by (metis prod_cases3)
  from cooling_step [OF Cons.prems(1) _ _ _ _ _ p] Cons.prems have e1: "evs = []" "cooling u c ch ep e1" by auto
  have "observation_timeline e1 x = observation_timeline e x" for x
    using e1 Cons.prems(1) by (intro observation_timeline_config) (simp add: cooling_def)
  with Cons.IH [OF e1(2)] Cons.prems e1 p show ?case by (simp split: prod.splits)
qed

lemma absent_end_starts_cooldown:
  assumes "accepted_absent e ob n now = (res, e', [r])" and "tl_valid now" and "0 \<le> tl_us now"
    and "cf_cooldown_ms (en_config e) > 0"
  shows "en_cooldown_until_valid e' \<and>
         en_cooldown_until_us e' = min INT64_MAX (tl_us now + int (unat (cf_cooldown_ms (en_config e))) * 1000) \<and>
         \<not> en_active e' \<and> en_config e' = en_config e \<and> en_have_stream e' = en_have_stream e \<and>
         en_channel_id e' = en_channel_id e \<and> en_stream_epoch e' = en_stream_epoch e"
  using assms
  by (auto simp: accepted_absent_def emit_end_def Let_def set_cooldown_def time_add_ms_Some
      clear_rule_fact_states_def record_frame split: if_splits option.splits)

text \<open>
  C32: after an event ended because the condition disappeared at time \<open>t\<close>, no observation of the
  same stream with a known time before \<open>t + cooldown_ms\<close> produces a record, however many arrive.
\<close>

theorem cooldown_suppresses_events:
  assumes "engine_run e tr" and "observation_ok ob" and "same_stream e ob"
    and "me_event_engine_process e (Some ob) = (res, e', [r])" and "ev_phase r = ME_EVENT_PHASE_END"
    and "tl_valid (observation_timeline e ob)" and "cf_cooldown_ms (en_config e) > 0"
    and "\<forall>ob' \<in> set obs. observation_ok ob' \<and> ob_channel_id ob' = ob_channel_id ob \<and>
           ob_stream_epoch ob' = ob_stream_epoch ob \<and> tl_valid (observation_timeline e ob') \<and>
           tl_us (observation_timeline e ob') <
             min INT64_MAX (tl_us (observation_timeline e ob) + int (unat (cf_cooldown_ms (en_config e))) * 1000)"
  shows "snd (engine_feed e' obs) = []"
proof -
  let ?a = "accept_observation e (order_of ob) ob"
  let ?u = "min INT64_MAX (tl_us (observation_timeline e ob) + int (unat (cf_cooldown_ms (en_config e))) * 1000)"
  have ok: "engine_ok e" using engine_run_inv [OF assms(1)] by blast
  have good: "engine_ok e'" using process_good [OF ok, of "Some ob"] assms(4) by (simp add: good_step_def)
  have ch: "copy_string ME_ANALYTICS_CHANNEL_ID_MAX (ob_channel_id ob) = ob_channel_id ob"
    using assms(2) by (simp add: observation_ok_def)
  have pa: "process_accepted ?a ob = (res, e', [r])"
    using process_same_stream [OF ok assms(2,3)] assms(4) by (auto split: if_splits)
  then have cool: "cooling ?u (en_config e) (ob_channel_id ob) (ob_stream_epoch ob) e'"
  proof (cases rule: process_accepted_cases)
    case (absent ts ss)
    from absent_end_starts_cooldown [OF absent(4)] assms(6,7) observation_timeline_nonneg [of e ob] good ch show ?thesis
      by (simp add: cooling_def record_frame)
  next
    case (idle ts ss)
    with accepted_idle_records [OF idle(3)] assms(5) show ?thesis by simp
  next
    case (present ts ss)
    with accepted_present_records [OF present(4)] assms(5) show ?thesis by simp
  qed simp_all
  have "observation_timeline e' x = observation_timeline e x" for x
    using cool by (intro observation_timeline_config) (simp add: cooling_def)
  with cooling_feed [OF cool, of obs] assms(8) show ?thesis by simp
qed

theorem cooldown_suppresses_events_witness:
  "\<exists>res e' r. me_event_engine_process demo_started (Some demo_empty) = (res, e', [r]) \<and>
     ev_phase r = ME_EVENT_PHASE_END \<and>
     snd (engine_feed e' [demo_observation\<lparr>ob_frame_id := 9\<rparr>]) = []"
proof -
  let ?ob = "demo_observation\<lparr>ob_frame_id := 9\<rparr>"
  obtain res e' r where u: "me_event_engine_process demo_started (Some demo_empty) = (res, e', [r])"
      "ev_phase r = ME_EVENT_PHASE_END"
    using demo_end by blast
  have t: "observation_timeline demo_started ?ob = \<lparr>tl_us = 1600000, tl_valid = True\<rparr>"
    by (simp add: observation_timeline_def pts_to_us_def demo_observation_def sample_observation_def
        me_observation_init_def zero_observation_def demo_last demo_config_fields scale_to_us_def INT64_MAX_def)
  have ok: "observation_ok ?ob" using demo_observation_ok by (simp add: observation_ok_def live_tracks_def live_rules_def)
  have "snd (engine_feed e' [?ob]) = []"
    by (rule cooldown_suppresses_events [OF demo_run demo_empty_ok demo_same_stream(2) u])
      (simp_all add: demo_last demo_config_fields demo_later_timeline t ok demo_later_fields
        demo_observation_fields INT64_MAX_def)
  with u show ?thesis by blast
qed

subsection \<open>Reconfiguration\<close>

text \<open>
  a reconfiguration succeeds on an idle engine exactly when the configuration is valid and the
  requested version, or the next one when 0 is given, is above the current one; then the engine
  runs the new configuration under a strictly greater version. Otherwise nothing changes.
\<close>

theorem reconfigure_idle_exact:
  assumes "engine_run e tr" and "\<not> en_active e"
  shows "(case me_event_engine_reconfigure e (Some c) v of
            (Inr n, e', evs) \<Rightarrow>
               config_ok c \<and> n = 0 \<and> evs = [] \<and> en_config e' = c \<and> en_config_version e < en_config_version e' \<and>
               en_config_version e' = (if v = 0 then en_config_version e + 1 else v)
          | (Inl err, e', evs) \<Rightarrow>
               e' = e \<and> evs = [] \<and>
               (\<not> config_ok c \<or> (if v = 0 then en_config_version e = UINT64_MAX else v \<le> en_config_version e)))"
proof -
  have idle: "end_active e reason = (Inr 0, e, [])" for reason using assms(2) by (simp add: end_active_def)
  show ?thesis
  proof (cases "next_config_version e v")
    case (Inl err)
    then show ?thesis
      by (auto simp: me_event_engine_reconfigure_def next_config_version_def config_ok_def split: sum.splits if_splits)
  next
    case (Inr w)
    with next_config_version_Inr [OF Inr] idle show ?thesis
      by (auto simp: me_event_engine_reconfigure_def config_ok_def next_config_version_def split: sum.splits if_splits)
  qed
qed

theorem reconfigure_idle_exact_witness:
  "engine_run demo_engine [] \<and> \<not> en_active demo_engine \<and>
   (\<exists>err. me_event_engine_reconfigure demo_engine (Some demo_config) 1 = (Inl err, demo_engine, []))"
proof -
  have i: "\<not> en_active demo_engine" "en_config_version demo_engine = 1"
    by (simp_all add: demo_engine_def zero_engine_def)
  obtain res e' evs where r: "me_event_engine_reconfigure demo_engine (Some demo_config) 1 = (res, e', evs)"
    by (metis prod_cases3)
  with reconfigure_idle_exact [OF run_init [OF demo_init] i(1), of demo_config 1] i show ?thesis
    using run_init [OF demo_init] by (cases res) auto
qed

end
