(* ===== verification/Me_Util.thy ===== *)
theory Me_Util
  imports Me_Prelude
begin

text \<open>
  \<^verbatim>\<open>media_engine/src/common/util.c\<close> and \<^verbatim>\<open>me_errors.h\<close>: the strict decimal parser, the IPv4 check,
  the trimming helper and the wire error codes, with the parts of the C library they call
  (\<^verbatim>\<open>strtoull\<close>, \<^verbatim>\<open>strtol\<close>, \<^verbatim>\<open>isspace\<close>, \<^verbatim>\<open>inet_pton\<close>). \<^verbatim>\<open>unsigned long long\<close> and \<^verbatim>\<open>long\<close> have 64 bits, as
  on the target. \<^verbatim>\<open>me_log\<close> only writes to stderr and is not modelled; \<^verbatim>\<open>me_set_err\<close> fills a message
  buffer, and the development keeps the branch that was taken as an error value instead.
\<close>

subsection \<open>Error codes and log levels\<close>

definition ME_ERR_OK :: int where
  "ME_ERR_OK = 0"

definition ME_ERR_MEDIA :: int where
  "ME_ERR_MEDIA = - 32000"

definition ME_ERR_NOT_FOUND :: int where
  "ME_ERR_NOT_FOUND = - 32001"

definition ME_ERR_PARAM :: int where
  "ME_ERR_PARAM = - 32002"

lemmas me_err_defs = ME_ERR_OK_def ME_ERR_MEDIA_def ME_ERR_NOT_FOUND_def ME_ERR_PARAM_def

definition level_name :: "int \<Rightarrow> string" where
  "level_name level =
     (if level = 0 then ''ERROR'' else if level = 1 then ''WARN''
      else if level = 2 then ''INFO'' else if level = 3 then ''DEBUG'' else ''?'')"

subsection \<open>Characters and the C library\<close>

definition char_code :: "char \<Rightarrow> nat" where
  "char_code c = of_char c"

definition isspace :: "char \<Rightarrow> bool" where
  "isspace c \<longleftrightarrow> char_code c = 32 \<or> (9 \<le> char_code c \<and> char_code c \<le> 13)"

definition isdigit :: "char \<Rightarrow> bool" where
  "isdigit c \<longleftrightarrow> 48 \<le> char_code c \<and> char_code c \<le> 57"

definition digit_val :: "char \<Rightarrow> nat" where
  "digit_val c = char_code c - 48"

text \<open>The value of a run of decimal digits, most significant first.\<close>

definition dec_value :: "string \<Rightarrow> nat" where
  "dec_value ds = foldl (\<lambda>v c. 10 * v + digit_val c) 0 ds"

text \<open>
  The subject sequence of \<^verbatim>\<open>strtoull\<close> and \<^verbatim>\<open>strtol\<close> in base ten: leading white space, one
  optional sign, a run of digits. The result is the sign, the digits and the text after them;
  with no digit the end pointer is the start of the whole text.
\<close>

definition strip_sign :: "string \<Rightarrow> bool \<times> string" where
  "strip_sign s =
     (case s of
        [] \<Rightarrow> (False, [])
      | c # cs \<Rightarrow> if c = CHR ''-'' then (True, cs) else if c = CHR ''+'' then (False, cs) else (False, s))"

definition scan_int :: "string \<Rightarrow> bool \<times> string \<times> string" where
  "scan_int s =
     (let (neg, body) = strip_sign (dropWhile isspace s);
          ds = takeWhile isdigit body
      in (neg, ds, if ds = [] then s else dropWhile isdigit body))"

text \<open>\<^verbatim>\<open>strtoull(s, &end, 10)\<close>: the value, whether \<^verbatim>\<open>errno\<close> is set to \<^verbatim>\<open>ERANGE\<close>, the text at \<open>end\<close>.\<close>

definition strtoull :: "string \<Rightarrow> u64 \<times> bool \<times> string" where
  "strtoull s =
     (let (neg, ds, rest) = scan_int s; v = dec_value ds
      in if v \<ge> 2 ^ 64 then (UINT64_MAX, True, rest)
         else (if neg then - word_of_nat v else word_of_nat v, False, rest))"

text \<open>\<^verbatim>\<open>strtol(s, &end, 10)\<close> for a 64-bit \<open>long\<close>.\<close>

definition strtol :: "string \<Rightarrow> int \<times> bool \<times> string" where
  "strtol s =
     (let (neg, ds, rest) = scan_int s;
          v = (if neg then - int (dec_value ds) else int (dec_value ds))
      in if v > INT64_MAX then (INT64_MAX, True, rest)
         else if v < INT64_MIN then (INT64_MIN, True, rest)
         else (v, False, rest))"

subsection \<open>Operations of util.c\<close>

definition me_parse_u32_decimal :: "string option \<Rightarrow> u32 option" where
  "me_parse_u32_decimal s =
     (case s of
        None \<Rightarrow> None
      | Some t \<Rightarrow>
          if t = [] \<or> hd t = CHR ''+'' \<or> hd t = CHR ''-'' then None
          else (let (v, erange, rest) = strtoull t
                in if erange \<or> rest \<noteq> [] \<or> unat v > 4294967295 then None
                   else Some (ucast v)))"

text \<open>\<^verbatim>\<open>inet_pton(AF_INET, \<dots>)\<close>: four decimal octets without leading zeros, separated by dots.\<close>

fun split_dots :: "string \<Rightarrow> string list" where
  "split_dots [] = [[]]"
| "split_dots (c # cs) =
     (if c = CHR ''.'' then [] # split_dots cs
      else case split_dots cs of [] \<Rightarrow> [[c]] | p # ps \<Rightarrow> (c # p) # ps)"

definition valid_octet :: "string \<Rightarrow> bool" where
  "valid_octet p \<longleftrightarrow>
     p \<noteq> [] \<and> length p \<le> 3 \<and> (\<forall>c \<in> set p. isdigit c) \<and>
     (length p = 1 \<or> hd p \<noteq> CHR ''0'') \<and> dec_value p \<le> 255"

definition me_valid_ipv4 :: "string option \<Rightarrow> bool" where
  "me_valid_ipv4 s =
     (case s of
        None \<Rightarrow> False
      | Some t \<Rightarrow> t \<noteq> [] \<and> length (split_dots t) = 4 \<and> (\<forall>p \<in> set (split_dots t). valid_octet p))"

definition me_trim :: "string \<Rightarrow> string" where
  "me_trim s = rev (dropWhile isspace (rev (dropWhile isspace s)))"

text \<open>\<^verbatim>\<open>snprintf("%u")\<close> of a decimal number, used when a status reply prints an SSRC.\<close>

fun show_dec :: "nat \<Rightarrow> string" where
  "show_dec n = (if n < 10 then [char_of (48 + n)] else show_dec (n div 10) @ [char_of (48 + n mod 10)])"

declare show_dec.simps [simp del]

subsection \<open>Lemmas\<close>

lemma char_code_char_of: "n < (256::nat) \<Longrightarrow> char_code (char_of n) = n"
  by (simp add: char_code_def)

lemma isdigit_char_of: "n < (10::nat) \<Longrightarrow> isdigit (char_of (48 + n))"
  by (simp add: isdigit_def char_code_char_of)

lemma digit_val_char_of: "n < (10::nat) \<Longrightarrow> digit_val (char_of (48 + n)) = n"
  by (simp add: digit_val_def char_code_char_of)

lemma dec_value_snoc: "dec_value (ds @ [c]) = 10 * dec_value ds + digit_val c"
  by (simp add: dec_value_def)

lemma dec_value_Nil [simp]: "dec_value [] = 0"
  by (simp add: dec_value_def)

lemma show_dec_digits: "\<forall>c \<in> set (show_dec n). isdigit c"
proof (induction n rule: show_dec.induct)
  case (1 n)
  then show ?case
    by (cases "n < 10") (auto simp: show_dec.simps [of n] isdigit_char_of)
qed

lemma show_dec_not_Nil: "show_dec n \<noteq> []"
  by (simp add: show_dec.simps [of n])

lemma dec_value_show_dec: "dec_value (show_dec n) = n"
proof (induction n rule: show_dec.induct)
  case (1 n)
  show ?case
  proof (cases "n < 10")
    case True
    then show ?thesis
      by (simp add: show_dec.simps [of n] dec_value_def digit_val_char_of)
  next
    case False
    with 1 have "dec_value (show_dec (n div 10)) = n div 10" by simp
    with False show ?thesis
      by (simp add: show_dec.simps [of n] dec_value_snoc digit_val_char_of)
  qed
qed

lemma isdigit_not_space: "isdigit c \<Longrightarrow> \<not> isspace c"
  by (auto simp: isdigit_def isspace_def)

lemma isdigit_not_sign: "isdigit c \<Longrightarrow> c \<noteq> CHR ''-'' \<and> c \<noteq> CHR ''+''"
  by (auto simp: isdigit_def char_code_def)

lemma scan_int_digits:
  assumes "s \<noteq> []" and "\<forall>c \<in> set s. isdigit c"
  shows "scan_int s = (False, s, [])"
proof -
  from assms have d: "isdigit (hd s)" by (cases s) auto
  have 1: "dropWhile isspace s = s"
    using assms(1) d by (cases s) (auto dest: isdigit_not_space)
  have 2: "strip_sign s = (False, s)"
    using assms(1) isdigit_not_sign [OF d] by (cases s) (auto simp: strip_sign_def)
  show ?thesis
    using assms by (simp add: scan_int_def 1 2 takeWhile_eq_all_conv [THEN iffD2])
qed

lemma strtoull_digits:
  assumes "s \<noteq> []" and "\<forall>c \<in> set s. isdigit c" and "dec_value s < 2 ^ 64"
  shows "strtoull s = (word_of_nat (dec_value s), False, [])"
  using assms by (simp add: strtoull_def scan_int_digits)

lemma me_trim_ends:
  assumes "me_trim s \<noteq> []"
  shows "\<not> isspace (hd (me_trim s)) \<and> \<not> isspace (last (me_trim s))"
proof -
  let ?a = "dropWhile isspace s"
  from assms have "dropWhile isspace (rev ?a) \<noteq> []" by (simp add: me_trim_def)
  then have l: "\<not> isspace (last (me_trim s))"
    unfolding me_trim_def by (metis hd_dropWhile last_rev)
  obtain zs where a: "?a = me_trim s @ zs"
    unfolding me_trim_def by (metis rev_append rev_rev_ident takeWhile_dropWhile_id)
  with assms have "hd (me_trim s) = hd ?a" and "?a \<noteq> []" by auto
  then have "\<not> isspace (hd (me_trim s))" by (simp add: hd_dropWhile)
  with l show ?thesis by simp
qed

lemma dropWhile_hd_False: "xs \<noteq> [] \<Longrightarrow> \<not> P (hd xs) \<Longrightarrow> dropWhile P xs = xs"
  by (cases xs) auto

text \<open>
  the decimal parser reads back every 32-bit value printed with \<^verbatim>\<open>%u\<close>, which is how a
  status reply returns the SSRC that a start request sent as text.
\<close>

theorem parse_show_roundtrip:
  "me_parse_u32_decimal (Some (show_dec (unat (v :: u32)))) = Some v"
proof -
  let ?s = "show_dec (unat v)"
  have lt: "unat v < 2 ^ 32" using unsigned_less [of v] by simp
  have d: "isdigit (hd ?s)" using show_dec_digits show_dec_not_Nil by (meson hd_in_set)
  obtain k where k: "k = unat v" by blast
  have "strtoull ?s = (word_of_nat k, False, [])"
    using strtoull_digits [OF show_dec_not_Nil show_dec_digits] lt
    by (simp add: dec_value_show_dec k)
  moreover have "unat (word_of_nat k :: u64) = k"
    using lt k by (intro unat_word_of_nat) simp
  moreover have "ucast (word_of_nat k :: u64) = v"
    using lt k by (subst ucast_word_of_nat) simp_all
  ultimately show ?thesis
    using lt k isdigit_not_sign [OF d] show_dec_not_Nil by (simp add: me_parse_u32_decimal_def)
qed

text \<open>
  on text made of decimal digits the parser is exact: it returns the number the digits
  denote when that number fits 32 bits, and fails otherwise.
\<close>

theorem parse_u32_digits_exact:
  assumes "s \<noteq> []" and "\<forall>c \<in> set s. isdigit c"
  shows "me_parse_u32_decimal (Some s) =
           (if dec_value s < 2 ^ 32 then Some (word_of_nat (dec_value s)) else None)"
proof -
  have d: "isdigit (hd s)" using assms by simp
  note sign = isdigit_not_sign [OF d]
  show ?thesis
  proof (cases "dec_value s < 2 ^ 64")
    case True
    then have u: "unat (word_of_nat (dec_value s) :: u64) = dec_value s"
      by (intro unat_word_of_nat) simp
    have "ucast (word_of_nat (dec_value s) :: u64) = (word_of_nat (dec_value s) :: u32)"
      using True by (intro ucast_word_of_nat) simp
    with True u sign assms strtoull_digits [OF assms True] show ?thesis
      by (auto simp: me_parse_u32_decimal_def)
  next
    case False
    then show ?thesis
      using sign assms by (simp add: me_parse_u32_decimal_def strtoull_def scan_int_digits)
  qed
qed

theorem parse_u32_digits_exact_witness:
  "me_parse_u32_decimal (Some ''4294967296'') = None \<and> me_parse_u32_decimal (Some ''42'') = Some 42"
proof -
  have 1: "''4294967296'' \<noteq> []" "\<forall>c \<in> set ''4294967296''. isdigit c"
    and 2: "''42'' \<noteq> []" "\<forall>c \<in> set ''42''. isdigit c"
    by (simp_all add: isdigit_def char_code_def)
  show ?thesis
    using parse_u32_digits_exact [OF 1] parse_u32_digits_exact [OF 2]
    by (simp add: dec_value_def digit_val_def char_code_def)
qed

text \<open>
  the parser's contract in \<^verbatim>\<open>util.h\<close> rules out leading white space, and the code accepts it:
  only a sign in the first byte is refused, and \<^verbatim>\<open>strtoull\<close> skips white space and then takes a sign.
  Text that starts with a blank is accepted, even a negative number that wraps to a small one.
\<close>

theorem parse_u32_accepts_blank_and_sign:
  "me_parse_u32_decimal (Some '' 7'') = Some 7 \<and>
   me_parse_u32_decimal (Some ''-7'') = None \<and>
   me_parse_u32_decimal (Some '' -18446744073709551615'') = Some 1"
  by (simp add: me_parse_u32_decimal_def strtoull_def scan_int_def strip_sign_def isspace_def
      isdigit_def char_code_def dec_value_def digit_val_def)

text \<open>
  trimming removes exactly the white space at both ends: the result never starts or ends
  with white space, and trimming it again changes nothing.
\<close>

theorem me_trim_idempotent: "me_trim (me_trim s) = me_trim s"
proof (cases "me_trim s = []")
  case True
  then have "me_trim (me_trim s) = me_trim []" by (rule arg_cong)
  also have "\<dots> = []" by (simp add: me_trim_def)
  finally show ?thesis using True by (rule trans [OF _ sym])
next
  case False
  note ends = me_trim_ends [OF False]
  have "dropWhile isspace (me_trim s) = me_trim s"
    using False ends by (intro dropWhile_hd_False) auto
  moreover have "dropWhile isspace (rev (me_trim s)) = rev (me_trim s)"
    using False ends by (intro dropWhile_hd_False) (auto simp: hd_rev)
  ultimately show ?thesis by (simp add: me_trim_def)
qed

end
