(* ===== verification/Session_Mgr.thy ===== *)
theory Session_Mgr
  imports Me_Util
begin

text \<open>
  \<^verbatim>\<open>media_engine/src/session/session.h\<close> and \<^verbatim>\<open>session_mgr.{h,c}\<close>: the registry of live sessions. The media plane
  behind it is the interface \<^verbatim>\<open>LiveBackend\<close>: two operations on the state of a backend, which the manager is
  given. The locale \<open>live_backend\<close> states what the manager relies on and derives the contract of the
  registry; the GStreamer runner is the backend of the program. The table is an association list in
  the order in which the hash table is walked. Error texts are not modelled, the codes are.
\<close>

subsection \<open>Data\<close>

abbreviation ME_SESSION_ID_MAX :: nat where "ME_SESSION_ID_MAX \<equiv> 128"
abbreviation ME_CHANNEL_ID_MAX :: nat where "ME_CHANNEL_ID_MAX \<equiv> 64"
abbreviation ME_DEST_IP_MAX :: nat where "ME_DEST_IP_MAX \<equiv> 64"

record SessionParams =
  sp_session_id :: string
  sp_channel_id :: string
  sp_codec :: string
  sp_width :: int
  sp_height :: int
  sp_fps :: int
  sp_bitrate :: int
  sp_dest_ip :: string
  sp_dest_port :: int
  sp_ssrc :: u32
  sp_payload_type :: int

record MediaSession =
  ms_params :: SessionParams
  ms_last_activity_us :: i64

record SessionMgr =
  sm_sessions :: "(string \<times> MediaSession) list"

type_synonym 'b start_live = "SessionParams \<Rightarrow> 'b \<Rightarrow> int \<times> 'b"
type_synonym 'b stop_live = "string \<Rightarrow> 'b \<Rightarrow> int \<times> 'b"

subsection \<open>Operations\<close>

text \<open>The arguments tell which of the pointers are set.\<close>

definition session_mgr_new :: "bool \<Rightarrow> bool \<Rightarrow> bool \<Rightarrow> SessionMgr option" where
  "session_mgr_new backend start_live stop_live =
     (if \<not> backend \<or> \<not> start_live \<or> \<not> stop_live then None else Some \<lparr>sm_sessions = []\<rparr>)"

text \<open>Freeing stops the sessions; the ids are collected by prepending.\<close>

definition session_mgr_free :: "'b stop_live \<Rightarrow> SessionMgr option \<Rightarrow> 'b \<Rightarrow> 'b" where
  "session_mgr_free stop_live mo backend =
     (case mo of
        None \<Rightarrow> backend
      | Some m \<Rightarrow> foldl (\<lambda>b sid. snd (stop_live sid b)) backend (rev (map fst (sm_sessions m))))"

definition session_mgr_has :: "SessionMgr \<Rightarrow> string \<Rightarrow> bool" where
  "session_mgr_has m session_id \<longleftrightarrow> map_of (sm_sessions m) session_id \<noteq> None"

definition session_mgr_count :: "SessionMgr \<Rightarrow> int" where
  "session_mgr_count m = int (length (sm_sessions m))"

definition session_mgr_get :: "SessionMgr \<Rightarrow> string \<Rightarrow> MediaSession option" where
  "session_mgr_get m session_id = map_of (sm_sessions m) session_id"

definition session_mgr_active :: "SessionMgr \<Rightarrow> MediaSession option" where
  "session_mgr_active m = (case sm_sessions m of [] \<Rightarrow> None | (_, s) # _ \<Rightarrow> Some s)"

definition session_mgr_start ::
  "'b start_live \<Rightarrow> i64 \<Rightarrow> SessionMgr \<Rightarrow> SessionParams \<Rightarrow> 'b \<Rightarrow> int \<times> SessionMgr \<times> 'b" where
  "session_mgr_start start_live now_us m p backend =
     (if session_mgr_has m (sp_session_id p) then (ME_ERR_MEDIA, m, backend)
      else if sm_sessions m \<noteq> [] then (ME_ERR_MEDIA, m, backend)
      else (case start_live p backend of
              (rc, backend1) \<Rightarrow>
                if rc \<noteq> ME_ERR_OK then (rc, m, backend1)
                else (ME_ERR_OK,
                      m\<lparr>sm_sessions := (sp_session_id p, \<lparr>ms_params = p, ms_last_activity_us = now_us\<rparr>) # sm_sessions m\<rparr>,
                      backend1)))"

definition session_mgr_touch :: "i64 \<Rightarrow> SessionMgr \<Rightarrow> string \<Rightarrow> int \<times> SessionMgr" where
  "session_mgr_touch now_us m session_id =
     (if \<not> session_mgr_has m session_id then (ME_ERR_NOT_FOUND, m)
      else (ME_ERR_OK,
            m\<lparr>sm_sessions := map (\<lambda>(k, s). (k, if k = session_id then s\<lparr>ms_last_activity_us := now_us\<rparr> else s)) (sm_sessions m)\<rparr>))"

definition session_mgr_expired :: "SessionMgr \<Rightarrow> i64 \<Rightarrow> i64 \<Rightarrow> nat \<Rightarrow> string option" where
  "session_mgr_expired m now_us timeout_us session_id_sz =
     (if timeout_us \<le> 0 then None
      else (case sm_sessions m of
              [] \<Rightarrow> None
            | (key, s) # _ \<Rightarrow>
                if now_us - ms_last_activity_us s < timeout_us then None
                else Some (copy_string session_id_sz key)))"

definition session_mgr_stop :: "'b stop_live \<Rightarrow> SessionMgr \<Rightarrow> string \<Rightarrow> 'b \<Rightarrow> int \<times> SessionMgr \<times> 'b" where
  "session_mgr_stop stop_live m session_id backend =
     (if \<not> session_mgr_has m session_id then (ME_ERR_OK, m, backend)
      else (case stop_live session_id backend of
              (rc, backend1) \<Rightarrow>
                if rc \<noteq> ME_ERR_OK \<and> rc \<noteq> ME_ERR_NOT_FOUND then (rc, m, backend1)
                else (ME_ERR_OK, m\<lparr>sm_sessions := filter (\<lambda>(k, _). k \<noteq> session_id) (sm_sessions m)\<rparr>, backend1)))"

subsection \<open>The contract of a backend\<close>

text \<open>The id fits its array, as every id of a request does.\<close>

definition params_ok :: "SessionParams \<Rightarrow> bool" where
  "params_ok p \<longleftrightarrow> length (sp_session_id p) < ME_SESSION_ID_MAX"

text \<open>
  \<open>streaming\<close> is the session that the backend serves, and \<open>backend_ok\<close> its own invariant. A start succeeds
  only when nothing is streaming and then streams that session; a failed start streams nothing new. A
  stop never leaves the named session streaming and never starts one; when it reports that the session
  is not there, nothing changes.
\<close>

locale live_backend =
  fixes start_live :: "'b start_live" and stop_live :: "'b stop_live"
    and streaming :: "'b \<Rightarrow> string option" and backend_ok :: "'b \<Rightarrow> bool"
  assumes start_keeps: "backend_ok b \<Longrightarrow> start_live p b = (rc, b') \<Longrightarrow> backend_ok b'"
    and start_done: "backend_ok b \<Longrightarrow> params_ok p \<Longrightarrow> start_live p b = (ME_ERR_OK, b') \<Longrightarrow>
      streaming b = None \<and> streaming b' = Some (sp_session_id p)"
    and start_failed: "backend_ok b \<Longrightarrow> start_live p b = (rc, b') \<Longrightarrow> rc \<noteq> ME_ERR_OK \<Longrightarrow> streaming b' = streaming b"
    and stop_keeps: "backend_ok b \<Longrightarrow> stop_live sid b = (rc, b') \<Longrightarrow> backend_ok b'"
    and stop_done: "backend_ok b \<Longrightarrow> stop_live sid b = (rc, b') \<Longrightarrow>
      streaming b' = (if streaming b = Some sid then None else streaming b)"
begin

text \<open>At most one session is registered, and a session that streams is registered.\<close>

definition coupled :: "SessionMgr \<Rightarrow> 'b \<Rightarrow> bool" where
  "coupled m b \<longleftrightarrow>
     backend_ok b \<and> length (sm_sessions m) \<le> 1 \<and>
     (\<forall>sid. streaming b = Some sid \<longrightarrow> session_mgr_has m sid)"

lemma coupled_new: "backend_ok b \<Longrightarrow> streaming b = None \<Longrightarrow> coupled \<lparr>sm_sessions = []\<rparr> b"
  by (simp add: coupled_def)

lemma start_coupled:
  assumes "coupled m b" and "params_ok p" and "session_mgr_start start_live now m p b = (rc, m', b')"
  shows "coupled m' b' \<and>
    (if rc = ME_ERR_OK then sm_sessions m = [] \<and> streaming b' = Some (sp_session_id p) \<and> session_mgr_has m' (sp_session_id p)
     else m' = m \<and> streaming b' = streaming b)"
proof (cases "sm_sessions m = []")
  case True
  obtain rc1 b1 where s: "start_live p b = (rc1, b1)" by fastforce
  have ok: "backend_ok b" using assms(1) by (simp add: coupled_def)
  show ?thesis
    using assms(1,3) True s start_keeps [OF ok s] start_done [OF ok assms(2)] start_failed [OF ok s]
    by (auto simp: session_mgr_start_def session_mgr_has_def coupled_def split: if_splits)
next
  case False
  then show ?thesis using assms(1,3) by (auto simp: session_mgr_start_def me_err_defs split: if_splits)
qed

lemma stop_coupled:
  assumes "coupled m b" and "session_mgr_stop stop_live m sid b = (rc, m', b')"
  shows "coupled m' b' \<and> streaming b' \<noteq> Some sid \<and>
    (if rc = ME_ERR_OK then \<not> session_mgr_has m' sid else m' = m)"
proof (cases "session_mgr_has m sid")
  case True
  obtain rc1 b1 where s: "stop_live sid b = (rc1, b1)" by fastforce
  have ok: "backend_ok b" using assms(1) by (simp add: coupled_def)
  obtain e where one: "sm_sessions m = [(sid, e)]"
    using True assms(1) unfolding session_mgr_has_def coupled_def
    by (cases "sm_sessions m"; cases "tl (sm_sessions m)") (auto split: if_splits)
  show ?thesis
    using assms one s stop_keeps [OF ok s] stop_done [OF ok s]
    by (auto simp: session_mgr_stop_def session_mgr_has_def coupled_def split: if_splits)
next
  case False
  then show ?thesis using assms by (auto simp: session_mgr_stop_def coupled_def)
qed

lemma touch_coupled:
  assumes "coupled m b" and "session_mgr_touch now m sid = (rc, m')"
  shows "coupled m' b \<and> map fst (sm_sessions m') = map fst (sm_sessions m)"
proof -
  have "map fst (sm_sessions m') = map fst (sm_sessions m)"
    using assms(2) by (auto simp: session_mgr_touch_def split: if_splits)
  moreover have "session_mgr_has m'' x \<longleftrightarrow> x \<in> set (map fst (sm_sessions m''))" for m'' x
    by (auto simp: session_mgr_has_def map_of_eq_None_iff)
  moreover have "length (sm_sessions m') = length (sm_sessions m)"
    using calculation(1) by (metis length_map)
  ultimately show ?thesis using assms(1) by (simp add: coupled_def del: set_map)
qed

lemma free_stops:
  assumes "coupled m b" and "b' = session_mgr_free stop_live (Some m) b"
  shows "streaming b' = None \<and> backend_ok b'"
proof (cases "sm_sessions m")
  case Nil
  then show ?thesis using assms by (auto simp: session_mgr_free_def coupled_def session_mgr_has_def)
next
  case (Cons x xs)
  then have one: "sm_sessions m = [x]" using assms(1) by (simp add: coupled_def)
  obtain rc b1 where s: "stop_live (fst x) b = (rc, b1)" by fastforce
  have ok: "backend_ok b" using assms(1) by (simp add: coupled_def)
  have "b' = b1" using assms(2) one s by (simp add: session_mgr_free_def)
  then show ?thesis
    using stop_keeps [OF ok s] stop_done [OF ok s] assms(1) one
    by (cases x; cases "streaming b") (auto simp: coupled_def session_mgr_has_def split: if_splits)
qed

end

end
