(* ===== verification/Engine_Config.thy ===== *)
theory Engine_Config
  imports Event_Types Me_Util
begin

text \<open>
  \<^verbatim>\<open>media_engine/src/config/config.{h,c}\<close>: the engine's settings from defaults, the YAML file and the
  command line. A YAML document is the tree that libyaml loads; what opening and loading a path gives
  is the parameter \<open>files\<close>, and the option sequence that \<^verbatim>\<open>getopt_long\<close> reports for an argument vector is the
  parameter \<open>getopt\<close>. An operation returns the error, if any, with the configuration as it is left: a
  rejected setting may already have been stored. Strings are without their terminating zero.
\<close>

subsection \<open>Data\<close>

abbreviation ME_CFG_PATH_MAX :: nat where "ME_CFG_PATH_MAX \<equiv> 256"
abbreviation ME_CFG_SOCKET_MAX :: nat where "ME_CFG_SOCKET_MAX \<equiv> 128"

record EngineConfig =
  ec_cam_id :: int
  ec_iq_dir :: string
  ec_device :: string
  ec_format :: string
  ec_width :: int
  ec_height :: int
  ec_fps :: int
  ec_connector_id :: int
  ec_plane_id :: int
  ec_preview :: bool
  ec_preview_rotation :: int
  ec_preview_width :: int
  ec_preview_height :: int
  ec_stream_rotation :: int
  ec_af_mode :: string
  ec_socket_path :: string
  ec_snapshot_dir :: string
  ec_live_lease_timeout_s :: int
  ec_analytics :: MeAnalyticsConfig

datatype ConfigFault =
    CF_Arguments
  | CF_Open
  | CF_Yaml_Init
  | CF_Yaml_Parse
  | CF_Root_Not_Mapping
  | CF_Key_Not_Scalar
  | CF_Dangling_Alias
  | CF_Value_Not_Scalar
  | CF_Value_Too_Long
  | CF_Value_Empty
  | CF_Invalid_Value string
  | CF_Lease_Negative
  | CF_Analytics ConfigError
  | CF_Unknown_Option

type_synonym config_result = "ConfigFault option \<times> EngineConfig"

datatype yaml_node =
    Yaml_Scalar string
  | Yaml_Sequence
  | Yaml_Mapping "(yaml_node option \<times> yaml_node option) list"

datatype YamlFile =
    Yaml_Missing
  | Yaml_Unreadable
  | Yaml_No_Parser
  | Yaml_Malformed
  | Yaml_Document "yaml_node option"

subsection \<open>Values\<close>

definition parse_bool_value :: "string \<Rightarrow> bool option" where
  "parse_bool_value s =
     (if s = ''1'' \<or> strcaseeq s ''on'' \<or> strcaseeq s ''true'' \<or> strcaseeq s ''yes'' then Some True
      else if s = ''0'' \<or> strcaseeq s ''off'' \<or> strcaseeq s ''false'' \<or> strcaseeq s ''no'' then Some False
      else None)"

definition parse_int_value :: "string \<Rightarrow> int option" where
  "parse_int_value s =
     (if s = [] then None
      else (let (v, erange, rest) = strtol s
            in if erange \<or> rest \<noteq> [] \<or> v < INT32_MIN \<or> v > INT32_MAX then None else Some v))"

definition parse_u32_value :: "string \<Rightarrow> u32 option" where
  "parse_u32_value s =
     (if s = [] \<or> hd s = CHR ''-'' \<or> hd s = CHR ''+'' then None
      else (let (v, erange, rest) = strtoull s
            in if erange \<or> rest \<noteq> [] \<or> unat v > 4294967295 then None else Some (ucast v)))"

definition parse_u64_value :: "string \<Rightarrow> u64 option" where
  "parse_u64_value s =
     (if s = [] \<or> hd s = CHR ''-'' \<or> hd s = CHR ''+'' then None
      else (let (v, erange, rest) = strtoull s
            in if erange \<or> rest \<noteq> [] then None else Some v))"

definition set_string :: "nat \<Rightarrow> string \<Rightarrow> string option" where
  "set_string cap value = (if cap = 0 \<or> length value \<ge> cap then None else Some value)"

text \<open>Storing a parsed value, or reporting that it is invalid and leaving the configuration alone.\<close>

definition store :: "string \<Rightarrow> ('a \<Rightarrow> EngineConfig) \<Rightarrow> EngineConfig \<Rightarrow> 'a option \<Rightarrow> config_result" where
  "store key put cfg parsed =
     (case parsed of None \<Rightarrow> (Some (CF_Invalid_Value key), cfg) | Some v \<Rightarrow> (None, put v))"

text \<open>Storing an integer first and checking it afterwards.\<close>

definition store_checked ::
  "string \<Rightarrow> (int \<Rightarrow> bool) \<Rightarrow> (int \<Rightarrow> EngineConfig) \<Rightarrow> EngineConfig \<Rightarrow> int option \<Rightarrow> config_result" where
  "store_checked key ok put cfg parsed =
     (case parsed of
        None \<Rightarrow> (Some (CF_Invalid_Value key), cfg)
      | Some v \<Rightarrow> (if ok v then None else Some (CF_Invalid_Value key), put v))"

definition valid_rotation :: "int \<Rightarrow> bool" where
  "valid_rotation v \<longleftrightarrow> v = 0 \<or> v = 90 \<or> v = 180 \<or> v = 270"

definition valid_extent :: "int \<Rightarrow> bool" where
  "valid_extent v \<longleftrightarrow> \<not> (v < 2 \<or> odd v)"

subsection \<open>Defaults and validation\<close>

definition engine_config_defaults :: EngineConfig where
  "engine_config_defaults =
     \<lparr>ec_cam_id = 0, ec_iq_dir = ''/oem/usr/share/iqfiles'', ec_device = ''/dev/video24'', ec_format = ''NV12'',
      ec_width = 3840, ec_height = 2160, ec_fps = 30, ec_connector_id = 97, ec_plane_id = 75, ec_preview = True,
      ec_preview_rotation = 0, ec_preview_width = 480, ec_preview_height = 800, ec_stream_rotation = 0,
      ec_af_mode = ''off'', ec_socket_path = ''/var/run/gb28181_media.sock'',
      ec_snapshot_dir = ''/data/media_engine/snapshots'', ec_live_lease_timeout_s = 90,
      ec_analytics = me_analytics_config_defaults\<rparr>"

definition engine_config_validate :: "EngineConfig option \<Rightarrow> ConfigFault option" where
  "engine_config_validate co =
     (case co of
        None \<Rightarrow> Some CF_Arguments
      | Some cfg \<Rightarrow>
          if ec_live_lease_timeout_s cfg < 0 then Some CF_Lease_Negative
          else (case me_analytics_config_validate (Some (ec_analytics cfg)) of
                  Inl err \<Rightarrow> Some (CF_Analytics err) | Inr _ \<Rightarrow> None))"

subsection \<open>The configuration file\<close>

definition is_known_key :: "string \<Rightarrow> bool" where
  "is_known_key key \<longleftrightarrow> key \<in> set
     [''cam_id'', ''iq_dir'', ''device'', ''format'', ''width'', ''height'', ''fps'', ''connector_id'', ''plane_id'',
      ''preview'', ''preview_rotation'', ''stream_rotation'', ''preview_width'', ''preview_height'', ''af_mode'',
      ''socket'', ''socket_path'', ''snapshot_dir'', ''live_lease_timeout_s'', ''analytics_enabled'',
      ''analytics_backend'', ''analytics_model'', ''analytics_width'', ''analytics_height'', ''analytics_fps'',
      ''analytics_score_threshold_q'', ''analytics_confirm_frames'', ''analytics_confirm_ms'',
      ''analytics_debounce_ms'', ''analytics_disappear_grace_ms'', ''analytics_cooldown_ms'',
      ''analytics_update_interval_ms'', ''analytics_send_updates'', ''analytics_send_end'',
      ''analytics_roi_enabled'', ''analytics_roi_left'', ''analytics_roi_top'', ''analytics_roi_right'',
      ''analytics_roi_bottom'', ''analytics_line_enabled'', ''analytics_line_x1'', ''analytics_line_y1'',
      ''analytics_line_x2'', ''analytics_line_y2'', ''analytics_rule_id'', ''analytics_rule_type'',
      ''analytics_evidence_mode'', ''analytics_evidence_max_bytes'', ''analytics_evidence_retention_s'',
      ''analytics_evidence_jpeg_quality'', ''analytics_event_log_max_records'', ''analytics_event_log_max_bytes'',
      ''analytics_event_log_path'']"

text \<open>The branches of \<open>config_apply_document\<close> for the capture, preview and service keys; None is no such key.\<close>

definition apply_service_key :: "EngineConfig \<Rightarrow> string \<Rightarrow> string \<Rightarrow> config_result option" where
  "apply_service_key cfg key value =
     (if key = ''cam_id'' then Some (store key (\<lambda>v. cfg\<lparr>ec_cam_id := v\<rparr>) cfg (parse_int_value value))
      else if key = ''iq_dir''
      then Some (store key (\<lambda>v. cfg\<lparr>ec_iq_dir := v\<rparr>) cfg (set_string ME_CFG_PATH_MAX value))
      else if key = ''device''
      then Some (store key (\<lambda>v. cfg\<lparr>ec_device := v\<rparr>) cfg (set_string ME_CFG_SOCKET_MAX value))
      else if key = ''format''
      then Some (store key (\<lambda>v. cfg\<lparr>ec_format := v\<rparr>) cfg (set_string 16 value))
      else if key = ''width''
      then Some (store key (\<lambda>v. cfg\<lparr>ec_width := v\<rparr>) cfg (parse_int_value value))
      else if key = ''height''
      then Some (store key (\<lambda>v. cfg\<lparr>ec_height := v\<rparr>) cfg (parse_int_value value))
      else if key = ''fps'' then Some (store key (\<lambda>v. cfg\<lparr>ec_fps := v\<rparr>) cfg (parse_int_value value))
      else if key = ''connector_id''
      then Some (store key (\<lambda>v. cfg\<lparr>ec_connector_id := v\<rparr>) cfg (parse_int_value value))
      else if key = ''plane_id''
      then Some (store key (\<lambda>v. cfg\<lparr>ec_plane_id := v\<rparr>) cfg (parse_int_value value))
      else if key = ''preview''
      then Some (store key (\<lambda>v. cfg\<lparr>ec_preview := v\<rparr>) cfg (parse_bool_value value))
      else if key = ''preview_rotation''
      then Some (store_checked key valid_rotation (\<lambda>v. cfg\<lparr>ec_preview_rotation := v\<rparr>) cfg (parse_int_value value))
      else if key = ''stream_rotation''
      then Some (store_checked key valid_rotation (\<lambda>v. cfg\<lparr>ec_stream_rotation := v\<rparr>) cfg (parse_int_value value))
      else if key = ''preview_width''
      then Some (store_checked key valid_extent (\<lambda>v. cfg\<lparr>ec_preview_width := v\<rparr>) cfg (parse_int_value value))
      else if key = ''preview_height''
      then Some (store_checked key valid_extent (\<lambda>v. cfg\<lparr>ec_preview_height := v\<rparr>) cfg (parse_int_value value))
      else if key = ''af_mode''
      then Some (store key (\<lambda>v. cfg\<lparr>ec_af_mode := v\<rparr>) cfg (set_string 16 value))
      else if key = ''socket'' \<or> key = ''socket_path''
      then Some (store key (\<lambda>v. cfg\<lparr>ec_socket_path := v\<rparr>) cfg (set_string ME_CFG_SOCKET_MAX value))
      else if key = ''snapshot_dir''
      then Some (store key (\<lambda>v. cfg\<lparr>ec_snapshot_dir := v\<rparr>) cfg (set_string ME_CFG_PATH_MAX value))
      else if key = ''live_lease_timeout_s''
      then Some (store key (\<lambda>v. cfg\<lparr>ec_live_lease_timeout_s := v\<rparr>) cfg (parse_int_value value))
      else None)"

text \<open>The branches for the analytics keys.\<close>

definition put_analytics :: "EngineConfig \<Rightarrow> (MeAnalyticsConfig \<Rightarrow> MeAnalyticsConfig) \<Rightarrow> EngineConfig" where
  "put_analytics cfg f = cfg\<lparr>ec_analytics := f (ec_analytics cfg)\<rparr>"

definition apply_analytics_key :: "EngineConfig \<Rightarrow> string \<Rightarrow> string \<Rightarrow> config_result option" where
  "apply_analytics_key cfg key value =
     (if key = ''analytics_enabled''
      then Some (store key (\<lambda>v. put_analytics cfg (\<lambda>a. a\<lparr>cf_enabled := v\<rparr>)) cfg (parse_bool_value value))
      else if key = ''analytics_backend''
      then Some (store key (\<lambda>v. put_analytics cfg (\<lambda>a. a\<lparr>cf_backend := v\<rparr>)) cfg (set_string ME_ANALYTICS_BACKEND_MAX value))
      else if key = ''analytics_model''
      then Some (store key (\<lambda>v. put_analytics cfg (\<lambda>a. a\<lparr>cf_model := v\<rparr>)) cfg (set_string ME_ANALYTICS_MODEL_MAX value))
      else if key = ''analytics_width''
      then Some (store key (\<lambda>v. put_analytics cfg (\<lambda>a. a\<lparr>cf_width := v\<rparr>)) cfg (parse_int_value value))
      else if key = ''analytics_height''
      then Some (store key (\<lambda>v. put_analytics cfg (\<lambda>a. a\<lparr>cf_height := v\<rparr>)) cfg (parse_int_value value))
      else if key = ''analytics_fps''
      then Some (store key (\<lambda>v. put_analytics cfg (\<lambda>a. a\<lparr>cf_fps := v\<rparr>)) cfg (parse_int_value value))
      else if key = ''analytics_score_threshold_q''
      then Some (store key (\<lambda>v. put_analytics cfg (\<lambda>a. a\<lparr>cf_score_threshold_q := v\<rparr>)) cfg (parse_u32_value value))
      else if key = ''analytics_confirm_frames''
      then Some (store key (\<lambda>v. put_analytics cfg (\<lambda>a. a\<lparr>cf_confirm_frames := v\<rparr>)) cfg (parse_u32_value value))
      else if key = ''analytics_confirm_ms''
      then Some (store key (\<lambda>v. put_analytics cfg (\<lambda>a. a\<lparr>cf_confirm_ms := v\<rparr>)) cfg (parse_u32_value value))
      else if key = ''analytics_debounce_ms''
      then Some (store key (\<lambda>v. put_analytics cfg (\<lambda>a. a\<lparr>cf_debounce_ms := v\<rparr>)) cfg (parse_u32_value value))
      else if key = ''analytics_disappear_grace_ms''
      then Some (store key (\<lambda>v. put_analytics cfg (\<lambda>a. a\<lparr>cf_disappear_grace_ms := v\<rparr>)) cfg (parse_u32_value value))
      else if key = ''analytics_cooldown_ms''
      then Some (store key (\<lambda>v. put_analytics cfg (\<lambda>a. a\<lparr>cf_cooldown_ms := v\<rparr>)) cfg (parse_u32_value value))
      else if key = ''analytics_update_interval_ms''
      then Some (store key (\<lambda>v. put_analytics cfg (\<lambda>a. a\<lparr>cf_update_interval_ms := v\<rparr>)) cfg (parse_u32_value value))
      else if key = ''analytics_send_updates''
      then Some (store key (\<lambda>v. put_analytics cfg (\<lambda>a. a\<lparr>cf_send_updates := v\<rparr>)) cfg (parse_bool_value value))
      else if key = ''analytics_send_end''
      then Some (store key (\<lambda>v. put_analytics cfg (\<lambda>a. a\<lparr>cf_send_end := v\<rparr>)) cfg (parse_bool_value value))
      else if key = ''analytics_roi_enabled''
      then Some (store key (\<lambda>v. put_analytics cfg (\<lambda>a. a\<lparr>cf_roi_enabled := v\<rparr>)) cfg (parse_bool_value value))
      else if key = ''analytics_roi_left''
      then Some (store key (\<lambda>v. put_analytics cfg (\<lambda>a. a\<lparr>cf_roi := (cf_roi a)\<lparr>bb_left := v\<rparr>\<rparr>)) cfg (parse_u32_value value))
      else if key = ''analytics_roi_top''
      then Some (store key (\<lambda>v. put_analytics cfg (\<lambda>a. a\<lparr>cf_roi := (cf_roi a)\<lparr>bb_top := v\<rparr>\<rparr>)) cfg (parse_u32_value value))
      else if key = ''analytics_roi_right''
      then Some (store key (\<lambda>v. put_analytics cfg (\<lambda>a. a\<lparr>cf_roi := (cf_roi a)\<lparr>bb_right := v\<rparr>\<rparr>)) cfg (parse_u32_value value))
      else if key = ''analytics_roi_bottom''
      then Some (store key (\<lambda>v. put_analytics cfg (\<lambda>a. a\<lparr>cf_roi := (cf_roi a)\<lparr>bb_bottom := v\<rparr>\<rparr>)) cfg (parse_u32_value value))
      else if key = ''analytics_line_enabled''
      then Some (store key (\<lambda>v. put_analytics cfg (\<lambda>a. a\<lparr>cf_line_enabled := v\<rparr>)) cfg (parse_bool_value value))
      else if key = ''analytics_line_x1''
      then Some (store key (\<lambda>v. put_analytics cfg (\<lambda>a. a\<lparr>cf_line_x1 := v\<rparr>)) cfg (parse_u32_value value))
      else if key = ''analytics_line_y1''
      then Some (store key (\<lambda>v. put_analytics cfg (\<lambda>a. a\<lparr>cf_line_y1 := v\<rparr>)) cfg (parse_u32_value value))
      else if key = ''analytics_line_x2''
      then Some (store key (\<lambda>v. put_analytics cfg (\<lambda>a. a\<lparr>cf_line_x2 := v\<rparr>)) cfg (parse_u32_value value))
      else if key = ''analytics_line_y2''
      then Some (store key (\<lambda>v. put_analytics cfg (\<lambda>a. a\<lparr>cf_line_y2 := v\<rparr>)) cfg (parse_u32_value value))
      else if key = ''analytics_rule_id''
      then Some (store key (\<lambda>v. put_analytics cfg (\<lambda>a. a\<lparr>cf_rule_id := v\<rparr>)) cfg (set_string ME_ANALYTICS_RULE_ID_MAX value))
      else if key = ''analytics_rule_type''
      then Some (store key (\<lambda>v. put_analytics cfg (\<lambda>a. a\<lparr>cf_rule_type := v\<rparr>)) cfg (me_analytics_rule_type_parse (Some value)))
      else if key = ''analytics_evidence_mode''
      then Some (store key (\<lambda>v. put_analytics cfg (\<lambda>a. a\<lparr>cf_evidence_mode := v\<rparr>)) cfg
              (if me_analytics_evidence_mode_valid (Some value) then set_string ME_ANALYTICS_EVIDENCE_MODE_MAX value else None))
      else if key = ''analytics_evidence_max_bytes''
      then Some (store key (\<lambda>v. put_analytics cfg (\<lambda>a. a\<lparr>cf_evidence_max_bytes := v\<rparr>)) cfg (parse_u64_value value))
      else if key = ''analytics_evidence_retention_s''
      then Some (store key (\<lambda>v. put_analytics cfg (\<lambda>a. a\<lparr>cf_evidence_retention_s := v\<rparr>)) cfg (parse_u32_value value))
      else if key = ''analytics_evidence_jpeg_quality''
      then Some (store key (\<lambda>v. put_analytics cfg (\<lambda>a. a\<lparr>cf_evidence_jpeg_quality := v\<rparr>)) cfg (parse_u32_value value))
      else if key = ''analytics_event_log_max_records''
      then Some (store key (\<lambda>v. put_analytics cfg (\<lambda>a. a\<lparr>cf_event_log_max_records := v\<rparr>)) cfg (parse_u32_value value))
      else if key = ''analytics_event_log_max_bytes''
      then Some (store key (\<lambda>v. put_analytics cfg (\<lambda>a. a\<lparr>cf_event_log_max_bytes := v\<rparr>)) cfg (parse_u64_value value))
      else if key = ''analytics_event_log_path''
      then Some (store key (\<lambda>v. put_analytics cfg (\<lambda>a. a\<lparr>cf_event_log_path := v\<rparr>)) cfg (set_string ME_ANALYTICS_EVENT_LOG_PATH_MAX value))
      else None)"

definition apply_key :: "EngineConfig \<Rightarrow> string \<Rightarrow> string \<Rightarrow> config_result" where
  "apply_key cfg key value =
     (case apply_service_key cfg key value of
        Some r \<Rightarrow> r
      | None \<Rightarrow> (case apply_analytics_key cfg key value of Some r \<Rightarrow> r | None \<Rightarrow> (None, cfg)))"

text \<open>The C string at the start of a scalar's bytes.\<close>

definition c_string :: "string \<Rightarrow> string" where
  "c_string s = takeWhile (\<lambda>c. c \<noteq> CHR 0x00) s"

definition apply_pair :: "EngineConfig \<Rightarrow> yaml_node option \<times> yaml_node option \<Rightarrow> config_result" where
  "apply_pair cfg pair =
     (case fst pair of
        Some (Yaml_Scalar k) \<Rightarrow>
          (let key = take 63 (c_string k) in
           case snd pair of
             None \<Rightarrow> (Some CF_Dangling_Alias, cfg)
           | Some (Yaml_Scalar bytes) \<Rightarrow>
               if length bytes \<ge> 512 then (Some CF_Value_Too_Long, cfg)
               else (let value = me_trim (c_string bytes)
                     in if value = [] then (Some CF_Value_Empty, cfg) else apply_key cfg key value)
           | Some _ \<Rightarrow> (if is_known_key key then Some CF_Value_Not_Scalar else None, cfg))
      | _ \<Rightarrow> (Some CF_Key_Not_Scalar, cfg))"

fun apply_pairs :: "EngineConfig \<Rightarrow> (yaml_node option \<times> yaml_node option) list \<Rightarrow> config_result" where
  "apply_pairs cfg [] = (None, cfg)"
| "apply_pairs cfg (pair # pairs) =
     (case apply_pair cfg pair of
        (Some err, cfg') \<Rightarrow> (Some err, cfg')
      | (None, cfg') \<Rightarrow> apply_pairs cfg' pairs)"

definition config_apply_document :: "EngineConfig \<Rightarrow> yaml_node option \<Rightarrow> config_result" where
  "config_apply_document cfg doc =
     (case doc of
        None \<Rightarrow> (None, cfg)
      | Some (Yaml_Mapping pairs) \<Rightarrow> apply_pairs cfg pairs
      | Some _ \<Rightarrow> (Some CF_Root_Not_Mapping, cfg))"

definition engine_config_load :: "(string \<Rightarrow> YamlFile) \<Rightarrow> EngineConfig \<Rightarrow> string option \<Rightarrow> config_result" where
  "engine_config_load files cfg path =
     (case files (case path of None \<Rightarrow> ''/oem/usr/share/media_engine.yaml'' | Some p \<Rightarrow> p) of
        Yaml_Missing \<Rightarrow> (None, cfg)
      | Yaml_Unreadable \<Rightarrow> (Some CF_Open, cfg)
      | Yaml_No_Parser \<Rightarrow> (Some CF_Yaml_Init, cfg)
      | Yaml_Malformed \<Rightarrow> (Some CF_Yaml_Parse, cfg)
      | Yaml_Document doc \<Rightarrow>
          (case config_apply_document cfg doc of
             (Some err, cfg') \<Rightarrow> (Some err, cfg')
           | (None, cfg') \<Rightarrow> (engine_config_validate (Some cfg'), cfg')))"

subsection \<open>The command line\<close>

datatype CliOpt = Short char | Long nat | Other_Option

text \<open>The conversion of a \<^verbatim>\<open>long\<close> to \<^verbatim>\<open>int\<close> keeps the low 32 bits.\<close>

definition c_int :: "int \<Rightarrow> int" where
  "c_int v = signed_take_bit 31 v"

definition cli_long :: "string \<Rightarrow> (int \<Rightarrow> bool) \<Rightarrow> (int \<Rightarrow> EngineConfig) \<Rightarrow> EngineConfig \<Rightarrow> string \<Rightarrow> config_result" where
  "cli_long name ok put cfg optarg =
     (let (v, erange, rest) = strtol optarg
      in if erange \<or> rest \<noteq> [] \<or> \<not> ok v then (Some (CF_Invalid_Value name), cfg) else (None, put (c_int v)))"

definition apply_short_option :: "EngineConfig \<Rightarrow> char \<Rightarrow> string \<Rightarrow> config_result" where
  "apply_short_option cfg opt optarg =
     (if opt = CHR ''a'' then (None, cfg\<lparr>ec_iq_dir := copy_string ME_CFG_PATH_MAX optarg\<rparr>)
      else if opt = CHR ''c'' then cli_long ''camera id'' (\<lambda>v. True) (\<lambda>v. cfg\<lparr>ec_cam_id := v\<rparr>) cfg optarg
      else if opt = CHR ''d'' then (None, cfg\<lparr>ec_device := copy_string ME_CFG_SOCKET_MAX optarg\<rparr>)
      else if opt = CHR ''f'' then (None, cfg\<lparr>ec_format := copy_string 16 optarg\<rparr>)
      else if opt = CHR ''W'' then cli_long ''width'' (\<lambda>v. 0 < v) (\<lambda>v. cfg\<lparr>ec_width := v\<rparr>) cfg optarg
      else if opt = CHR ''H'' then cli_long ''height'' (\<lambda>v. 0 < v) (\<lambda>v. cfg\<lparr>ec_height := v\<rparr>) cfg optarg
      else if opt = CHR ''r'' then cli_long ''fps'' (\<lambda>v. 0 < v) (\<lambda>v. cfg\<lparr>ec_fps := v\<rparr>) cfg optarg
      else if opt = CHR ''C'' then cli_long ''connector id'' (\<lambda>v. True) (\<lambda>v. cfg\<lparr>ec_connector_id := v\<rparr>) cfg optarg
      else if opt = CHR ''P'' then cli_long ''plane id'' (\<lambda>v. True) (\<lambda>v. cfg\<lparr>ec_plane_id := v\<rparr>) cfg optarg
      else if opt = CHR ''s'' then (None, cfg\<lparr>ec_socket_path := copy_string ME_CFG_SOCKET_MAX optarg\<rparr>)
      else (Some CF_Unknown_Option, cfg))"

definition apply_long_option :: "EngineConfig \<Rightarrow> nat \<Rightarrow> string \<Rightarrow> config_result" where
  "apply_long_option cfg opt optarg =
     (if opt = 1000 then (None, cfg)
      else if opt = 1001 then store ''--preview'' (\<lambda>b. cfg\<lparr>ec_preview := b\<rparr>) cfg (parse_bool_value optarg)
      else if opt = 1002 then (None, cfg\<lparr>ec_af_mode := copy_string 16 optarg\<rparr>)
      else if opt = 1003 then (None, cfg\<lparr>ec_snapshot_dir := copy_string ME_CFG_PATH_MAX optarg\<rparr>)
      else if opt = 1004
      then cli_long ''--preview-rotation'' valid_rotation (\<lambda>v. cfg\<lparr>ec_preview_rotation := v\<rparr>) cfg optarg
      else if opt = 1005
      then cli_long ''--stream-rotation'' valid_rotation (\<lambda>v. cfg\<lparr>ec_stream_rotation := v\<rparr>) cfg optarg
      else if opt = 1006
      then cli_long ''--preview-width'' valid_extent (\<lambda>v. cfg\<lparr>ec_preview_width := v\<rparr>) cfg optarg
      else if opt = 1007
      then cli_long ''--preview-height'' valid_extent (\<lambda>v. cfg\<lparr>ec_preview_height := v\<rparr>) cfg optarg
      else if opt = 1008
      then store ''--analytics-enabled'' (\<lambda>b. put_analytics cfg (\<lambda>a. a\<lparr>cf_enabled := b\<rparr>)) cfg (parse_bool_value optarg)
      else if opt = 1009
      then store ''analytics_backend'' (\<lambda>v. put_analytics cfg (\<lambda>a. a\<lparr>cf_backend := v\<rparr>)) cfg
             (set_string ME_ANALYTICS_BACKEND_MAX optarg)
      else if opt = 1010
      then store ''analytics_model'' (\<lambda>v. put_analytics cfg (\<lambda>a. a\<lparr>cf_model := v\<rparr>)) cfg
             (set_string ME_ANALYTICS_MODEL_MAX optarg)
      else if opt = 1011
      then store ''analytics_width'' (\<lambda>v. put_analytics cfg (\<lambda>a. a\<lparr>cf_width := v\<rparr>)) cfg (parse_int_value optarg)
      else if opt = 1012
      then store ''analytics_height'' (\<lambda>v. put_analytics cfg (\<lambda>a. a\<lparr>cf_height := v\<rparr>)) cfg (parse_int_value optarg)
      else if opt = 1013
      then store ''analytics_fps'' (\<lambda>v. put_analytics cfg (\<lambda>a. a\<lparr>cf_fps := v\<rparr>)) cfg (parse_int_value optarg)
      else if opt = 1014
      then store ''analytics_event_log_path'' (\<lambda>v. put_analytics cfg (\<lambda>a. a\<lparr>cf_event_log_path := v\<rparr>)) cfg
             (set_string ME_ANALYTICS_EVENT_LOG_PATH_MAX optarg)
      else (Some CF_Unknown_Option, cfg))"

text \<open>The first scan of the arguments, for the configuration file.\<close>

fun find_config_file :: "string list \<Rightarrow> string option" where
  "find_config_file [] = None"
| "find_config_file (arg # args) =
     (if arg = ''--config'' \<and> args \<noteq> [] then Some (hd args)
      else if take 9 arg = ''--config='' then Some (drop 9 arg)
      else find_config_file args)"

datatype CliOutcome = Cli_Ok | Cli_Help | Cli_Error ConfigFault

fun apply_options :: "EngineConfig \<Rightarrow> (CliOpt \<times> string) list \<Rightarrow> CliOutcome \<times> EngineConfig" where
  "apply_options cfg [] =
     (case engine_config_validate (Some cfg) of None \<Rightarrow> (Cli_Ok, cfg) | Some err \<Rightarrow> (Cli_Error err, cfg))"
| "apply_options cfg ((opt, optarg) # opts) =
     (if opt = Short CHR ''h'' then (Cli_Help, cfg)
      else (case (case opt of
                    Short c \<Rightarrow> apply_short_option cfg c optarg
                  | Long n \<Rightarrow> apply_long_option cfg n optarg
                  | Other_Option \<Rightarrow> (Some CF_Unknown_Option, cfg)) of
              (Some err, cfg') \<Rightarrow> (Cli_Error err, cfg')
            | (None, cfg') \<Rightarrow> apply_options cfg' opts))"

definition engine_config_apply_cli ::
  "(string \<Rightarrow> YamlFile) \<Rightarrow> (string list \<Rightarrow> (CliOpt \<times> string) list) \<Rightarrow> EngineConfig option \<Rightarrow> string list \<Rightarrow>
     CliOutcome \<times> EngineConfig option" where
  "engine_config_apply_cli files getopt co argv =
     (case co of
        None \<Rightarrow> (Cli_Error CF_Arguments, None)
      | Some cfg \<Rightarrow>
          if argv = [] then (Cli_Error CF_Arguments, co)
          else (case (case find_config_file (tl argv) of
                        None \<Rightarrow> (None, cfg)
                      | Some path \<Rightarrow> engine_config_load files cfg (Some path)) of
                  (Some err, cfg') \<Rightarrow> (Cli_Error err, Some cfg')
                | (None, cfg') \<Rightarrow>
                    (case apply_options cfg' (getopt argv) of (outcome, cfg'') \<Rightarrow> (outcome, Some cfg''))))"

subsection \<open>Known keys\<close>

lemma unknown_key_ignored: "\<not> is_known_key key \<Longrightarrow> apply_key cfg key value = (None, cfg)"
  by (simp add: is_known_key_def apply_key_def apply_service_key_def apply_analytics_key_def)

lemma store_invalid [simp]: "store key put cfg None = (Some (CF_Invalid_Value key), cfg)"
  by (simp add: store_def)

lemma store_checked_invalid [simp]: "store_checked key ok put cfg None = (Some (CF_Invalid_Value key), cfg)"
  by (simp add: store_checked_def)

lemma store_valid [simp]: "store key put cfg (Some v) = (None, put v)"
  by (simp add: store_def)

text \<open>The letter \<open>x\<close> is no number, no switch, no rule type and no evidence mode, and no default string.\<close>

lemma parse_x:
  "parse_int_value ''x'' = None" "parse_u32_value ''x'' = None" "parse_u64_value ''x'' = None"
  "parse_bool_value ''x'' = None" "me_analytics_rule_type_parse (Some ''x'') = None"
  "me_analytics_evidence_mode_valid (Some ''x'') = False" "1 < cap \<Longrightarrow> set_string cap ''x'' = Some ''x''"
  by (simp_all add: parse_int_value_def parse_u32_value_def parse_u64_value_def strtol_def strtoull_def scan_int_def
      strip_sign_def isspace_def isdigit_def char_code_def parse_bool_value_def strcaseeq_def to_lower_def
      me_analytics_rule_type_parse_def me_analytics_evidence_mode_valid_def set_string_def Let_def)

lemma known_key_has_effect:
  "is_known_key key \<Longrightarrow> apply_key engine_config_defaults key ''x'' \<noteq> (None, engine_config_defaults)"
  unfolding is_known_key_def set_simps insert_iff empty_iff
  by (elim disjE FalseE)
    (simp_all add: apply_key_def apply_service_key_def apply_analytics_key_def parse_x put_analytics_def
      engine_config_defaults_def me_analytics_config_defaults_def)

text \<open>
  the list of known keys and the branches that apply a key agree: a key is in the list exactly
  if for some configuration and value it is not ignored. So a complex value is rejected for each key
  that is applied and ignored only for a key whose scalar value would be ignored too.
\<close>

theorem known_keys_exact: "is_known_key key \<longleftrightarrow> (\<exists>cfg value. apply_key cfg key value \<noteq> (None, cfg))"
  using known_key_has_effect unknown_key_ignored by blast

subsection \<open>Geometry\<close>

definition geometry_ok :: "EngineConfig \<Rightarrow> bool" where
  "geometry_ok cfg \<longleftrightarrow>
     valid_rotation (ec_preview_rotation cfg) \<and> valid_rotation (ec_stream_rotation cfg) \<and>
     valid_extent (ec_preview_width cfg) \<and> valid_extent (ec_preview_height cfg)"

lemma geometry_frame [record_frame]:
  "geometry_ok (cfg\<lparr>ec_cam_id := i\<rparr>) = geometry_ok cfg" "geometry_ok (cfg\<lparr>ec_iq_dir := s\<rparr>) = geometry_ok cfg"
  "geometry_ok (cfg\<lparr>ec_device := s\<rparr>) = geometry_ok cfg" "geometry_ok (cfg\<lparr>ec_format := s\<rparr>) = geometry_ok cfg"
  "geometry_ok (cfg\<lparr>ec_width := i\<rparr>) = geometry_ok cfg" "geometry_ok (cfg\<lparr>ec_height := i\<rparr>) = geometry_ok cfg"
  "geometry_ok (cfg\<lparr>ec_fps := i\<rparr>) = geometry_ok cfg" "geometry_ok (cfg\<lparr>ec_connector_id := i\<rparr>) = geometry_ok cfg"
  "geometry_ok (cfg\<lparr>ec_plane_id := i\<rparr>) = geometry_ok cfg" "geometry_ok (cfg\<lparr>ec_preview := b\<rparr>) = geometry_ok cfg"
  "geometry_ok (cfg\<lparr>ec_af_mode := s\<rparr>) = geometry_ok cfg" "geometry_ok (cfg\<lparr>ec_socket_path := s\<rparr>) = geometry_ok cfg"
  "geometry_ok (cfg\<lparr>ec_snapshot_dir := s\<rparr>) = geometry_ok cfg"
  "geometry_ok (cfg\<lparr>ec_live_lease_timeout_s := i\<rparr>) = geometry_ok cfg" "geometry_ok (put_analytics cfg f) = geometry_ok cfg"
  by (simp_all add: geometry_ok_def put_analytics_def)

text \<open>A branch that, when it accepts a value, leaves the geometry valid.\<close>

definition keeps_geometry :: "config_result option \<Rightarrow> bool" where
  "keeps_geometry r \<longleftrightarrow> (\<forall>cfg'. r = Some (None, cfg') \<longrightarrow> geometry_ok cfg')"

named_theorems geometry_rules \<open>branches of the key table that keep the geometry valid\<close>

lemma keeps_if [geometry_rules]: "keeps_geometry a \<Longrightarrow> keeps_geometry b \<Longrightarrow> keeps_geometry (if c then a else b)"
  by simp

lemma keeps_none [geometry_rules]: "keeps_geometry None"
  by (simp add: keeps_geometry_def)

lemma keeps_store [geometry_rules]:
  "(\<And>v. geometry_ok (put v)) \<Longrightarrow> keeps_geometry (Some (store key put cfg parsed))"
  by (simp add: keeps_geometry_def store_def split: option.splits)

lemma keeps_store_checked [geometry_rules]:
  "(\<And>v. ok v \<Longrightarrow> geometry_ok (put v)) \<Longrightarrow> keeps_geometry (Some (store_checked key ok put cfg parsed))"
  by (simp add: keeps_geometry_def store_checked_def split: option.splits)

lemma apply_service_key_geometry: "geometry_ok cfg \<Longrightarrow> keeps_geometry (apply_service_key cfg key value)"
  unfolding apply_service_key_def by (intro geometry_rules) (simp_all add: geometry_ok_def)

lemma apply_analytics_key_geometry: "geometry_ok cfg \<Longrightarrow> keeps_geometry (apply_analytics_key cfg key value)"
  unfolding apply_analytics_key_def by (intro geometry_rules) (simp_all add: geometry_frame)

lemma apply_key_geometry: "geometry_ok cfg \<Longrightarrow> apply_key cfg key value = (None, cfg') \<Longrightarrow> geometry_ok cfg'"
  using apply_service_key_geometry [of cfg key "value"] apply_analytics_key_geometry [of cfg key "value"]
  by (auto simp: apply_key_def keeps_geometry_def split: option.splits)

lemma apply_pair_geometry: "geometry_ok cfg \<Longrightarrow> apply_pair cfg pair = (None, cfg') \<Longrightarrow> geometry_ok cfg'"
  using apply_key_geometry [of cfg]
  by (auto simp: apply_pair_def Let_def split: option.splits yaml_node.splits if_splits)

lemma apply_pairs_geometry: "geometry_ok cfg \<Longrightarrow> apply_pairs cfg pairs = (None, cfg') \<Longrightarrow> geometry_ok cfg'"
proof (induction pairs arbitrary: cfg)
  case (Cons pair pairs)
  then obtain cfg1 where "apply_pair cfg pair = (None, cfg1)" "apply_pairs cfg1 pairs = (None, cfg')"
    by (auto split: prod.splits option.splits)
  with Cons.IH apply_pair_geometry [OF Cons.prems(1)] show ?case by blast
qed simp

text \<open>
  C40: a configuration file that is accepted, whatever it contains, leaves the preview and stream
  rotations multiples of a right angle, the preview extents even and at least two, the lease not
  negative and the analytics settings valid.
\<close>

theorem accepted_file_is_valid:
  assumes "engine_config_load files cfg path = (None, cfg')" and "geometry_ok cfg"
    and "engine_config_validate (Some cfg) = None"
  shows "geometry_ok cfg' \<and> 0 \<le> ec_live_lease_timeout_s cfg' \<and>
         me_analytics_config_validate (Some (ec_analytics cfg')) = Inr ()"
proof -
  have "geometry_ok cfg' \<and> engine_config_validate (Some cfg') = None"
    using assms apply_pairs_geometry [OF assms(2)]
    by (auto simp: engine_config_load_def config_apply_document_def split: YamlFile.splits option.splits yaml_node.splits prod.splits)
  then show ?thesis by (auto simp: engine_config_validate_def split: if_splits sum.splits)
qed

theorem accepted_file_is_valid_witness:
  "(let cfg' = snd (engine_config_load
       (\<lambda>_. Yaml_Document (Some (Yaml_Mapping [(Some (Yaml_Scalar ''preview_rotation''), Some (Yaml_Scalar '' 90 ''))])))
       engine_config_defaults None)
    in ec_preview_rotation cfg' = 90 \<and> geometry_ok cfg')"
proof -
  let ?files = "\<lambda>_. Yaml_Document (Some (Yaml_Mapping [(Some (Yaml_Scalar ''preview_rotation''), Some (Yaml_Scalar '' 90 ''))]))"
  let ?cfg = "engine_config_defaults\<lparr>ec_preview_rotation := 90\<rparr>"
  have g: "geometry_ok engine_config_defaults"
    by (simp add: geometry_ok_def engine_config_defaults_def valid_rotation_def valid_extent_def)
  have v: "engine_config_validate (Some engine_config_defaults) = None" "engine_config_validate (Some ?cfg) = None"
    by (simp_all add: engine_config_validate_def engine_config_defaults_def me_analytics_config_validate_def
        me_analytics_config_defaults_def bounded_string_def valid_rule_type_def me_analytics_evidence_mode_valid_def)
  have "parse_int_value ''90'' = Some 90"
    by (simp add: parse_int_value_def strtol_def scan_int_def strip_sign_def isspace_def isdigit_def char_code_def
        dec_value_def digit_val_def INT64_MAX_def INT64_MIN_def INT32_MAX_def INT32_MIN_def)
  then have "apply_key engine_config_defaults ''preview_rotation'' ''90'' = (None, ?cfg)"
    by (simp add: apply_key_def apply_service_key_def store_checked_def valid_rotation_def)
  then have "engine_config_load ?files engine_config_defaults None = (None, ?cfg)"
    by (simp add: engine_config_load_def config_apply_document_def apply_pair_def c_string_def me_trim_def isspace_def
        char_code_def v)
  with accepted_file_is_valid [OF this g v(1)] show ?thesis by (simp add: Let_def)
qed

subsection \<open>Truncated extents\<close>

text \<open>
  the command line checks an extent before it is narrowed to 32 bits. \<open>-W 4294967296\<close> and
  \<open>--preview-width 4294967296\<close> pass the checks for a positive and for an even width and store zero.
\<close>

theorem cli_width_is_truncated:
  "apply_options engine_config_defaults [(Short CHR ''W'', ''4294967296''), (Long 1006, ''4294967296'')] =
     (Cli_Ok, engine_config_defaults\<lparr>ec_width := 0, ec_preview_width := 0\<rparr>)"
proof -
  have n: "strtol ''4294967296'' = (4294967296, False, [])"
    by (simp add: strtol_def scan_int_def strip_sign_def isspace_def isdigit_def char_code_def
        dec_value_def digit_val_def INT64_MAX_def INT64_MIN_def)
  have c: "c_int 4294967296 = 0" by (simp add: c_int_def signed_take_bit_eq_if_positive)
  have "engine_config_validate (Some (engine_config_defaults\<lparr>ec_width := 0, ec_preview_width := 0\<rparr>)) = None"
    by (simp add: engine_config_validate_def engine_config_defaults_def me_analytics_config_validate_def
        me_analytics_config_defaults_def bounded_string_def valid_rule_type_def me_analytics_evidence_mode_valid_def)
  then show ?thesis
    by (simp add: apply_short_option_def apply_long_option_def cli_long_def n c valid_extent_def)
qed

end
