(* ===== verification/Event_Codec.thy ===== *)
theory Event_Codec
  imports Event_Types Me_Util Complex_Main "HOL-Library.Log_Nat" "HOL-Library.Monad_Syntax"
begin

text \<open>
  \<^verbatim>\<open>media_engine/src/analytics/event_codec.c\<close>: the JSON form of an event. A cJSON tree is a datatype whose
  objects keep their members in order, so that a lookup finds the first member with the key, as
  \<^verbatim>\<open>cJSON_GetObjectItemCaseSensitive\<close> does. A cJSON number is a double: a finite double is its exact
  rational value, and an integer becomes a double by rounding to 53 bits, half to even. Memory
  exhaustion, the only failure of the cJSON constructors, is not modelled.
\<close>

subsection \<open>Doubles and cJSON trees\<close>

datatype double = Fin rat | Pos_Inf | Neg_Inf

text \<open>\<open>(double)n\<close> for a 64-bit integer, in the default rounding mode.\<close>

definition round_double :: "int \<Rightarrow> int" where
  "round_double n =
     (if \<bar>n\<bar> < 2 ^ 53 then n
      else (let a = \<bar>n\<bar>; e = nat (bitlen a) - 53; q = a div 2 ^ e; r = a mod 2 ^ e; half = 2 ^ (e - 1);
                q' = (if r > half \<or> (r = half \<and> odd q) then q + 1 else q)
            in sgn n * (q' * 2 ^ e)))"

definition double_of_int :: "int \<Rightarrow> double" where
  "double_of_int n = Fin (of_int (round_double n))"

definition double_of_u64 :: "u64 \<Rightarrow> double" where
  "double_of_u64 w = double_of_int (uint w)"

definition double_of_u32 :: "u32 \<Rightarrow> double" where
  "double_of_u32 w = double_of_int (uint w)"

datatype json =
    JNull
  | JBool bool
  | JNumber double
  | JString string
  | JArray "json list"
  | JObject "(string \<times> json) list"

definition ME_JSON_SAFE_INTEGER :: int where
  "ME_JSON_SAFE_INTEGER = 9007199254740991"

text \<open>\<^verbatim>\<open>cJSON_GetObjectItemCaseSensitive\<close>; on anything but an object there are no members.\<close>

definition json_item :: "json \<Rightarrow> string \<Rightarrow> json option" where
  "json_item object key = (case object of JObject members \<Rightarrow> map_of members key | _ \<Rightarrow> None)"

subsection \<open>Fields\<close>

text \<open>A double that is an integer between the bounds, as an integer.\<close>

definition safe_integer :: "int \<Rightarrow> double \<Rightarrow> int option" where
  "safe_integer low number =
     (case number of
        Fin r \<Rightarrow>
          if r < of_int low \<or> r \<noteq> of_int \<lfloor>r\<rfloor> \<or> r > of_int ME_JSON_SAFE_INTEGER then None else Some \<lfloor>r\<rfloor>
      | _ \<Rightarrow> None)"

definition json_u64 :: "json \<Rightarrow> string \<Rightarrow> u64 option" where
  "json_u64 object key =
     (case json_item object key of
        Some (JNumber number) \<Rightarrow> map_option word_of_int (safe_integer 0 number)
      | Some (JString s) \<Rightarrow>
          if s = [] \<or> \<not> isdigit (hd s) then None
          else (let (parsed, erange, rest) = strtoull s
                in if erange \<or> rest \<noteq> [] then None else Some parsed)
      | _ \<Rightarrow> None)"

definition json_i64 :: "json \<Rightarrow> string \<Rightarrow> i64 option" where
  "json_i64 object key =
     (case json_item object key of
        Some (JNumber number) \<Rightarrow> safe_integer (- ME_JSON_SAFE_INTEGER) number
      | Some (JString s) \<Rightarrow>
          if s = [] then None
          else (let (parsed, erange, rest) = strtol s
                in if erange \<or> rest \<noteq> [] then None else Some parsed)
      | _ \<Rightarrow> None)"

definition json_u32 :: "json \<Rightarrow> string \<Rightarrow> u32 option" where
  "json_u32 object key =
     (case json_u64 object key of
        None \<Rightarrow> None
      | Some value \<Rightarrow> if unat value > 4294967295 then None else Some (ucast value))"

definition json_bool :: "json \<Rightarrow> string \<Rightarrow> bool option" where
  "json_bool object key = (case json_item object key of Some (JBool b) \<Rightarrow> Some b | _ \<Rightarrow> None)"

definition json_string :: "json \<Rightarrow> string \<Rightarrow> nat \<Rightarrow> string option" where
  "json_string object key outsz =
     (if outsz = 0 then None
      else case json_item object key of
             Some (JString s) \<Rightarrow> if length s \<ge> outsz then None else Some s
           | _ \<Rightarrow> None)"

definition parse_rule_type :: "string \<Rightarrow> MeRuleType option" where
  "parse_rule_type value =
     (if value = ''occupancy'' then Some ME_RULE_TYPE_OCCUPANCY
      else if value = ''line_cross'' then Some ME_RULE_TYPE_LINE_CROSS
      else if value = ''intrusion'' then Some ME_RULE_TYPE_INTRUSION
      else None)"

definition parse_phase :: "string \<Rightarrow> MeEventPhase option" where
  "parse_phase value =
     (if value = ''START'' then Some ME_EVENT_PHASE_START
      else if value = ''UPDATE'' then Some ME_EVENT_PHASE_UPDATE
      else if value = ''END'' then Some ME_EVENT_PHASE_END
      else None)"

definition parse_reason :: "string \<Rightarrow> MeEventReason option" where
  "parse_reason value =
     map_of [(''none'', ME_EVENT_REASON_NONE), (''confirmed'', ME_EVENT_REASON_CONFIRMED),
             (''count_changed'', ME_EVENT_REASON_COUNT_CHANGED), (''direction'', ME_EVENT_REASON_DIRECTION),
             (''disappeared'', ME_EVENT_REASON_DISAPPEARED), (''stream_reset'', ME_EVENT_REASON_STREAM_RESET),
             (''reconfigured'', ME_EVENT_REASON_RECONFIGURED),
             (''analytics_disabled'', ME_EVENT_REASON_ANALYTICS_DISABLED),
             (''process_restart'', ME_EVENT_REASON_PROCESS_RESTART)] value"

definition parse_clock_state :: "string \<Rightarrow> MeClockState option" where
  "parse_clock_state value =
     (if value = ''unavailable'' then Some ME_CLOCK_STATE_UNAVAILABLE
      else if value = ''synced'' then Some ME_CLOCK_STATE_SYNCED
      else if value = ''estimated'' then Some ME_CLOCK_STATE_ESTIMATED
      else if value = ''invalid'' then Some ME_CLOCK_STATE_INVALID
      else None)"

text \<open>\<open>cJSON_IsString(value) && parse(value->valuestring)\<close>\<close>

definition json_name :: "(string \<Rightarrow> 'a option) \<Rightarrow> json \<Rightarrow> string \<Rightarrow> 'a option" where
  "json_name parse object key = (case json_item object key of Some (JString s) \<Rightarrow> parse s | _ \<Rightarrow> None)"

subsection \<open>Encoding\<close>

definition me_analytics_event_to_json :: "MeAnalyticsEvent option \<Rightarrow> json option" where
  "me_analytics_event_to_json eo =
     (case eo of
        None \<Rightarrow> None
      | Some event \<Rightarrow>
          if length (ev_responsible_track_ids event) > ME_ANALYTICS_EVENT_MAX_TRACKS then None
          else Some (JObject
            [(''contract_version'', JNumber (double_of_u32 (ev_contract_version event))),
             (''event_id'', JString (ev_event_id event)),
             (''channel_id'', JString (ev_channel_id event)),
             (''stream_epoch'', JNumber (double_of_u64 (ev_stream_epoch event))),
             (''event_type'', JString (me_rule_type_name (ev_event_type event))),
             (''rule_id'', JString (ev_rule_id event)),
             (''phase'', JString (me_event_phase_name (ev_phase event))),
             (''event_seq'', JNumber (double_of_u64 (ev_event_seq event))),
             (''reason'', JString (me_event_reason_name (ev_reason event))),
             (''event_time_us'', JNumber (double_of_int (ev_event_time_us event))),
             (''clock_state'', JString (me_clock_state_name (ev_clock_state event))),
             (''source_pts_valid'', JBool (ev_source_pts_valid event)),
             (''source_pts'', JNumber (double_of_int (ev_source_pts event))),
             (''source_timebase'', JObject
                [(''num'', JNumber (double_of_u32 (tb_num (ev_source_timebase event)))),
                 (''den'', JNumber (double_of_u32 (tb_den (ev_source_timebase event))))]),
             (''frame_id'', JNumber (double_of_u64 (ev_frame_id event))),
             (''person_count'', JNumber (double_of_u32 (ev_person_count event))),
             (''delta_in'', JNumber (double_of_u32 (ev_delta_in event))),
             (''delta_out'', JNumber (double_of_u32 (ev_delta_out event))),
             (''config_version'', JNumber (double_of_u64 (ev_config_version event))),
             (''evidence_id'', JString (ev_evidence_id event)),
             (''responsible_track_count'',
                JNumber (double_of_int (int (length (ev_responsible_track_ids event))))),
             (''responsible_track_ids'',
                JArray (map (\<lambda>i. JNumber (double_of_u64 i)) (ev_responsible_track_ids event)))]))"

subsection \<open>Decoding\<close>

datatype CodecError =
    JE_Not_Object
  | JE_Identity
  | JE_Event_Type
  | JE_Phase
  | JE_Reason
  | JE_Clock_State
  | JE_Timing
  | JE_Payload
  | JE_Tracks
  | JE_Track_Id
  | JE_Zero_Identity

text \<open>The three groups of fields that \<open>me_analytics_event_from_json\<close> reads in one condition each.\<close>

definition read_identity :: "json \<Rightarrow> (u32 \<times> string \<times> string \<times> u64 \<times> string) option" where
  "read_identity object =
     do {
       contract_version \<leftarrow> json_u32 object ''contract_version'';
       event_id \<leftarrow> json_string object ''event_id'' ME_ANALYTICS_EVENT_ID_MAX;
       channel_id \<leftarrow> json_string object ''channel_id'' ME_ANALYTICS_CHANNEL_ID_MAX;
       stream_epoch \<leftarrow> json_u64 object ''stream_epoch'';
       rule_id \<leftarrow> json_string object ''rule_id'' ME_ANALYTICS_RULE_ID_MAX;
       phase \<leftarrow> json_string object ''phase'' 8;
       Some (contract_version, event_id, channel_id, stream_epoch, rule_id)
     }"

definition read_timing :: "json \<Rightarrow> (u64 \<times> i64 \<times> bool \<times> i64) option" where
  "read_timing object =
     do {
       event_seq \<leftarrow> json_u64 object ''event_seq'';
       event_time_us \<leftarrow> json_i64 object ''event_time_us'';
       source_pts_valid \<leftarrow> json_bool object ''source_pts_valid'';
       source_pts \<leftarrow> json_i64 object ''source_pts'';
       Some (event_seq, event_time_us, source_pts_valid, source_pts)
     }"

definition read_timebase :: "json \<Rightarrow> MeTimebase option" where
  "read_timebase object =
     (case json_item object ''source_timebase'' of
        Some (JObject members) \<Rightarrow>
          do {
            num \<leftarrow> json_u32 (JObject members) ''num'';
            den \<leftarrow> json_u32 (JObject members) ''den'';
            Some \<lparr>tb_num = num, tb_den = den\<rparr>
          }
      | _ \<Rightarrow> None)"

definition read_payload ::
  "json \<Rightarrow> (MeTimebase \<times> u64 \<times> u32 \<times> u32 \<times> u32 \<times> u64 \<times> string \<times> u32) option" where
  "read_payload object =
     do {
       timebase \<leftarrow> read_timebase object;
       frame_id \<leftarrow> json_u64 object ''frame_id'';
       person_count \<leftarrow> json_u32 object ''person_count'';
       delta_in \<leftarrow> json_u32 object ''delta_in'';
       delta_out \<leftarrow> json_u32 object ''delta_out'';
       config_version \<leftarrow> json_u64 object ''config_version'';
       evidence_id \<leftarrow> json_string object ''evidence_id'' ME_ANALYTICS_EVIDENCE_ID_MAX;
       track_count \<leftarrow> json_u32 object ''responsible_track_count'';
       Some (timebase, frame_id, person_count, delta_in, delta_out, config_version, evidence_id, track_count)
     }"

text \<open>The loop over the track ids.\<close>

fun read_track_ids :: "json list \<Rightarrow> u64 list option" where
  "read_track_ids [] = Some []"
| "read_track_ids (item # items) =
     (case item of
        JNumber number \<Rightarrow>
          (case safe_integer 0 number of
             None \<Rightarrow> None
           | Some i \<Rightarrow> map_option (\<lambda>ids. word_of_int i # ids) (read_track_ids items))
      | _ \<Rightarrow> None)"

definition me_analytics_event_from_json :: "json \<Rightarrow> CodecError + MeAnalyticsEvent" where
  "me_analytics_event_from_json object =
     (case object of
        JObject _ \<Rightarrow>
          (case read_identity object of
             None \<Rightarrow> Inl JE_Identity
           | Some (contract_version, event_id, channel_id, stream_epoch, rule_id) \<Rightarrow>
          (case json_name parse_rule_type object ''event_type'' of
             None \<Rightarrow> Inl JE_Event_Type
           | Some event_type \<Rightarrow>
          (case json_name parse_phase object ''phase'' of
             None \<Rightarrow> Inl JE_Phase
           | Some phase \<Rightarrow>
          (case json_name parse_reason object ''reason'' of
             None \<Rightarrow> Inl JE_Reason
           | Some reason \<Rightarrow>
          (case json_name parse_clock_state object ''clock_state'' of
             None \<Rightarrow> Inl JE_Clock_State
           | Some clock_state \<Rightarrow>
          (case read_timing object of
             None \<Rightarrow> Inl JE_Timing
           | Some (event_seq, event_time_us, source_pts_valid, source_pts) \<Rightarrow>
          (case read_payload object of
             None \<Rightarrow> Inl JE_Payload
           | Some (timebase, frame_id, person_count, delta_in, delta_out, config_version, evidence_id, track_count) \<Rightarrow>
          (case json_item object ''responsible_track_ids'' of
             Some (JArray items) \<Rightarrow>
               if unat track_count > ME_ANALYTICS_EVENT_MAX_TRACKS \<or>
                  (word_of_nat (length items) :: u32) \<noteq> track_count
               then Inl JE_Tracks
               else (case read_track_ids (take (unat track_count) items) of
                       None \<Rightarrow> Inl JE_Track_Id
                     | Some ids \<Rightarrow>
                         if contract_version = 0 \<or> event_id = [] \<or> channel_id = [] \<or> stream_epoch = 0 \<or>
                            event_seq = 0 \<or> frame_id = 0
                         then Inl JE_Zero_Identity
                         else Inr \<lparr>ev_contract_version = contract_version, ev_event_id = event_id,
                                   ev_channel_id = channel_id, ev_stream_epoch = stream_epoch,
                                   ev_event_type = event_type, ev_rule_id = rule_id, ev_phase = phase,
                                   ev_event_seq = event_seq, ev_reason = reason,
                                   ev_event_time_us = event_time_us, ev_clock_state = clock_state,
                                   ev_source_pts = source_pts, ev_source_pts_valid = source_pts_valid,
                                   ev_source_timebase = timebase, ev_frame_id = frame_id,
                                   ev_person_count = person_count, ev_delta_in = delta_in,
                                   ev_delta_out = delta_out, ev_responsible_track_ids = ids,
                                   ev_config_version = config_version, ev_evidence_id = evidence_id\<rparr>)
           | _ \<Rightarrow> Inl JE_Tracks))))))))
      | _ \<Rightarrow> Inl JE_Not_Object)"

subsection \<open>Which integers survive\<close>

lemma round_double_small: "\<bar>n\<bar> < 2 ^ 53 \<Longrightarrow> round_double n = n"
  by (simp add: round_double_def)

lemma round_double_large:
  assumes "2 ^ 53 \<le> \<bar>n\<bar>"
  shows "2 ^ 53 \<le> \<bar>round_double n\<bar>" and "0 < round_double n \<longleftrightarrow> 0 < n"
proof -
  let ?a = "\<bar>n\<bar>"
  define e where "e = nat (bitlen ?a) - 53"
  define q where "q = ?a div 2 ^ e"
  have a: "0 < ?a" using assms by simp
  then have lo: "2 ^ nat (bitlen ?a - 1) \<le> ?a" and hi: "?a < 2 ^ nat (bitlen ?a)"
    using bitlen_bounds by auto
  from hi assms have "(2::int) ^ 53 < 2 ^ nat (bitlen ?a)" by linarith
  then have "53 < nat (bitlen ?a)" by (rule power_less_imp_less_exp [rotated]) simp
  then have e: "0 < e" "nat (bitlen ?a - 1) = 52 + e" by (auto simp: e_def)
  from lo have "2 ^ 52 * 2 ^ e \<le> ?a" by (simp add: e power_add)
  then have q: "2 ^ 52 \<le> q" by (simp add: q_def zdiv_mono1 [of "2 ^ 52 * 2 ^ e" ?a "2 ^ e", simplified])
  define q' where "q' = (if ?a mod 2 ^ e > 2 ^ (e - 1) \<or> (?a mod 2 ^ e = 2 ^ (e - 1) \<and> odd q) then q + 1 else q)"
  have q': "q \<le> q'" "round_double n = sgn n * (q' * 2 ^ e)"
  proof -
    show "q \<le> q'" by (simp add: q'_def)
    show "round_double n = sgn n * (q' * 2 ^ e)"
      using assms unfolding round_double_def Let_def e_def [symmetric] q_def [symmetric] q'_def [symmetric] by simp
  qed
  have "(2::int) ^ 53 \<le> 2 ^ 52 * 2 ^ e" using e(1) power_increasing [of 1 e "2::int"] by simp
  also have "\<dots> \<le> q' * 2 ^ e" using q q'(1) by (intro mult_right_mono) simp_all
  finally have big: "2 ^ 53 \<le> q' * 2 ^ e" .
  have "round_double n = (if 0 < n then q' * 2 ^ e else - (q' * 2 ^ e))"
    using assms by (auto simp: q' sgn_if)
  with big show "2 ^ 53 \<le> \<bar>round_double n\<bar>" "0 < round_double n \<longleftrightarrow> 0 < n" by (auto split: if_splits)
qed

lemma safe_integer_double:
  assumes "- ME_JSON_SAFE_INTEGER \<le> low" and "low \<le> 0"
  shows "safe_integer low (double_of_int n) = (if low \<le> n \<and> n \<le> ME_JSON_SAFE_INTEGER then Some n else None)"
proof (cases "\<bar>n\<bar> < 2 ^ 53")
  case True
  then show ?thesis by (simp add: safe_integer_def double_of_int_def round_double_small not_less not_le)
next
  case False
  then have "2 ^ 53 \<le> \<bar>n\<bar>" by simp
  note large = round_double_large [OF this]
  from False have "\<not> (low \<le> n \<and> n \<le> ME_JSON_SAFE_INTEGER)"
    using assms by (auto simp: ME_JSON_SAFE_INTEGER_def)
  moreover have "round_double n < low \<or> ME_JSON_SAFE_INTEGER < round_double n"
    using large assms by (auto simp: ME_JSON_SAFE_INTEGER_def)
  ultimately show ?thesis by (auto simp: safe_integer_def double_of_int_def)
qed

definition safe_u64 :: "u64 \<Rightarrow> bool" where
  "safe_u64 w \<longleftrightarrow> uint w \<le> ME_JSON_SAFE_INTEGER"

definition safe_i64 :: "i64 \<Rightarrow> bool" where
  "safe_i64 n \<longleftrightarrow> \<bar>n\<bar> \<le> ME_JSON_SAFE_INTEGER"

lemma json_u64_number:
  "json_item j k = Some (JNumber (double_of_u64 w)) \<Longrightarrow> json_u64 j k = (if safe_u64 w then Some w else None)"
  by (simp add: json_u64_def double_of_u64_def safe_integer_double safe_u64_def ME_JSON_SAFE_INTEGER_def)

lemma json_u32_number: "json_item j k = Some (JNumber (double_of_u32 w)) \<Longrightarrow> json_u32 j k = Some w"
proof -
  assume "json_item j k = Some (JNumber (double_of_u32 w))"
  then have "json_u64 j k = Some (word_of_int (uint w))"
    using uint_u32_less [of w]
    by (simp add: json_u64_def double_of_u32_def safe_integer_double ME_JSON_SAFE_INTEGER_def)
  moreover have "unat (word_of_int (uint w) :: u64) = unat w"
    using less_imp_le [OF unsigned_less [where ?'a = nat, of w]] by (simp add: unsigned_ucast_eq take_bit_nat_eq_self)
  moreover have "unat w < 4294967296" using unsigned_less [where ?'a = nat, of w] by simp
  moreover have "ucast (word_of_int (uint w) :: u64) = w"
    by (simp add: ucast_up_ucast_id is_up)
  ultimately show ?thesis by (simp add: json_u32_def)
qed

lemma json_i64_number:
  "json_item j k = Some (JNumber (double_of_int n)) \<Longrightarrow> json_i64 j k = (if safe_i64 n then Some n else None)"
  by (auto simp: json_i64_def safe_integer_double safe_i64_def ME_JSON_SAFE_INTEGER_def)

lemma read_track_ids_numbers:
  "read_track_ids (map (\<lambda>i. JNumber (double_of_u64 i)) ids) = (if \<forall>i \<in> set ids. safe_u64 i then Some ids else None)"
  by (induction ids) (auto simp: double_of_u64_def safe_integer_double safe_u64_def ME_JSON_SAFE_INTEGER_def)

subsection \<open>Round trip\<close>

text \<open>The events whose encoding the decoder accepts.\<close>

definition encodable :: "MeAnalyticsEvent \<Rightarrow> bool" where
  "encodable ev \<longleftrightarrow>
     ev_contract_version ev \<noteq> 0 \<and>
     ev_event_id ev \<noteq> [] \<and> length (ev_event_id ev) < ME_ANALYTICS_EVENT_ID_MAX \<and>
     ev_channel_id ev \<noteq> [] \<and> length (ev_channel_id ev) < ME_ANALYTICS_CHANNEL_ID_MAX \<and>
     length (ev_rule_id ev) < ME_ANALYTICS_RULE_ID_MAX \<and>
     length (ev_evidence_id ev) < ME_ANALYTICS_EVIDENCE_ID_MAX \<and>
     valid_rule_type (ev_event_type ev) \<and>
     ev_phase ev \<in> {ME_EVENT_PHASE_START, ME_EVENT_PHASE_UPDATE, ME_EVENT_PHASE_END} \<and>
     (valid_event_reason (ev_reason ev) \<or> ev_reason ev = ME_EVENT_REASON_NONE) \<and>
     ev_clock_state ev \<in> {ME_CLOCK_STATE_UNAVAILABLE, ME_CLOCK_STATE_SYNCED, ME_CLOCK_STATE_ESTIMATED, ME_CLOCK_STATE_INVALID} \<and>
     ev_stream_epoch ev \<noteq> 0 \<and> safe_u64 (ev_stream_epoch ev) \<and>
     ev_event_seq ev \<noteq> 0 \<and> safe_u64 (ev_event_seq ev) \<and>
     ev_frame_id ev \<noteq> 0 \<and> safe_u64 (ev_frame_id ev) \<and>
     safe_u64 (ev_config_version ev) \<and> safe_i64 (ev_event_time_us ev) \<and> safe_i64 (ev_source_pts ev) \<and>
     (\<forall>i \<in> set (ev_responsible_track_ids ev). safe_u64 i)"

lemma parse_rule_type_name:
  "parse_rule_type (me_rule_type_name t) = (if valid_rule_type t then Some t else None)"
  by (cases t) (simp_all add: parse_rule_type_def me_rule_type_name_def valid_rule_type_def)

lemma parse_phase_name:
  "parse_phase (me_event_phase_name p) =
     (if p \<in> {ME_EVENT_PHASE_START, ME_EVENT_PHASE_UPDATE, ME_EVENT_PHASE_END} then Some p else None)"
  by (cases p) (simp_all add: parse_phase_def me_event_phase_name_def)

lemma parse_reason_name:
  "parse_reason (me_event_reason_name r) =
     (if valid_event_reason r \<or> r = ME_EVENT_REASON_NONE then Some r else None)"
  by (cases r) (simp_all add: parse_reason_def me_event_reason_name_def valid_event_reason_def)

lemma parse_clock_state_name:
  "parse_clock_state (me_clock_state_name c) =
     (if c \<in> {ME_CLOCK_STATE_UNAVAILABLE, ME_CLOCK_STATE_SYNCED, ME_CLOCK_STATE_ESTIMATED, ME_CLOCK_STATE_INVALID}
      then Some c else None)"
  by (cases c) (simp_all add: parse_clock_state_def me_clock_state_name_def)

lemma length_phase_name: "length (me_event_phase_name p) < 8"
  by (cases p) (simp_all add: me_event_phase_name_def)

lemma json_string_item:
  "json_item j k = Some (JString s) \<Longrightarrow> 0 < n \<Longrightarrow> json_string j k n = (if length s < n then Some s else None)"
  by (simp add: json_string_def)

lemma json_name_item: "json_item j k = Some (JString s) \<Longrightarrow> json_name parse j k = parse s"
  by (simp add: json_name_def)

lemma json_bool_item: "json_item j k = Some (JBool b) \<Longrightarrow> json_bool j k = Some b"
  by (simp add: json_bool_def)

lemma bind_if_Some: "Option.bind (if P then Some x else None) f = (if P then f x else None)"
  by simp

lemma case_if_Some: "(case (if P then Some x else None) of None \<Rightarrow> a | Some y \<Rightarrow> f y) = (if P then f x else a)"
  by simp

lemma if_Inl_eq_Inr: "((if P then x else Inl e) = Inr y) = (P \<and> x = Inr y)"
  "((if P then Inl e else x) = Inr y) = (\<not> P \<and> x = Inr y)"
  by auto

text \<open>The members of an encoded event.\<close>

lemma encoded_items:
  assumes "me_analytics_event_to_json (Some ev) = Some j"
  shows "json_item j ''contract_version'' = Some (JNumber (double_of_u32 (ev_contract_version ev)))"
    "json_item j ''event_id'' = Some (JString (ev_event_id ev))"
    "json_item j ''channel_id'' = Some (JString (ev_channel_id ev))"
    "json_item j ''stream_epoch'' = Some (JNumber (double_of_u64 (ev_stream_epoch ev)))"
    "json_item j ''event_type'' = Some (JString (me_rule_type_name (ev_event_type ev)))"
    "json_item j ''rule_id'' = Some (JString (ev_rule_id ev))"
    "json_item j ''phase'' = Some (JString (me_event_phase_name (ev_phase ev)))"
    "json_item j ''event_seq'' = Some (JNumber (double_of_u64 (ev_event_seq ev)))"
    "json_item j ''reason'' = Some (JString (me_event_reason_name (ev_reason ev)))"
    "json_item j ''event_time_us'' = Some (JNumber (double_of_int (ev_event_time_us ev)))"
    "json_item j ''clock_state'' = Some (JString (me_clock_state_name (ev_clock_state ev)))"
    "json_item j ''source_pts_valid'' = Some (JBool (ev_source_pts_valid ev))"
    "json_item j ''source_pts'' = Some (JNumber (double_of_int (ev_source_pts ev)))"
    "json_item j ''source_timebase'' = Some (JObject
                [(''num'', JNumber (double_of_u32 (tb_num (ev_source_timebase ev)))),
                 (''den'', JNumber (double_of_u32 (tb_den (ev_source_timebase ev))))])"
    "json_item j ''frame_id'' = Some (JNumber (double_of_u64 (ev_frame_id ev)))"
    "json_item j ''person_count'' = Some (JNumber (double_of_u32 (ev_person_count ev)))"
    "json_item j ''delta_in'' = Some (JNumber (double_of_u32 (ev_delta_in ev)))"
    "json_item j ''delta_out'' = Some (JNumber (double_of_u32 (ev_delta_out ev)))"
    "json_item j ''config_version'' = Some (JNumber (double_of_u64 (ev_config_version ev)))"
    "json_item j ''evidence_id'' = Some (JString (ev_evidence_id ev))"
    "json_item j ''responsible_track_count'' =
       Some (JNumber (double_of_int (int (length (ev_responsible_track_ids ev)))))"
    "json_item j ''responsible_track_ids'' =
       Some (JArray (map (\<lambda>i. JNumber (double_of_u64 i)) (ev_responsible_track_ids ev)))"
    "\<exists>ms. j = JObject ms" "length (ev_responsible_track_ids ev) \<le> 16"
  using assms by (auto simp: me_analytics_event_to_json_def json_item_def split: if_splits)

lemma read_identity_encoded:
  assumes "me_analytics_event_to_json (Some ev) = Some j"
  shows "read_identity j =
    (if length (ev_event_id ev) < 96 \<and> length (ev_channel_id ev) < 64 \<and> safe_u64 (ev_stream_epoch ev) \<and>
        length (ev_rule_id ev) < 64
     then Some (ev_contract_version ev, ev_event_id ev, ev_channel_id ev, ev_stream_epoch ev, ev_rule_id ev)
     else None)"
  using encoded_items [OF assms] length_phase_name [of "ev_phase ev"]
  by (simp add: read_identity_def json_u32_number json_u64_number json_string_item)

lemma read_timing_encoded:
  assumes "me_analytics_event_to_json (Some ev) = Some j"
  shows "read_timing j =
    (if safe_u64 (ev_event_seq ev) \<and> safe_i64 (ev_event_time_us ev) \<and> safe_i64 (ev_source_pts ev)
     then Some (ev_event_seq ev, ev_event_time_us ev, ev_source_pts_valid ev, ev_source_pts ev) else None)"
  using encoded_items [OF assms] by (simp add: read_timing_def json_u64_number json_i64_number json_bool_item)

lemma read_payload_encoded:
  assumes "me_analytics_event_to_json (Some ev) = Some j"
  shows "read_payload j =
    (if safe_u64 (ev_frame_id ev) \<and> safe_u64 (ev_config_version ev) \<and> length (ev_evidence_id ev) < 96
     then Some (ev_source_timebase ev, ev_frame_id ev, ev_person_count ev, ev_delta_in ev, ev_delta_out ev,
                ev_config_version ev, ev_evidence_id ev, word_of_nat (length (ev_responsible_track_ids ev)))
     else None)"
proof -
  note items = encoded_items [OF assms]
  have n: "double_of_int (int (length (ev_responsible_track_ids ev))) =
      double_of_u32 (word_of_nat (length (ev_responsible_track_ids ev)))"
    using items(24) by (simp add: double_of_u32_def unsigned_of_nat take_bit_nat_eq_self)
  have tb: "read_timebase j = Some (ev_source_timebase ev)"
  proof -
    let ?t = "JObject [(''num'', JNumber (double_of_u32 (tb_num (ev_source_timebase ev)))),
                       (''den'', JNumber (double_of_u32 (tb_den (ev_source_timebase ev))))]"
    have "json_item ?t ''num'' = Some (JNumber (double_of_u32 (tb_num (ev_source_timebase ev))))"
      "json_item ?t ''den'' = Some (JNumber (double_of_u32 (tb_den (ev_source_timebase ev))))"
      by (simp_all add: json_item_def)
    then show ?thesis by (simp add: read_timebase_def items(14) json_u32_number)
  qed
  show ?thesis
    using items n by (simp add: read_payload_def tb json_u64_number json_u32_number json_string_item)
qed

lemma event_eta:
  "\<lparr>ev_contract_version = ev_contract_version ev, ev_event_id = ev_event_id ev, ev_channel_id = ev_channel_id ev,
    ev_stream_epoch = ev_stream_epoch ev, ev_event_type = ev_event_type ev, ev_rule_id = ev_rule_id ev,
    ev_phase = ev_phase ev, ev_event_seq = ev_event_seq ev, ev_reason = ev_reason ev,
    ev_event_time_us = ev_event_time_us ev, ev_clock_state = ev_clock_state ev, ev_source_pts = ev_source_pts ev,
    ev_source_pts_valid = ev_source_pts_valid ev, ev_source_timebase = ev_source_timebase ev,
    ev_frame_id = ev_frame_id ev, ev_person_count = ev_person_count ev, ev_delta_in = ev_delta_in ev,
    ev_delta_out = ev_delta_out ev, ev_responsible_track_ids = ev_responsible_track_ids ev,
    ev_config_version = ev_config_version ev, ev_evidence_id = ev_evidence_id ev\<rparr> = ev"
  by simp

lemma from_json_encoded_iff:
  assumes "me_analytics_event_to_json (Some ev) = Some j"
  shows "me_analytics_event_from_json j = Inr ev' \<longleftrightarrow> encodable ev \<and> ev' = ev"
proof -
  note items = encoded_items [OF assms]
  obtain ms where j: "j = JObject ms" using items(23) by blast
  have n: "unat (word_of_nat (length (ev_responsible_track_ids ev)) :: u32) = length (ev_responsible_track_ids ev)"
    using items(24) by (simp add: unat_word_of_nat)
  have names: "json_name parse_rule_type j ''event_type'' = parse_rule_type (me_rule_type_name (ev_event_type ev))"
      "json_name parse_phase j ''phase'' = parse_phase (me_event_phase_name (ev_phase ev))"
      "json_name parse_reason j ''reason'' = parse_reason (me_event_reason_name (ev_reason ev))"
      "json_name parse_clock_state j ''clock_state'' = parse_clock_state (me_clock_state_name (ev_clock_state ev))"
    by (simp_all add: json_name_item items)
  let ?ids = "map (\<lambda>i. JNumber (double_of_u64 i)) (ev_responsible_track_ids ev)"
  have ids: "read_track_ids (take (length (ev_responsible_track_ids ev)) ?ids) =
      (if \<forall>i \<in> set (ev_responsible_track_ids ev). safe_u64 i then Some (ev_responsible_track_ids ev) else None)"
    using read_track_ids_numbers by simp
  show ?thesis
    unfolding me_analytics_event_from_json_def j json.case
    unfolding j [symmetric] read_identity_encoded [OF assms] read_timing_encoded [OF assms]
      read_payload_encoded [OF assms] names parse_rule_type_name parse_phase_name parse_reason_name
      parse_clock_state_name case_if_Some prod.case items(22) option.case json.case n ids length_map if_Inl_eq_Inr
      sum.inject event_eta encodable_def
    using items(24) by (intro iffI; elim conjE; intro conjI; simp)
qed

text \<open>
  C34: decoding the JSON tree of an event gives back exactly that event when its identifiers fit
  and are not empty, its enumerations are known and every 64-bit number is at most \<open>2^53 - 1\<close>;
  otherwise the decoder reports an error. It never returns a different event, although the
  encoder has rounded the larger numbers to doubles.
\<close>

theorem event_json_roundtrip:
  assumes "me_analytics_event_to_json (Some ev) = Some j"
  shows "case me_analytics_event_from_json j of Inr ev' \<Rightarrow> encodable ev \<and> ev' = ev | Inl err \<Rightarrow> \<not> encodable ev"
  using from_json_encoded_iff [OF assms] by (cases "me_analytics_event_from_json j") auto

definition sample_event :: MeAnalyticsEvent where
  "sample_event =
     zero_event\<lparr>ev_contract_version := 1, ev_event_id := ''me-1'', ev_channel_id := ''camera-0'', ev_stream_epoch := 1,
       ev_event_type := ME_RULE_TYPE_OCCUPANCY, ev_rule_id := ''people-flow'', ev_phase := ME_EVENT_PHASE_START,
       ev_event_seq := 1, ev_reason := ME_EVENT_REASON_CONFIRMED, ev_frame_id := 7, ev_person_count := 1,
       ev_config_version := 1\<rparr>"

lemma sample_event_encodable: "encodable sample_event"
  by (simp add: encodable_def sample_event_def zero_event_def valid_rule_type_def valid_event_reason_def
      safe_u64_def safe_i64_def ME_JSON_SAFE_INTEGER_def)

theorem event_json_roundtrip_witness:
  "\<exists>j. me_analytics_event_to_json (Some (sample_event\<lparr>ev_source_pts := 9007199254740993\<rparr>)) = Some j \<and>
     (\<exists>err. me_analytics_event_from_json j = Inl err)"
proof -
  let ?ev = "sample_event\<lparr>ev_source_pts := 9007199254740993\<rparr>"
  obtain j where j: "me_analytics_event_to_json (Some ?ev) = Some j"
    by (auto simp: me_analytics_event_to_json_def sample_event_def zero_event_def)
  have "\<not> encodable ?ev" by (simp add: encodable_def safe_i64_def ME_JSON_SAFE_INTEGER_def)
  with event_json_roundtrip [OF j] j show ?thesis by (cases "me_analytics_event_from_json j") auto
qed

end
