(* ===== verification/Evidence_Cache.thy ===== *)
theory Evidence_Cache
  imports Event_Codec
begin

text \<open>
  \<^verbatim>\<open>media_engine/src/analytics/evidence_cache.{h,c}\<close>: the cache of JPEG evidence. It keeps recent frames and
  frame notes in memory and publishes, for the START of an event, one JPEG and its metadata as two
  files. The file system maps paths to contents. Parameters: the SHA-256 digest \<open>sha\<close> of GLib, the
  printer \<open>pr\<close> and the parser \<open>pa\<close> of cJSON, the directory listing \<open>ls\<close>, and the outcomes of the
  system calls in \<open>EvidenceIo\<close>. The hash table of records is an association list in the order its
  iterator takes. The mutex serialises the operations; allocation failures are not modelled.
\<close>

subsection \<open>Data\<close>

abbreviation ME_EVIDENCE_PATH_MAX :: nat where "ME_EVIDENCE_PATH_MAX \<equiv> 256"
abbreviation ME_EVIDENCE_STATE_MAX :: nat where "ME_EVIDENCE_STATE_MAX \<equiv> 32"
abbreviation ME_EVIDENCE_SHA256_MAX :: nat where "ME_EVIDENCE_SHA256_MAX \<equiv> 65"
abbreviation ME_EVIDENCE_NOTE_LIMIT :: nat where "ME_EVIDENCE_NOTE_LIMIT \<equiv> 256"

definition ME_EVIDENCE_METADATA_VERSION :: int where
  "ME_EVIDENCE_METADATA_VERSION = 2"

definition ME_EVIDENCE_FRAME_CACHE_MAX_BYTES :: u64 where
  "ME_EVIDENCE_FRAME_CACHE_MAX_BYTES = 8 * 1024 * 1024"

datatype MeEvidenceAccuracy =
    ME_EVIDENCE_ACCURACY_NONE
  | ME_EVIDENCE_ACCURACY_EXACT
  | ME_EVIDENCE_ACCURACY_APPROXIMATE

record MeEvidenceRecord =
  er_evidence_id :: string
  er_event_id :: string
  er_channel_id :: string
  er_stream_epoch :: u64
  er_frame_id :: u64
  er_source_pts_valid :: bool
  er_source_pts :: i64
  er_source_timebase :: MeTimebase
  er_capture_time_us :: i64
  er_width :: u32
  er_height :: u32
  er_bytes :: u64
  er_sha256 :: string
  er_accuracy :: MeEvidenceAccuracy
  er_frame_delta :: u64
  er_pts_delta :: i64
  er_created_at_us :: i64
  er_expires_at_us :: i64
  er_storage_state :: string
  er_delivery_state :: string
  er_path :: string

record FrameNote =
  fn_channel_id :: string
  fn_stream_epoch :: u64
  fn_frame_id :: u64
  fn_source_pts_valid :: bool
  fn_source_pts :: i64
  fn_source_timebase :: MeTimebase
  fn_width :: u32
  fn_height :: u32

record JpegFrame =
  jf_jpeg :: string
  jf_note :: FrameNote

record MeEvidenceCache =
  ch_directory :: string
  ch_max_bytes :: u64
  ch_retention_s :: u32
  ch_frame_cache_max_bytes :: u64
  ch_frame_cache_bytes :: u64
  ch_stored_bytes :: u64
  ch_records :: "(string \<times> MeEvidenceRecord) list"
  ch_notes :: "FrameNote list"
  ch_frames :: "JpegFrame list"

type_synonym file_system = "string \<rightharpoonup> string"

text \<open>
  An atomic write fails before the rename, or after it when the directory cannot be synchronised, or
  succeeds. \<open>ei_unlink\<close> and \<open>ei_read\<close> say for which paths these calls succeed.
\<close>

datatype AtomicWrite = Write_Failed | Write_Unsynced | Write_Done

record EvidenceIo =
  ei_now :: i64
  ei_jpeg_write :: AtomicWrite
  ei_json_write :: AtomicWrite
  ei_unlink :: "string \<Rightarrow> bool"
  ei_read :: "string \<Rightarrow> bool"
  ei_dir_sync :: bool

datatype EvidenceError =
    VE_Arguments
  | VE_Directory_Too_Long
  | VE_Mkdir
  | VE_Orphans
  | VE_Identity
  | VE_Derive_Id
  | VE_Unsafe_Id
  | VE_Not_Published
  | VE_No_Frame
  | VE_Exceeds_Capacity
  | VE_Full
  | VE_Publish

subsection \<open>Names and paths\<close>

definition isalnum :: "char \<Rightarrow> bool" where
  "isalnum c \<longleftrightarrow> isdigit c \<or> (65 \<le> char_code c \<and> char_code c \<le> 90) \<or> (97 \<le> char_code c \<and> char_code c \<le> 122)"

definition isxdigit :: "char \<Rightarrow> bool" where
  "isxdigit c \<longleftrightarrow> isdigit c \<or> (65 \<le> char_code c \<and> char_code c \<le> 70) \<or> (97 \<le> char_code c \<and> char_code c \<le> 102)"

definition valid_component :: "string \<Rightarrow> bool" where
  "valid_component value \<longleftrightarrow>
     value \<noteq> [] \<and> value \<noteq> ''.'' \<and> value \<noteq> ''..'' \<and>
     (\<forall>c \<in> set value. isalnum c \<or> c = CHR ''-'' \<or> c = CHR ''_'' \<or> c = CHR ''.'')"

definition valid_sha256 :: "string \<Rightarrow> bool" where
  "valid_sha256 value \<longleftrightarrow> length value = 64 \<and> (\<forall>c \<in> set value. isxdigit c)"

text \<open>\<^verbatim>\<open>g_build_filename\<close> of a directory and a name without separators.\<close>

definition build_filename :: "string \<Rightarrow> string \<Rightarrow> string" where
  "build_filename directory name = rev (dropWhile (\<lambda>c. c = CHR ''/'') (rev directory)) @ CHR ''/'' # name"

definition jpeg_path :: "MeEvidenceCache \<Rightarrow> string \<Rightarrow> string" where
  "jpeg_path cache evidence_id = build_filename (ch_directory cache) (evidence_id @ ''.jpg'')"

definition json_path :: "MeEvidenceCache \<Rightarrow> string \<Rightarrow> string" where
  "json_path cache evidence_id = build_filename (ch_directory cache) (evidence_id @ ''.json'')"

definition fill_record_path :: "MeEvidenceCache \<Rightarrow> MeEvidenceRecord \<Rightarrow> MeEvidenceRecord" where
  "fill_record_path cache record =
     record\<lparr>er_path := copy_string ME_EVIDENCE_PATH_MAX (jpeg_path cache (er_evidence_id record))\<rparr>"

definition unlink :: "EvidenceIo \<Rightarrow> string \<Rightarrow> file_system \<Rightarrow> file_system" where
  "unlink io path fs = (if ei_unlink io path then fs(path := None) else fs)"

text \<open>The temporary file has a fresh name and is removed when the write fails.\<close>

definition write_atomic :: "AtomicWrite \<Rightarrow> string \<Rightarrow> string \<Rightarrow> file_system \<Rightarrow> bool \<times> file_system" where
  "write_atomic outcome path data fs =
     (case outcome of
        Write_Failed \<Rightarrow> (False, fs)
      | Write_Unsynced \<Rightarrow> (False, fs(path \<mapsto> data))
      | Write_Done \<Rightarrow> (True, fs(path \<mapsto> data)))"

subsection \<open>Metadata\<close>

definition me_evidence_accuracy_name :: "MeEvidenceAccuracy \<Rightarrow> string" where
  "me_evidence_accuracy_name accuracy =
     (case accuracy of
        ME_EVIDENCE_ACCURACY_EXACT \<Rightarrow> ''exact''
      | ME_EVIDENCE_ACCURACY_APPROXIMATE \<Rightarrow> ''approximate''
      | _ \<Rightarrow> ''none'')"

text \<open>
  The conversions of a double to an unsigned or signed 64-bit integer cut off the fraction. Out of
  range, where C leaves the result open, they saturate, as the target's instructions do.
\<close>

definition truncate_rat :: "rat \<Rightarrow> int" where
  "truncate_rat r = (if r < 0 then \<lceil>r\<rceil> else \<lfloor>r\<rfloor>)"

definition u64_of_double :: "double \<Rightarrow> u64" where
  "u64_of_double d =
     (case d of
        Fin r \<Rightarrow> word_of_int (max 0 (min (truncate_rat r) (2 ^ 64 - 1)))
      | Pos_Inf \<Rightarrow> UINT64_MAX
      | Neg_Inf \<Rightarrow> 0)"

definition i64_of_double :: "double \<Rightarrow> i64" where
  "i64_of_double d =
     (case d of
        Fin r \<Rightarrow> max INT64_MIN (min (truncate_rat r) INT64_MAX)
      | Pos_Inf \<Rightarrow> INT64_MAX
      | Neg_Inf \<Rightarrow> INT64_MIN)"

definition negative_double :: "double \<Rightarrow> bool" where
  "negative_double d = (case d of Fin r \<Rightarrow> r < 0 | Pos_Inf \<Rightarrow> False | Neg_Inf \<Rightarrow> True)"

text \<open>The field readers; every caller passes \<^verbatim>\<open>required = true\<close>.\<close>

definition evidence_json_string :: "json \<Rightarrow> string \<Rightarrow> nat \<Rightarrow> string option" where
  "evidence_json_string object name outsz =
     (case json_item object name of
        Some (JString s) \<Rightarrow> if s = [] then None else Some (copy_string outsz s)
      | _ \<Rightarrow> None)"

definition evidence_json_u64 :: "json \<Rightarrow> string \<Rightarrow> u64 option" where
  "evidence_json_u64 object name =
     (case json_item object name of
        Some (JNumber d) \<Rightarrow> if negative_double d then None else Some (u64_of_double d)
      | _ \<Rightarrow> None)"

definition evidence_json_i64 :: "json \<Rightarrow> string \<Rightarrow> i64 option" where
  "evidence_json_i64 object name =
     (case json_item object name of Some (JNumber d) \<Rightarrow> Some (i64_of_double d) | _ \<Rightarrow> None)"

definition evidence_json_bool :: "json \<Rightarrow> string \<Rightarrow> bool option" where
  "evidence_json_bool object name = (case json_item object name of Some (JBool b) \<Rightarrow> Some b | _ \<Rightarrow> None)"

definition evidence_to_json :: "MeEvidenceRecord \<Rightarrow> json" where
  "evidence_to_json record = JObject
     [(''v'', JNumber (double_of_int ME_EVIDENCE_METADATA_VERSION)),
      (''evidence_id'', JString (er_evidence_id record)),
      (''event_id'', JString (er_event_id record)),
      (''channel_id'', JString (er_channel_id record)),
      (''stream_epoch'', JNumber (double_of_u64 (er_stream_epoch record))),
      (''frame_id'', JNumber (double_of_u64 (er_frame_id record))),
      (''source_pts_valid'', JBool (er_source_pts_valid record)),
      (''source_pts'', JNumber (double_of_int (er_source_pts record))),
      (''source_timebase_num'', JNumber (double_of_u32 (tb_num (er_source_timebase record)))),
      (''source_timebase_den'', JNumber (double_of_u32 (tb_den (er_source_timebase record)))),
      (''capture_time_us'', JNumber (double_of_int (er_capture_time_us record))),
      (''width'', JNumber (double_of_u32 (er_width record))),
      (''height'', JNumber (double_of_u32 (er_height record))),
      (''bytes'', JNumber (double_of_u64 (er_bytes record))),
      (''sha256'', JString (er_sha256 record)),
      (''accuracy'', JString (me_evidence_accuracy_name (er_accuracy record))),
      (''frame_delta'', JNumber (double_of_u64 (er_frame_delta record))),
      (''pts_delta'', JNumber (double_of_int (er_pts_delta record))),
      (''created_at_us'', JNumber (double_of_int (er_created_at_us record))),
      (''expires_at_us'', JNumber (double_of_int (er_expires_at_us record))),
      (''storage_state'', JString (er_storage_state record)),
      (''delivery_state'', JString (er_delivery_state record)),
      (''object_key'', JString (er_evidence_id record @ ''.jpg''))]"

text \<open>The fields that \<open>evidence_from_json\<close> reads, in the order of its condition.\<close>

definition read_evidence :: "json \<Rightarrow> (MeEvidenceRecord \<times> u64 \<times> u64 \<times> u64 \<times> u64 \<times> string) option" where
  "read_evidence object =
     do {
       evidence_id \<leftarrow> evidence_json_string object ''evidence_id'' ME_ANALYTICS_EVIDENCE_ID_MAX;
       _ \<leftarrow> if valid_component evidence_id then Some () else None;
       event_id \<leftarrow> evidence_json_string object ''event_id'' ME_ANALYTICS_EVENT_ID_MAX;
       channel_id \<leftarrow> evidence_json_string object ''channel_id'' ME_ANALYTICS_CHANNEL_ID_MAX;
       stream_epoch \<leftarrow> evidence_json_u64 object ''stream_epoch'';
       frame_id \<leftarrow> evidence_json_u64 object ''frame_id'';
       source_pts_valid \<leftarrow> evidence_json_bool object ''source_pts_valid'';
       source_pts \<leftarrow> evidence_json_i64 object ''source_pts'';
       num \<leftarrow> evidence_json_u64 object ''source_timebase_num'';
       den \<leftarrow> evidence_json_u64 object ''source_timebase_den'';
       capture_time_us \<leftarrow> evidence_json_i64 object ''capture_time_us'';
       width \<leftarrow> evidence_json_u64 object ''width'';
       height \<leftarrow> evidence_json_u64 object ''height'';
       bytes \<leftarrow> evidence_json_u64 object ''bytes'';
       sha256 \<leftarrow> evidence_json_string object ''sha256'' ME_EVIDENCE_SHA256_MAX;
       _ \<leftarrow> if valid_sha256 sha256 then Some () else None;
       frame_delta \<leftarrow> evidence_json_u64 object ''frame_delta'';
       pts_delta \<leftarrow> evidence_json_i64 object ''pts_delta'';
       created_at_us \<leftarrow> evidence_json_i64 object ''created_at_us'';
       expires_at_us \<leftarrow> evidence_json_i64 object ''expires_at_us'';
       storage_state \<leftarrow> evidence_json_string object ''storage_state'' ME_EVIDENCE_STATE_MAX;
       delivery_state \<leftarrow> evidence_json_string object ''delivery_state'' ME_EVIDENCE_STATE_MAX;
       object_key \<leftarrow> evidence_json_string object ''object_key'' ME_EVIDENCE_PATH_MAX;
       Some (\<lparr>er_evidence_id = evidence_id, er_event_id = event_id, er_channel_id = channel_id,
              er_stream_epoch = stream_epoch, er_frame_id = frame_id, er_source_pts_valid = source_pts_valid,
              er_source_pts = source_pts, er_source_timebase = zero_timebase, er_capture_time_us = capture_time_us,
              er_width = 0, er_height = 0, er_bytes = bytes, er_sha256 = sha256,
              er_accuracy = ME_EVIDENCE_ACCURACY_NONE, er_frame_delta = frame_delta, er_pts_delta = pts_delta,
              er_created_at_us = created_at_us, er_expires_at_us = expires_at_us, er_storage_state = storage_state,
              er_delivery_state = delivery_state, er_path = []\<rparr>, width, height, num, den, object_key)
     }"

definition parse_accuracy :: "json \<Rightarrow> MeEvidenceAccuracy option" where
  "parse_accuracy object =
     (case json_item object ''accuracy'' of
        Some (JString s) \<Rightarrow>
          if s = ''exact'' then Some ME_EVIDENCE_ACCURACY_EXACT
          else if s = ''approximate'' then Some ME_EVIDENCE_ACCURACY_APPROXIMATE
          else None
      | _ \<Rightarrow> None)"

text \<open>The version is compared after its conversion to a 32-bit unsigned integer.\<close>

definition metadata_version_ok :: "json \<Rightarrow> bool" where
  "metadata_version_ok object =
     (case json_item object ''v'' of
        Some (JNumber d) \<Rightarrow> uint (u64_of_double d) = ME_EVIDENCE_METADATA_VERSION
      | _ \<Rightarrow> False)"

definition evidence_from_json :: "json \<Rightarrow> MeEvidenceRecord option" where
  "evidence_from_json object =
     (if \<not> metadata_version_ok object then None
      else case read_evidence object of
             None \<Rightarrow> None
           | Some (record, width, height, num, den, object_key) \<Rightarrow>
               if object_key \<noteq> er_evidence_id record @ ''.jpg'' then None
               else if unat width > 4294967295 \<or> unat height > 4294967295 \<or> unat num > 4294967295 \<or> unat den > 4294967295
               then None
               else (let timebase = \<lparr>tb_num = ucast num, tb_den = ucast den\<rparr>
                     in if er_source_pts_valid record \<and> (tb_num timebase = 0 \<or> tb_den timebase = 0) then None
                        else case parse_accuracy object of
                               None \<Rightarrow> None
                             | Some accuracy \<Rightarrow>
                                 Some (record\<lparr>er_width := ucast width, er_height := ucast height,
                                              er_source_timebase := timebase, er_accuracy := accuracy\<rparr>)))"

text \<open>The derived id is stored in the event also when it is not usable.\<close>

definition make_evidence_id :: "(string \<Rightarrow> string) \<Rightarrow> string \<Rightarrow> bool \<times> string" where
  "make_evidence_id sha event_id =
     (if event_id = [] then (False, [])
      else (let full = ''ev-'' @ sha event_id; out = copy_string ME_ANALYTICS_EVIDENCE_ID_MAX full
            in (length full < ME_ANALYTICS_EVIDENCE_ID_MAX \<and> valid_component out, out)))"

subsection \<open>Frames in memory\<close>

definition same_pts :: "FrameNote \<Rightarrow> bool \<Rightarrow> i64 \<Rightarrow> bool" where
  "same_pts left valid pts \<longleftrightarrow> valid \<and> fn_source_pts_valid left \<and> fn_source_pts left = pts"

definition same_timebase :: "MeTimebase \<Rightarrow> MeTimebase \<Rightarrow> bool" where
  "same_timebase left right \<longleftrightarrow>
     tb_num left \<noteq> 0 \<and> tb_den left \<noteq> 0 \<and> tb_num left = tb_num right \<and> tb_den left = tb_den right"

definition latest_note_for_pts_locked :: "MeEvidenceCache \<Rightarrow> bool \<Rightarrow> i64 \<Rightarrow> FrameNote option" where
  "latest_note_for_pts_locked cache valid pts = find (\<lambda>note. same_pts note valid pts) (rev (ch_notes cache))"

definition frame_matches_event :: "JpegFrame \<Rightarrow> MeAnalyticsEvent \<Rightarrow> bool" where
  "frame_matches_event frame event \<longleftrightarrow>
     fn_channel_id (jf_note frame) \<noteq> [] \<and> fn_stream_epoch (jf_note frame) \<noteq> 0 \<and>
     fn_channel_id (jf_note frame) = ev_channel_id event \<and> fn_stream_epoch (jf_note frame) = ev_stream_epoch event"

text \<open>Whether the frame and the event have comparable time stamps.\<close>

definition comparable_pts :: "JpegFrame \<Rightarrow> MeAnalyticsEvent \<Rightarrow> bool" where
  "comparable_pts frame event \<longleftrightarrow>
     ev_source_pts_valid event \<and> fn_source_pts_valid (jf_note frame) \<and>
     same_timebase (fn_source_timebase (jf_note frame)) (ev_source_timebase event)"

definition frame_is_exact :: "JpegFrame \<Rightarrow> MeAnalyticsEvent \<Rightarrow> bool" where
  "frame_is_exact frame event =
     (if \<not> frame_matches_event frame event then False
      else if comparable_pts frame event then fn_source_pts (jf_note frame) = ev_source_pts event
      else ev_frame_id event > 0 \<and> fn_frame_id (jf_note frame) = ev_frame_id event)"

definition abs_i64_delta :: "i64 \<Rightarrow> i64 \<Rightarrow> i64" where
  "abs_i64_delta left right = (if left \<ge> right then left - right else right - left)"

text \<open>
  The loop of \<open>select_frame_locked\<close>, from the newest frame to the oldest: the exact frame (left), or
  the nearest one (right).
\<close>

fun select_loop ::
  "MeAnalyticsEvent \<Rightarrow> JpegFrame list \<Rightarrow> JpegFrame option \<Rightarrow> i64 \<Rightarrow> JpegFrame + JpegFrame option" where
  "select_loop event [] nearest nearest_delta = Inr nearest"
| "select_loop event (frame # frames) nearest nearest_delta =
     (if frame_is_exact frame event then Inl frame
      else if \<not> frame_matches_event frame event then select_loop event frames nearest nearest_delta
      else if comparable_pts frame event
      then (let delta = abs_i64_delta (fn_source_pts (jf_note frame)) (ev_source_pts event)
            in if delta < nearest_delta then select_loop event frames (Some frame) delta
               else select_loop event frames nearest nearest_delta)
      else if (\<not> ev_source_pts_valid event \<or> \<not> fn_source_pts_valid (jf_note frame)) \<and> nearest = None
      then select_loop event frames (Some frame) nearest_delta
      else select_loop event frames nearest nearest_delta)"

definition select_frame_locked ::
  "MeEvidenceCache \<Rightarrow> MeAnalyticsEvent \<Rightarrow> (JpegFrame \<times> MeEvidenceAccuracy \<times> u64 \<times> i64) option" where
  "select_frame_locked cache event =
     (case select_loop event (rev (ch_frames cache)) None INT64_MAX of
        Inl frame \<Rightarrow> Some (frame, ME_EVIDENCE_ACCURACY_EXACT, 0, 0)
      | Inr None \<Rightarrow> None
      | Inr (Some nearest) \<Rightarrow>
          Some (nearest, ME_EVIDENCE_ACCURACY_APPROXIMATE,
                (let a = fn_frame_id (jf_note nearest); b = ev_frame_id event
                 in if b > 0 \<and> a > 0 then (if a > b then a - b else b - a) else 0),
                (if comparable_pts nearest event then fn_source_pts (jf_note nearest) - ev_source_pts event else 0)))"

definition me_evidence_cache_note_frame ::
  "MeEvidenceCache option \<Rightarrow> string \<Rightarrow> u64 \<Rightarrow> u64 \<Rightarrow> bool \<Rightarrow> i64 \<Rightarrow> MeTimebase \<Rightarrow> u32 \<Rightarrow> u32 \<Rightarrow>
     bool \<times> MeEvidenceCache option" where
  "me_evidence_cache_note_frame co channel_id stream_epoch frame_id source_pts_valid source_pts source_timebase width height =
     (case co of
        None \<Rightarrow> (False, None)
      | Some cache \<Rightarrow>
          if channel_id = [] \<or> stream_epoch = 0 \<or> frame_id = 0 then (False, co)
          else (let note = \<lparr>fn_channel_id = copy_string ME_ANALYTICS_CHANNEL_ID_MAX channel_id,
                            fn_stream_epoch = stream_epoch, fn_frame_id = frame_id,
                            fn_source_pts_valid = source_pts_valid, fn_source_pts = source_pts,
                            fn_source_timebase = source_timebase, fn_width = width, fn_height = height\<rparr>;
                    notes = ch_notes cache @ [note]
                in (True, Some (cache\<lparr>
                     ch_notes := drop (length notes - ME_EVIDENCE_NOTE_LIMIT) notes,
                     ch_frames := map (\<lambda>frame.
                       if fn_channel_id (jf_note frame) = [] \<and>
                          same_pts note (fn_source_pts_valid (jf_note frame)) (fn_source_pts (jf_note frame))
                       then frame\<lparr>jf_note := note\<rparr> else frame) (ch_frames cache)\<rparr>))))"

text \<open>The loop that keeps the recent frames within their byte limit, oldest first.\<close>

fun evict_frames :: "u64 \<Rightarrow> JpegFrame list \<Rightarrow> u64 \<Rightarrow> JpegFrame list \<times> u64" where
  "evict_frames limit [] bytes = ([], bytes)"
| "evict_frames limit (old # frames) bytes =
     (if bytes > limit
      then (let old_size = word_of_nat (length (jf_jpeg old))
            in evict_frames limit frames (if bytes \<ge> old_size then bytes - old_size else 0))
      else (old # frames, bytes))"

definition jpeg_delimited :: "string \<Rightarrow> bool" where
  "jpeg_delimited jpeg \<longleftrightarrow>
     \<not> (length jpeg < 4 \<or> jpeg ! 0 \<noteq> CHR 0xFF \<or> jpeg ! 1 \<noteq> CHR 0xD8 \<or>
        jpeg ! (length jpeg - 2) \<noteq> CHR 0xFF \<or> jpeg ! (length jpeg - 1) \<noteq> CHR 0xD9)"

definition empty_note :: FrameNote where
  "empty_note = \<lparr>fn_channel_id = [], fn_stream_epoch = 0, fn_frame_id = 0, fn_source_pts_valid = False,
     fn_source_pts = 0, fn_source_timebase = zero_timebase, fn_width = 0, fn_height = 0\<rparr>"

definition me_evidence_cache_push_jpeg ::
  "MeEvidenceCache option \<Rightarrow> string \<Rightarrow> bool \<Rightarrow> i64 \<Rightarrow> bool \<times> MeEvidenceCache option" where
  "me_evidence_cache_push_jpeg co jpeg source_pts_valid source_pts =
     (case co of
        None \<Rightarrow> (False, None)
      | Some cache \<Rightarrow>
          if \<not> jpeg_delimited jpeg then (False, co)
          else (let note = (case latest_note_for_pts_locked cache source_pts_valid source_pts of
                              Some note \<Rightarrow> note
                            | None \<Rightarrow> empty_note\<lparr>fn_source_pts_valid := source_pts_valid, fn_source_pts := source_pts\<rparr>);
                    (frames, bytes) = evict_frames (ch_frame_cache_max_bytes cache)
                       (ch_frames cache @ [\<lparr>jf_jpeg = jpeg, jf_note = note\<rparr>])
                       (ch_frame_cache_bytes cache + word_of_nat (length jpeg))
                in (True, Some (cache\<lparr>ch_frames := frames, ch_frame_cache_bytes := bytes\<rparr>))))"

subsection \<open>Published records\<close>

definition put_record :: "string \<Rightarrow> MeEvidenceRecord \<Rightarrow> (string \<times> MeEvidenceRecord) list \<Rightarrow> (string \<times> MeEvidenceRecord) list" where
  "put_record key record records = filter (\<lambda>p. fst p \<noteq> key) records @ [(key, record)]"

definition remove_record_locked ::
  "EvidenceIo \<Rightarrow> string \<Rightarrow> MeEvidenceCache \<times> file_system \<Rightarrow> MeEvidenceCache \<times> file_system" where
  "remove_record_locked io key state =
     (case state of (cache, fs) \<Rightarrow>
        (case map_of (ch_records cache) key of
           None \<Rightarrow> (cache, fs)
         | Some record \<Rightarrow>
             (cache\<lparr>ch_stored_bytes := (if ch_stored_bytes cache \<ge> er_bytes record
                                        then ch_stored_bytes cache - er_bytes record else 0),
                    ch_records := filter (\<lambda>p. fst p \<noteq> key) (ch_records cache)\<rparr>,
              unlink io (json_path cache key) (unlink io (er_path record) fs))))"

definition expired :: "i64 \<Rightarrow> MeEvidenceRecord \<Rightarrow> bool" where
  "expired now record \<longleftrightarrow> er_expires_at_us record > 0 \<and> er_expires_at_us record \<le> now"

definition prune_expired_locked ::
  "EvidenceIo \<Rightarrow> i64 \<Rightarrow> MeEvidenceCache \<times> file_system \<Rightarrow> nat \<times> MeEvidenceCache \<times> file_system" where
  "prune_expired_locked io now state =
     (let ids = map fst (filter (\<lambda>p. expired now (snd p)) (ch_records (fst state)))
      in (length ids, fold (remove_record_locked io) ids state))"

subsection \<open>Opening and recovery\<close>

definition ends_with :: "string \<Rightarrow> string \<Rightarrow> bool" where
  "ends_with suffix name \<longleftrightarrow> length suffix \<le> length name \<and> drop (length name - length suffix) name = suffix"

text \<open>\<^verbatim>\<open>strstr\<close>: the position of the first occurrence.\<close>

fun find_sub :: "string \<Rightarrow> string \<Rightarrow> nat option" where
  "find_sub sub [] = (if sub = [] then Some 0 else None)"
| "find_sub sub (c # cs) =
     (if take (length sub) (c # cs) = sub then Some 0 else map_option Suc (find_sub sub cs))"

text \<open>The checks of a recovered record against its JPEG: present, of the right size, readable, intact.\<close>

definition jpeg_intact :: "(string \<Rightarrow> string) \<Rightarrow> EvidenceIo \<Rightarrow> file_system \<Rightarrow> MeEvidenceRecord \<Rightarrow> bool" where
  "jpeg_intact sha io fs record =
     (case fs (er_path record) of
        None \<Rightarrow> False
      | Some jpeg \<Rightarrow>
          word_of_nat (length jpeg) = er_bytes record \<and> ei_read io (er_path record) \<and>
          strcaseeq (sha jpeg) (er_sha256 record))"

definition load_record ::
  "(string \<Rightarrow> string) \<Rightarrow> (string \<Rightarrow> json option) \<Rightarrow> EvidenceIo \<Rightarrow> string \<Rightarrow>
     MeEvidenceCache \<times> file_system \<Rightarrow> MeEvidenceCache \<times> file_system" where
  "load_record sha pa io name state =
     (case state of (cache, fs) \<Rightarrow>
        if \<not> ends_with ''.json'' name then state
        else (let key = take (length name - 5) name; path = build_filename (ch_directory cache) name
              in if \<not> valid_component key then state
                 else (case (if ei_read io path then fs path else None) of
                         None \<Rightarrow> state
                       | Some contents \<Rightarrow>
                           (case Option.bind (pa contents) evidence_from_json of
                              None \<Rightarrow> (cache, unlink io path fs)
                            | Some parsed \<Rightarrow>
                                if er_evidence_id parsed \<noteq> key then (cache, unlink io path fs)
                                else (let record = fill_record_path cache parsed
                                      in if \<not> jpeg_intact sha io fs record
                                         then (cache, unlink io (er_path record) (unlink io path fs))
                                         else (cache\<lparr>ch_stored_bytes := ch_stored_bytes cache + er_bytes record,
                                                      ch_records := put_record key record (ch_records cache)\<rparr>,
                                               fs))))))"

definition load_records ::
  "(string \<Rightarrow> string) \<Rightarrow> (string \<Rightarrow> json option) \<Rightarrow> EvidenceIo \<Rightarrow> string list \<Rightarrow>
     MeEvidenceCache \<times> file_system \<Rightarrow> MeEvidenceCache \<times> file_system" where
  "load_records sha pa io names state = fold (load_record sha pa io) names state"

definition evidence_id_from_suffix :: "string \<Rightarrow> string \<Rightarrow> string option" where
  "evidence_id_from_suffix name suffix =
     (if length name \<le> length suffix \<or> \<not> ends_with suffix name then None
      else (let key = take (length name - length suffix) name
            in if length key + 1 > ME_ANALYTICS_EVIDENCE_ID_MAX \<or> \<not> valid_component key then None else Some key))"

text \<open>\<^verbatim>\<open>marker[9]\<close> is what follows \<^verbatim>\<open>.jpg.tmp-\<close>, but the last character of \<^verbatim>\<open>.json.tmp-\<close>.\<close>

definition is_evidence_temp_file :: "string \<Rightarrow> bool" where
  "is_evidence_temp_file name =
     (case (case find_sub ''.jpg.tmp-'' name of Some i \<Rightarrow> Some i | None \<Rightarrow> find_sub ''.json.tmp-'' name) of
        None \<Rightarrow> False
      | Some i \<Rightarrow>
          \<not> (i = 0 \<or> length name \<le> i + 9) \<and> \<not> (i + 1 > ME_ANALYTICS_EVIDENCE_ID_MAX) \<and> valid_component (take i name))"

definition is_orphan :: "MeEvidenceCache \<Rightarrow> string \<Rightarrow> bool" where
  "is_orphan cache name =
     (if is_evidence_temp_file name then True
      else case evidence_id_from_suffix name ''.jpg'' of
             Some key \<Rightarrow> map_of (ch_records cache) key = None
           | None \<Rightarrow> (case evidence_id_from_suffix name ''.json'' of
                        Some key \<Rightarrow> map_of (ch_records cache) key = None
                      | None \<Rightarrow> False))"

text \<open>The cleaning loop stops at the first file that cannot be removed; the flags are success and a change.\<close>

fun remove_orphans :: "EvidenceIo \<Rightarrow> MeEvidenceCache \<Rightarrow> string list \<Rightarrow> file_system \<Rightarrow> bool \<times> bool \<times> file_system" where
  "remove_orphans io cache [] fs = (True, False, fs)"
| "remove_orphans io cache (name # names) fs =
     (if \<not> is_orphan cache name then remove_orphans io cache names fs
      else (let path = build_filename (ch_directory cache) name
            in if fs path \<noteq> None \<and> \<not> ei_unlink io path then (False, True, fs)
               else (case remove_orphans io cache names (fs(path := None)) of
                       (ok, changed, fs') \<Rightarrow> (ok, True, fs'))))"

definition cleanup_orphan_files ::
  "EvidenceIo \<Rightarrow> MeEvidenceCache \<Rightarrow> string list \<Rightarrow> file_system \<Rightarrow> bool \<times> file_system" where
  "cleanup_orphan_files io cache names fs =
     (case remove_orphans io cache names fs of
        (ok, changed, fs') \<Rightarrow> (ok \<and> (changed \<longrightarrow> ei_dir_sync io), fs'))"

text \<open>\<open>ls\<close> lists the directory; \<open>mkdir_ok\<close> is the outcome of creating it.\<close>

definition me_evidence_cache_open ::
  "(string \<Rightarrow> string) \<Rightarrow> (string \<Rightarrow> json option) \<Rightarrow> (file_system \<Rightarrow> string list) \<Rightarrow> EvidenceIo \<Rightarrow> bool \<Rightarrow>
     string \<Rightarrow> u64 \<Rightarrow> u32 \<Rightarrow> file_system \<Rightarrow> (EvidenceError + MeEvidenceCache) \<times> file_system" where
  "me_evidence_cache_open sha pa ls io mkdir_ok directory max_bytes retention_s fs =
     (if directory = [] \<or> max_bytes = 0 \<or> retention_s = 0 then (Inl VE_Arguments, fs)
      else if length directory \<ge> ME_EVIDENCE_PATH_MAX then (Inl VE_Directory_Too_Long, fs)
      else if \<not> mkdir_ok then (Inl VE_Mkdir, fs)
      else (let cache = \<lparr>ch_directory = directory, ch_max_bytes = max_bytes, ch_retention_s = retention_s,
                          ch_frame_cache_max_bytes = min max_bytes ME_EVIDENCE_FRAME_CACHE_MAX_BYTES,
                          ch_frame_cache_bytes = 0, ch_stored_bytes = 0, ch_records = [], ch_notes = [], ch_frames = []\<rparr>;
                (cache1, fs1) = load_records sha pa io (ls fs) (cache, fs);
                (ok, fs2) = cleanup_orphan_files io cache1 (ls fs1) fs1
            in if \<not> ok then (Inl VE_Orphans, fs2)
               else (case prune_expired_locked io (ei_now io) (cache1, fs2) of
                       (_, cache2, fs3) \<Rightarrow> (Inr cache2, fs3))))"

subsection \<open>Capturing\<close>

definition candidate_record ::
  "(string \<Rightarrow> string) \<Rightarrow> MeEvidenceCache \<Rightarrow> i64 \<Rightarrow> MeAnalyticsEvent \<Rightarrow> JpegFrame \<Rightarrow> MeEvidenceAccuracy \<Rightarrow> u64 \<Rightarrow> i64 \<Rightarrow>
     MeEvidenceRecord" where
  "candidate_record sha cache now event frame accuracy frame_delta pts_delta =
     fill_record_path cache
       \<lparr>er_evidence_id = copy_string ME_ANALYTICS_EVIDENCE_ID_MAX (ev_evidence_id event),
        er_event_id = copy_string ME_ANALYTICS_EVENT_ID_MAX (ev_event_id event),
        er_channel_id = copy_string ME_ANALYTICS_CHANNEL_ID_MAX (ev_channel_id event),
        er_stream_epoch = ev_stream_epoch event,
        er_frame_id = (if fn_frame_id (jf_note frame) > 0 then fn_frame_id (jf_note frame)
                       else if accuracy = ME_EVIDENCE_ACCURACY_EXACT then ev_frame_id event else 0),
        er_source_pts_valid = fn_source_pts_valid (jf_note frame),
        er_source_pts = fn_source_pts (jf_note frame),
        er_source_timebase = fn_source_timebase (jf_note frame),
        er_capture_time_us = ev_event_time_us event,
        er_width = fn_width (jf_note frame), er_height = fn_height (jf_note frame),
        er_bytes = word_of_nat (length (jf_jpeg frame)),
        er_sha256 = copy_string ME_EVIDENCE_SHA256_MAX (sha (jf_jpeg frame)),
        er_accuracy = accuracy, er_frame_delta = frame_delta, er_pts_delta = pts_delta,
        er_created_at_us = now,
        er_expires_at_us = (if int (unat (ch_retention_s cache)) > (INT64_MAX - now) div 1000000 then INT64_MAX
                            else now + int (unat (ch_retention_s cache)) * 1000000),
        er_storage_state = ''ready'', er_delivery_state = ''awaiting_consumer'', er_path = []\<rparr>"

text \<open>Writing the JPEG, then the metadata; on a failure both files are removed.\<close>

definition publish ::
  "(json \<Rightarrow> string option) \<Rightarrow> EvidenceIo \<Rightarrow> MeEvidenceCache \<Rightarrow> MeEvidenceRecord \<Rightarrow> string \<Rightarrow> file_system \<Rightarrow> bool \<times> file_system" where
  "publish pr io cache candidate jpeg fs =
     (let jpeg_file = jpeg_path cache (er_evidence_id candidate);
          json_file = json_path cache (er_evidence_id candidate);
          failed = (\<lambda>fs. (False, unlink io json_file (unlink io jpeg_file fs)))
      in case write_atomic (ei_jpeg_write io) jpeg_file jpeg fs of
           (False, fs1) \<Rightarrow> failed fs1
         | (True, fs1) \<Rightarrow>
             (case pr (evidence_to_json candidate) of
                None \<Rightarrow> failed fs1
              | Some metadata_text \<Rightarrow>
                  (case write_atomic (ei_json_write io) json_file metadata_text fs1 of
                     (False, fs2) \<Rightarrow> failed fs2
                   | (True, fs2) \<Rightarrow> (True, fs2))))"

datatype CaptureResult = Captured MeEvidenceRecord | Unavailable EvidenceError | Capture_Error EvidenceError

type_synonym capture_state = "CaptureResult \<times> MeAnalyticsEvent \<times> MeEvidenceCache \<times> file_system"

definition capture_frame ::
  "(string \<Rightarrow> string) \<Rightarrow> (json \<Rightarrow> string option) \<Rightarrow> EvidenceIo \<Rightarrow> MeEvidenceCache \<Rightarrow> MeAnalyticsEvent \<Rightarrow>
     JpegFrame \<Rightarrow> MeEvidenceRecord \<Rightarrow> file_system \<Rightarrow> capture_state" where
  "capture_frame sha pr io cache event frame candidate fs =
     (if er_bytes candidate > ch_max_bytes cache then (Unavailable VE_Exceeds_Capacity, event, cache, fs)
      else (case prune_expired_locked io (ei_now io) (cache, fs) of
        (_, cache1, fs1) \<Rightarrow>
          if ch_stored_bytes cache1 + er_bytes candidate > ch_max_bytes cache1
          then (Unavailable VE_Full, event, cache1, fs1)
          else (case publish pr io cache1 candidate (jf_jpeg frame) fs1 of
                  (False, fs2) \<Rightarrow> (Capture_Error VE_Publish, event, cache1, fs2)
                | (True, fs2) \<Rightarrow>
                    (Captured candidate, event,
                     cache1\<lparr>ch_records := put_record (er_evidence_id candidate) candidate (ch_records cache1),
                            ch_stored_bytes := ch_stored_bytes cache1 + er_bytes candidate\<rparr>,
                     fs2))))"

text \<open>The event with its evidence id filled in, and whether the id is usable.\<close>

definition with_evidence_id :: "(string \<Rightarrow> string) \<Rightarrow> MeAnalyticsEvent \<Rightarrow> bool \<times> MeAnalyticsEvent" where
  "with_evidence_id sha event0 =
     (if ev_evidence_id event0 \<noteq> [] then (True, event0)
      else (case make_evidence_id sha (ev_event_id event0) of
              (ok, new_id) \<Rightarrow> (ok, event0\<lparr>ev_evidence_id := new_id\<rparr>)))"

definition me_evidence_cache_capture ::
  "(string \<Rightarrow> string) \<Rightarrow> (json \<Rightarrow> string option) \<Rightarrow> EvidenceIo \<Rightarrow> MeEvidenceCache \<Rightarrow> MeAnalyticsEvent \<Rightarrow>
     file_system \<Rightarrow> capture_state" where
  "me_evidence_cache_capture sha pr io cache event0 fs =
     (if ev_event_id event0 = [] \<or> ev_channel_id event0 = [] \<or> ev_stream_epoch event0 = 0
      then (Capture_Error VE_Identity, event0, cache, fs)
      else (let (derived, event) = with_evidence_id sha event0
            in if \<not> derived then (Capture_Error VE_Derive_Id, event, cache, fs)
               else if \<not> valid_component (ev_evidence_id event) then (Capture_Error VE_Unsafe_Id, event, cache, fs)
               else (case map_of (ch_records cache) (ev_evidence_id event) of
                       Some record \<Rightarrow> (Captured record, event, cache, fs)
                     | None \<Rightarrow>
                         if ev_phase event \<noteq> ME_EVENT_PHASE_START then (Unavailable VE_Not_Published, event, cache, fs)
                         else (case select_frame_locked cache event of
                                 None \<Rightarrow> (Unavailable VE_No_Frame, event, cache, fs)
                               | Some (frame, accuracy, frame_delta, pts_delta) \<Rightarrow>
                                   capture_frame sha pr io cache event frame
                                     (candidate_record sha cache (ei_now io) event frame accuracy frame_delta pts_delta)
                                     fs))))"

subsection \<open>Queries\<close>

definition me_evidence_cache_lookup :: "MeEvidenceCache \<Rightarrow> string \<Rightarrow> MeEvidenceRecord option" where
  "me_evidence_cache_lookup cache evidence_id = map_of (ch_records cache) evidence_id"

definition me_evidence_cache_bytes :: "MeEvidenceCache option \<Rightarrow> u64" where
  "me_evidence_cache_bytes co = (case co of None \<Rightarrow> 0 | Some cache \<Rightarrow> ch_stored_bytes cache)"

definition me_evidence_cache_count :: "MeEvidenceCache option \<Rightarrow> u64" where
  "me_evidence_cache_count co = (case co of None \<Rightarrow> 0 | Some cache \<Rightarrow> word_of_nat (length (ch_records cache)))"

definition me_evidence_cache_prune ::
  "EvidenceIo \<Rightarrow> MeEvidenceCache \<Rightarrow> file_system \<Rightarrow> nat \<times> MeEvidenceCache \<times> file_system" where
  "me_evidence_cache_prune io cache fs = prune_expired_locked io (ei_now io) (cache, fs)"

end
