(* ===== verification/Rockiva_Runner.thy ===== *)
theory Rockiva_Runner
  imports Observation Analytics_Config "HOL-Library.Multiset"
begin

text \<open>
  \<^verbatim>\<open>media_engine/src/analytics/rockiva_runner.{h,c}\<close>: frames go from the capture pipeline to the RockIVA
  detector and its results come back as normalized observations. The detector and GStreamer are
  called through their interfaces only: what a sample reports is the record \<open>Sample\<close>, the return codes
  of the detector are arguments, and its limit \<^verbatim>\<open>ROCKIVA_MAX_OBJ_NUM\<close> is the parameter \<open>max_obj\<close>. A buffer is
  a number; each operation says which buffer references it drops. The operations are the critical
  sections of the callbacks, between which the lock is free, so that a run is any interleaving.
\<close>

subsection \<open>Data\<close>

definition ME_ROCKIVA_CHANNEL_ID :: u32 where
  "ME_ROCKIVA_CHANNEL_ID = 0"

definition GST_CLOCK_TIME_NONE :: u64 where
  "GST_CLOCK_TIME_NONE = UINT64_MAX"

record MeRockivaFrame =
  fr_buffer :: "nat option"
  fr_fd :: int
  fr_pts :: u64
  fr_width :: u32
  fr_height :: u32
  fr_hstride :: u32
  fr_stride :: int
  fr_stream_epoch :: u64
  fr_channel_id :: string
  fr_detection_seen :: bool
  fr_release_seen :: bool

record MeRockivaLayout =
  ly_width :: u32
  ly_height :: u32
  ly_hstride :: u32
  ly_stride :: int
  ly_uv_stride :: int
  ly_offset :: u64
  ly_uv_offset :: u64
  ly_fd :: int

record MeRockivaRunner =
  rr_frames :: "u32 \<rightharpoonup> MeRockivaFrame"
  rr_handle_initialized :: bool
  rr_detect_initialized :: bool
  rr_release_callback_initialized :: bool
  rr_stopping :: bool
  rr_active_callbacks :: u32
  rr_pending_frames :: u32
  rr_next_frame_id :: u32
  rr_rejected_samples :: u64
  rr_stream_epoch :: u64
  rr_channel_id :: string
  rr_model_version :: string
  rr_backend_version :: string
  rr_config :: MeAnalyticsConfig

text \<open>What GStreamer reports of a sample: the caps, the video meta if there is one, the memory.\<close>

record PlaneLayout =
  pl_nv12 :: bool
  pl_n_planes :: u32
  pl_width :: u32
  pl_height :: u32
  pl_stride0 :: int
  pl_stride1 :: int
  pl_offset0 :: u64
  pl_offset1 :: u64

record Sample =
  sa_has_buffer_and_caps :: bool
  sa_caps_size :: u32
  sa_info :: "PlaneLayout option"
  sa_progressive :: bool
  sa_n_memory :: u32
  sa_dmabuf :: bool
  sa_meta :: "PlaneLayout option"
  sa_memory_offset :: u64
  sa_visible_size :: u64
  sa_buffer_size :: u64
  sa_fd :: int

datatype RockIvaObjectState =
    ROCKIVA_OBJECT_STATE_FIRST
  | ROCKIVA_OBJECT_STATE_TRACKING
  | ROCKIVA_OBJECT_STATE_LOST
  | ROCKIVA_OBJECT_STATE_DISPEAR
  | ROCKIVA_OBJECT_STATE_OTHER int

datatype RockIvaRetCode =
    ROCKIVA_RET_SUCCESS
  | ROCKIVA_RET_UNSUPPORTED
  | ROCKIVA_RET_BUFFER_FULL
  | ROCKIVA_RET_OTHER int

datatype RockIvaDetModel =
    ROCKIVA_DET_MODEL_PFP
  | ROCKIVA_DET_MODEL_PFP_V3
  | ROCKIVA_DET_MODEL_CLS8
  | ROCKIVA_DET_MODEL_PERSON

record RockIvaObject =
  io_person :: bool
  io_objId :: u32
  io_state :: RockIvaObjectState
  io_left :: int
  io_top :: int
  io_right :: int
  io_bottom :: int
  io_score :: u32

record RockIvaReleased =
  rl_frameId :: u32
  rl_dataFd :: int
  rl_channelId :: u32
  rl_dataAddr :: bool
  rl_dataPhyAddr :: bool

subsection \<open>Small functions\<close>

definition ret_name :: "RockIvaRetCode \<Rightarrow> string" where
  "ret_name ret =
     (case ret of
        ROCKIVA_RET_SUCCESS \<Rightarrow> ''success''
      | ROCKIVA_RET_UNSUPPORTED \<Rightarrow> ''unsupported''
      | ROCKIVA_RET_BUFFER_FULL \<Rightarrow> ''buffer-full''
      | _ \<Rightarrow> ''failure'')"

definition model_from_name :: "string \<Rightarrow> RockIvaDetModel option" where
  "model_from_name name =
     (if strcaseeq name ''pfp'' \<or> strcaseeq name ''pfp-v1'' \<or> strcaseeq name ''pfp_v1'' then Some ROCKIVA_DET_MODEL_PFP
      else if strcaseeq name ''pfp-v3'' \<or> strcaseeq name ''pfp_v3'' then Some ROCKIVA_DET_MODEL_PFP_V3
      else if strcaseeq name ''cls8'' \<or> strcaseeq name ''cls8-v1'' \<or> strcaseeq name ''cls8_v1'' then Some ROCKIVA_DET_MODEL_CLS8
      else if strcaseeq name ''person'' then Some ROCKIVA_DET_MODEL_PERSON
      else None)"

definition clamp_coord :: "int \<Rightarrow> u32" where
  "clamp_coord value =
     (if value < 0 then 0
      else if value > uint ME_ANALYTICS_COORD_SCALE then ME_ANALYTICS_COORD_SCALE
      else word_of_int value)"

definition map_track_state :: "RockIvaObjectState \<Rightarrow> MeTrackState option" where
  "map_track_state state =
     (case state of
        ROCKIVA_OBJECT_STATE_FIRST \<Rightarrow> Some ME_TRACK_STATE_NEW
      | ROCKIVA_OBJECT_STATE_TRACKING \<Rightarrow> Some ME_TRACK_STATE_ACTIVE
      | ROCKIVA_OBJECT_STATE_LOST \<Rightarrow> Some ME_TRACK_STATE_LOST
      | ROCKIVA_OBJECT_STATE_DISPEAR \<Rightarrow> Some ME_TRACK_STATE_REMOVED
      | _ \<Rightarrow> None)"

subsection \<open>The layout of a sample\<close>

text \<open>The checks on the strides and offsets, then on the memory; sizes are 64-bit.\<close>

definition finish_layout :: "Sample \<Rightarrow> MeRockivaLayout \<Rightarrow> MeRockivaLayout option" where
  "finish_layout sample layout =
     (let stride = ly_stride layout; stride_size = (word_of_int stride :: u64)
      in if stride \<le> 0 \<or> ly_uv_stride layout \<le> 0 \<or> stride < sint (ly_width layout) \<or>
            ly_uv_stride layout < sint (ly_width layout) \<or> stride > 65535 \<or> ly_uv_stride layout > 65535 \<or>
            stride \<noteq> ly_uv_stride layout \<or> ly_offset layout \<noteq> 0 \<or> ly_uv_offset layout < ly_offset layout \<or>
            (ly_uv_offset layout - ly_offset layout) mod stride_size \<noteq> 0
         then None
         else (let hstride = (ly_uv_offset layout - ly_offset layout) div stride_size
               in if hstride < ucast (ly_height layout) \<or> hstride > 65535 \<or> hstride > UINT64_MAX div stride_size then None
                  else if hstride * stride_size \<noteq> ly_uv_offset layout then None
                  else (let uv_size = word_of_int (ly_uv_stride layout) * ucast (ly_height layout div 2)
                        in if ly_uv_offset layout > UINT64_MAX - uv_size then None
                           else (let required_size = ly_uv_offset layout + uv_size
                                 in if sa_memory_offset sample \<noteq> 0 \<or> sa_visible_size sample < required_size \<or>
                                       sa_buffer_size sample < required_size
                                    then None
                                    else if sa_fd sample < 0 then None
                                    else Some (layout\<lparr>ly_hstride := ucast hstride, ly_fd := sa_fd sample\<rparr>)))))"

definition inspect_sample :: "Sample \<Rightarrow> MeAnalyticsConfig \<Rightarrow> MeRockivaLayout option" where
  "inspect_sample sample config =
     (if \<not> sa_has_buffer_and_caps sample \<or> sa_caps_size sample \<noteq> 1 then None
      else case sa_info sample of
             None \<Rightarrow> None
           | Some info \<Rightarrow>
               if \<not> pl_nv12 info \<or> pl_width info \<noteq> word_of_int (cf_width config) \<or>
                  pl_height info \<noteq> word_of_int (cf_height config) \<or> \<not> sa_progressive sample \<or>
                  pl_n_planes info \<noteq> 2 \<or> sa_n_memory sample \<noteq> 1
               then None
               else if \<not> sa_dmabuf sample then None
               else (let layout = \<lparr>ly_width = pl_width info, ly_height = pl_height info, ly_hstride = 0,
                                   ly_stride = pl_stride0 info, ly_uv_stride = pl_stride1 info,
                                   ly_offset = pl_offset0 info, ly_uv_offset = pl_offset1 info, ly_fd = 0\<rparr>
                     in case sa_meta sample of
                          None \<Rightarrow> finish_layout sample layout
                        | Some meta \<Rightarrow>
                            if \<not> pl_nv12 meta \<or> pl_n_planes meta \<noteq> 2 \<or> pl_width meta \<noteq> ly_width layout \<or>
                               pl_height meta \<noteq> ly_height layout
                            then None
                            else finish_layout sample
                                   (layout\<lparr>ly_stride := pl_stride0 meta, ly_uv_stride := pl_stride1 meta,
                                           ly_offset := pl_offset0 meta, ly_uv_offset := pl_offset1 meta\<rparr>)))"

subsection \<open>Detection results\<close>

definition add_track :: "MeNormalizedObservation \<Rightarrow> MeTrackObservation \<Rightarrow> MeNormalizedObservation" where
  "add_track ob track =
     ob\<lparr>ob_tracks := (ob_tracks ob)[unat (ob_track_count ob) := track], ob_track_count := ob_track_count ob + 1\<rparr>"

definition add_object :: "MeNormalizedObservation \<Rightarrow> RockIvaObject \<Rightarrow> MeNormalizedObservation" where
  "add_object ob object =
     (case map_track_state (io_state object) of
        None \<Rightarrow> ob
      | Some track_state \<Rightarrow>
          if \<not> io_person object \<or> io_objId object = 0 \<or> unat (ob_track_count ob) \<ge> ME_ANALYTICS_MAX_TRACKS then ob
          else (let left = clamp_coord (io_left object); top = clamp_coord (io_top object);
                    right = clamp_coord (io_right object); bottom = clamp_coord (io_bottom object)
                in if left \<ge> right \<or> top \<ge> bottom then ob
                   else add_track ob
                          \<lparr>to_track_id = ucast (io_objId object), to_class_id = ME_TRACK_CLASS_PERSON,
                           to_state = track_state,
                           to_bbox = \<lparr>bb_left = left, bb_top = top, bb_right = right, bb_bottom = bottom\<rparr>,
                           to_score_q = (if io_score object \<ge> 100 then ME_ANALYTICS_COORD_SCALE
                                         else io_score object * 100)\<rparr>))"

text \<open>
  The callback: the observation delivered, if any, and the runner after marking the frame. A result
  is passed only when the detector reports success.
\<close>

definition detect_callback ::
  "nat \<Rightarrow> MeRockivaRunner \<Rightarrow> bool \<Rightarrow> u32 \<Rightarrow> RockIvaObject list \<Rightarrow>
     MeRockivaRunner \<times> MeNormalizedObservation option" where
  "detect_callback max_obj runner success frameId objects =
     (if \<not> success then (runner, None)
      else (let frame = rr_frames runner frameId;
                runner1 = (case frame of
                             None \<Rightarrow> runner
                           | Some f \<Rightarrow> runner\<lparr>rr_frames := (rr_frames runner)(frameId \<mapsto> f\<lparr>fr_detection_seen := True\<rparr>)\<rparr>);
                pts = (case frame of None \<Rightarrow> GST_CLOCK_TIME_NONE | Some f \<Rightarrow> fr_pts f);
                width = (case frame of None \<Rightarrow> word_of_int (cf_width (rr_config runner)) | Some f \<Rightarrow> fr_width f);
                height = (case frame of None \<Rightarrow> word_of_int (cf_height (rr_config runner)) | Some f \<Rightarrow> fr_height f);
                stream_epoch = (case frame of None \<Rightarrow> rr_stream_epoch runner | Some f \<Rightarrow> fr_stream_epoch f);
                channel_id = copy_string ME_ANALYTICS_CHANNEL_ID_MAX
                   (case frame of None \<Rightarrow> rr_channel_id runner | Some f \<Rightarrow> fr_channel_id f);
                backend_version = copy_string ME_ANALYTICS_VERSION_MAX
                   (if rr_backend_version runner \<noteq> [] then rr_backend_version runner else ''unknown'')
            in if channel_id = [] \<or> stream_epoch = 0 \<or> frameId = 0 then (runner1, None)
               else (let ob = me_observation_init\<lparr>
                            ob_channel_id := channel_id, ob_stream_epoch := stream_epoch, ob_frame_id := ucast frameId,
                            ob_frame_width := width, ob_frame_height := height, ob_backend_name := ''rockiva'',
                            ob_backend_version := backend_version,
                            ob_model_version := copy_string ME_ANALYTICS_MODEL_VERSION_MAX
                              (if rr_model_version runner \<noteq> [] then rr_model_version runner else ''unknown'')\<rparr>;
                         ob1 = (if pts \<noteq> GST_CLOCK_TIME_NONE \<and> uint pts \<le> INT64_MAX
                                then ob\<lparr>ob_source_pts := uint pts, ob_source_pts_valid := True\<rparr> else ob)
                     in (runner1, Some (foldl add_object ob1 (take max_obj objects))))))"

subsection \<open>Frames in the detector\<close>

text \<open>
  \<open>next_frame_id_locked\<close>: the loop over the candidates, with the number of attempts left. The result is
  the id, if one was found, and the counter.
\<close>

fun next_id_loop :: "nat \<Rightarrow> (u32 \<rightharpoonup> MeRockivaFrame) \<Rightarrow> u32 \<Rightarrow> u32 option \<times> u32" where
  "next_id_loop 0 frames next_frame_id = (None, next_frame_id)"
| "next_id_loop (Suc attempts) frames next_frame_id =
     (let candidate = next_frame_id + 1
      in if candidate \<noteq> 0 \<and> frames candidate = None then (Some candidate, candidate)
         else next_id_loop attempts frames candidate)"

definition next_frame_id_locked :: "MeRockivaRunner \<Rightarrow> u32 option \<times> MeRockivaRunner" where
  "next_frame_id_locked runner =
     (case next_id_loop (unat UINT32_MAX) (rr_frames runner) (rr_next_frame_id runner) of
        (found, counter) \<Rightarrow> (found, runner\<lparr>rr_next_frame_id := counter\<rparr>))"

text \<open>\<open>new_sample_callback\<close>, section by section: entry, rejection, submission, the result of \<^verbatim>\<open>PushFrame\<close>, exit.\<close>

datatype FlowReturn = GST_FLOW_OK | GST_FLOW_FLUSHING

definition sample_enter :: "MeRockivaRunner \<Rightarrow> FlowReturn \<times> MeRockivaRunner" where
  "sample_enter runner =
     (if rr_stopping runner then (GST_FLOW_FLUSHING, runner)
      else (GST_FLOW_OK, runner\<lparr>rr_active_callbacks := rr_active_callbacks runner + 1\<rparr>))"

definition sample_rejected :: "MeRockivaRunner \<Rightarrow> MeRockivaRunner" where
  "sample_rejected runner = runner\<lparr>rr_rejected_samples := rr_rejected_samples runner + 1\<rparr>"

definition sample_submit :: "MeRockivaLayout \<Rightarrow> nat \<Rightarrow> u64 \<Rightarrow> MeRockivaRunner \<Rightarrow> u32 option \<times> MeRockivaRunner" where
  "sample_submit layout buffer pts runner =
     (if rr_stopping runner then (None, runner)
      else (case next_frame_id_locked runner of
              (None, runner1) \<Rightarrow> (None, runner1)
            | (Some frame_id, runner1) \<Rightarrow>
                (let frame = \<lparr>fr_buffer = Some buffer, fr_fd = ly_fd layout, fr_pts = pts, fr_width = ly_width layout,
                              fr_height = ly_height layout, fr_hstride = ly_hstride layout, fr_stride = ly_stride layout,
                              fr_stream_epoch = rr_stream_epoch runner1,
                              fr_channel_id = copy_string ME_ANALYTICS_CHANNEL_ID_MAX (rr_channel_id runner1),
                              fr_detection_seen = False, fr_release_seen = False\<rparr>
                 in (Some frame_id,
                     runner1\<lparr>rr_frames := (rr_frames runner1)(frame_id \<mapsto> frame),
                             rr_pending_frames := rr_pending_frames runner1 + 1\<rparr>))))"

text \<open>The image that is pushed for a submitted frame; its sizes are 16-bit.\<close>

record RockIvaImage =
  im_frameId :: u32
  im_channelId :: u32
  im_width :: "16 word"
  im_height :: "16 word"
  im_wstride :: "16 word"
  im_hstride :: "16 word"
  im_dataFd :: int

definition pushed_image :: "MeRockivaLayout \<Rightarrow> u32 \<Rightarrow> RockIvaImage" where
  "pushed_image layout frame_id =
     \<lparr>im_frameId = frame_id, im_channelId = ME_ROCKIVA_CHANNEL_ID, im_width = ucast (ly_width layout),
      im_height = ucast (ly_height layout), im_wstride = word_of_int (ly_stride layout),
      im_hstride = ucast (ly_hstride layout), im_dataFd = ly_fd layout\<rparr>"

text \<open>Removing a frame from the table; the result includes the buffer whose reference is dropped.\<close>

definition drop_frame :: "u32 \<Rightarrow> MeRockivaFrame \<Rightarrow> MeRockivaRunner \<Rightarrow> MeRockivaRunner \<times> nat option" where
  "drop_frame frame_id frame runner =
     (runner\<lparr>rr_frames := (rr_frames runner)(frame_id := None),
             rr_pending_frames := (if rr_pending_frames runner > 0 then rr_pending_frames runner - 1
                                   else rr_pending_frames runner)\<rparr>,
      fr_buffer frame)"

definition sample_pushed :: "u32 \<Rightarrow> RockIvaRetCode \<Rightarrow> MeRockivaRunner \<Rightarrow> MeRockivaRunner \<times> nat option" where
  "sample_pushed frame_id ret runner =
     (case rr_frames runner frame_id of
        None \<Rightarrow> (runner, None)
      | Some frame \<Rightarrow>
          if ret \<noteq> ROCKIVA_RET_SUCCESS \<and> \<not> fr_detection_seen frame \<and> \<not> fr_release_seen frame
          then drop_frame frame_id frame runner else (runner, None))"

definition sample_exit :: "MeRockivaRunner \<Rightarrow> MeRockivaRunner" where
  "sample_exit runner =
     (if rr_active_callbacks runner > 0 then runner\<lparr>rr_active_callbacks := rr_active_callbacks runner - 1\<rparr> else runner)"

definition release_frame :: "RockIvaReleased \<Rightarrow> MeRockivaRunner \<Rightarrow> MeRockivaRunner \<times> nat option" where
  "release_frame released runner =
     (case rr_frames runner (rl_frameId released) of
        None \<Rightarrow> (runner, None)
      | Some frame \<Rightarrow>
          if fr_fd frame \<noteq> rl_dataFd released \<or> rl_channelId released \<noteq> ME_ROCKIVA_CHANNEL_ID \<or>
             rl_dataAddr released \<or> rl_dataPhyAddr released
          then (runner, None)
          else drop_frame (rl_frameId released) frame runner)"

text \<open>\<open>release_callback\<close>: the frames one by one; the buffers dropped in order.\<close>

fun release_frames :: "RockIvaReleased list \<Rightarrow> MeRockivaRunner \<Rightarrow> MeRockivaRunner \<times> nat list" where
  "release_frames [] runner = (runner, [])"
| "release_frames (released # rest) runner =
     (case release_frame released runner of
        (runner1, dropped) \<Rightarrow>
          (case release_frames rest runner1 of
             (runner2, buffers) \<Rightarrow> (runner2, (case dropped of None \<Rightarrow> buffers | Some b \<Rightarrow> b # buffers))))"

definition release_callback :: "nat \<Rightarrow> RockIvaReleased list \<Rightarrow> MeRockivaRunner \<Rightarrow> MeRockivaRunner \<times> nat list" where
  "release_callback max_obj frames runner = release_frames (take max_obj frames) runner"

definition me_rockiva_runner_set_stream :: "MeRockivaRunner option \<Rightarrow> string option \<Rightarrow> u64 \<Rightarrow> MeRockivaRunner option" where
  "me_rockiva_runner_set_stream ro channel_id stream_epoch =
     map_option (\<lambda>runner. runner\<lparr>
       rr_channel_id := copy_string ME_ANALYTICS_CHANNEL_ID_MAX
         (case channel_id of None \<Rightarrow> ''camera'' | Some c \<Rightarrow> if c \<noteq> [] then c else ''camera''),
       rr_stream_epoch := (if stream_epoch \<noteq> 0 then stream_epoch else 1)\<rparr>) ro"

subsection \<open>Creation and shutdown\<close>

datatype RunnerError =
    RX_Arguments
  | RX_Model string
  | RX_Dimensions
  | RX_Init RockIvaRetCode
  | RX_Detect_Init RockIvaRetCode
  | RX_Release_Callback RockIvaRetCode

text \<open>The score threshold that is set for persons, in percent.\<close>

definition person_threshold :: "MeAnalyticsConfig \<Rightarrow> u8 option" where
  "person_threshold config =
     (if cf_score_threshold_q config > 0
      then (let threshold = (cf_score_threshold_q config + 99) div 100
            in Some (ucast (if threshold > 100 then 100 else threshold)))
      else None)"

text \<open>\<open>version\<close> is what \<^verbatim>\<open>ROCKIVA_GetVersion\<close> reports; the codes are those of the three initialisation calls.\<close>

definition me_rockiva_runner_new ::
  "bool \<Rightarrow> MeAnalyticsConfig option \<Rightarrow> bool \<Rightarrow> RockIvaRetCode \<times> string \<Rightarrow> RockIvaRetCode \<Rightarrow> RockIvaRetCode \<Rightarrow>
     RockIvaRetCode \<Rightarrow> RunnerError + MeRockivaRunner" where
  "me_rockiva_runner_new appsink co callback version ret_init ret_detect ret_release =
     (case co of
        None \<Rightarrow> Inl RX_Arguments
      | Some config \<Rightarrow>
          if \<not> appsink \<or> \<not> callback then Inl RX_Arguments
          else if model_from_name (cf_model config) = None then Inl (RX_Model (cf_model config))
          else if cf_width config > 65535 \<or> cf_height config > 65535 then Inl RX_Dimensions
          else if ret_init \<noteq> ROCKIVA_RET_SUCCESS then Inl (RX_Init ret_init)
          else if ret_detect \<noteq> ROCKIVA_RET_SUCCESS then Inl (RX_Detect_Init ret_detect)
          else if ret_release \<noteq> ROCKIVA_RET_SUCCESS then Inl (RX_Release_Callback ret_release)
          else Inr \<lparr>rr_frames = Map.empty, rr_handle_initialized = True, rr_detect_initialized = True,
                    rr_release_callback_initialized = True, rr_stopping = False, rr_active_callbacks = 0,
                    rr_pending_frames = 0, rr_next_frame_id = 0, rr_rejected_samples = 0, rr_stream_epoch = 1,
                    rr_channel_id = ''camera'',
                    rr_model_version = copy_string ME_ANALYTICS_MODEL_VERSION_MAX (cf_model config),
                    rr_backend_version = copy_string ME_ANALYTICS_VERSION_MAX
                      (if fst version = ROCKIVA_RET_SUCCESS \<and> snd version \<noteq> [] then snd version else ''unknown''),
                    rr_config = config\<rparr>)"

text \<open>
  \<open>me_rockiva_runner_free\<close> sets the flag first. Then it waits twice while callbacks go on: \<open>at_callbacks\<close> is
  the state when the wait for active callbacks ends and \<open>at_frames\<close> the one when the wait for pending
  frames ends, whether complete or timed out. The result is \<open>None\<close> when the runner was released and
  otherwise the runner that is kept.
\<close>

definition free_begin :: "MeRockivaRunner \<Rightarrow> MeRockivaRunner" where
  "free_begin runner = runner\<lparr>rr_stopping := True\<rparr>"

definition ret_finished :: "RockIvaRetCode \<Rightarrow> bool" where
  "ret_finished ret \<longleftrightarrow> ret = ROCKIVA_RET_SUCCESS \<or> ret = ROCKIVA_RET_UNSUPPORTED"

definition free_finish ::
  "MeRockivaRunner \<Rightarrow> MeRockivaRunner \<Rightarrow> RockIvaRetCode \<Rightarrow> RockIvaRetCode \<Rightarrow> RockIvaRetCode \<Rightarrow> RockIvaRetCode \<Rightarrow>
     MeRockivaRunner option" where
  "free_finish at_callbacks at_frames ret_wait ret_detect_release ret_final_wait ret_release =
     (let safe = (rr_active_callbacks at_callbacks = 0)
      in if \<not> rr_handle_initialized at_frames then None
         else if \<not> ret_finished ret_wait then Some at_frames
         else if \<not> (rr_pending_frames at_frames = 0 \<and> safe) then Some at_frames
         else if rr_detect_initialized at_frames \<and> ret_detect_release \<noteq> ROCKIVA_RET_SUCCESS then Some at_frames
         else (let runner = at_frames\<lparr>rr_detect_initialized := False\<rparr>
               in if \<not> ret_finished ret_final_wait then Some runner
                  else if ret_release \<noteq> ROCKIVA_RET_SUCCESS then Some runner
                  else None))"

end
