(* ===== verification/Gst_Runner.thy ===== *)
theory Gst_Runner
  imports Session_Mgr Engine_Config Evidence_Cache Rockiva_Runner
begin

text \<open>
  \<^verbatim>\<open>media_engine/src/gst/gst_runner.{h,c}\<close>: the capture pipeline and its live branch. GStreamer is called
  through its interface only: the outcomes of its calls are arguments, and of its objects the model
  keeps what the runner can change: the number of source pads requested from the tee and the number of
  branch bins in the pipeline. The bus callback is two functions, the notification it sends and the
  change of the runner after it, since the notification calls back into the engine.
\<close>

subsection \<open>Data\<close>

datatype LiveBranchPhase =
    LIVE_PHASE_IDLE
  | LIVE_PHASE_STARTING
  | LIVE_PHASE_ACTIVE
  | LIVE_PHASE_STOPPING
  | LIVE_PHASE_WAITING_NULL
  | LIVE_PHASE_BUS_DRAIN
  | LIVE_PHASE_DESTROYED
  | LIVE_PHASE_FAILED

text \<open>What is set on the elements of a branch.\<close>

record BranchSettings =
  bs_rotation :: "int option"
  bs_bps :: u32
  bs_pt :: int
  bs_ssrc :: u32
  bs_host :: string
  bs_port :: int

record LiveBranch =
  lv_session_id :: string
  lv_fps :: int
  lv_bitrate :: int
  lv_tee_src :: bool
  lv_branch_sink :: bool
  lv_branch :: "BranchSettings option"
  lv_phase :: LiveBranchPhase
  lv_teardown_idle :: bool

record GstRunner =
  gr_cfg :: EngineConfig
  gr_pipeline :: bool
  gr_tee :: bool
  gr_analytics :: "MeRockivaRunner option"
  gr_evidence_cache :: "MeEvidenceCache option"
  gr_evidence_sink :: bool
  gr_analytics_channel_id :: string
  gr_analytics_stream_epoch :: u64
  gr_bus_watch :: bool
  gr_base_ready :: bool
  gr_base_error :: string
  gr_live :: LiveBranch
  gr_branch_active :: bool
  gr_event_cb :: bool
  gr_tee_pads :: nat
  gr_bins :: nat

definition exact_evidence_enabled :: "EngineConfig option \<Rightarrow> bool" where
  "exact_evidence_enabled co =
     (case co of
        None \<Rightarrow> False
      | Some cfg \<Rightarrow> cf_enabled (ec_analytics cfg) \<and> strcaseeq (cf_evidence_mode (ec_analytics cfg)) ''exact_evidence'')"

text \<open>Which factories exist is what \<^verbatim>\<open>gst_element_factory_find\<close> tells.\<close>

definition available_jpeg_encoder :: "(string \<Rightarrow> bool) \<Rightarrow> string option" where
  "available_jpeg_encoder factory =
     (if factory ''mppjpegenc'' then Some ''mppjpegenc''
      else if factory ''jpegenc'' then Some ''jpegenc'' else None)"

text \<open>A buffer from the encoder: its bytes and presentation time.\<close>

definition evidence_new_sample_callback :: "string \<Rightarrow> u64 \<Rightarrow> GstRunner \<Rightarrow> GstRunner" where
  "evidence_new_sample_callback bytes pts r =
     (case gr_evidence_cache r of
        None \<Rightarrow> r
      | Some cache \<Rightarrow>
          (let pts_valid = (pts \<noteq> GST_CLOCK_TIME_NONE \<and> uint pts \<le> INT64_MAX)
           in r\<lparr>gr_evidence_cache :=
                  snd (me_evidence_cache_push_jpeg (Some cache) bytes pts_valid (if pts_valid then uint pts else 0))\<rparr>))"

subsection \<open>The text of the base pipeline\<close>

definition show_int :: "int \<Rightarrow> string" where
  "show_int n = (if n < 0 then CHR ''-'' # show_dec (nat (- n)) else show_dec (nat n))"

definition appsink_text :: "string \<Rightarrow> string" where
  "appsink_text name =
     ''appsink name='' @ name @ '' emit-signals=false sync=false async=false max-buffers=4 drop=true '' @
     ''wait-on-eos=false enable-last-sample=false''"

definition preview_text :: "EngineConfig \<Rightarrow> string" where
  "preview_text cfg =
     '' t. ! queue'' @
     '' ! rgarotate rotation='' @ show_int (ec_preview_rotation cfg) @ '' out-width='' @ show_int (ec_preview_width cfg) @
     '' out-height='' @ show_int (ec_preview_height cfg) @
     '' ! kmssink sync=false connector-id='' @ show_int (ec_connector_id cfg) @ '' plane-id='' @ show_int (ec_plane_id cfg) @
     '' skip-vsync=true''"

definition analytics_text :: "(string \<Rightarrow> bool) \<Rightarrow> EngineConfig \<Rightarrow> string" where
  "analytics_text factory cfg =
     (let a = ec_analytics cfg; w = show_int (cf_width a); h = show_int (cf_height a)
      in '' t. ! queue max-size-buffers=4 leaky=downstream ! rgarotate rotation=0 out-width='' @ w @ '' out-height='' @ h @
         '' ! videorate drop-only=true ! video/x-raw,format=NV12,width='' @ w @ '',height='' @ h @
         '',framerate='' @ show_int (cf_fps a) @ ''/1'' @
         (if exact_evidence_enabled (Some cfg)
          then '' ! tee name=analytics-tee analytics-tee. ! '' @ appsink_text ''analytics-sink'' @
               (case available_jpeg_encoder factory of
                  None \<Rightarrow> []
                | Some encoder \<Rightarrow>
                    '' analytics-tee. ! queue max-size-buffers=4 leaky=downstream ! videoconvert ! '' @ encoder @ '' ! '' @
                    appsink_text ''evidence-sink'')
          else '' ! '' @ appsink_text ''analytics-sink''))"

definition build_base_pipeline :: "(string \<Rightarrow> bool) \<Rightarrow> EngineConfig \<Rightarrow> string" where
  "build_base_pipeline factory cfg =
     ''v4l2src device=\"'' @ ec_device cfg @ ''\" io-mode=dmabuf ! video/x-raw,format='' @ ec_format cfg @
     '',width='' @ show_int (ec_width cfg) @ '',height='' @ show_int (ec_height cfg) @
     '',framerate='' @ show_int (ec_fps cfg) @ ''/1 ! tee name=t allow-not-linked=true'' @
     (if ec_preview cfg then preview_text cfg
      else if \<not> cf_enabled (ec_analytics cfg) then '' t. ! fakesink sync=false'' else []) @
     (if cf_enabled (ec_analytics cfg) then analytics_text factory cfg else [])"

subsection \<open>The bus\<close>

text \<open>A state change concerns the live branch, with the new state being NULL and nothing pending, or something else.\<close>

datatype BusMessage =
    GST_MESSAGE_ERROR "string option"
  | GST_MESSAGE_EOS
  | GST_MESSAGE_STATE_CHANGED bool bool bool
  | GST_MESSAGE_OTHER

definition live_branch_schedule_destroy :: "GstRunner \<Rightarrow> GstRunner" where
  "live_branch_schedule_destroy r =
     (if lv_phase (gr_live r) \<noteq> LIVE_PHASE_BUS_DRAIN then r
      else if lv_teardown_idle (gr_live r) then r
      else r\<lparr>gr_live := (gr_live r)\<lparr>lv_teardown_idle := True\<rparr>\<rparr>)"

definition bus_event :: "BusMessage \<Rightarrow> GstRunner \<Rightarrow> (string \<times> string option \<times> string) option" where
  "bus_event msg r =
     (let session_id = (if gr_branch_active r then Some (lv_session_id (gr_live r)) else None)
      in if \<not> gr_event_cb r then None
         else (case msg of
                 GST_MESSAGE_ERROR m \<Rightarrow>
                   Some (''error'', session_id, (case m of None \<Rightarrow> ''gstreamer error'' | Some m' \<Rightarrow> m'))
               | GST_MESSAGE_EOS \<Rightarrow> Some (''eos'', session_id, ''pipeline EOS'')
               | _ \<Rightarrow> None))"

definition bus_update :: "BusMessage \<Rightarrow> GstRunner \<Rightarrow> GstRunner" where
  "bus_update msg r =
     (case msg of
        GST_MESSAGE_ERROR _ \<Rightarrow> r\<lparr>gr_base_ready := False\<rparr>
      | GST_MESSAGE_STATE_CHANGED from_branch new_null void_pending \<Rightarrow>
          if lv_phase (gr_live r) = LIVE_PHASE_WAITING_NULL \<and> lv_branch (gr_live r) \<noteq> None \<and>
             from_branch \<and> new_null \<and> void_pending
          then live_branch_schedule_destroy (r\<lparr>gr_live := (gr_live r)\<lparr>lv_phase := LIVE_PHASE_BUS_DRAIN\<rparr>\<rparr>)
          else r
      | _ \<Rightarrow> r)"

subsection \<open>Starting a live branch\<close>

text \<open>The outcomes of the calls in the order in which they are made.\<close>

record StartOutcome =
  so_elements :: bool
  so_rotator :: bool
  so_rotation_property :: bool
  so_properties :: bool
  so_link_queue :: bool
  so_link_rotator :: bool
  so_link_rest :: bool
  so_bin_add :: bool
  so_queue :: bool
  so_sink_pad :: bool
  so_tee_pad :: bool
  so_pad_link :: bool
  so_playing :: bool

definition create_live_branch :: "StartOutcome \<Rightarrow> SessionParams \<Rightarrow> int \<Rightarrow> BranchSettings option" where
  "create_live_branch so p rotation =
     (if \<not> so_elements so then None
      else if rotation \<noteq> 0 \<and> \<not> so_rotator so then None
      else if rotation \<noteq> 0 \<and> \<not> so_rotation_property so then None
      else if \<not> so_properties so then None
      else if (word_of_int (sp_bitrate p) :: u32) > UINT32_MAX div 1000 then None
      else if \<not> so_link_queue so then None
      else if rotation \<noteq> 0 \<and> \<not> so_link_rotator so then None
      else if \<not> so_link_rest so then None
      else Some \<lparr>bs_rotation = (if rotation \<noteq> 0 then Some rotation else None),
                 bs_bps = word_of_int (sp_bitrate p) * 1000, bs_pt = sp_payload_type p, bs_ssrc = sp_ssrc p,
                 bs_host = sp_dest_ip p, bs_port = sp_dest_port p\<rparr>)"

text \<open>
  The error path after the branch is in the pipeline: the tee pad, if one was requested, is given
  back, and the bin is removed.
\<close>

definition fail_branch :: "bool \<Rightarrow> GstRunner \<Rightarrow> GstRunner" where
  "fail_branch src r =
     (let live = gr_live r
      in r\<lparr>gr_tee_pads := (if src then gr_tee_pads r - 1 else gr_tee_pads r),
           gr_bins := (if lv_branch live \<noteq> None then gr_bins r - 1 else gr_bins r),
           gr_live := live\<lparr>lv_tee_src := False, lv_branch_sink := False, lv_session_id := [], lv_fps := 0,
                           lv_bitrate := 0, lv_branch := None, lv_phase := LIVE_PHASE_DESTROYED\<rparr>\<rparr>)"

definition next_stream_epoch :: "u64 \<Rightarrow> u64" where
  "next_stream_epoch epoch = (if epoch = UINT64_MAX then 1 else epoch + 1)"

text \<open>A new stream epoch is announced to the detector, if there is one.\<close>

definition change_stream :: "string \<Rightarrow> GstRunner \<Rightarrow> GstRunner" where
  "change_stream channel_id r =
     (case gr_analytics r of
        None \<Rightarrow> r
      | Some analytics \<Rightarrow>
          (let epoch = next_stream_epoch (gr_analytics_stream_epoch r)
           in r\<lparr>gr_analytics_stream_epoch := epoch,
                gr_analytics := me_rockiva_runner_set_stream (Some analytics) (Some channel_id) epoch\<rparr>))"

definition gst_runner_start_live :: "StartOutcome \<Rightarrow> SessionParams \<Rightarrow> GstRunner \<Rightarrow> int \<times> GstRunner" where
  "gst_runner_start_live so p r =
     (let live = gr_live r
      in if \<not> gr_base_ready r then (ME_ERR_MEDIA, r)
         else if gr_branch_active r \<or> lv_branch live \<noteq> None \<or>
                 (lv_phase live \<noteq> LIVE_PHASE_IDLE \<and> lv_phase live \<noteq> LIVE_PHASE_DESTROYED)
         then (ME_ERR_MEDIA, r)
         else if sp_codec p \<noteq> ''h264'' then (ME_ERR_PARAM, r)
         else (case create_live_branch so p (ec_stream_rotation (gr_cfg r)) of
             None \<Rightarrow> (ME_ERR_MEDIA, r\<lparr>gr_live := live\<lparr>lv_branch := None, lv_phase := LIVE_PHASE_IDLE\<rparr>\<rparr>)
           | Some settings \<Rightarrow>
               if \<not> so_bin_add so
               then (ME_ERR_MEDIA, r\<lparr>gr_live := live\<lparr>lv_branch := None, lv_phase := LIVE_PHASE_DESTROYED\<rparr>\<rparr>)
               else (let r1 = r\<lparr>gr_live := live\<lparr>lv_phase := LIVE_PHASE_STARTING, lv_branch := Some settings\<rparr>,
                                gr_bins := gr_bins r + 1\<rparr>
                     in if \<not> so_queue so then (ME_ERR_MEDIA, fail_branch False r1)
                        else if \<not> so_sink_pad so then (ME_ERR_MEDIA, fail_branch False r1)
                        else if \<not> so_tee_pad so then (ME_ERR_MEDIA, fail_branch False r1)
                        else (let r2 = r1\<lparr>gr_tee_pads := gr_tee_pads r1 + 1\<rparr>
                              in if \<not> so_pad_link so then (ME_ERR_MEDIA, fail_branch True r2)
                                 else (let r3 = r2\<lparr>gr_live := (gr_live r2)\<lparr>lv_tee_src := True, lv_branch_sink := True,
                                                     lv_fps := sp_fps p, lv_bitrate := sp_bitrate p,
                                                     lv_session_id := copy_string ME_SESSION_ID_MAX (sp_session_id p)\<rparr>\<rparr>
                                       in if \<not> so_playing so then (ME_ERR_MEDIA, fail_branch True r3)
                                          else (ME_ERR_OK,
                                                change_stream (sp_channel_id p)
                                                  (r3\<lparr>gr_branch_active := True,
                                                      gr_live := (gr_live r3)\<lparr>lv_phase := LIVE_PHASE_ACTIVE\<rparr>\<rparr>)))))))"

subsection \<open>Stopping it\<close>

text \<open>The result says whether the source stays; it never does.\<close>

definition live_branch_destroy_idle :: "GstRunner \<Rightarrow> GstRunner" where
  "live_branch_destroy_idle r0 =
     (let r = r0\<lparr>gr_live := (gr_live r0)\<lparr>lv_teardown_idle := False\<rparr>\<rparr>; live = gr_live r
      in if lv_branch live = None then r\<lparr>gr_live := live\<lparr>lv_phase := LIVE_PHASE_DESTROYED\<rparr>\<rparr>
         else if lv_phase live \<noteq> LIVE_PHASE_BUS_DRAIN then r
         else r\<lparr>gr_bins := gr_bins r - 1,
                gr_live := live\<lparr>lv_branch := None, lv_phase := LIVE_PHASE_DESTROYED, lv_session_id := [], lv_fps := 0,
                                lv_bitrate := 0\<rparr>\<rparr>)"

datatype GstStateChangeReturn =
    GST_STATE_CHANGE_FAILURE
  | GST_STATE_CHANGE_SUCCESS
  | GST_STATE_CHANGE_ASYNC
  | GST_STATE_CHANGE_NO_PREROLL

text \<open>\<open>tee_sink\<close>: the tee gives its sink pad, under whose lock the pads are released.\<close>

definition live_branch_teardown :: "bool \<Rightarrow> GstRunner \<Rightarrow> GstRunner" where
  "live_branch_teardown tee_sink r =
     (let live = gr_live r;
          r1 = (if tee_sink
                then r\<lparr>gr_tee_pads := (if lv_tee_src live then gr_tee_pads r - 1 else gr_tee_pads r),
                       gr_live := live\<lparr>lv_tee_src := False, lv_branch_sink := False\<rparr>\<rparr>
                else r)
      in r1\<lparr>gr_branch_active := False\<rparr>)"

definition set_phase :: "LiveBranchPhase \<Rightarrow> GstRunner \<Rightarrow> GstRunner" where
  "set_phase ph r = r\<lparr>gr_live := (gr_live r)\<lparr>lv_phase := ph\<rparr>\<rparr>"

definition gst_runner_stop_live :: "bool \<Rightarrow> GstStateChangeReturn \<Rightarrow> string \<Rightarrow> GstRunner \<Rightarrow> int \<times> GstRunner" where
  "gst_runner_stop_live tee_sink state_ret session_id r =
     (let live = gr_live r
      in if (lv_phase live = LIVE_PHASE_STOPPING \<or> lv_phase live = LIVE_PHASE_WAITING_NULL \<or>
             lv_phase live = LIVE_PHASE_BUS_DRAIN) \<and> lv_session_id live = session_id
         then (ME_ERR_OK, r)
         else if \<not> gr_branch_active r \<or> lv_phase live \<noteq> LIVE_PHASE_ACTIVE \<or> lv_session_id live \<noteq> session_id
         then (ME_ERR_NOT_FOUND, r)
         else (let r1 = live_branch_teardown tee_sink (set_phase LIVE_PHASE_STOPPING r)
               in if state_ret = GST_STATE_CHANGE_FAILURE then (ME_ERR_MEDIA, set_phase LIVE_PHASE_FAILED r1)
                  else (let r2 = (if state_ret = GST_STATE_CHANGE_ASYNC then set_phase LIVE_PHASE_WAITING_NULL r1
                                  else live_branch_schedule_destroy (set_phase LIVE_PHASE_BUS_DRAIN r1))
                        in (ME_ERR_OK, change_stream (gr_analytics_channel_id r2) r2))))"

subsection \<open>Evidence and status\<close>

definition gst_runner_snapshot :: "GstRunner \<Rightarrow> string \<Rightarrow> string \<Rightarrow> int" where
  "gst_runner_snapshot r channel_id out_dir = ME_ERR_MEDIA"

definition gst_runner_note_analytics_frame :: "GstRunner \<Rightarrow> MeNormalizedObservation \<Rightarrow> GstRunner" where
  "gst_runner_note_analytics_frame r observation =
     (case gr_evidence_cache r of
        None \<Rightarrow> r
      | Some cache \<Rightarrow>
          r\<lparr>gr_evidence_cache :=
              snd (me_evidence_cache_note_frame (Some cache) (ob_channel_id observation) (ob_stream_epoch observation)
                     (ob_frame_id observation) (ob_source_pts_valid observation) (ob_source_pts observation)
                     (ob_source_timebase observation) (ob_frame_width observation) (ob_frame_height observation))\<rparr>)"

datatype EvidenceStatus = Evidence_Ok | Evidence_Unavailable | Evidence_Failed

definition gst_runner_capture_evidence ::
  "(string \<Rightarrow> string) \<Rightarrow> (json \<Rightarrow> string option) \<Rightarrow> EvidenceIo \<Rightarrow> GstRunner \<Rightarrow> MeAnalyticsEvent \<Rightarrow> file_system \<Rightarrow>
     EvidenceStatus \<times> MeAnalyticsEvent \<times> GstRunner \<times> file_system" where
  "gst_runner_capture_evidence sha pr io r event fs =
     (case gr_evidence_cache r of
        None \<Rightarrow> (Evidence_Unavailable, event, r, fs)
      | Some cache \<Rightarrow>
          (case me_evidence_cache_capture sha pr io cache event fs of
             (result, event1, cache1, fs1) \<Rightarrow>
               ((case result of
                   Captured _ \<Rightarrow> Evidence_Ok
                 | Unavailable _ \<Rightarrow> Evidence_Unavailable
                 | Capture_Error _ \<Rightarrow> Evidence_Failed),
                event1, r\<lparr>gr_evidence_cache := Some cache1\<rparr>, fs1)))"

definition gst_runner_status :: "GstRunner \<Rightarrow> bool \<times> int \<times> int" where
  "gst_runner_status r =
     (gr_branch_active r, if gr_branch_active r then lv_fps (gr_live r) else 0,
      if gr_branch_active r then lv_bitrate (gr_live r) else 0)"

subsection \<open>Creation and destruction\<close>

datatype BaseMessage = Base_Error "string option" | Base_Playing | Base_Other

text \<open>The wait for the base pipeline: the messages that arrive until the timeout.\<close>

fun base_wait :: "BaseMessage list \<Rightarrow> bool \<times> string" where
  "base_wait [] = (False, [])"
| "base_wait (Base_Error m # _) = (False, copy_string 256 (case m of None \<Rightarrow> ''unknown error'' | Some m' \<Rightarrow> m'))"
| "base_wait (Base_Playing # _) = (True, [])"
| "base_wait (Base_Other # rest) = base_wait rest"

record RunnerIo =
  ro_parse_error :: "string option"
  ro_pipeline :: bool
  ro_tee :: bool
  ro_analytics_sink :: bool
  ro_evidence_sink :: bool
  ro_version :: "RockIvaRetCode \<times> string"
  ro_ret_init :: RockIvaRetCode
  ro_ret_detect :: RockIvaRetCode
  ro_ret_release :: RockIvaRetCode
  ro_messages :: "BaseMessage list"

definition idle_branch :: LiveBranch where
  "idle_branch = \<lparr>lv_session_id = [], lv_fps = 0, lv_bitrate = 0, lv_tee_src = False, lv_branch_sink = False,
                  lv_branch = None, lv_phase = LIVE_PHASE_IDLE, lv_teardown_idle = False\<rparr>"

definition new_runner :: "EngineConfig \<Rightarrow> MeEvidenceCache option \<Rightarrow> GstRunner" where
  "new_runner cfg cache =
     \<lparr>gr_cfg = cfg, gr_pipeline = False, gr_tee = False, gr_analytics = None, gr_evidence_cache = cache,
      gr_evidence_sink = False,
      gr_analytics_channel_id = copy_string ME_ANALYTICS_CHANNEL_ID_MAX (''camera-'' @ show_int (ec_cam_id cfg)),
      gr_analytics_stream_epoch = 1, gr_bus_watch = False, gr_base_ready = False, gr_base_error = [],
      gr_live = idle_branch, gr_branch_active = False, gr_event_cb = False, gr_tee_pads = 0, gr_bins = 0\<rparr>"

text \<open>The detector and the encoder branch, when analytics are enabled.\<close>

definition attach_analytics :: "RunnerIo \<Rightarrow> bool \<Rightarrow> GstRunner \<Rightarrow> GstRunner" where
  "attach_analytics ro callback r =
     (let cfg = gr_cfg r;
          analytics = (if \<not> ro_analytics_sink ro then None
                       else (case me_rockiva_runner_new True (Some (ec_analytics cfg)) callback (ro_version ro)
                                    (ro_ret_init ro) (ro_ret_detect ro) (ro_ret_release ro) of
                               Inl _ \<Rightarrow> None
                             | Inr a \<Rightarrow> Some a))
      in r\<lparr>gr_analytics := me_rockiva_runner_set_stream analytics (Some (gr_analytics_channel_id r)) (gr_analytics_stream_epoch r),
           gr_evidence_sink := (gr_evidence_cache r \<noteq> None \<and> ro_evidence_sink ro)\<rparr>)"

definition gst_runner_new ::
  "(string \<Rightarrow> string) \<Rightarrow> (string \<Rightarrow> json option) \<Rightarrow> (file_system \<Rightarrow> string list) \<Rightarrow> EvidenceIo \<Rightarrow> bool \<Rightarrow> RunnerIo \<Rightarrow>
     EngineConfig \<Rightarrow> bool \<Rightarrow> file_system \<Rightarrow> GstRunner \<times> file_system" where
  "gst_runner_new sha pa ls eio mkdir_ok ro cfg callback fs =
     (let (cache, fs1) =
            (if exact_evidence_enabled (Some cfg)
             then (case me_evidence_cache_open sha pa ls eio mkdir_ok (ec_snapshot_dir cfg)
                          (cf_evidence_max_bytes (ec_analytics cfg)) (cf_evidence_retention_s (ec_analytics cfg)) fs of
                     (Inl _, fs1) \<Rightarrow> (None, fs1)
                   | (Inr c, fs1) \<Rightarrow> (Some c, fs1))
             else (None, fs));
          r = new_runner cfg cache
      in if \<not> ro_pipeline ro
         then (r\<lparr>gr_base_error := copy_string 256 (case ro_parse_error ro of None \<Rightarrow> ''parse error'' | Some m \<Rightarrow> m),
                 gr_evidence_cache := None\<rparr>, fs1)
         else if \<not> ro_tee ro
         then (r\<lparr>gr_base_error := ''tee element not found in base pipeline'', gr_evidence_cache := None\<rparr>, fs1)
         else (let r1 = r\<lparr>gr_pipeline := True, gr_tee := True\<rparr>;
                   r2 = (if cf_enabled (ec_analytics cfg) then attach_analytics ro callback r1 else r1);
                   (playing, base_error) = base_wait (ro_messages ro)
               in (r2\<lparr>gr_base_error := base_error, gr_base_ready := (base_error = []), gr_bus_watch := True\<rparr>, fs1)))"

text \<open>
  Freeing: \<open>free_analytics\<close> is the shutdown of the detector, which may keep it. The result is \<open>None\<close> when
  the runner was freed.
\<close>

definition gst_runner_free ::
  "bool \<Rightarrow> GstStateChangeReturn \<Rightarrow> (MeRockivaRunner \<Rightarrow> MeRockivaRunner option) \<Rightarrow> GstRunner option \<Rightarrow> GstRunner option" where
  "gst_runner_free tee_sink state_ret free_analytics rp =
     (case rp of
        None \<Rightarrow> None
      | Some r0 \<Rightarrow>
          (let r1 = r0\<lparr>gr_live := (gr_live r0)\<lparr>lv_teardown_idle := False\<rparr>\<rparr>;
               r2 = (if gr_branch_active r1
                     then snd (gst_runner_stop_live tee_sink state_ret (lv_session_id (gr_live r1)) r1) else r1);
               r3 = (if lv_branch (gr_live r2) \<noteq> None then live_branch_destroy_idle r2 else r2)
           in case gr_analytics r3 of
                None \<Rightarrow> None
              | Some analytics \<Rightarrow>
                  (case free_analytics analytics of
                     None \<Rightarrow> None
                   | Some kept \<Rightarrow> Some (r3\<lparr>gr_analytics := Some kept\<rparr>))))"

definition gst_runner_set_event_cb :: "GstRunner \<Rightarrow> bool \<Rightarrow> GstRunner" where
  "gst_runner_set_event_cb r cb = r\<lparr>gr_event_cb := cb\<rparr>"

end
