(* ===== verification/Aiq_Ctrl.thy ===== *)
theory Aiq_Ctrl
  imports Me_Util
begin

text \<open>
  \<^verbatim>\<open>media_engine/src/aiq/aiq_ctrl.{h,c}\<close>: start and stop of the image-quality library. The return codes of the
  library are arguments, 0 being success; the number of its contexts that exist is part of the state,
  so that the error paths can be seen to give them back.
\<close>

datatype AiqFault =
    AIQ_Enum int
  | AIQ_No_Sensor int
  | AIQ_Init
  | AIQ_Prepare int
  | AIQ_Start int
  | AIQ_Focus

record AiqCtrl =
  aq_started :: bool
  aq_ctx :: bool
  aq_error :: "AiqFault option"
  aq_contexts :: nat

record AiqIo =
  ai_enum :: int
  ai_phy_id :: int
  ai_sensor_name :: string
  ai_init :: bool
  ai_prepare :: int
  ai_start :: int
  ai_focus_mode :: int
  ai_oneshot :: int

definition configure_focus :: "AiqIo \<Rightarrow> string option \<Rightarrow> bool" where
  "configure_focus io mode =
     (case mode of
        None \<Rightarrow> True
      | Some m \<Rightarrow>
          if m = ''off'' then True
          else if m \<noteq> ''auto'' \<and> m \<noteq> ''semi-auto'' \<and> m \<noteq> ''manual'' then False
          else if ai_focus_mode io \<noteq> 0 then False
          else if m = ''semi-auto'' \<and> ai_oneshot io \<noteq> 0 then False
          else True)"

definition aiq_ctrl_start :: "AiqIo \<Rightarrow> int \<Rightarrow> string option \<Rightarrow> AiqCtrl \<Rightarrow> int \<times> AiqCtrl" where
  "aiq_ctrl_start io cam_id af_mode a0 =
     (let a = a0\<lparr>aq_error := None\<rparr>;
          failed = (\<lambda>a fault. (ME_ERR_MEDIA, a\<lparr>aq_error := Some fault\<rparr>))
      in if ai_enum io \<noteq> 0 then failed a (AIQ_Enum (ai_enum io))
         else if ai_phy_id io = - 1 \<or> ai_sensor_name io = [] then failed a (AIQ_No_Sensor cam_id)
         else if \<not> ai_init io then failed a AIQ_Init
         else (let a1 = a\<lparr>aq_contexts := aq_contexts a + 1\<rparr>;
                   closed = (\<lambda>a. a\<lparr>aq_contexts := aq_contexts a - 1\<rparr>)
               in if ai_prepare io \<noteq> 0 then failed (closed a1) (AIQ_Prepare (ai_prepare io))
                  else if ai_start io \<noteq> 0 then failed (closed a1) (AIQ_Start (ai_start io))
                  else if \<not> configure_focus io af_mode then failed (closed a1) AIQ_Focus
                  else (ME_ERR_OK, a1\<lparr>aq_ctx := True, aq_started := True\<rparr>)))"

definition aiq_ctrl_stop :: "AiqCtrl \<Rightarrow> AiqCtrl" where
  "aiq_ctrl_stop a =
     (if aq_ctx a then a\<lparr>aq_contexts := aq_contexts a - 1, aq_ctx := False, aq_started := False\<rparr>
      else a\<lparr>aq_started := False\<rparr>)"

definition aiq_off :: AiqCtrl where
  "aiq_off = \<lparr>aq_started = False, aq_ctx = False, aq_error = None, aq_contexts = 0\<rparr>"

text \<open>From the cleared state, a context exists exactly while the library is started, and stopping gives it back.\<close>

lemma aiq_start_contexts:
  assumes "aiq_ctrl_start io cam_id af_mode aiq_off = (rc, a)"
  shows "(rc = ME_ERR_OK \<longleftrightarrow> aq_started a) \<and> aq_ctx a = aq_started a \<and> aq_contexts a = (if aq_started a then 1 else 0) \<and>
         aq_contexts (aiq_ctrl_stop a) = 0"
  using assms by (auto simp: aiq_ctrl_start_def aiq_off_def aiq_ctrl_stop_def Let_def me_err_defs split: if_splits)

end
