(* ===== verification/Event_Journal.thy ===== *)
theory Event_Journal
  imports Event_Codec
begin

text \<open>
  \<^verbatim>\<open>media_engine/src/analytics/event_journal.c\<close>: the durable, bounded log of events. The file is the string on disk
  and a flag for the open handle. Printing and parsing of JSON text (\<^verbatim>\<open>cJSON_PrintUnformatted\<close>,
  \<^verbatim>\<open>cJSON_ParseWithLength\<close>) are the parameters \<open>pr\<close> and \<open>pa\<close>; the outcomes of the system calls are the
  fields of \<open>JournalIo\<close>. A record is identified by its cursor: \<open>write_records\<close> stores the length of the
  line it wrote in the shared record object, which \<open>set_bytes\<close> does for the records of the queue.
  Allocation failures and the mutex, which serialises the operations, are not modelled.
\<close>

subsection \<open>Data\<close>

definition ME_EVENT_JOURNAL_VERSION :: u64 where
  "ME_EVENT_JOURNAL_VERSION = 1"

record JournalRecord =
  jr_cursor :: u64
  jr_event :: MeAnalyticsEvent
  jr_bytes :: u64

record MeEventJournal =
  jo_records :: "JournalRecord list"
  jo_disk :: string
  jo_open :: bool
  jo_max_records :: u32
  jo_max_bytes :: u64
  jo_bytes :: u64
  jo_next_cursor :: u64
  jo_dropped_updates :: u64

text \<open>
  The outcomes of the system calls of one operation: of the temporary file (\<open>io_tmp_write i\<close> is the
  write of record \<open>i\<close>), of the replacement and reopening, and of the append, where \<open>Some k\<close> says that
  the write, flush or sync failed after \<open>k\<close> bytes of the line had reached the file. The stream keeps what
  it could not write, so that the seek at the end of the error path may still write the next
  \<open>io_late_flush\<close> bytes of the line, after the truncation.
\<close>

record JournalIo =
  io_tmp_open :: bool
  io_tmp_fdopen :: bool
  io_tmp_write :: "nat \<Rightarrow> bool"
  io_tmp_sync :: bool
  io_tmp_close :: bool
  io_rename :: bool
  io_reopen :: bool
  io_reopen_seek :: bool
  io_seek :: bool
  io_tell :: bool
  io_append :: "nat option"
  io_truncate :: bool
  io_late_flush :: nat

datatype JournalError =
    JX_Arguments
  | JX_Phase
  | JX_Cursor_Exhausted
  | JX_Serialize
  | JX_Io
  | JX_Line_Exceeds_Limit
  | JX_Boundary_Protected
  | JX_Recovery_Boundary
  | JX_Undefined

type_synonym json_printer = "json \<Rightarrow> string option"
type_synonym json_parser = "string \<Rightarrow> json option"

abbreviation newline :: char where "newline \<equiv> CHR 0x0A"

subsection \<open>Lines\<close>

definition record_from_line :: "json_parser \<Rightarrow> string \<Rightarrow> JournalRecord option" where
  "record_from_line pa line =
     (case pa line of
        Some (JObject members) \<Rightarrow>
          (let root_object = JObject members in
           if json_u64 root_object ''v'' \<noteq> Some ME_EVENT_JOURNAL_VERSION then None
           else case json_u64 root_object ''cursor'' of
                  None \<Rightarrow> None
                | Some cursor \<Rightarrow>
                    if cursor = 0 then None
                    else case json_item root_object ''event'' of
                           None \<Rightarrow> None
                         | Some event_object \<Rightarrow>
                             (case me_analytics_event_from_json event_object of
                                Inl _ \<Rightarrow> None
                              | Inr event \<Rightarrow>
                                  Some \<lparr>jr_cursor = cursor, jr_event = event,
                                        jr_bytes = word_of_nat (length line)\<rparr>))
      | _ \<Rightarrow> None)"

definition record_json :: "u64 \<Rightarrow> MeAnalyticsEvent \<Rightarrow> json option" where
  "record_json cursor event =
     map_option
       (\<lambda>event_object. JObject [(''v'', JNumber (double_of_u64 ME_EVENT_JOURNAL_VERSION)),
                                (''cursor'', JNumber (double_of_u64 cursor)), (''event'', event_object)])
       (me_analytics_event_to_json (Some event))"

definition record_to_line :: "json_printer \<Rightarrow> u64 \<Rightarrow> MeAnalyticsEvent \<Rightarrow> string option" where
  "record_to_line pr cursor event =
     (case record_json cursor event of
        None \<Rightarrow> None
      | Some root_object \<Rightarrow> map_option (\<lambda>text. text @ [newline]) (pr root_object))"

definition line_bytes :: "string \<Rightarrow> u64" where
  "line_bytes line = word_of_nat (length line)"

subsection \<open>Compaction\<close>

definition is_update :: "JournalRecord \<Rightarrow> bool" where
  "is_update record \<longleftrightarrow> ev_phase (jr_event record) = ME_EVENT_PHASE_UPDATE"

definition oldest_update :: "JournalRecord list \<Rightarrow> JournalRecord option" where
  "oldest_update records = find is_update records"

text \<open>
  \<open>write_records\<close> from index \<open>i\<close> on: whether all lines were written, the text written, and for the
  written records their cursor and line length.
\<close>

fun write_records ::
  "json_printer \<Rightarrow> JournalIo \<Rightarrow> nat \<Rightarrow> JournalRecord list \<Rightarrow> bool \<times> string \<times> (u64 \<times> u64) list" where
  "write_records pr io i [] = (True, [], [])"
| "write_records pr io i (record # records) =
     (case record_to_line pr (jr_cursor record) (jr_event record) of
        None \<Rightarrow> (False, [], [])
      | Some line \<Rightarrow>
          if \<not> io_tmp_write io i then (False, [], [])
          else (case write_records pr io (Suc i) records of
                  (ok, text, written) \<Rightarrow>
                    (ok, line @ text, (jr_cursor record, line_bytes line) # written)))"

definition set_bytes :: "(u64 \<times> u64) list \<Rightarrow> JournalRecord list \<Rightarrow> JournalRecord list" where
  "set_bytes written records =
     map (\<lambda>r. case map_of written (jr_cursor r) of None \<Rightarrow> r | Some n \<Rightarrow> r\<lparr>jr_bytes := n\<rparr>) records"

text \<open>The result is the number of bytes rewritten, or an error.\<close>

definition rewrite_locked ::
  "json_printer \<Rightarrow> JournalIo \<Rightarrow> MeEventJournal \<Rightarrow> JournalRecord list \<Rightarrow>
     (JournalError + u64) \<times> JournalRecord list \<times> MeEventJournal" where
  "rewrite_locked pr io journal records =
     (if \<not> io_tmp_open io \<or> \<not> io_tmp_fdopen io then (Inl JX_Io, records, journal)
      else (case write_records pr io 0 records of
        (ok, text, written) \<Rightarrow>
          (let records1 = set_bytes written records;
               journal1 = journal\<lparr>jo_records := set_bytes written (jo_records journal)\<rparr>
           in if \<not> ok \<or> \<not> io_tmp_sync io \<or> \<not> io_tmp_close io \<or> \<not> io_rename io
              then (Inl JX_Io, records1, journal1)
              else if \<not> io_reopen io then (Inl JX_Io, records1, journal1\<lparr>jo_disk := text, jo_open := False\<rparr>)
              else if \<not> io_reopen_seek io then (Inl JX_Io, records1, journal1\<lparr>jo_disk := text, jo_open := True\<rparr>)
              else (Inr (sum_list (map snd written)), records1,
                    journal1\<lparr>jo_disk := text, jo_open := True\<rparr>))))"

text \<open>\<open>fits\<close> is the loop condition of \<open>compact_to_fit_locked\<close>, negated; the length is a \<^verbatim>\<open>guint\<close>.\<close>

definition fits :: "MeEventJournal \<Rightarrow> u64 \<Rightarrow> JournalRecord list \<Rightarrow> u64 \<Rightarrow> bool" where
  "fits journal incoming_bytes keep keep_bytes \<longleftrightarrow>
     (word_of_nat (length keep) :: u32) + 1 \<le> jo_max_records journal \<and>
     keep_bytes \<le> jo_max_bytes journal \<and> incoming_bytes \<le> jo_max_bytes journal - keep_bytes"

fun drop_oldest_update :: "JournalRecord list \<Rightarrow> JournalRecord list" where
  "drop_oldest_update [] = []"
| "drop_oldest_update (r # rs) = (if is_update r then rs else r # drop_oldest_update rs)"

lemma drop_oldest_update_length:
  "oldest_update keep = Some candidate \<Longrightarrow> length (drop_oldest_update keep) < length keep"
  by (induction keep) (auto simp: oldest_update_def split: if_splits)

function shrink :: "MeEventJournal \<Rightarrow> u64 \<Rightarrow> JournalRecord list \<Rightarrow> u64 \<Rightarrow> JournalRecord list option" where
  "shrink journal incoming_bytes keep keep_bytes =
     (if fits journal incoming_bytes keep keep_bytes then Some keep
      else case oldest_update keep of
             None \<Rightarrow> None
           | Some candidate \<Rightarrow>
               shrink journal incoming_bytes (drop_oldest_update keep) (keep_bytes - jr_bytes candidate))"
  by pat_completeness auto
termination
  by (relation "measure (\<lambda>(_, _, keep, _). length keep)") (auto dest: drop_oldest_update_length)

declare shrink.simps [simp del]

datatype CompactResult = Compact_Fits | Compact_Dropped | Compact_Error JournalError

definition compact_to_fit_locked ::
  "json_printer \<Rightarrow> JournalIo \<Rightarrow> MeEventJournal \<Rightarrow> u64 \<Rightarrow> MeEventPhase \<Rightarrow> CompactResult \<times> MeEventJournal" where
  "compact_to_fit_locked pr io journal incoming_bytes incoming_phase =
     (let dropped = journal\<lparr>jo_dropped_updates := jo_dropped_updates journal + 1\<rparr> in
      if fits journal incoming_bytes (jo_records journal) (jo_bytes journal) then (Compact_Fits, journal)
      else if incoming_bytes > jo_max_bytes journal
      then (if incoming_phase = ME_EVENT_PHASE_UPDATE then (Compact_Dropped, dropped)
            else (Compact_Error JX_Line_Exceeds_Limit, journal))
      else case shrink journal incoming_bytes (jo_records journal)
                  (sum_list (map jr_bytes (jo_records journal))) of
             None \<Rightarrow>
               (if incoming_phase = ME_EVENT_PHASE_UPDATE then (Compact_Dropped, dropped)
                else (Compact_Error JX_Boundary_Protected, journal))
           | Some keep \<Rightarrow>
               (case rewrite_locked pr io journal keep of
                  (Inl err, _, journal1) \<Rightarrow> (Compact_Error err, journal1)
                | (Inr rewritten_bytes, keep1, journal1) \<Rightarrow>
                    (Compact_Fits, journal1\<lparr>jo_records := keep1, jo_bytes := rewritten_bytes\<rparr>)))"

subsection \<open>Opening and recovery\<close>

text \<open>\<^verbatim>\<open>getline\<close>: lines end with their newline; a last line without one is returned as it is.\<close>

fun split_lines :: "string \<Rightarrow> string list" where
  "split_lines [] = []"
| "split_lines (c # cs) =
     (if c = newline then [c] # split_lines cs
      else case split_lines cs of [] \<Rightarrow> [[c]] | l # ls \<Rightarrow> (c # l) # ls)"

text \<open>The reading loop: the records, the text up to \<open>good_offset\<close>, and whether a bad line ended it.\<close>

fun read_lines ::
  "json_parser \<Rightarrow> u64 \<Rightarrow> string list \<Rightarrow> JournalRecord list \<times> string \<times> bool" where
  "read_lines pa last_cursor [] = ([], [], False)"
| "read_lines pa last_cursor (line # lines) =
     (if last line \<noteq> newline then ([], [], True)
      else case record_from_line pa line of
             None \<Rightarrow> ([], [], True)
           | Some record \<Rightarrow>
               if jr_cursor record \<le> last_cursor then ([], [], True)
               else (case read_lines pa (jr_cursor record) lines of
                       (records, good, corrupt) \<Rightarrow> (record # records, line @ good, corrupt)))"

definition last_cursor_of :: "JournalRecord list \<Rightarrow> u64" where
  "last_cursor_of records = (if records = [] then 0 else jr_cursor (last records))"

text \<open>The eviction loop of recovery; it has no incoming record and stops with an empty queue.\<close>

function shrink_recovered ::
  "MeEventJournal \<Rightarrow> JournalRecord list \<Rightarrow> u64 \<Rightarrow> (JournalRecord list \<times> u64) option" where
  "shrink_recovered journal all bytes =
     (if \<not> ((word_of_nat (length all) :: u32) > jo_max_records journal \<or>
             (bytes > jo_max_bytes journal \<and> length all > 0)) then Some (all, bytes)
      else case oldest_update all of
             None \<Rightarrow> None
           | Some candidate \<Rightarrow> shrink_recovered journal (drop_oldest_update all) (bytes - jr_bytes candidate))"
  by pat_completeness auto
termination
  by (relation "measure (\<lambda>(_, all, _). length all)") (auto dest: drop_oldest_update_length)

declare shrink_recovered.simps [simp del]

text \<open>
  \<open>setup_ok\<close> stands for the directory, \<^verbatim>\<open>fopen\<close> and the first seek, \<open>read_ok\<close> for a reading loop without
  \<^verbatim>\<open>ferror\<close> and the last seek.
\<close>

definition me_event_journal_open ::
  "json_printer \<Rightarrow> json_parser \<Rightarrow> JournalIo \<Rightarrow> bool \<Rightarrow> bool \<Rightarrow> string option \<Rightarrow> u32 \<Rightarrow> u64 \<Rightarrow> string \<Rightarrow>
     JournalError + MeEventJournal" where
  "me_event_journal_open pr pa io setup_ok read_ok path max_records max_bytes disk =
     (if path = None \<or> path = Some [] \<or> max_records = 0 \<or> max_bytes = 0 then Inl JX_Arguments
      else if \<not> setup_ok then Inl JX_Io
      else (case read_lines pa 0 (split_lines disk) of
        (records, good, corrupt) \<Rightarrow>
          if \<not> read_ok \<or> (corrupt \<and> \<not> io_truncate io) then Inl JX_Io
          else (let bytes = sum_list (map jr_bytes records);
                    journal = \<lparr>jo_records = records, jo_disk = (if corrupt then good else disk), jo_open = True,
                               jo_max_records = max_records, jo_max_bytes = max_bytes, jo_bytes = bytes,
                               jo_next_cursor = last_cursor_of records, jo_dropped_updates = 0\<rparr>
                in if (word_of_nat (length records) :: u32) > max_records \<or> bytes > max_bytes
                   then (case shrink_recovered journal records bytes of
                           None \<Rightarrow> Inl JX_Recovery_Boundary
                         | Some (all, bytes1) \<Rightarrow>
                             (case rewrite_locked pr io (journal\<lparr>jo_records := all, jo_bytes := bytes1\<rparr>) all of
                                (Inl err, _, _) \<Rightarrow> Inl err
                              | (Inr rewritten_bytes, _, journal1) \<Rightarrow>
                                  Inr (journal1\<lparr>jo_bytes := rewritten_bytes\<rparr>)))
                   else Inr journal)))"

subsection \<open>Appending and reading\<close>

datatype AppendResult = Append_Durable u64 | Append_Dropped | Append_Error JournalError

definition me_event_journal_append ::
  "json_printer \<Rightarrow> JournalIo \<Rightarrow> MeEventJournal \<Rightarrow> MeAnalyticsEvent option \<Rightarrow> AppendResult \<times> MeEventJournal" where
  "me_event_journal_append pr io journal eo =
     (case eo of
        None \<Rightarrow> (Append_Error JX_Arguments, journal)
      | Some event \<Rightarrow>
          if ev_phase event \<notin> {ME_EVENT_PHASE_START, ME_EVENT_PHASE_UPDATE, ME_EVENT_PHASE_END}
          then (Append_Error JX_Phase, journal)
          else if jo_next_cursor journal = UINT64_MAX then (Append_Error JX_Cursor_Exhausted, journal)
          else (let next_cursor = jo_next_cursor journal + 1 in
            case record_to_line pr next_cursor event of
              None \<Rightarrow> (Append_Error JX_Serialize, journal)
            | Some line \<Rightarrow>
                (case compact_to_fit_locked pr io journal (line_bytes line) (ev_phase event) of
                   (Compact_Dropped, journal1) \<Rightarrow> (Append_Dropped, journal1)
                 | (Compact_Error err, journal1) \<Rightarrow> (Append_Error err, journal1)
                 | (Compact_Fits, journal1) \<Rightarrow>
                     if \<not> jo_open journal1 then (Append_Error JX_Undefined, journal1)
                     else if \<not> io_seek io \<or> \<not> io_tell io then (Append_Error JX_Io, journal1)
                     else (case io_append io of
                       Some k \<Rightarrow>
                         (Append_Error JX_Io,
                          journal1\<lparr>jo_disk := jo_disk journal1 @ (if io_truncate io then [] else take k line) @
                                              take (io_late_flush io) (drop k line)\<rparr>)
                     | None \<Rightarrow>
                         (Append_Durable next_cursor,
                          journal1\<lparr>jo_disk := jo_disk journal1 @ line,
                                   jo_records := jo_records journal1 @
                                     [\<lparr>jr_cursor = next_cursor, jr_event = event, jr_bytes = line_bytes line\<rparr>],
                                   jo_bytes := jo_bytes journal1 + line_bytes line,
                                   jo_next_cursor := next_cursor\<rparr>)))))"

text \<open>The loop of \<open>me_event_journal_snapshot_after\<close>: the copied records and the gap flag.\<close>

fun snapshot_loop ::
  "u64 \<Rightarrow> u64 \<Rightarrow> JournalRecord list \<Rightarrow> (u64 \<times> MeAnalyticsEvent) list \<times> bool" where
  "snapshot_loop after previous [] = ([], False)"
| "snapshot_loop after previous (r # rs) =
     (if jr_cursor r \<le> after then snapshot_loop after previous rs
      else (case snapshot_loop after (jr_cursor r) rs of
              (copies, gap) \<Rightarrow>
                ((jr_cursor r, jr_event r) # copies,
                 (jr_cursor r > previous \<and> jr_cursor r - previous > 1) \<or> gap)))"

record JournalSnapshot =
  sn_records :: "(u64 \<times> MeAnalyticsEvent) list"
  sn_replay_gap :: bool
  sn_oldest :: u64
  sn_latest :: u64

definition me_event_journal_snapshot_after :: "MeEventJournal option \<Rightarrow> u64 \<Rightarrow> JournalSnapshot option" where
  "me_event_journal_snapshot_after jo after_cursor =
     (case jo of
        None \<Rightarrow> None
      | Some journal \<Rightarrow>
          (let rs = jo_records journal; (copies, gap) = snapshot_loop after_cursor after_cursor rs
           in Some \<lparr>sn_records = copies, sn_replay_gap = gap,
                    sn_oldest = (if rs = [] then 0 else jr_cursor (hd rs)),
                    sn_latest = (if rs = [] then 0 else jr_cursor (last rs))\<rparr>))"

definition me_event_journal_latest_cursor :: "MeEventJournal option \<Rightarrow> u64" where
  "me_event_journal_latest_cursor jo = (case jo of None \<Rightarrow> 0 | Some journal \<Rightarrow> jo_next_cursor journal)"

definition me_event_journal_dropped_updates :: "MeEventJournal option \<Rightarrow> u64" where
  "me_event_journal_dropped_updates jo = (case jo of None \<Rightarrow> 0 | Some journal \<Rightarrow> jo_dropped_updates journal)"

end
