(* ===== verification/Media_Engine.thy ===== *)
theory Media_Engine
  imports Gst_Runner Aiq_Ctrl Event_Engine Event_Journal
begin

text \<open>
  \<^verbatim>\<open>media_engine/src/engine/engine.{h,c}\<close>: the engine joins the session registry, the capture runner, the event
  engine and the journal. Its state is a record with the files of the evidence directory beside it.
  Outcomes of system calls and of GStreamer are arguments, as in the components. The functions that
  notify the sink return the notification.
\<close>

subsection \<open>Data\<close>

record EngineStatus =
  es_running :: bool
  es_fps :: int
  es_bitrate :: int
  es_session_id :: string
  es_channel_id :: string
  es_dest_ip :: string
  es_dest_port :: int
  es_ssrc :: u32

record Engine =
  eg_cfg :: EngineConfig
  eg_aiq :: AiqCtrl
  eg_runner :: "GstRunner option"
  eg_sessions :: "SessionMgr option"
  eg_analytics :: MeEventEngine
  eg_event_journal :: "MeEventJournal option"
  eg_analytics_initialized :: bool
  eg_event_cb :: bool
  eg_analytics_event_cb :: bool
  eg_files :: file_system

text \<open>A notification to the event sink: name, session, message.\<close>

type_synonym media_event = "string \<times> string option \<times> string"

subsection \<open>Live sessions\<close>

text \<open>The registry's operations on the runner of the engine.\<close>

definition engine_backend_start :: "StartOutcome \<Rightarrow> GstRunner start_live" where
  "engine_backend_start so p r = gst_runner_start_live so p r"

definition engine_backend_stop :: "bool \<Rightarrow> GstStateChangeReturn \<Rightarrow> GstRunner stop_live" where
  "engine_backend_stop tee_sink state_ret session_id r = gst_runner_stop_live tee_sink state_ret session_id r"

definition engine_stop_live :: "bool \<Rightarrow> GstStateChangeReturn \<Rightarrow> Engine \<Rightarrow> string \<Rightarrow> int \<times> Engine" where
  "engine_stop_live tee_sink state_ret e session_id =
     (case (eg_sessions e, eg_runner e) of
        (Some m, Some r) \<Rightarrow>
          (case session_mgr_stop (engine_backend_stop tee_sink state_ret) m session_id r of
             (rc, m1, r1) \<Rightarrow> (rc, e\<lparr>eg_sessions := Some m1, eg_runner := Some r1\<rparr>))
      | _ \<Rightarrow> (ME_ERR_MEDIA, e))"

definition engine_start_live :: "StartOutcome \<Rightarrow> i64 \<Rightarrow> Engine \<Rightarrow> SessionParams \<Rightarrow> int \<times> Engine" where
  "engine_start_live so now_us e p =
     (if \<not> aq_started (eg_aiq e) then (ME_ERR_MEDIA, e)
      else if sp_width p \<noteq> ec_width (eg_cfg e) \<or> sp_height p \<noteq> ec_height (eg_cfg e) \<or> sp_fps p \<noteq> ec_fps (eg_cfg e)
      then (ME_ERR_PARAM, e)
      else if sp_codec p \<noteq> ''h264'' then (ME_ERR_PARAM, e)
      else (case (eg_sessions e, eg_runner e) of
              (Some m, Some r) \<Rightarrow>
                (case session_mgr_start (engine_backend_start so) now_us m p r of
                   (rc, m1, r1) \<Rightarrow> (rc, e\<lparr>eg_sessions := Some m1, eg_runner := Some r1\<rparr>))
            | _ \<Rightarrow> (ME_ERR_MEDIA, e)))"

definition engine_keepalive_live :: "i64 \<Rightarrow> Engine \<Rightarrow> string \<Rightarrow> int \<times> Engine" where
  "engine_keepalive_live now_us e session_id =
     (case eg_sessions e of
        Some m \<Rightarrow> (case session_mgr_touch now_us m session_id of (rc, m1) \<Rightarrow> (rc, e\<lparr>eg_sessions := Some m1\<rparr>))
      | None \<Rightarrow> (ME_ERR_MEDIA, e))"

definition engine_reap_expired ::
  "bool \<Rightarrow> GstStateChangeReturn \<Rightarrow> i64 \<Rightarrow> Engine \<Rightarrow> int \<times> Engine \<times> media_event option" where
  "engine_reap_expired tee_sink state_ret now_us e =
     (if ec_live_lease_timeout_s (eg_cfg e) \<le> 0 then (0, e, None)
      else (case Option.bind (eg_sessions e)
                   (\<lambda>m. session_mgr_expired m now_us (ec_live_lease_timeout_s (eg_cfg e) * 1000000) ME_SESSION_ID_MAX) of
              None \<Rightarrow> (0, e, None)
            | Some session_id \<Rightarrow>
                (case engine_stop_live tee_sink state_ret e session_id of
                   (rc, e1) \<Rightarrow>
                     if rc \<noteq> ME_ERR_OK then (rc, e1, None)
                     else (1, e1,
                           if eg_event_cb e1 then Some (''lease_expired'', Some session_id, ''daemon lease not refreshed'')
                           else None))))"

text \<open>
  A fault of the media plane releases the session it names; \<open>engine_bus_message\<close> is the bus callback of the
  runner around it.
\<close>

definition engine_gst_event ::
  "bool \<Rightarrow> GstStateChangeReturn \<Rightarrow> Engine \<Rightarrow> media_event \<Rightarrow> Engine \<times> media_event option" where
  "engine_gst_event tee_sink state_ret e ev =
     (case ev of
        (event, session_id, message) \<Rightarrow>
          (let e1 = (case session_id of
                       Some sid \<Rightarrow>
                         if sid \<noteq> [] \<and> (event = ''error'' \<or> event = ''eos'')
                         then snd (engine_stop_live tee_sink state_ret e sid) else e
                     | None \<Rightarrow> e)
           in (e1, if eg_event_cb e1 then Some ev else None)))"

definition engine_bus_message ::
  "bool \<Rightarrow> GstStateChangeReturn \<Rightarrow> BusMessage \<Rightarrow> Engine \<Rightarrow> Engine \<times> media_event option" where
  "engine_bus_message tee_sink state_ret msg e =
     (case eg_runner e of
        None \<Rightarrow> (e, None)
      | Some r \<Rightarrow>
          (let (e1, sent) = (case bus_event msg r of
                               None \<Rightarrow> (e, None)
                             | Some ev \<Rightarrow> engine_gst_event tee_sink state_ret e ev)
           in (e1\<lparr>eg_runner := map_option (bus_update msg) (eg_runner e1)\<rparr>, sent)))"

definition engine_snapshot :: "Engine \<Rightarrow> string \<Rightarrow> int" where
  "engine_snapshot e channel_id =
     (case eg_runner e of
        None \<Rightarrow> ME_ERR_MEDIA
      | Some r \<Rightarrow> gst_runner_snapshot r channel_id (ec_snapshot_dir (eg_cfg e)))"

definition engine_get_status :: "Engine \<Rightarrow> EngineStatus" where
  "engine_get_status e =
     (case Option.bind (eg_sessions e) session_mgr_active of
        None \<Rightarrow> \<lparr>es_running = False, es_fps = 0, es_bitrate = 0, es_session_id = [], es_channel_id = [], es_dest_ip = [],
                 es_dest_port = 0, es_ssrc = 0\<rparr>
      | Some s \<Rightarrow>
          (let p = ms_params s
           in \<lparr>es_running = True, es_fps = sp_fps p, es_bitrate = sp_bitrate p,
               es_session_id = copy_string ME_SESSION_ID_MAX (sp_session_id p),
               es_channel_id = copy_string ME_CHANNEL_ID_MAX (sp_channel_id p),
               es_dest_ip = copy_string ME_DEST_IP_MAX (sp_dest_ip p), es_dest_port = sp_dest_port p, es_ssrc = sp_ssrc p\<rparr>))"

subsection \<open>Analytics events\<close>

text \<open>The outcomes of the file operations that one event meets, with the checksum and the JSON printer.\<close>

record EventIo =
  ev_sha :: "string \<Rightarrow> string"
  ev_print :: json_printer
  ev_evidence_io :: EvidenceIo
  ev_journal_io :: JournalIo

text \<open>An event that is to be delivered to the sink, with its cursor.\<close>

type_synonym dispatch = "u64 \<times> MeAnalyticsEvent"

definition attach_evidence :: "EventIo \<Rightarrow> Engine \<Rightarrow> MeAnalyticsEvent \<Rightarrow> MeAnalyticsEvent \<times> Engine" where
  "attach_evidence io e event =
     (if \<not> strcaseeq (cf_evidence_mode (ec_analytics (eg_cfg e))) ''exact_evidence'' then (event, e)
      else (case eg_runner e of
              None \<Rightarrow> (event, e)
            | Some r \<Rightarrow>
                (case gst_runner_capture_evidence (ev_sha io) (ev_print io) (ev_evidence_io io) r event (eg_files e) of
                   (_, event1, r1, fs1) \<Rightarrow> (event1, e\<lparr>eg_runner := Some r1, eg_files := fs1\<rparr>))))"

definition engine_analytics_event :: "EventIo \<Rightarrow> Engine \<Rightarrow> MeAnalyticsEvent \<Rightarrow> Engine \<times> dispatch option" where
  "engine_analytics_event io e event =
     (case eg_event_journal e of
        None \<Rightarrow> (e, None)
      | Some journal \<Rightarrow>
          (case attach_evidence io e event of
             (event_copy, e1) \<Rightarrow>
               (case me_event_journal_append (ev_print io) (ev_journal_io io) journal (Some event_copy) of
                  (Append_Durable cursor, journal1) \<Rightarrow>
                    (e1\<lparr>eg_event_journal := Some journal1\<rparr>, Some (cursor, event_copy))
                | (_, journal1) \<Rightarrow> (e1\<lparr>eg_event_journal := Some journal1\<rparr>, None))))"

definition deliver_analytics_event :: "Engine \<Rightarrow> dispatch \<Rightarrow> dispatch option" where
  "deliver_analytics_event e d = (if eg_analytics_event_cb e then Some d else None)"

text \<open>The events of one operation of the event engine, in order; each meets its own outcomes.\<close>

primrec handle_events :: "MeAnalyticsEvent list \<Rightarrow> (nat \<Rightarrow> EventIo) \<Rightarrow> Engine \<Rightarrow> Engine \<times> dispatch list" where
  "handle_events [] ios e = (e, [])"
| "handle_events (event # events) ios e =
     (case engine_analytics_event (ios 0) e event of
        (e1, d) \<Rightarrow>
          (case handle_events events (\<lambda>n. ios (Suc n)) e1 of
             (e2, ds) \<Rightarrow> (e2, (case d of None \<Rightarrow> ds | Some x \<Rightarrow> x # ds))))"

definition engine_analytics_observation ::
  "(nat \<Rightarrow> EventIo) \<Rightarrow> Engine \<Rightarrow> MeNormalizedObservation \<Rightarrow> Engine \<times> dispatch list" where
  "engine_analytics_observation ios e observation =
     (if \<not> eg_analytics_initialized e then (e, [])
      else (let e1 = e\<lparr>eg_runner := map_option (\<lambda>r. gst_runner_note_analytics_frame r observation) (eg_runner e)\<rparr>
            in case me_event_engine_process (eg_analytics e1) (Some observation) of
                 (_, analytics, events) \<Rightarrow> handle_events events ios (e1\<lparr>eg_analytics := analytics\<rparr>)))"

subsection \<open>Start and end of the engine\<close>

record InitIo =
  ii_print :: json_printer
  ii_parse :: json_parser
  ii_journal_io :: JournalIo
  ii_journal_setup :: bool
  ii_journal_read :: bool
  ii_aiq :: AiqIo
  ii_sha :: "string \<Rightarrow> string"
  ii_ls :: "file_system \<Rightarrow> string list"
  ii_evidence_io :: EvidenceIo
  ii_mkdir :: bool
  ii_runner :: RunnerIo

text \<open>\<open>log_text\<close> is the content of the journal file and \<open>fs\<close> the evidence directory.\<close>

definition engine_init :: "InitIo \<Rightarrow> string \<Rightarrow> file_system \<Rightarrow> EngineConfig \<Rightarrow> EngineError + Engine" where
  "engine_init io log_text fs cfg =
     (case me_event_engine_init (Some (ec_analytics cfg)) 1 True of
        Inl err \<Rightarrow> Inl err
      | Inr analytics \<Rightarrow>
          (let a = ec_analytics cfg;
               journal = (if cf_enabled a
                          then (case me_event_journal_open (ii_print io) (ii_parse io) (ii_journal_io io)
                                       (ii_journal_setup io) (ii_journal_read io) (Some (cf_event_log_path a))
                                       (cf_event_log_max_records a) (cf_event_log_max_bytes a) log_text of
                                  Inl _ \<Rightarrow> None
                                | Inr j \<Rightarrow> Some j)
                          else None);
               aiq = snd (aiq_ctrl_start (ii_aiq io) (ec_cam_id cfg) (Some (ec_af_mode cfg)) aiq_off);
               (runner, fs1) = gst_runner_new (ii_sha io) (ii_parse io) (ii_ls io) (ii_evidence_io io) (ii_mkdir io)
                                 (ii_runner io) cfg True fs
           in Inr \<lparr>eg_cfg = cfg, eg_aiq = aiq, eg_runner = Some (gst_runner_set_event_cb runner True),
                   eg_sessions = session_mgr_new True True True,
                   eg_analytics = analytics, eg_event_journal = journal, eg_analytics_initialized = True,
                   eg_event_cb = False, eg_analytics_event_cb = False, eg_files = fs1\<rparr>))"

text \<open>
  The end: sessions are stopped, the runner is freed, the active event is closed and delivered, the
  journal is closed.
\<close>

definition engine_deinit ::
  "bool \<Rightarrow> GstStateChangeReturn \<Rightarrow> (MeRockivaRunner \<Rightarrow> MeRockivaRunner option) \<Rightarrow> (nat \<Rightarrow> EventIo) \<Rightarrow> (nat \<Rightarrow> EventIo) \<Rightarrow> Engine \<Rightarrow>
     Engine \<times> dispatch list" where
  "engine_deinit tee_sink state_ret free_analytics ios ios1 e =
     (let runner1 = map_option (session_mgr_free (engine_backend_stop tee_sink state_ret) (eg_sessions e)) (eg_runner e);
          _ = gst_runner_free tee_sink state_ret free_analytics runner1;
          e1 = e\<lparr>eg_runner := None, eg_sessions := None\<rparr>;
          (e2, sent) =
            (if eg_analytics_initialized e1
             then (case me_event_engine_close (eg_analytics e1) ME_EVENT_REASON_PROCESS_RESTART of
                     (_, analytics, events) \<Rightarrow>
                       (case handle_events events ios (e1\<lparr>eg_analytics := analytics\<rparr>) of
                          (e2, sent) \<Rightarrow>
                            (case me_event_engine_deinit (eg_analytics e2) of
                               (_, analytics1, events1) \<Rightarrow>
                                 (case handle_events events1 ios1 (e2\<lparr>eg_analytics := analytics1\<rparr>) of
                                    (e3, sent1) \<Rightarrow> (e3\<lparr>eg_analytics_initialized := False\<rparr>, sent @ sent1)))))
             else (e1, []))
      in (e2\<lparr>eg_event_journal := None, eg_aiq := aiq_ctrl_stop (eg_aiq e2)\<rparr>, sent))"

definition engine_set_event_sink :: "Engine \<Rightarrow> bool \<Rightarrow> Engine" where
  "engine_set_event_sink e cb = e\<lparr>eg_event_cb := cb\<rparr>"

definition engine_set_analytics_event_sink :: "Engine \<Rightarrow> bool \<Rightarrow> Engine" where
  "engine_set_analytics_event_sink e cb = e\<lparr>eg_analytics_event_cb := cb\<rparr>"

end
