(* ===== verification/Gst_Facts.thy ===== *)
theory Gst_Facts
  imports Gst_Runner
begin

text \<open>
  The live branch as a state machine: an invariant of the phases that balances the tee pads and the
  bins, and the runner as the backend of the session registry. The tee always gives its sink pad, so
  \<open>gst_runner_stop_live\<close> is taken with \<open>True\<close> here.
\<close>

subsection \<open>The invariant\<close>

definition live_ok :: "GstRunner \<Rightarrow> bool" where
  "live_ok r \<longleftrightarrow>
     (let live = gr_live r; ph = lv_phase live
      in ph \<noteq> LIVE_PHASE_STARTING \<and> ph \<noteq> LIVE_PHASE_STOPPING \<and>
         gr_branch_active r = (ph = LIVE_PHASE_ACTIVE) \<and>
         (lv_branch live = None) = (ph = LIVE_PHASE_IDLE \<or> ph = LIVE_PHASE_DESTROYED) \<and>
         lv_tee_src live = (ph = LIVE_PHASE_ACTIVE) \<and> lv_branch_sink live = (ph = LIVE_PHASE_ACTIVE) \<and>
         lv_teardown_idle live = (ph = LIVE_PHASE_BUS_DRAIN) \<and>
         gr_tee_pads r = (if lv_tee_src live then 1 else 0) \<and> gr_bins r = (if lv_branch live = None then 0 else 1) \<and>
         gr_analytics_stream_epoch r \<noteq> 0)"

definition streaming :: "GstRunner \<Rightarrow> string option" where
  "streaming r = (if gr_branch_active r then Some (lv_session_id (gr_live r)) else None)"

lemma next_stream_epoch_nonzero: "next_stream_epoch epoch \<noteq> 0"
proof (cases "epoch = UINT64_MAX")
  case False
  have "epoch + 1 \<noteq> 0" using False by (metis add.commute add_eq_0_iff minus_minus)
  with False show ?thesis by (simp add: next_stream_epoch_def)
qed (simp add: next_stream_epoch_def)

lemma change_stream_keeps [simp]:
  "gr_live (change_stream c r) = gr_live r" "gr_branch_active (change_stream c r) = gr_branch_active r"
  "gr_tee_pads (change_stream c r) = gr_tee_pads r" "gr_bins (change_stream c r) = gr_bins r"
  "gr_base_ready (change_stream c r) = gr_base_ready r" "gr_cfg (change_stream c r) = gr_cfg r"
  by (simp_all add: change_stream_def Let_def split: option.splits)

lemma change_stream_epoch: "gr_analytics_stream_epoch r \<noteq> 0 \<Longrightarrow> gr_analytics_stream_epoch (change_stream c r) \<noteq> 0"
  by (simp add: change_stream_def Let_def next_stream_epoch_nonzero split: option.splits)

lemmas live_defs = live_ok_def streaming_def Let_def

text \<open>A start that fails after its guards leaves the branch free and nothing requested.\<close>

definition start_undone :: "GstRunner \<Rightarrow> GstRunner \<Rightarrow> bool" where
  "start_undone r r' \<longleftrightarrow>
     gr_branch_active r' = gr_branch_active r \<and> lv_teardown_idle (gr_live r') = lv_teardown_idle (gr_live r) \<and>
     gr_analytics_stream_epoch r' = gr_analytics_stream_epoch r \<and> gr_tee_pads r' = gr_tee_pads r \<and> gr_bins r' = gr_bins r \<and>
     lv_branch (gr_live r') = None \<and> (lv_phase (gr_live r') = LIVE_PHASE_IDLE \<or> lv_phase (gr_live r') = LIVE_PHASE_DESTROYED) \<and>
     (lv_tee_src (gr_live r') \<longrightarrow> lv_tee_src (gr_live r)) \<and> (lv_branch_sink (gr_live r') \<longrightarrow> lv_branch_sink (gr_live r))"

definition start_free :: "GstRunner \<Rightarrow> bool" where
  "start_free r \<longleftrightarrow>
     gr_base_ready r \<and> \<not> gr_branch_active r \<and> lv_branch (gr_live r) = None \<and>
     (lv_phase (gr_live r) = LIVE_PHASE_IDLE \<or> lv_phase (gr_live r) = LIVE_PHASE_DESTROYED)"

definition started :: "SessionParams \<Rightarrow> BranchSettings \<Rightarrow> GstRunner \<Rightarrow> GstRunner" where
  "started p settings r =
     r\<lparr>gr_bins := gr_bins r + 1, gr_tee_pads := gr_tee_pads r + 1, gr_branch_active := True,
       gr_live := (gr_live r)\<lparr>lv_branch := Some settings, lv_tee_src := True,
         lv_branch_sink := True, lv_fps := sp_fps p, lv_bitrate := sp_bitrate p,
         lv_session_id := copy_string ME_SESSION_ID_MAX (sp_session_id p), lv_phase := LIVE_PHASE_ACTIVE\<rparr>\<rparr>"

lemma start_undone_phase:
  "ph = LIVE_PHASE_IDLE \<or> ph = LIVE_PHASE_DESTROYED \<Longrightarrow>
     start_undone r (r\<lparr>gr_live := (gr_live r)\<lparr>lv_branch := None, lv_phase := ph\<rparr>\<rparr>)"
  by (auto simp: start_undone_def)

lemma fail_branch_undone:
  "gr_branch_active r1 = gr_branch_active r \<Longrightarrow> lv_teardown_idle (gr_live r1) = lv_teardown_idle (gr_live r) \<Longrightarrow>
   gr_analytics_stream_epoch r1 = gr_analytics_stream_epoch r \<Longrightarrow> lv_branch (gr_live r1) \<noteq> None \<Longrightarrow>
   gr_bins r1 = gr_bins r + 1 \<Longrightarrow> gr_tee_pads r1 = (if src then gr_tee_pads r + 1 else gr_tee_pads r) \<Longrightarrow>
   start_undone r (fail_branch src r1)"
  by (simp add: start_undone_def fail_branch_def Let_def)

lemma start_live_cases:
  assumes "gst_runner_start_live so p r = (rc, r')"
  shows "(rc \<noteq> ME_ERR_OK \<and> r' = r) \<or> (rc \<noteq> ME_ERR_OK \<and> start_free r \<and> start_undone r r') \<or>
         (rc = ME_ERR_OK \<and> start_free r \<and> (\<exists>settings. create_live_branch so p (ec_stream_rotation (gr_cfg r)) = Some settings \<and>
            r' = change_stream (sp_channel_id p) (started p settings r)))"
proof (cases "start_free r \<and> sp_codec p = ''h264''")
  case False
  then show ?thesis using assms by (auto simp: gst_runner_start_live_def Let_def start_free_def me_err_defs split: if_splits)
next
  case True
  then have guards: "start_free r" "gr_base_ready r"
    "\<not> (gr_branch_active r \<or> lv_branch (gr_live r) \<noteq> None \<or>
        (lv_phase (gr_live r) \<noteq> LIVE_PHASE_IDLE \<and> lv_phase (gr_live r) \<noteq> LIVE_PHASE_DESTROYED))"
    "sp_codec p = ''h264''" by (auto simp: start_free_def)
  show ?thesis
  proof (cases "create_live_branch so p (ec_stream_rotation (gr_cfg r))")
    case None
    then show ?thesis using assms guards
      by (auto simp: gst_runner_start_live_def Let_def me_err_defs intro!: start_undone_phase)
  next
    case (Some settings)
    let ?ok = "so_bin_add so \<and> so_queue so \<and> so_sink_pad so \<and> so_tee_pad so \<and> so_pad_link so \<and> so_playing so"
    show ?thesis
    proof (cases ?ok)
      case True
      then have "rc = ME_ERR_OK" "r' = change_stream (sp_channel_id p) (started p settings r)"
        using assms guards Some by (auto simp: gst_runner_start_live_def Let_def started_def)
      with guards Some show ?thesis by simp
    next
      case False
      then have "rc = ME_ERR_MEDIA \<and> start_undone r r'"
        using assms guards Some unfolding gst_runner_start_live_def Let_def
        by (auto intro!: start_undone_phase fail_branch_undone split: if_splits)
      with guards show ?thesis by (simp add: me_err_defs)
    qed
  qed
qed

lemma undone_ok: "live_ok r \<Longrightarrow> start_free r \<Longrightarrow> start_undone r r' \<Longrightarrow> live_ok r' \<and> streaming r' = streaming r"
  by (auto simp: live_defs start_free_def start_undone_def)

lemma started_ok:
  "live_ok r \<Longrightarrow> start_free r \<Longrightarrow> live_ok (change_stream c (started p settings r))"
  "streaming (change_stream c (started p settings r)) = Some (copy_string ME_SESSION_ID_MAX (sp_session_id p))"
  by (auto simp: live_defs start_free_def started_def change_stream_epoch)

lemma start_live_ok: "live_ok r \<Longrightarrow> gst_runner_start_live so p r = (rc, r') \<Longrightarrow> live_ok r'"
  using start_live_cases [of so p r rc r'] undone_ok started_ok(1) by auto

lemma start_live_done:
  "live_ok r \<Longrightarrow> params_ok p \<Longrightarrow> gst_runner_start_live so p r = (ME_ERR_OK, r') \<Longrightarrow>
     streaming r = None \<and> streaming r' = Some (sp_session_id p)"
  using start_live_cases [of so p r ME_ERR_OK r']
  by (auto simp: params_ok_def start_free_def streaming_def started_def)

lemma start_live_failed:
  "live_ok r \<Longrightarrow> gst_runner_start_live so p r = (rc, r') \<Longrightarrow> rc \<noteq> ME_ERR_OK \<Longrightarrow> streaming r' = streaming r"
  using start_live_cases [of so p r rc r'] undone_ok by auto

lemma stop_live_ok:
  assumes "live_ok r" and "gst_runner_stop_live True ret sid r = (rc, r')"
  shows "live_ok r'"
  using assms unfolding gst_runner_stop_live_def live_branch_teardown_def set_phase_def live_branch_schedule_destroy_def Let_def
  by (auto simp: live_defs change_stream_epoch split: if_splits)

lemma stop_live_streaming:
  assumes "live_ok r" and "gst_runner_stop_live True ret sid r = (rc, r')"
  shows "streaming r' = (if streaming r = Some sid then None else streaming r)"
  using assms unfolding gst_runner_stop_live_def live_branch_teardown_def set_phase_def live_branch_schedule_destroy_def Let_def
  by (auto simp: live_defs split: if_splits)

lemma bus_update_ok: "live_ok r \<Longrightarrow> live_ok (bus_update msg r) \<and> streaming (bus_update msg r) = streaming r"
  by (auto simp: bus_update_def live_branch_schedule_destroy_def live_defs split: BusMessage.splits)

lemma destroy_idle_ok:
  "live_ok r \<Longrightarrow> lv_teardown_idle (gr_live r) \<Longrightarrow>
     live_ok (live_branch_destroy_idle r) \<and> streaming (live_branch_destroy_idle r) = None \<and>
     lv_phase (gr_live (live_branch_destroy_idle r)) = LIVE_PHASE_DESTROYED"
  by (auto simp: live_branch_destroy_idle_def live_defs)

text \<open>The runner meets the contract of the registry, whatever GStreamer answers.\<close>

interpretation gst: live_backend "gst_runner_start_live so" "gst_runner_stop_live True ret" streaming live_ok
  for so ret
  by unfold_locales
    (rule start_live_ok start_live_done start_live_failed stop_live_ok stop_live_streaming; assumption)+

subsection \<open>The bit rate\<close>

text \<open>
  C17: the encoder of a live branch gets exactly the requested bit rate in bits per second: a negative
  request or one whose thousandfold does not fit 32 bits builds no branch.
\<close>

theorem branch_bitrate_exact:
  assumes "create_live_branch so p rotation = Some settings" and "- (2 ^ 31) \<le> sp_bitrate p" "sp_bitrate p < 2 ^ 31"
  shows "0 \<le> sp_bitrate p \<and> uint (bs_bps settings) = 1000 * sp_bitrate p \<and> bs_host settings = sp_dest_ip p \<and>
         bs_port settings = sp_dest_port p \<and> bs_ssrc settings = sp_ssrc p"
proof -
  let ?w = "word_of_int (sp_bitrate p) :: u32"
  have le: "?w \<le> UINT32_MAX div 1000" and s: "bs_bps settings = ?w * 1000" "bs_host settings = sp_dest_ip p"
    "bs_port settings = sp_dest_port p" "bs_ssrc settings = sp_ssrc p"
    using assms(1) by (auto simp: create_live_branch_def split: if_splits)
  have u: "uint ?w = sp_bitrate p mod 2 ^ 32" by (simp add: uint_word_of_int)
  have "unat (UINT32_MAX div 1000 :: u32) = 4294967" unfolding unat_div unat_UINT32_MAX by simp
  then have "unat ?w \<le> 4294967" using le unfolding word_le_nat_alt by metis
  then have "int (unat ?w) \<le> int 4294967" unfolding of_nat_le_iff .
  then have "uint ?w \<le> 4294967" by simp
  then have "sp_bitrate p mod 2 ^ 32 \<le> 4294967" using u by simp
  moreover have "sp_bitrate p mod 2 ^ 32 = sp_bitrate p + 2 ^ 32" if "sp_bitrate p < 0"
    using that assms(2) mod_pos_pos_trivial [of "sp_bitrate p + 2 ^ 32" "2 ^ 32"] by simp
  ultimately have pos: "0 \<le> sp_bitrate p" using assms(2) by fastforce
  then have "sp_bitrate p mod 2 ^ 32 = sp_bitrate p" using assms(3) by simp
  with \<open>sp_bitrate p mod 2 ^ 32 \<le> 4294967\<close> have small: "sp_bitrate p \<le> 4294967" by simp
  have uw: "uint ?w = sp_bitrate p" using u \<open>sp_bitrate p mod 2 ^ 32 = sp_bitrate p\<close> by simp
  have "uint (?w * 1000) = uint ?w * 1000"
    using uw small pos by (simp add: uint_word_ariths)
  then show ?thesis using s uw pos by simp
qed

definition demo_params :: SessionParams where
  "demo_params = \<lparr>sp_session_id = ''s1'', sp_channel_id = ''c1'', sp_codec = ''h264'', sp_width = 3840, sp_height = 2160,
                  sp_fps = 30, sp_bitrate = 4096, sp_dest_ip = ''10.0.0.1'', sp_dest_port = 5004, sp_ssrc = 7,
                  sp_payload_type = 96\<rparr>"

definition all_good :: StartOutcome where
  "all_good = \<lparr>so_elements = True, so_rotator = True, so_rotation_property = True, so_properties = True,
     so_link_queue = True, so_link_rotator = True, so_link_rest = True, so_bin_add = True, so_queue = True,
     so_sink_pad = True, so_tee_pad = True, so_pad_link = True, so_playing = True\<rparr>"

lemma demo_branch:
  "create_live_branch all_good demo_params 0 =
     Some \<lparr>bs_rotation = None, bs_bps = 4096000, bs_pt = 96, bs_ssrc = 7, bs_host = ''10.0.0.1'', bs_port = 5004\<rparr>"
proof -
  have "unat (UINT32_MAX div 1000 :: u32) = 4294967" unfolding unat_div unat_UINT32_MAX by simp
  then have "\<not> (4096 :: u32) > UINT32_MAX div 1000" by (simp add: word_less_nat_alt)
  then show ?thesis by (simp add: create_live_branch_def all_good_def demo_params_def)
qed

theorem branch_bitrate_exact_witness:
  "\<exists>settings. create_live_branch all_good demo_params 0 = Some settings \<and> uint (bs_bps settings) = 4096000"
  using branch_bitrate_exact [OF demo_branch] demo_branch by (simp add: demo_params_def)

end
