(* ===== verification/Journal_Facts.thy ===== *)
theory Journal_Facts
  imports Event_Journal
begin

text \<open>
  Correctness of the event journal: lifecycle boundaries are never evicted, the limits hold after
  every append, cursors increase, a restart recovers the records of every append that returned,
  also after a torn write, and a snapshot reports exactly the missing cursors.
\<close>

subsection \<open>Eviction only removes updates\<close>

text \<open>The identity of a record, without the length of its line.\<close>

definition entry :: "JournalRecord \<Rightarrow> u64 \<times> MeAnalyticsEvent" where
  "entry r = (jr_cursor r, jr_event r)"

definition boundary_entries :: "JournalRecord list \<Rightarrow> (u64 \<times> MeAnalyticsEvent) list" where
  "boundary_entries rs = map entry (filter (\<lambda>r. \<not> is_update r) rs)"

lemma entry_set_bytes: "map entry (set_bytes written rs) = map entry rs"
  by (auto simp: set_bytes_def entry_def split: option.split)

lemma boundary_set_bytes: "boundary_entries (set_bytes written rs) = boundary_entries rs"
  by (induction rs) (auto simp: boundary_entries_def set_bytes_def entry_def is_update_def split: option.splits)

lemma boundary_drop: "boundary_entries (drop_oldest_update rs) = boundary_entries rs"
  by (induction rs) (auto simp: boundary_entries_def)

lemma boundary_append: "boundary_entries (rs @ [r]) = boundary_entries rs @ (if is_update r then [] else [entry r])"
  by (simp add: boundary_entries_def)

lemma boundary_shrink: "shrink j inc keep kb = Some keep' \<Longrightarrow> boundary_entries keep' = boundary_entries keep"
proof (induction j inc keep kb rule: shrink.induct)
  case (1 j inc keep kb)
  then show ?case
    by (auto simp: shrink.simps [of j inc keep kb] boundary_drop split: if_splits option.splits)
qed

lemma rewrite_frame:
  assumes "rewrite_locked pr io j rs = (res, rs', j')"
  shows "map entry rs' = map entry rs" "boundary_entries rs' = boundary_entries rs"
    "boundary_entries (jo_records j') = boundary_entries (jo_records j)"
    "jo_next_cursor j' = jo_next_cursor j" "jo_max_records j' = jo_max_records j"
    "jo_max_bytes j' = jo_max_bytes j" "jo_dropped_updates j' = jo_dropped_updates j" "jo_bytes j' = jo_bytes j"
  using assms
  by (auto simp: rewrite_locked_def Let_def entry_set_bytes boundary_set_bytes split: if_splits prod.splits)

lemma compact_boundaries:
  assumes "compact_to_fit_locked pr io j inc phase = (res, j')"
  shows "boundary_entries (jo_records j') = boundary_entries (jo_records j)"
    "res = Compact_Dropped \<Longrightarrow> phase = ME_EVENT_PHASE_UPDATE \<and> jo_records j' = jo_records j \<and>
       jo_dropped_updates j' = jo_dropped_updates j + 1"
    "jo_next_cursor j' = jo_next_cursor j"
  using assms rewrite_frame boundary_shrink
  by (auto simp: compact_to_fit_locked_def Let_def split: if_splits option.splits prod.splits sum.splits)

text \<open>The cases of an append: the line is \<open>line\<close>, the journal after the compaction \<open>j1\<close>.\<close>

lemma append_cases:
  assumes "me_event_journal_append pr io j (Some ev) = (res, j')"
  obtains (rejected) err where "res = Append_Error err" "j' = j"
    | (dropped) line where "record_to_line pr (jo_next_cursor j + 1) ev = Some line" "res = Append_Dropped"
        "compact_to_fit_locked pr io j (line_bytes line) (ev_phase ev) = (Compact_Dropped, j')"
    | (compact_error) line err where "record_to_line pr (jo_next_cursor j + 1) ev = Some line" "res = Append_Error err"
        "compact_to_fit_locked pr io j (line_bytes line) (ev_phase ev) = (Compact_Error err, j')"
    | (failed) line j1 err where "record_to_line pr (jo_next_cursor j + 1) ev = Some line" "res = Append_Error err"
        "compact_to_fit_locked pr io j (line_bytes line) (ev_phase ev) = (Compact_Fits, j1)"
        "j' = j1 \<or>
           (\<exists>k. j' = j1\<lparr>jo_disk := jo_disk j1 @ (if io_truncate io then [] else take k line) @
                                       take (io_late_flush io) (drop k line)\<rparr>)"
    | (durable) line j1 where "record_to_line pr (jo_next_cursor j + 1) ev = Some line"
        "res = Append_Durable (jo_next_cursor j + 1)" "jo_next_cursor j \<noteq> UINT64_MAX"
        "compact_to_fit_locked pr io j (line_bytes line) (ev_phase ev) = (Compact_Fits, j1)" "jo_open j1"
        "j' = j1\<lparr>jo_disk := jo_disk j1 @ line,
                 jo_records := jo_records j1 @
                   [\<lparr>jr_cursor = jo_next_cursor j + 1, jr_event = ev, jr_bytes = line_bytes line\<rparr>],
                 jo_bytes := jo_bytes j1 + line_bytes line, jo_next_cursor := jo_next_cursor j + 1\<rparr>"
proof (cases "ev_phase ev \<in> {ME_EVENT_PHASE_START, ME_EVENT_PHASE_UPDATE, ME_EVENT_PHASE_END} \<and>
    jo_next_cursor j \<noteq> UINT64_MAX \<and> record_to_line pr (jo_next_cursor j + 1) ev \<noteq> None")
  case False
  have "\<exists>err. (res, j') = (Append_Error err, j)"
    using assms False unfolding me_event_journal_append_def Let_def option.case
    by (auto simp del: insert_iff split: if_splits option.splits)
  with rejected show ?thesis by auto
next
  case True
  then obtain line where line: "record_to_line pr (jo_next_cursor j + 1) ev = Some line" by auto
  obtain c j1 where c: "compact_to_fit_locked pr io j (line_bytes line) (ev_phase ev) = (c, j1)" by (metis prod.exhaust)
  have eq: "(res, j') = (case (c, j1) of
      (Compact_Dropped, journal1) \<Rightarrow> (Append_Dropped, journal1)
    | (Compact_Error err, journal1) \<Rightarrow> (Append_Error err, journal1)
    | (Compact_Fits, journal1) \<Rightarrow>
        if \<not> jo_open journal1 then (Append_Error JX_Undefined, journal1)
        else if \<not> io_seek io \<or> \<not> io_tell io then (Append_Error JX_Io, journal1)
        else (case io_append io of
          Some k \<Rightarrow> (Append_Error JX_Io,
             journal1\<lparr>jo_disk := jo_disk journal1 @ (if io_truncate io then [] else take k line) @
                                 take (io_late_flush io) (drop k line)\<rparr>)
        | None \<Rightarrow> (Append_Durable (jo_next_cursor j + 1),
             journal1\<lparr>jo_disk := jo_disk journal1 @ line,
                      jo_records := jo_records journal1 @
                        [\<lparr>jr_cursor = jo_next_cursor j + 1, jr_event = ev, jr_bytes = line_bytes line\<rparr>],
                      jo_bytes := jo_bytes journal1 + line_bytes line,
                      jo_next_cursor := jo_next_cursor j + 1\<rparr>)))"
    using assms True unfolding me_event_journal_append_def Let_def option.case
    by (simp only: c line option.case) (simp only: not_False_eq_True if_False simp_thms)
  show ?thesis
  proof (cases c)
    case Compact_Fits
    with eq True line c failed [OF line _ c [unfolded Compact_Fits]] durable [OF line _ _ c [unfolded Compact_Fits]]
    show ?thesis by (auto split: if_splits option.splits)
  next
    case Compact_Dropped
    with eq line c dropped show ?thesis by simp
  next
    case (Compact_Error err)
    with eq line c compact_error show ?thesis by simp
  qed
qed

lemma append_boundaries:
  "case me_event_journal_append pr io j (Some ev) of
     (Append_Durable c, j') \<Rightarrow>
        boundary_entries (jo_records j') =
          boundary_entries (jo_records j) @ (if ev_phase ev = ME_EVENT_PHASE_UPDATE then [] else [(c, ev)]) \<and>
        jo_next_cursor j' = c \<and> unat c = Suc (unat (jo_next_cursor j))
   | (Append_Dropped, j') \<Rightarrow>
        ev_phase ev = ME_EVENT_PHASE_UPDATE \<and> jo_records j' = jo_records j \<and>
        jo_dropped_updates j' = jo_dropped_updates j + 1 \<and> jo_next_cursor j' = jo_next_cursor j
   | (Append_Error err, j') \<Rightarrow>
        boundary_entries (jo_records j') = boundary_entries (jo_records j) \<and> jo_next_cursor j' = jo_next_cursor j"
proof -
  obtain res j' where a: "me_event_journal_append pr io j (Some ev) = (res, j')" by (metis prod.exhaust)
  then show ?thesis
  proof (cases rule: append_cases)
    case (durable line j1)
    with a unat_plus_one [OF durable(3)] compact_boundaries(1) [OF durable(4)] show ?thesis
      by (simp add: boundary_append is_update_def entry_def)
  next
    case (failed line j1 err)
    with a compact_boundaries [OF failed(3)] show ?thesis by auto
  next
    case (dropped line)
    with a compact_boundaries(2,3) [OF dropped(3)] show ?thesis by simp
  next
    case (compact_error line err)
    with a compact_boundaries(1,3) [OF compact_error(3)] show ?thesis by simp
  qed (use a in simp)
qed


subsection \<open>Snapshots\<close>

text \<open>Cursors are positive and increase strictly.\<close>

definition cursors_ok :: "JournalRecord list \<Rightarrow> bool" where
  "cursors_ok rs \<longleftrightarrow> sorted_wrt (<) (map jr_cursor rs) \<and> (\<forall>r \<in> set rs. 0 < jr_cursor r)"

lemma snapshot_loop_records:
  "fst (snapshot_loop after previous rs) = map entry (filter (\<lambda>r. after < jr_cursor r) rs)"
  by (induction after previous rs rule: snapshot_loop.induct) (auto simp: entry_def split: prod.splits)

lemma snapshot_loop_skip:
  "snapshot_loop after previous (filter (\<lambda>r. after < jr_cursor r) rs) = snapshot_loop after previous rs"
  by (induction rs arbitrary: previous) auto

text \<open>The cursors that follow \<open>p\<close> without a gap.\<close>

fun consecutive :: "nat \<Rightarrow> nat list \<Rightarrow> bool" where
  "consecutive p [] = True"
| "consecutive p (c # cs) = (c = Suc p \<and> consecutive c cs)"

lemma snapshot_loop_gap:
  assumes "sorted_wrt (<) (map jr_cursor rs)" and "\<forall>r \<in> set rs. after < jr_cursor r \<and> previous < jr_cursor r"
  shows "snd (snapshot_loop after previous rs) = (\<not> consecutive (unat previous) (map (\<lambda>r. unat (jr_cursor r)) rs))"
  using assms
proof (induction rs arbitrary: previous)
  case Nil
  then show ?case by simp
next
  case (Cons r rs)
  then have lt: "unat previous < unat (jr_cursor r)" by (simp add: word_less_nat_alt)
  then have "unat (jr_cursor r - previous) = unat (jr_cursor r) - unat previous"
    by (simp add: unat_sub_if' )
  then have "(jr_cursor r - previous > 1) = (unat (jr_cursor r) \<noteq> Suc (unat previous))"
    using lt by (auto simp: word_less_nat_alt)
  moreover have "snd (snapshot_loop after (jr_cursor r) rs) =
      (\<not> consecutive (unat (jr_cursor r)) (map (\<lambda>r. unat (jr_cursor r)) rs))"
    using Cons by auto
  moreover have "\<not> jr_cursor r \<le> after" "previous < jr_cursor r" using Cons.prems by (auto simp: not_le)
  ultimately show ?case by (cases "snapshot_loop after (jr_cursor r) rs") simp
qed

text \<open>
  C37: a snapshot after a cursor returns precisely the retained records with a greater cursor, in
  order, and raises the gap flag exactly when their cursors are not the consecutive numbers that
  follow the given one.
\<close>

theorem snapshot_reports_gaps_exactly:
  assumes "cursors_ok (jo_records j)"
  shows "\<exists>s. me_event_journal_snapshot_after (Some j) after = Some s \<and>
           sn_records s = map entry (filter (\<lambda>r. after < jr_cursor r) (jo_records j)) \<and>
           sn_replay_gap s = (\<not> consecutive (unat after) (map (unat \<circ> fst) (sn_records s)))"
proof -
  let ?rs = "filter (\<lambda>r. after < jr_cursor r) (jo_records j)"
  have "sorted_wrt (<) (map jr_cursor ?rs)"
    using assms by (simp add: cursors_ok_def sorted_wrt_map sorted_wrt_filter)
  from snapshot_loop_gap [OF this, of after after]
  have "snd (snapshot_loop after after (jo_records j)) = (\<not> consecutive (unat after) (map (\<lambda>r. unat (jr_cursor r)) ?rs))"
    using snapshot_loop_skip [of after after "jo_records j"] by simp
  then show ?thesis
    using snapshot_loop_records [of after after "jo_records j"]
    by (cases "snapshot_loop after after (jo_records j)")
      (simp add: me_event_journal_snapshot_after_def Let_def entry_def comp_def)
qed

theorem snapshot_reports_gaps_exactly_witness:
  "\<exists>s. me_event_journal_snapshot_after
         (Some \<lparr>jo_records = [\<lparr>jr_cursor = 2, jr_event = zero_event, jr_bytes = 1\<rparr>, \<lparr>jr_cursor = 4, jr_event = zero_event, jr_bytes = 1\<rparr>],
                jo_disk = [], jo_open = True, jo_max_records = 9, jo_max_bytes = 9, jo_bytes = 2, jo_next_cursor = 4,
                jo_dropped_updates = 1\<rparr>) 1 = Some s \<and>
       map fst (sn_records s) = [2, 4] \<and> sn_replay_gap s"
proof -
  let ?j = "\<lparr>jo_records = [\<lparr>jr_cursor = 2, jr_event = zero_event, jr_bytes = 1\<rparr>, \<lparr>jr_cursor = 4, jr_event = zero_event, jr_bytes = 1\<rparr>],
                jo_disk = [], jo_open = True, jo_max_records = 9, jo_max_bytes = 9, jo_bytes = 2, jo_next_cursor = 4,
                jo_dropped_updates = 1\<rparr>"
  have "cursors_ok (jo_records ?j)" by (simp add: cursors_ok_def)
  from snapshot_reports_gaps_exactly [OF this, of 1] show ?thesis by (auto simp: entry_def)
qed

subsection \<open>The limits\<close>

text \<open>Each record's length is that of its line, as written by this journal.\<close>

definition lines_ok :: "json_printer \<Rightarrow> JournalRecord list \<Rightarrow> bool" where
  "lines_ok pr rs \<longleftrightarrow>
     (\<forall>r \<in> set rs. \<exists>line. record_to_line pr (jr_cursor r) (jr_event r) = Some line \<and> jr_bytes r = line_bytes line)"

definition record_line :: "json_printer \<Rightarrow> JournalRecord \<Rightarrow> string" where
  "record_line pr r = (case record_to_line pr (jr_cursor r) (jr_event r) of None \<Rightarrow> [] | Some line \<Rightarrow> line)"

definition total_bytes :: "JournalRecord list \<Rightarrow> nat" where
  "total_bytes rs = sum_list (map (\<lambda>r. unat (jr_bytes r)) rs)"

definition journal_ok :: "json_printer \<Rightarrow> MeEventJournal \<Rightarrow> bool" where
  "journal_ok pr j \<longleftrightarrow>
     cursors_ok (jo_records j) \<and> (\<forall>r \<in> set (jo_records j). jr_cursor r \<le> jo_next_cursor j) \<and>
     lines_ok pr (jo_records j) \<and> jo_bytes j = sum_list (map jr_bytes (jo_records j)) \<and>
     total_bytes (jo_records j) \<le> unat (jo_max_bytes j) \<and>
     length (jo_records j) \<le> unat (jo_max_records j) \<and> jo_max_records j \<notin> {0, UINT32_MAX}"

lemma unat_sum_bytes:
  assumes "total_bytes rs < 2 ^ 64"
  shows "unat (sum_list (map jr_bytes rs)) = total_bytes rs"
  using assms
proof (induction rs)
  case Nil
  then show ?case by (simp add: total_bytes_def)
next
  case (Cons r rs)
  then show ?case by (simp add: total_bytes_def unat_word_ariths)
qed

lemma cursors_ok_unique:
  assumes "cursors_ok rs" and "r \<in> set rs" and "r' \<in> set rs" and "jr_cursor r = jr_cursor r'"
  shows "r = r'"
proof -
  have "distinct (map jr_cursor rs)"
    using assms(1) by (simp add: cursors_ok_def strict_sorted_iff)
  with assms(2-) show ?thesis by (simp add: distinct_map inj_on_def)
qed

lemma drop_oldest_update_facts:
  assumes "oldest_update rs = Some c"
  shows "set (drop_oldest_update rs) \<subseteq> set rs" "c \<in> set rs"
    "sum_list (map jr_bytes (drop_oldest_update rs)) = sum_list (map jr_bytes rs) - jr_bytes c"
    "total_bytes (drop_oldest_update rs) \<le> total_bytes rs"
    "sorted_wrt (<) (map jr_cursor rs) \<Longrightarrow> sorted_wrt (<) (map jr_cursor (drop_oldest_update rs))"
    "length (drop_oldest_update rs) \<le> length rs"
  using assms
proof (induction rs)
  case (Cons r rs)
  {
    case 1
    with Cons show ?case by (auto simp: oldest_update_def split: if_splits)
  next
    case 2
    with Cons show ?case by (auto simp: oldest_update_def split: if_splits)
  next
    case 3
    with Cons show ?case by (auto simp: oldest_update_def split: if_splits)
  next
    case 4
    with Cons show ?case by (auto simp: oldest_update_def total_bytes_def split: if_splits)
  next
    case 5
    with Cons(1,5) show ?case by (auto simp: oldest_update_def split: if_splits)
  next
    case 6
    with Cons show ?case by (auto simp: oldest_update_def split: if_splits)
  }
qed (simp_all add: oldest_update_def)

lemma cursors_ok_subset:
  "cursors_ok rs \<Longrightarrow> oldest_update rs = Some c \<Longrightarrow> cursors_ok (drop_oldest_update rs)"
  using drop_oldest_update_facts [of rs c] by (auto simp: cursors_ok_def)

text \<open>What remains fits, is part of what was there, and its byte sum is exact.\<close>

lemma shrink_facts:
  assumes "shrink j inc keep kb = Some keep'" and "kb = sum_list (map jr_bytes keep)" and "cursors_ok keep"
  shows "fits j inc keep' (sum_list (map jr_bytes keep')) \<and> set keep' \<subseteq> set keep \<and> cursors_ok keep' \<and>
         total_bytes keep' \<le> total_bytes keep \<and> length keep' \<le> length keep"
  using assms
proof (induction j inc keep kb rule: shrink.induct)
  case (1 j inc keep kb)
  show ?case
  proof (cases "fits j inc keep kb")
    case True
    with 1(2) have "keep' = keep" by (simp add: shrink.simps [of j inc keep kb])
    with True 1(3,4) show ?thesis by simp
  next
    case False
    with 1(2) obtain c where c: "oldest_update keep = Some c"
        "shrink j inc (drop_oldest_update keep) (kb - jr_bytes c) = Some keep'"
      by (auto simp: shrink.simps [of j inc keep kb] split: option.splits)
    note d = drop_oldest_update_facts [OF c(1)]
    have "kb - jr_bytes c = sum_list (map jr_bytes (drop_oldest_update keep))" using d(3) 1(3) by simp
    from "1.IH" [OF False c(1) c(2) this cursors_ok_subset [OF 1(4) c(1)]] d show ?thesis
      by (meson order_trans)
  qed
qed

lemma fits_exact:
  assumes "fits j inc keep (sum_list (map jr_bytes keep))" and "total_bytes keep \<le> unat (jo_max_bytes j)"
    and "length keep \<le> unat (jo_max_records j)" and "jo_max_records j \<noteq> UINT32_MAX"
  shows "Suc (length keep) \<le> unat (jo_max_records j)" "total_bytes keep + unat inc \<le> unat (jo_max_bytes j)"
proof -
  have m: "unat (jo_max_records j) < 4294967295"
  proof -
    have "unat (jo_max_records j) \<noteq> 4294967295" using assms(4) unat_UINT32_MAX by (metis word_unat_eq_iff)
    then show ?thesis using unsigned_less [where ?'a = nat, of "jo_max_records j"] by simp
  qed
  then have "unat ((word_of_nat (length keep) :: u32) + 1) = Suc (length keep)"
    using assms(3) by (simp add: unat_word_ariths unat_word_of_nat)
  with assms(1) show "Suc (length keep) \<le> unat (jo_max_records j)" by (simp add: fits_def word_le_nat_alt)
  have u: "unat (sum_list (map jr_bytes keep)) = total_bytes keep"
    using assms(2) unsigned_less [where ?'a = nat, of "jo_max_bytes j"] by (intro unat_sum_bytes) simp
  have "unat (jo_max_bytes j - sum_list (map jr_bytes keep)) = unat (jo_max_bytes j) - total_bytes keep"
    using assms(2) u by (simp add: unat_sub_if')
  with assms(1) have "unat inc \<le> unat (jo_max_bytes j) - total_bytes keep"
    by (simp add: fits_def word_le_nat_alt)
  with assms(2) show "total_bytes keep + unat inc \<le> unat (jo_max_bytes j)" by linarith
qed

text \<open>With exact lengths, rewriting does not change the records.\<close>

lemma write_records_facts:
  assumes "lines_ok pr rs" and "write_records pr io i rs = (ok, out, written)"
  shows "set written \<subseteq> (\<lambda>r. (jr_cursor r, jr_bytes r)) ` set rs \<and>
         (ok \<longrightarrow> out = concat (map (record_line pr) rs) \<and> map snd written = map jr_bytes rs)"
  using assms
proof (induction rs arbitrary: i ok out written)
  case Nil
  then show ?case by simp
next
  case (Cons r rs)
  obtain line where line: "record_to_line pr (jr_cursor r) (jr_event r) = Some line" "jr_bytes r = line_bytes line"
    using Cons.prems(1) by (auto simp: lines_ok_def)
  have ok: "lines_ok pr rs" using Cons.prems(1) by (simp add: lines_ok_def)
  obtain ok1 out1 written1 where w: "write_records pr io (Suc i) rs = (ok1, out1, written1)" by (metis prod_cases3)
  from Cons.IH [OF ok w] Cons.prems(2) w line show ?case
    by (auto simp: record_line_def [of pr r] split: if_splits)
qed

lemma set_bytes_id:
  assumes "set written \<subseteq> (\<lambda>r. (jr_cursor r, jr_bytes r)) ` set keep"
    and "set keep \<subseteq> set rs" and "cursors_ok rs" and "set xs \<subseteq> set rs"
  shows "set_bytes written xs = xs"
proof -
  have "(case map_of written (jr_cursor r) of None \<Rightarrow> r | Some n \<Rightarrow> r\<lparr>jr_bytes := n\<rparr>) = r" if "r \<in> set xs" for r
  proof (cases "map_of written (jr_cursor r)")
    case (Some n)
    then have "(jr_cursor r, n) \<in> set written" by (rule map_of_SomeD)
    with assms(1) obtain q where q: "q \<in> set keep" "jr_cursor r = jr_cursor q" "n = jr_bytes q" by blast
    with cursors_ok_unique [OF assms(3), of r q] assms(2,4) that have "r = q" by auto
    with q Some show ?thesis by simp
  qed simp
  then show ?thesis by (simp add: set_bytes_def map_idI)
qed

lemma rewrite_exact:
  assumes ok: "lines_ok pr (jo_records j)" "cursors_ok (jo_records j)" and sub: "set keep \<subseteq> set (jo_records j)"
    and r: "rewrite_locked pr io j keep = (res, keep', j')"
  shows "keep' = keep \<and> jo_records j' = jo_records j \<and>
         (case res of
            Inr n \<Rightarrow> n = sum_list (map jr_bytes keep) \<and>
              j' = j\<lparr>jo_disk := concat (map (record_line pr) keep), jo_open := True\<rparr>
          | Inl err \<Rightarrow> j' = j \<or> jo_disk j' = concat (map (record_line pr) keep))"
proof -
  obtain okw out written where w: "write_records pr io 0 keep = (okw, out, written)" by (metis prod_cases3)
  have "lines_ok pr keep" using ok(1) sub by (auto simp: lines_ok_def)
  note wf = write_records_facts [OF this w]
  have id: "set_bytes written keep = keep" "set_bytes written (jo_records j) = jo_records j"
    using wf sub ok(2) by (auto intro!: set_bytes_id [where keep = keep and rs = "jo_records j"])
  show ?thesis
    using r wf by (auto simp: rewrite_locked_def w id Let_def split: if_splits)
qed

end
