(* ===== verification/Engine_Runs.thy ===== *)
theory Engine_Runs
  imports Media_Engine Gst_Facts Journal_Facts
begin

text \<open>
  Runs of the engine: requests of the control plane, the lease timer, messages of the bus, the idle
  callback that destroys a branch, detector results and encoded pictures, in any order. The registry
  and the live branch stay coupled; a branch that could not be stopped is never given back; every
  delivered event was made durable first.
\<close>

subsection \<open>What the analytics path leaves alone\<close>

text \<open>The runner without its evidence cache, and what the control plane sees of the engine.\<close>

definition without_evidence :: "GstRunner \<Rightarrow> GstRunner" where
  "without_evidence r = r\<lparr>gr_evidence_cache := None\<rparr>"

lemma without_evidence_update [simp]: "without_evidence (r\<lparr>gr_evidence_cache := c\<rparr>) = without_evidence r"
  by (simp add: without_evidence_def)

lemma without_evidence_live:
  "without_evidence r = without_evidence r' \<Longrightarrow>
     live_ok r = live_ok r' \<and> streaming r = streaming r' \<and> gr_live r = gr_live r' \<and> gr_base_ready r = gr_base_ready r'"
proof -
  have "live_ok (without_evidence r) = live_ok r" "streaming (without_evidence r) = streaming r"
    "gr_live (without_evidence r) = gr_live r" "gr_base_ready (without_evidence r) = gr_base_ready r" for r
    by (simp_all add: without_evidence_def live_ok_def streaming_def)
  then show "without_evidence r = without_evidence r' \<Longrightarrow> ?thesis" by metis
qed

definition same_control :: "Engine \<Rightarrow> Engine \<Rightarrow> bool" where
  "same_control e e' \<longleftrightarrow>
     eg_sessions e' = eg_sessions e \<and> eg_cfg e' = eg_cfg e \<and> eg_aiq e' = eg_aiq e \<and>
     map_option without_evidence (eg_runner e') = map_option without_evidence (eg_runner e)"

lemma same_control_refl: "same_control e e"
  by (simp add: same_control_def)

lemma same_control_trans: "same_control e e1 \<Longrightarrow> same_control e1 e2 \<Longrightarrow> same_control e e2"
  by (simp add: same_control_def)

lemma attach_evidence_control: "attach_evidence io e ev = (ev', e') \<Longrightarrow> same_control e e'"
  by (auto simp: attach_evidence_def gst_runner_capture_evidence_def same_control_def split: if_splits option.splits prod.splits)

lemma analytics_event_control: "engine_analytics_event io e ev = (e', d) \<Longrightarrow> same_control e e'"
  using same_control_refl [of e] attach_evidence_control [of io e ev]
  by (auto simp: engine_analytics_event_def same_control_def split: option.splits prod.splits AppendResult.splits)

lemma handle_events_control: "handle_events evs ios e = (e', ds) \<Longrightarrow> same_control e e'"
proof (induction evs arbitrary: ios e ds)
  case Nil
  then show ?case by (simp add: same_control_refl)
next
  case (Cons ev evs)
  then show ?case
    using analytics_event_control same_control_trans by (auto split: prod.splits) blast
qed

lemma observation_control: "engine_analytics_observation ios e ob = (e', ds) \<Longrightarrow> same_control e e'"
proof -
  assume a: "engine_analytics_observation ios e ob = (e', ds)"
  have note_frame: "same_control e (e\<lparr>eg_runner := map_option (\<lambda>r. gst_runner_note_analytics_frame r ob) (eg_runner e),
      eg_analytics := an\<rparr>)" for an
    by (cases "eg_runner e") (simp_all add: same_control_def gst_runner_note_analytics_frame_def split: option.splits)
  show ?thesis
    using a same_control_refl [of e] same_control_trans [OF note_frame handle_events_control]
    by (auto simp: engine_analytics_observation_def Let_def split: if_splits prod.splits)
qed

subsection \<open>Steps\<close>

inductive engine_step :: "Engine \<Rightarrow> Engine \<Rightarrow> bool" where
  start: "params_ok p \<Longrightarrow> engine_start_live so now e p = (rc, e') \<Longrightarrow> engine_step e e'"
| stop: "engine_stop_live True ret e sid = (rc, e') \<Longrightarrow> engine_step e e'"
| keepalive: "engine_keepalive_live now e sid = (rc, e') \<Longrightarrow> engine_step e e'"
| reap: "engine_reap_expired True ret now e = (n, e', ev) \<Longrightarrow> engine_step e e'"
| bus: "engine_bus_message True ret msg e = (e', ev) \<Longrightarrow> engine_step e e'"
| destroy: "eg_runner e = Some r \<Longrightarrow> lv_teardown_idle (gr_live r) \<Longrightarrow>
    engine_step e (e\<lparr>eg_runner := Some (live_branch_destroy_idle r)\<rparr>)"
| detected: "engine_analytics_observation ios e ob = (e', ds) \<Longrightarrow> engine_step e e'"
| encoded: "eg_runner e = Some r \<Longrightarrow> engine_step e (e\<lparr>eg_runner := Some (evidence_new_sample_callback bytes pts r)\<rparr>)"

definition engine_coupled :: "Engine \<Rightarrow> bool" where
  "engine_coupled e \<longleftrightarrow>
     (\<exists>m r. eg_sessions e = Some m \<and> eg_runner e = Some r \<and> live_ok r \<and> length (sm_sessions m) \<le> 1 \<and>
        (\<forall>sid. streaming r = Some sid \<longrightarrow> session_mgr_has m sid))"

lemma backend_functions:
  "engine_backend_start so = gst_runner_start_live so" "engine_backend_stop tee ret = gst_runner_stop_live tee ret"
  by (simp_all add: fun_eq_iff engine_backend_start_def engine_backend_stop_def)

lemma coupled_iff:
  "eg_sessions e = Some m \<Longrightarrow> eg_runner e = Some r \<Longrightarrow> engine_coupled e = gst.coupled m r"
  by (simp add: engine_coupled_def gst.coupled_def)

lemma coupled_control:
  assumes "engine_coupled e" and "same_control e e'"
  shows "engine_coupled e'"
proof -
  obtain m r where mr: "eg_sessions e = Some m" "eg_runner e = Some r" "live_ok r" "length (sm_sessions m) \<le> 1"
    "\<forall>sid. streaming r = Some sid \<longrightarrow> session_mgr_has m sid" using assms(1) by (auto simp: engine_coupled_def)
  obtain r' where r': "eg_runner e' = Some r'" "without_evidence r' = without_evidence r" "eg_sessions e' = Some m"
    using assms(2) mr by (auto simp: same_control_def)
  with without_evidence_live [of r' r] mr show ?thesis by (auto simp: engine_coupled_def)
qed

lemma stop_facts:
  assumes "engine_coupled e" and "engine_stop_live True ret e sid = (rc, e')"
  shows "engine_coupled e' \<and> eg_cfg e' = eg_cfg e \<and> eg_event_cb e' = eg_event_cb e \<and>
    (rc = ME_ERR_OK \<longrightarrow> (\<forall>m. eg_sessions e' = Some m \<longrightarrow> \<not> session_mgr_has m sid))"
proof -
  obtain m r where mr: "eg_sessions e = Some m" "eg_runner e = Some r" using assms(1) by (auto simp: engine_coupled_def)
  obtain m1 r1 where s: "session_mgr_stop (gst_runner_stop_live True ret) m sid r = (rc, m1, r1)"
    and e': "e' = e\<lparr>eg_sessions := Some m1, eg_runner := Some r1\<rparr>"
    using assms(2) mr by (auto simp: engine_stop_live_def backend_functions split: prod.splits)
  have "gst.coupled m r" using assms(1) coupled_iff mr by blast
  from gst.stop_coupled [OF this s] show ?thesis using e' coupled_iff [of e' m1 r1] by (auto split: if_splits)
qed

lemma bus_runner_update:
  assumes "engine_coupled e"
  shows "engine_coupled (e\<lparr>eg_runner := map_option (bus_update msg) (eg_runner e)\<rparr>)"
  using assms bus_update_ok unfolding engine_coupled_def by auto

lemma gst_event_coupled:
  assumes "engine_coupled e" and "engine_gst_event True ret e ev = (e', sent)"
  shows "engine_coupled e'"
proof -
  have "e' = e \<or> (\<exists>sid. e' = snd (engine_stop_live True ret e sid))"
    using assms(2) by (auto simp: engine_gst_event_def Let_def split: prod.splits option.splits if_splits)
  then show ?thesis using assms(1) stop_facts by (metis prod.collapse)
qed

lemma step_coupled:
  assumes "engine_step e e'" and "engine_coupled e"
  shows "engine_coupled e'"
  using assms(1)
proof cases
  case (start p so now rc)
  obtain m r where mr: "eg_sessions e = Some m" "eg_runner e = Some r" using assms(2) by (auto simp: engine_coupled_def)
  have c: "gst.coupled m r" using assms(2) coupled_iff mr by blast
  have "e' = e \<or> (\<exists>rc1 m1 r1. session_mgr_start (gst_runner_start_live so) now m p r = (rc1, m1, r1) \<and>
      e' = e\<lparr>eg_sessions := Some m1, eg_runner := Some r1\<rparr>)"
    using start(2) mr by (auto simp: engine_start_live_def backend_functions split: if_splits prod.splits)
  then show ?thesis
  proof
    assume "\<exists>rc1 m1 r1. session_mgr_start (gst_runner_start_live so) now m p r = (rc1, m1, r1) \<and>
      e' = e\<lparr>eg_sessions := Some m1, eg_runner := Some r1\<rparr>"
    then obtain rc1 m1 r1 where s: "session_mgr_start (gst_runner_start_live so) now m p r = (rc1, m1, r1)"
      and e': "e' = e\<lparr>eg_sessions := Some m1, eg_runner := Some r1\<rparr>" by blast
    from gst.start_coupled [OF c start(1) s] show ?thesis using e' coupled_iff [of e' m1 r1] by simp
  qed (use assms(2) in simp)
next
  case (stop ret sid rc)
  with stop_facts assms(2) show ?thesis by blast
next
  case (keepalive now sid rc)
  obtain m r where mr: "eg_sessions e = Some m" "eg_runner e = Some r" using assms(2) by (auto simp: engine_coupled_def)
  have c: "gst.coupled m r" using assms(2) coupled_iff mr by blast
  obtain m1 where t: "session_mgr_touch now m sid = (rc, m1)" and e': "e' = e\<lparr>eg_sessions := Some m1\<rparr>"
    using keepalive mr by (auto simp: engine_keepalive_live_def split: prod.splits)
  from gst.touch_coupled [OF c t] show ?thesis using e' mr(2) coupled_iff [of e' m1 r] by simp
next
  case (reap ret now n ev)
  then show ?thesis using assms(2) stop_facts [OF assms(2)]
    by (auto simp: engine_reap_expired_def split: if_splits option.splits prod.splits)
next
  case (bus ret msg ev)
  let ?update = "\<lambda>x. x\<lparr>eg_runner := map_option (bus_update msg) (eg_runner x)\<rparr>"
  have "e' = e \<or> e' = ?update e \<or> (\<exists>x. e' = ?update (fst (engine_gst_event True ret e x)))"
  proof (cases "eg_runner e")
    case (Some r)
    with bus show ?thesis
      by (cases "bus_event msg r") (auto simp: engine_bus_message_def case_prod_beta)
  qed (use bus in \<open>simp add: engine_bus_message_def\<close>)
  then show ?thesis using assms(2) bus_runner_update gst_event_coupled [OF assms(2)] by (metis prod.collapse)
next
  case (destroy r)
  then show ?thesis using assms(2) destroy_idle_ok [of r] by (auto simp: engine_coupled_def)
next
  case (detected ios ob ds)
  with observation_control coupled_control assms(2) show ?thesis by blast
next
  case (encoded r bytes pts)
  have "without_evidence (evidence_new_sample_callback bytes pts r) = without_evidence r"
    by (simp add: evidence_new_sample_callback_def Let_def split: option.splits)
  then have "same_control e e'" using encoded by (simp add: same_control_def)
  then show ?thesis using assms(2) coupled_control by blast
qed

lemma run_coupled: "engine_step\<^sup>*\<^sup>* e e' \<Longrightarrow> engine_coupled e \<Longrightarrow> engine_coupled e'"
  by (induction rule: rtranclp_induct) (auto intro: step_coupled)

lemma new_runner_ok:
  assumes "r = fst (gst_runner_new sha pa ls eio mk ro cfg cb fs)"
  shows "gr_live r = idle_branch \<and> \<not> gr_branch_active r \<and> gr_tee_pads r = 0 \<and> gr_bins r = 0 \<and> gr_analytics_stream_epoch r = 1"
  unfolding assms gst_runner_new_def Let_def
  by (simp add: new_runner_def attach_analytics_def Let_def split: prod.splits)

lemma init_coupled:
  assumes "engine_init io log_text fs cfg = Inr e"
  shows "engine_coupled e"
proof -
  let ?r = "fst (gst_runner_new (ii_sha io) (ii_parse io) (ii_ls io) (ii_evidence_io io) (ii_mkdir io) (ii_runner io) cfg True fs)"
  have "eg_sessions e = Some \<lparr>sm_sessions = []\<rparr>" "eg_runner e = Some (gst_runner_set_event_cb ?r True)"
    using assms by (auto simp: engine_init_def session_mgr_new_def Let_def split: sum.splits prod.splits)
  moreover have "live_ok (gst_runner_set_event_cb ?r True) \<and> streaming (gst_runner_set_event_cb ?r True) = None"
    using new_runner_ok [OF refl] by (simp add: gst_runner_set_event_cb_def live_ok_def streaming_def idle_branch_def)
  ultimately show ?thesis by (simp add: engine_coupled_def)
qed

text \<open>
  C8: in every run of the engine, whatever GStreamer answers, at most one live session is registered;
  a session whose branch streams is registered; the tee has exactly one requested pad while a branch
  streams and none otherwise; and the pipeline holds at most one branch bin, none when the branch is
  idle or destroyed.
\<close>

theorem one_session_one_branch:
  assumes "engine_init io log_text fs cfg = Inr e0" and "engine_step\<^sup>*\<^sup>* e0 e"
  shows "\<exists>m r. eg_sessions e = Some m \<and> eg_runner e = Some r \<and> session_mgr_count m \<le> 1 \<and>
    (gr_branch_active r \<longrightarrow> session_mgr_has m (lv_session_id (gr_live r))) \<and>
    gr_tee_pads r = (if gr_branch_active r then 1 else 0) \<and>
    gr_bins r = (if lv_phase (gr_live r) = LIVE_PHASE_IDLE \<or> lv_phase (gr_live r) = LIVE_PHASE_DESTROYED then 0 else 1)"
proof -
  obtain m r where mr: "eg_sessions e = Some m" "eg_runner e = Some r" "live_ok r" "length (sm_sessions m) \<le> 1"
    "\<forall>sid. streaming r = Some sid \<longrightarrow> session_mgr_has m sid"
    using run_coupled [OF assms(2) init_coupled [OF assms(1)]] by (auto simp: engine_coupled_def)
  have "gr_tee_pads r = (if gr_branch_active r then 1 else 0)" using mr(3) by (simp add: live_ok_def Let_def)
  moreover have "gr_bins r = (if lv_phase (gr_live r) = LIVE_PHASE_IDLE \<or> lv_phase (gr_live r) = LIVE_PHASE_DESTROYED then 0 else 1)"
    using mr(3) by (simp add: live_ok_def Let_def)
  ultimately show ?thesis using mr by (auto simp: session_mgr_count_def streaming_def)
qed

lemma single_session:
  assumes "length (sm_sessions m) \<le> 1" and "session_mgr_has m sid"
  obtains s where "sm_sessions m = [(sid, s)]"
  using assms unfolding session_mgr_has_def by (cases "sm_sessions m"; cases "tl (sm_sessions m)") (auto split: if_splits)

subsection \<open>A branch that does not stop\<close>

definition branch_failed :: "Engine \<Rightarrow> bool" where
  "branch_failed e \<longleftrightarrow> (\<exists>r. eg_runner e = Some r \<and> lv_phase (gr_live r) = LIVE_PHASE_FAILED)"

lemma failed_start_refused:
  assumes "engine_coupled e" and "branch_failed e" and "engine_start_live so now e p = (rc, e')"
  shows "rc \<noteq> ME_ERR_OK \<and> e' = e"
proof -
  obtain r where r: "eg_runner e = Some r" "lv_phase (gr_live r) = LIVE_PHASE_FAILED" using assms(2) by (auto simp: branch_failed_def)
  then have "gst_runner_start_live so p r = (ME_ERR_MEDIA, r)" by (simp add: gst_runner_start_live_def Let_def)
  then show ?thesis
    using assms(1,3) r
    by (auto simp: engine_start_live_def session_mgr_start_def backend_functions me_err_defs engine_coupled_def
        split: if_splits option.splits)
qed

lemma failed_stop_keeps:
  assumes "engine_coupled e" and "branch_failed e" and "engine_stop_live tee ret e sid = (rc, e')"
  shows "branch_failed e' \<and> rc = ME_ERR_OK"
proof -
  obtain r where r: "eg_runner e = Some r" "lv_phase (gr_live r) = LIVE_PHASE_FAILED" using assms(2) by (auto simp: branch_failed_def)
  then have "gst_runner_stop_live tee ret sid r = (ME_ERR_NOT_FOUND, r)" by (simp add: gst_runner_stop_live_def Let_def)
  then show ?thesis
    using assms(1,3) r
    by (auto simp: engine_stop_live_def session_mgr_stop_def backend_functions branch_failed_def engine_coupled_def
        split: if_splits)
qed

lemma gst_event_failed:
  assumes "engine_coupled e" and "branch_failed e"
  shows "branch_failed (fst (engine_gst_event True ret e x))"
proof -
  have "fst (engine_gst_event True ret e x) = e \<or> (\<exists>sid. fst (engine_gst_event True ret e x) = snd (engine_stop_live True ret e sid))"
    by (auto simp: engine_gst_event_def Let_def split: prod.splits option.splits if_splits)
  then show ?thesis using failed_stop_keeps [OF assms] assms(2) by (metis prod.collapse)
qed

lemma bus_update_failed: "lv_phase (gr_live r) = LIVE_PHASE_FAILED \<Longrightarrow> lv_phase (gr_live (bus_update msg r)) = LIVE_PHASE_FAILED"
  by (auto simp: bus_update_def split: BusMessage.splits)

lemma control_failed:
  assumes "branch_failed e" and "same_control e e'"
  shows "branch_failed e'"
proof -
  obtain r where r: "eg_runner e = Some r" "lv_phase (gr_live r) = LIVE_PHASE_FAILED" using assms(1) by (auto simp: branch_failed_def)
  then obtain r' where "eg_runner e' = Some r'" "without_evidence r' = without_evidence r"
    using assms(2) by (auto simp: same_control_def)
  with without_evidence_live [of r' r] r(2) show ?thesis by (simp add: branch_failed_def)
qed

lemma step_failed:
  assumes "engine_step e e'" and "engine_coupled e" and "branch_failed e"
  shows "branch_failed e'"
  using assms(1)
proof cases
  case (start p so now rc)
  with failed_start_refused [OF assms(2,3)] assms(3) show ?thesis by blast
next
  case (stop ret sid rc)
  with failed_stop_keeps [OF assms(2,3)] show ?thesis by blast
next
  case (keepalive now sid rc)
  then show ?thesis using assms(3) by (auto simp: engine_keepalive_live_def branch_failed_def split: option.splits prod.splits)
next
  case (reap ret now n ev)
  then show ?thesis using assms(3) failed_stop_keeps [OF assms(2,3)]
    by (auto simp: engine_reap_expired_def split: if_splits option.splits prod.splits)
next
  case (bus ret msg ev)
  let ?update = "\<lambda>x. x\<lparr>eg_runner := map_option (bus_update msg) (eg_runner x)\<rparr>"
  have update: "branch_failed x \<Longrightarrow> branch_failed (?update x)" for x using bus_update_failed by (auto simp: branch_failed_def)
  obtain r where r: "eg_runner e = Some r" using assms(3) by (auto simp: branch_failed_def)
  have "e' = ?update e \<or> (\<exists>x. e' = ?update (fst (engine_gst_event True ret e x)))"
    using bus r by (cases "bus_event msg r") (auto simp: engine_bus_message_def case_prod_beta)
  then show ?thesis using assms(3) update gst_event_failed [OF assms(2,3)] by metis
next
  case (destroy r)
  then show ?thesis using assms(2,3) by (auto simp: branch_failed_def engine_coupled_def live_ok_def Let_def)
next
  case (detected ios ob ds)
  with observation_control control_failed assms(3) show ?thesis by blast
next
  case (encoded r bytes pts)
  then show ?thesis using assms(3)
    by (auto simp: branch_failed_def evidence_new_sample_callback_def Let_def split: option.splits)
qed

lemma run_failed: "engine_step\<^sup>*\<^sup>* e e' \<Longrightarrow> engine_coupled e \<Longrightarrow> branch_failed e \<Longrightarrow> engine_coupled e' \<and> branch_failed e'"
  by (induction rule: rtranclp_induct) (auto intro: step_coupled step_failed)

text \<open>
  C12: when the branch of a streaming session cannot be set to NULL, stopping the session reports the
  media error and keeps the session for a retry, but the retry finds no active branch, reports success
  and removes the session; the branch stays failed in every later run, and every later start is
  refused.
\<close>

theorem failed_stop_blocks_live:
  assumes "engine_init io log_text fs cfg = Inr e0" and "engine_step\<^sup>*\<^sup>* e0 e"
    and "eg_runner e = Some r" and "streaming r = Some sid"
    and "engine_stop_live True GST_STATE_CHANGE_FAILURE e sid = (rc1, e1)"
    and "engine_stop_live True ret e1 sid = (rc2, e2)"
    and "engine_step\<^sup>*\<^sup>* e2 e3" and "engine_start_live so now e3 p = (rc3, e4)"
  shows "rc1 = ME_ERR_MEDIA \<and> eg_sessions e1 = eg_sessions e \<and> rc2 = ME_ERR_OK \<and>
         map_option sm_sessions (eg_sessions e2) = Some [] \<and> rc3 \<noteq> ME_ERR_OK"
proof -
  have c: "engine_coupled e" by (rule run_coupled [OF assms(2) init_coupled [OF assms(1)]])
  then obtain m where m: "eg_sessions e = Some m" "live_ok r" "length (sm_sessions m) \<le> 1" "session_mgr_has m sid"
    using assms(3,4) by (auto simp: engine_coupled_def)
  have active: "gr_branch_active r" "lv_phase (gr_live r) = LIVE_PHASE_ACTIVE" "lv_session_id (gr_live r) = sid"
    using assms(4) m(2) by (auto simp: streaming_def live_ok_def Let_def split: if_splits)
  then obtain r1 where r1: "gst_runner_stop_live True GST_STATE_CHANGE_FAILURE sid r = (ME_ERR_MEDIA, r1)"
    "lv_phase (gr_live r1) = LIVE_PHASE_FAILED"
    by (auto simp: gst_runner_stop_live_def live_branch_teardown_def set_phase_def Let_def)
  have e1: "rc1 = ME_ERR_MEDIA" "e1 = e\<lparr>eg_sessions := Some m, eg_runner := Some r1\<rparr>"
    using assms(3,5) m r1 by (auto simp: engine_stop_live_def session_mgr_stop_def backend_functions me_err_defs)
  then have failed: "engine_coupled e1" "branch_failed e1" using stop_facts [OF c assms(5)] r1(2) by (auto simp: branch_failed_def)
  have "rc2 = ME_ERR_OK" "branch_failed e2" using failed_stop_keeps [OF failed assms(6)] by auto
  moreover have c2: "engine_coupled e2" using stop_facts [OF failed(1) assms(6)] by blast
  moreover have "map_option sm_sessions (eg_sessions e2) = Some []"
  proof -
    obtain x where "sm_sessions m = [(sid, x)]" using single_session [OF m(3,4)] .
    moreover have "gst_runner_stop_live True ret sid r1 = (ME_ERR_NOT_FOUND, r1)"
      using r1(2) by (simp add: gst_runner_stop_live_def Let_def)
    ultimately show ?thesis
      using assms(6) e1(2) m(4) by (auto simp: engine_stop_live_def session_mgr_stop_def backend_functions)
  qed
  moreover have "rc3 \<noteq> ME_ERR_OK"
    using run_failed [OF assms(7) c2 \<open>branch_failed e2\<close>] failed_start_refused assms(8) by blast
  ultimately show ?thesis using e1 m(1) by simp
qed

end
