(* ===== verification/Journal_Recovery.thy ===== *)
theory Journal_Recovery
  imports Journal_Facts
begin

text \<open>
  The journal over time: every append keeps the configured limits and the exact byte accounting, and
  opening the file of a journal gives its records back, also when the process died in the middle of
  a write. The interface between the file format and the recovery loop is the locale \<open>line_codec\<close>.
\<close>

subsection \<open>Appends keep the limits\<close>

lemma compact_fits_ok:
  assumes "journal_ok pr j" and "compact_to_fit_locked pr io j inc phase = (Compact_Fits, j1)"
  shows "journal_ok pr j1 \<and> Suc (length (jo_records j1)) \<le> unat (jo_max_records j1) \<and>
         total_bytes (jo_records j1) + unat inc \<le> unat (jo_max_bytes j1) \<and> jo_next_cursor j1 = jo_next_cursor j"
proof (cases "fits j inc (jo_records j) (jo_bytes j)")
  case True
  with assms have "j1 = j" by (simp add: compact_to_fit_locked_def Let_def)
  with True assms(1) fits_exact [of j inc "jo_records j"] show ?thesis by (simp add: journal_ok_def)
next
  case False
  have ok: "cursors_ok (jo_records j)" "lines_ok pr (jo_records j)" using assms(1) by (simp_all add: journal_ok_def)
  from False assms(2) obtain keep rb keep1 j2 where
      s: "shrink j inc (jo_records j) (sum_list (map jr_bytes (jo_records j))) = Some keep"
    and r: "rewrite_locked pr io j keep = (Inr rb, keep1, j2)"
    and j1: "j1 = j2\<lparr>jo_records := keep1, jo_bytes := rb\<rparr>"
    by (auto simp: compact_to_fit_locked_def Let_def split: if_splits option.splits prod.splits sum.splits)
  note sf = shrink_facts [OF s refl ok(1)]
  from sf have sub: "set keep \<subseteq> set (jo_records j)" by simp
  from rewrite_exact [OF ok(2,1) sub r]
  have j1': "j1 = j\<lparr>jo_disk := concat (map (record_line pr) keep), jo_open := True, jo_records := keep,
                    jo_bytes := sum_list (map jr_bytes keep)\<rparr>"
    using j1 by simp
  have lim: "total_bytes keep \<le> unat (jo_max_bytes j)" "length keep \<le> unat (jo_max_records j)"
    "jo_max_records j \<noteq> UINT32_MAX"
    using sf assms(1) by (auto simp: journal_ok_def)
  have "fits j inc keep (sum_list (map jr_bytes keep))" using sf by simp
  from fits_exact [OF this lim] j1' sf sub assms(1) lim show ?thesis
    by (auto simp: journal_ok_def lines_ok_def)
qed

lemma compact_limits:
  assumes "compact_to_fit_locked pr io j inc phase = (res, j1)"
  shows "jo_max_records j1 = jo_max_records j \<and> jo_max_bytes j1 = jo_max_bytes j"
  using assms rewrite_frame(5,6)
  by (auto simp: compact_to_fit_locked_def Let_def split: if_splits option.splits prod.splits sum.splits)

lemma compact_other_ok:
  assumes "journal_ok pr j" and "compact_to_fit_locked pr io j inc phase = (res, j1)" and "res \<noteq> Compact_Fits"
  shows "journal_ok pr j1"
proof -
  have ok: "cursors_ok (jo_records j)" "lines_ok pr (jo_records j)" using assms(1) by (simp_all add: journal_ok_def)
  have "jo_records j1 = jo_records j \<and> jo_next_cursor j1 = jo_next_cursor j \<and> jo_bytes j1 = jo_bytes j \<and>
        jo_max_records j1 = jo_max_records j \<and> jo_max_bytes j1 = jo_max_bytes j"
  proof (cases "\<exists>keep err keep1.
      shrink j inc (jo_records j) (sum_list (map jr_bytes (jo_records j))) = Some keep \<and>
      rewrite_locked pr io j keep = (Inl err, keep1, j1)")
    case True
    then obtain keep err keep1 where
        s: "shrink j inc (jo_records j) (sum_list (map jr_bytes (jo_records j))) = Some keep"
      and r: "rewrite_locked pr io j keep = (Inl err, keep1, j1)" by blast
    have "set keep \<subseteq> set (jo_records j)" using shrink_facts [OF s refl ok(1)] by simp
    from rewrite_exact [OF ok(2,1) this r] rewrite_frame [OF r] show ?thesis by simp
  next
    case False
    with assms(2,3) show ?thesis
      by (auto simp: compact_to_fit_locked_def Let_def split: if_splits option.splits prod.splits sum.splits)
  qed
  with assms(1) show ?thesis by (simp add: journal_ok_def)
qed

lemma unat_line_bytes: "length line < 2 ^ 64 \<Longrightarrow> unat (line_bytes line) = length line"
  by (simp add: line_bytes_def unat_word_of_nat)

lemma journal_ok_snoc:
  assumes ok: "journal_ok pr j" and cur: "jo_next_cursor j \<noteq> UINT64_MAX"
    and line: "record_to_line pr (jo_next_cursor j + 1) ev = Some line"
    and lim: "Suc (length (jo_records j)) \<le> unat (jo_max_records j)"
      "total_bytes (jo_records j) + unat (line_bytes line) \<le> unat (jo_max_bytes j)"
  shows "journal_ok pr
           (j\<lparr>jo_disk := d,
              jo_records := jo_records j @
                [\<lparr>jr_cursor = jo_next_cursor j + 1, jr_event = ev, jr_bytes = line_bytes line\<rparr>],
              jo_bytes := jo_bytes j + line_bytes line, jo_next_cursor := jo_next_cursor j + 1\<rparr>)"
proof -
  have lt: "jo_next_cursor j < jo_next_cursor j + 1" using unat_plus_one [OF cur] by (simp add: word_less_nat_alt)
  have "\<forall>r \<in> set (jo_records j). jr_cursor r < jo_next_cursor j + 1"
    using ok lt unfolding journal_ok_def by (meson le_less_trans)
  then show ?thesis
    using assms lt
    by (auto simp: journal_ok_def cursors_ok_def sorted_wrt_append lines_ok_def total_bytes_def less_imp_le
        word_greater_zero_iff word_less_nat_alt unat_plus_one [OF cur])
qed

text \<open>
  C20: whatever the system calls do, an append keeps the journal within its record and byte limits,
  its byte count equal to the sum of the lengths of the lines, its cursors strictly increasing and
  not above the last cursor given out. The limit of \<open>UINT32_MAX\<close> records, for which the addition
  wraps around, is excluded.
\<close>

theorem append_keeps_limits:
  assumes "journal_ok pr j"
  shows "journal_ok pr (snd (me_event_journal_append pr io j (Some ev)))"
proof -
  obtain res j' where a: "me_event_journal_append pr io j (Some ev) = (res, j')" by (metis prod.exhaust)
  then have "journal_ok pr j'"
  proof (cases rule: append_cases)
    case (durable line j1)
    from compact_fits_ok [OF assms durable(4)] durable(3)
    have "journal_ok pr j1" "jo_next_cursor j1 \<noteq> UINT64_MAX" "jo_next_cursor j1 = jo_next_cursor j"
      "Suc (length (jo_records j1)) \<le> unat (jo_max_records j1)"
      "total_bytes (jo_records j1) + unat (line_bytes line) \<le> unat (jo_max_bytes j1)" by auto
    from journal_ok_snoc [OF this(1,2) _ this(4,5), of ev "jo_disk j1 @ line"] this(3) durable(1,6) show ?thesis by simp
  next
    case (failed line j1 err)
    from compact_fits_ok [OF assms failed(3)] failed(4) show ?thesis by (auto simp: journal_ok_def)
  next
    case (dropped line)
    from compact_other_ok [OF assms dropped(3)] show ?thesis by simp
  next
    case (compact_error line err)
    from compact_other_ok [OF assms compact_error(3)] show ?thesis by simp
  qed (use assms in simp)
  with a show ?thesis by simp
qed

subsection \<open>The line format as an interface\<close>

text \<open>
  What recovery needs of a line format: a good record's line is ended by its only newline and decodes
  to the record.
\<close>

locale line_codec =
  fixes encode :: "'r \<Rightarrow> string" and decode :: "string \<Rightarrow> 'r option" and good :: "'r \<Rightarrow> bool"
  assumes decode_encode: "good r \<Longrightarrow> decode (encode r) = Some r"
    and line_shape: "good r \<Longrightarrow> \<exists>body. encode r = body @ [newline] \<and> newline \<notin> set body"
begin

lemma split_tail: "newline \<notin> set torn \<Longrightarrow> split_lines torn = (if torn = [] then [] else [torn])"
  by (induction torn) auto

lemma split_body: "newline \<notin> set body \<Longrightarrow> split_lines (body @ newline # rest) = (body @ [newline]) # split_lines rest"
  by (induction body) auto

lemma split_encoded:
  assumes "\<forall>r \<in> set rs. good r" and "newline \<notin> set torn"
  shows "split_lines (concat (map encode rs) @ torn) = map encode rs @ (if torn = [] then [] else [torn])"
  using assms(1)
proof (induction rs)
  case Nil
  show ?case using split_tail [OF assms(2)] by simp
next
  case (Cons r rs)
  obtain body where b: "encode r = body @ [newline]" "newline \<notin> set body" using Cons.prems line_shape by force
  from split_body [OF b(2)] Cons b(1) show ?case by simp
qed

lemma torn_encoded:
  assumes "good r" and "k < length (encode r)"
  shows "newline \<notin> set (take k (encode r))"
proof -
  obtain body where "encode r = body @ [newline]" "newline \<notin> set body" using assms(1) line_shape by blast
  with assms(2) show ?thesis by (auto dest: in_set_takeD)
qed

lemma last_encoded: "good r \<Longrightarrow> last (encode r) = newline"
  using line_shape by force

end

text \<open>
  A record that survives a write and a read: the event and the cursor are representable in JSON, and
  the printer and the parser agree on the record's object. The printed text has no newline, since
  JSON text without formatting escapes control characters.
\<close>

definition storable :: "json_printer \<Rightarrow> json_parser \<Rightarrow> JournalRecord \<Rightarrow> bool" where
  "storable pr pa r \<longleftrightarrow>
     encodable (jr_event r) \<and> jr_cursor r \<noteq> 0 \<and> safe_u64 (jr_cursor r) \<and>
     jr_bytes r = line_bytes (record_line pr r) \<and>
     (case record_json (jr_cursor r) (jr_event r) of
        None \<Rightarrow> False
      | Some tree \<Rightarrow>
          (case pr tree of
             None \<Rightarrow> False
           | Some body \<Rightarrow> newline \<notin> set body \<and> pa (body @ [newline]) = Some tree))"

lemma record_line_storable:
  assumes "storable pr pa r"
  shows "\<exists>body. record_line pr r = body @ [newline] \<and> newline \<notin> set body"
    and "record_from_line pa (record_line pr r) = Some r"
proof -
  obtain e body where e: "me_analytics_event_to_json (Some (jr_event r)) = Some e"
    and body: "pr (JObject [(''v'', JNumber (double_of_u64 ME_EVENT_JOURNAL_VERSION)),
        (''cursor'', JNumber (double_of_u64 (jr_cursor r))), (''event'', e)]) = Some body"
    and nl: "newline \<notin> set body" and enc: "encodable (jr_event r)"
    and parse: "pa (body @ [newline]) = Some (JObject [(''v'', JNumber (double_of_u64 ME_EVENT_JOURNAL_VERSION)),
        (''cursor'', JNumber (double_of_u64 (jr_cursor r))), (''event'', e)])"
    and bytes: "jr_bytes r = line_bytes (record_line pr r)" and pos: "jr_cursor r \<noteq> 0" and safe: "safe_u64 (jr_cursor r)"
    using assms by (auto simp: storable_def record_json_def split: option.splits)
  have line: "record_line pr r = body @ [newline]"
    using e body by (simp add: record_line_def record_to_line_def record_json_def)
  then show "\<exists>body. record_line pr r = body @ [newline] \<and> newline \<notin> set body" using nl by blast
  have "me_analytics_event_from_json e = Inr (jr_event r)" using from_json_encoded_iff [OF e] enc by blast
  moreover have "safe_u64 ME_EVENT_JOURNAL_VERSION"
    by (simp add: safe_u64_def ME_EVENT_JOURNAL_VERSION_def ME_JSON_SAFE_INTEGER_def)
  ultimately show "record_from_line pa (record_line pr r) = Some r"
    using pos safe bytes
    by (simp add: record_from_line_def line parse json_item_def json_u64_number line_bytes_def)
qed

interpretation journal_lines: line_codec "record_line pr" "record_from_line pa" "storable pr pa" for pr pa
  by unfold_locales (use record_line_storable in blast)+

subsection \<open>Recovery\<close>

lemma read_lines_encoded:
  assumes "\<forall>r \<in> set rs. storable pr pa r" and "sorted_wrt (<) (map jr_cursor rs)" and "\<forall>r \<in> set rs. c < jr_cursor r"
    and "torn = [] \<or> last torn \<noteq> newline"
  shows "read_lines pa c (map (record_line pr) rs @ (if torn = [] then [] else [torn])) =
         (rs, concat (map (record_line pr) rs), torn \<noteq> [])"
  using assms(1-3)
proof (induction rs arbitrary: c)
  case Nil
  show ?case using assms(4) by (cases "torn = []") simp_all
next
  case (Cons r rs)
  then have g: "storable pr pa r" by simp
  have "read_lines pa (jr_cursor r) (map (record_line pr) rs @ (if torn = [] then [] else [torn])) =
      (rs, concat (map (record_line pr) rs), torn \<noteq> [])"
    using Cons.prems by (intro Cons.IH) auto
  with Cons.prems journal_lines.last_encoded [OF g] journal_lines.decode_encode [OF g] show ?case
    by (simp add: not_le)
qed

text \<open>Opening a file that holds the lines of good records within the limits, and a torn line.\<close>

lemma open_encoded:
  assumes rs: "\<forall>r \<in> set rs. storable pr pa r" "cursors_ok rs"
    and lim: "length rs \<le> unat maxr" "total_bytes rs \<le> unat maxb" "maxr \<noteq> 0" "maxb \<noteq> 0"
    and torn: "newline \<notin> set torn" and io: "io_truncate io" and path: "path = Some p" "p \<noteq> []"
  shows "me_event_journal_open pr pa io True True path maxr maxb (concat (map (record_line pr) rs) @ torn) =
         Inr \<lparr>jo_records = rs, jo_disk = concat (map (record_line pr) rs), jo_open = True,
              jo_max_records = maxr, jo_max_bytes = maxb, jo_bytes = sum_list (map jr_bytes rs),
              jo_next_cursor = last_cursor_of rs, jo_dropped_updates = 0\<rparr>"
proof -
  have "last torn \<noteq> newline" if "torn \<noteq> []" using torn last_in_set [OF that] by metis
  then have t: "torn = [] \<or> last torn \<noteq> newline" by blast
  have "read_lines pa 0 (split_lines (concat (map (record_line pr) rs) @ torn)) =
      (rs, concat (map (record_line pr) rs), torn \<noteq> [])"
    unfolding journal_lines.split_encoded [OF rs(1) torn]
    using rs t by (intro read_lines_encoded) (auto simp: cursors_ok_def)
  moreover have "\<not> (word_of_nat (length rs) :: u32) > maxr"
    using lim(1) unsigned_less [where ?'a = nat, of maxr] by (simp add: word_less_nat_alt unat_word_of_nat)
  moreover have "\<not> sum_list (map jr_bytes rs) > maxb"
    using lim(2) unsigned_less [where ?'a = nat, of maxb] by (simp add: word_less_nat_alt unat_sum_bytes)
  ultimately show ?thesis
    using lim(3,4) io path by (auto simp: me_event_journal_open_def Let_def)
qed

lemma storable_lines_ok: "\<forall>r \<in> set rs. storable pr pa r \<Longrightarrow> lines_ok pr rs"
  unfolding lines_ok_def
proof
  fix r assume "\<forall>r \<in> set rs. storable pr pa r" "r \<in> set rs"
  then have "storable pr pa r" by blast
  then show "\<exists>line. record_to_line pr (jr_cursor r) (jr_event r) = Some line \<and> jr_bytes r = line_bytes line"
    by (auto simp: storable_def record_line_def record_to_line_def split: option.splits)
qed

lemma last_cursor_bound: "cursors_ok rs \<Longrightarrow> r \<in> set rs \<Longrightarrow> jr_cursor r \<le> last_cursor_of rs"
  by (cases rs rule: rev_cases) (auto simp: cursors_ok_def sorted_wrt_append last_cursor_of_def less_imp_le)

text \<open>The file holds the lines of the records.\<close>

definition disk_ok :: "json_printer \<Rightarrow> MeEventJournal \<Rightarrow> bool" where
  "disk_ok pr j \<longleftrightarrow> jo_disk j = concat (map (record_line pr) (jo_records j))"

lemma open_encoded_ok:
  assumes "\<forall>r \<in> set rs. storable pr pa r" "cursors_ok rs"
    and "length rs \<le> unat maxr" "total_bytes rs \<le> unat maxb" "maxr \<noteq> 0" "maxb \<noteq> 0" "maxr \<noteq> UINT32_MAX"
    and "newline \<notin> set torn" and "io_truncate io" and "p \<noteq> []"
    and "disk = concat (map (record_line pr) rs) @ torn"
  shows "\<exists>j'. me_event_journal_open pr pa io True True (Some p) maxr maxb disk = Inr j' \<and>
              jo_records j' = rs \<and> disk_ok pr j' \<and> journal_ok pr j'"
  using open_encoded [OF assms(1-6) assms(8,9) refl assms(10)] assms storable_lines_ok [OF assms(1)] last_cursor_bound [OF assms(2)]
  by (simp add: journal_ok_def disk_ok_def)

text \<open>After a compaction, completed or not, the file holds the lines of the kept records.\<close>

lemma compact_disk:
  assumes ok: "journal_ok pr j" and disk: "disk_ok pr j"
    and c: "compact_to_fit_locked pr io j inc phase = (res, j1)"
  shows "\<exists>keep. jo_disk j1 = concat (map (record_line pr) keep) \<and> set keep \<subseteq> set (jo_records j) \<and> cursors_ok keep \<and>
           boundary_entries keep = boundary_entries (jo_records j) \<and> length keep \<le> length (jo_records j) \<and>
           total_bytes keep \<le> total_bytes (jo_records j) \<and> (res = Compact_Fits \<longrightarrow> keep = jo_records j1)"
proof -
  have okr: "cursors_ok (jo_records j)" "lines_ok pr (jo_records j)" using ok by (simp_all add: journal_ok_def)
  show ?thesis
  proof (cases "jo_disk j1 = jo_disk j \<and> (res = Compact_Fits \<longrightarrow> jo_records j1 = jo_records j)")
    case True
    with disk okr show ?thesis by (intro exI [of _ "jo_records j"]) (simp add: disk_ok_def)
  next
    case False
    with c obtain keep res2 keep1 j2 where
        s: "shrink j inc (jo_records j) (sum_list (map jr_bytes (jo_records j))) = Some keep"
      and r: "rewrite_locked pr io j keep = (res2, keep1, j2)" "jo_disk j1 = jo_disk j2"
        "res = Compact_Fits \<longrightarrow> jo_records j1 = keep1 \<and> (\<exists>n. res2 = Inr n)"
      by (auto simp: compact_to_fit_locked_def Let_def split: if_splits option.splits prod.splits sum.splits)
    note sf = shrink_facts [OF s refl okr(1)]
    then have sub: "set keep \<subseteq> set (jo_records j)" by simp
    from rewrite_exact [OF okr(2,1) sub r(1)] r False s sf boundary_shrink [OF s] show ?thesis
      by (intro exI [of _ keep]) (auto split: sum.splits)
  qed
qed

text \<open>The record that an append of \<open>ev\<close> adds.\<close>

definition new_record :: "json_printer \<Rightarrow> MeEventJournal \<Rightarrow> MeAnalyticsEvent \<Rightarrow> JournalRecord" where
  "new_record pr j ev =
     (let c = jo_next_cursor j + 1
      in \<lparr>jr_cursor = c, jr_event = ev, jr_bytes = line_bytes (case record_to_line pr c ev of None \<Rightarrow> [] | Some line \<Rightarrow> line)\<rparr>)"

text \<open>What a failed append leaves in the file behind the old lines: a part of the new line.\<close>

lemma failed_append_tail:
  assumes "io_truncate io \<longrightarrow> io_late_flush io = 0"
  shows "\<exists>n. (if io_truncate io then [] else take k line) @ take (io_late_flush io) (drop k line) = take n line"
  using assms by (cases "io_truncate io") (auto intro: exI [of _ 0] exI [of _ "k + io_late_flush io"] simp: take_add)

text \<open>The file is made of the lines of kept records, which lack only updates, and a part of the new line.\<close>

definition kept_disk :: "json_printer \<Rightarrow> MeEventJournal \<Rightarrow> JournalRecord list \<Rightarrow> nat \<Rightarrow> string \<Rightarrow> string \<Rightarrow> bool" where
  "kept_disk pr j keep n line disk \<longleftrightarrow>
     disk = concat (map (record_line pr) keep) @ take n line \<and> set keep \<subseteq> set (jo_records j) \<and> cursors_ok keep \<and>
     boundary_entries keep = boundary_entries (jo_records j) \<and>
     length keep + (if n = 0 then 0 else 1) \<le> unat (jo_max_records j) \<and>
     total_bytes keep + (if n = 0 then 0 else unat (line_bytes line)) \<le> unat (jo_max_bytes j)"

lemma compact_kept_disk:
  assumes "journal_ok pr j" and "disk_ok pr j" and "compact_to_fit_locked pr io j inc phase = (res, j1)"
  shows "\<exists>keep. kept_disk pr j keep 0 line (jo_disk j1)"
proof -
  from compact_disk [OF assms] obtain keep where
    "jo_disk j1 = concat (map (record_line pr) keep)" "set keep \<subseteq> set (jo_records j)" "cursors_ok keep"
    "boundary_entries keep = boundary_entries (jo_records j)" "length keep \<le> length (jo_records j)"
    "total_bytes keep \<le> total_bytes (jo_records j)" by blast
  with assms(1) have "kept_disk pr j keep 0 line (jo_disk j1)" by (simp add: kept_disk_def journal_ok_def)
  then show ?thesis by blast
qed

lemma compact_fits_kept_disk:
  assumes "journal_ok pr j" and "disk_ok pr j" and "compact_to_fit_locked pr io j (line_bytes line) phase = (Compact_Fits, j1)"
  shows "kept_disk pr j (jo_records j1) n line (jo_disk j1 @ take n line)"
proof -
  have "cursors_ok (jo_records j1)" "Suc (length (jo_records j1)) \<le> unat (jo_max_records j1)"
    "total_bytes (jo_records j1) + unat (line_bytes line) \<le> unat (jo_max_bytes j1)"
    using compact_fits_ok [OF assms(1,3)] by (auto simp: journal_ok_def)
  with compact_disk [OF assms] compact_limits [OF assms(3)] show ?thesis by (auto simp: kept_disk_def)
qed

lemma append_disk:
  assumes ok: "journal_ok pr j" "disk_ok pr j" and flush: "io_truncate io \<longrightarrow> io_late_flush io = 0"
    and new: "record_to_line pr (jo_next_cursor j + 1) ev = Some line"
    and a: "me_event_journal_append pr io j (Some ev) = (res, j')"
  shows "\<exists>keep n. kept_disk pr j keep n line (jo_disk j') \<and>
           (case res of Append_Durable c \<Rightarrow> n = length line \<and> jo_records j' = keep @ [new_record pr j ev] | _ \<Rightarrow> True)"
  using a
proof (cases rule: append_cases)
  case (rejected err)
  with ok have "kept_disk pr j (jo_records j) 0 line (jo_disk j')"
    by (simp add: journal_ok_def disk_ok_def kept_disk_def)
  with rejected show ?thesis by auto
next
  case (dropped l)
  with compact_kept_disk [OF ok dropped(3), of line] show ?thesis by auto
next
  case (compact_error l err)
  with compact_kept_disk [OF ok compact_error(3), of line] show ?thesis by auto
next
  case (failed l j1 err)
  have l: "l = line" using failed(1) new by simp
  obtain n where "jo_disk j' = jo_disk j1 @ take n line"
  proof (cases "j' = j1")
    case True
    with that [of 0] show thesis by simp
  next
    case False
    with failed(4) l obtain k where
      "j' = j1\<lparr>jo_disk := jo_disk j1 @ (if io_truncate io then [] else take k line) @ take (io_late_flush io) (drop k line)\<rparr>"
      by blast
    with failed_append_tail [OF flush, of k line] that show thesis by auto
  qed
  with compact_fits_kept_disk [OF ok failed(3) [unfolded l], of n] failed(2) show ?thesis by auto
next
  case (durable l j1)
  have l: "l = line" using durable(1) new by simp
  with durable compact_fits_kept_disk [OF ok durable(4) [unfolded l], of "length line"] new show ?thesis
    by (intro exI [of _ "jo_records j1"] exI [of _ "length line"]) (simp add: new_record_def)
qed

text \<open>What is recovered from such a file.\<close>

lemma open_kept_disk:
  assumes ok: "journal_ok pr j" and "jo_max_bytes j \<noteq> 0" and cur: "jo_next_cursor j \<noteq> UINT64_MAX"
    and st: "\<forall>r \<in> set (jo_records j @ [new_record pr j ev]). storable pr pa r"
    and line: "record_line pr (new_record pr j ev) = line"
    and kept: "kept_disk pr j keep n line disk" and io: "io_truncate io"
  shows "\<exists>j'. me_event_journal_open pr pa io True True (Some ''journal'') (jo_max_records j) (jo_max_bytes j) disk = Inr j' \<and>
              jo_records j' = (if n < length line then keep else keep @ [new_record pr j ev]) \<and>
              disk_ok pr j' \<and> journal_ok pr j'"
proof -
  let ?new = "new_record pr j ev"
  let ?rs = "if n < length line then keep else keep @ [?new]"
  let ?torn = "if n < length line then take n line else []"
  have new: "storable pr pa ?new" using st by simp
  have n: "line \<noteq> []" using record_line_storable(1) [OF new] line by auto
  have disk: "disk = concat (map (record_line pr) ?rs) @ ?torn" using kept line by (simp add: kept_disk_def)
  have sub: "set keep \<subseteq> set (jo_records j)" "cursors_ok keep" using kept by (simp_all add: kept_disk_def)
  have lt: "jo_next_cursor j < jr_cursor ?new" "0 < jr_cursor ?new"
    using unat_plus_one [OF cur] by (simp_all add: new_record_def Let_def word_less_nat_alt)
  have "\<forall>r \<in> set keep. jr_cursor r < jr_cursor ?new"
    using sub(1) ok lt(1) unfolding journal_ok_def by (meson le_less_trans subsetD)
  then have cur: "cursors_ok ?rs" using sub lt(2) by (auto simp: cursors_ok_def sorted_wrt_append)
  have "jr_bytes ?new = line_bytes line" using new line by (simp add: storable_def)
  then have lim: "length ?rs \<le> unat (jo_max_records j)" "total_bytes ?rs \<le> unat (jo_max_bytes j)"
    using kept n by (auto simp: kept_disk_def total_bytes_def split: if_splits)
  have rs: "\<forall>r \<in> set ?rs. storable pr pa r" using st sub(1) by auto
  have torn: "newline \<notin> set ?torn" using journal_lines.torn_encoded [OF new] line by simp
  have "jo_max_records j \<noteq> 0" "jo_max_records j \<noteq> UINT32_MAX" using ok by (simp_all add: journal_ok_def)
  from open_encoded_ok [OF rs cur lim this(1) assms(2) this(2) torn io _ disk, of "''journal''"] show ?thesis by simp
qed

text \<open>
  C19: a restart recovers the journal, whatever the system calls of the last append did and wherever
  the process died in it. Every START and END record acknowledged before is recovered, in order; an
  append that reported success is recovered in full; of one that did not, the record may be present
  (its line was complete) or absent. The reopened journal satisfies the invariant and its file holds
  exactly its records. The records must survive the JSON printer and parser (\<open>storable\<close>), and a
  rollback that truncates must not be followed by a late flush.
\<close>

theorem crash_recovery:
  assumes "journal_ok pr j" and "disk_ok pr j" and "jo_max_bytes j \<noteq> 0" and "jo_next_cursor j \<noteq> UINT64_MAX"
    and "\<forall>r \<in> set (jo_records j @ [new_record pr j ev]). storable pr pa r"
    and "io_truncate io \<longrightarrow> io_late_flush io = 0"
    and "me_event_journal_append pr io j (Some ev) = (res, j')" and "io_truncate io'"
  shows "\<exists>j''. me_event_journal_open pr pa io' True True (Some ''journal'') (jo_max_records j) (jo_max_bytes j) (jo_disk j')
                 = Inr j'' \<and> journal_ok pr j'' \<and> disk_ok pr j'' \<and>
               (case res of
                  Append_Durable c \<Rightarrow> jo_records j'' = jo_records j'
                | _ \<Rightarrow> boundary_entries (jo_records j'') = boundary_entries (jo_records j) \<or>
                       boundary_entries (jo_records j'') = boundary_entries (jo_records j @ [new_record pr j ev]))"
proof -
  let ?new = "new_record pr j ev"
  have "storable pr pa ?new" using assms(5) by simp
  then obtain line where line: "record_to_line pr (jo_next_cursor j + 1) ev = Some line"
    using storable_lines_ok [of "[?new]" pr pa] by (auto simp: lines_ok_def new_record_def Let_def)
  then have l: "record_line pr ?new = line" by (simp add: record_line_def new_record_def Let_def)
  from append_disk [OF assms(1,2,6) line assms(7)] obtain keep n where
    kept: "kept_disk pr j keep n line (jo_disk j')"
    and res: "case res of Append_Durable c \<Rightarrow> n = length line \<and> jo_records j' = keep @ [?new] | _ \<Rightarrow> True" by blast
  from kept have "boundary_entries keep = boundary_entries (jo_records j)" by (simp add: kept_disk_def)
  then have "boundary_entries (keep @ [?new]) = boundary_entries (jo_records j @ [?new])" by (simp add: boundary_append)
  with open_kept_disk [OF assms(1,3,4,5) l kept assms(8)] res \<open>boundary_entries keep = _\<close> show ?thesis
    by (cases res) auto
qed

subsection \<open>A concrete journal\<close>

text \<open>A printer and a parser that agree on one record, an empty journal and system calls that succeed.\<close>

definition demo_print :: json_printer where
  "demo_print tree = Some ''x''"

definition demo_parse :: json_parser where
  "demo_parse line = record_json 1 sample_event"

definition demo_journal :: MeEventJournal where
  "demo_journal = \<lparr>jo_records = [], jo_disk = [], jo_open = True, jo_max_records = 4, jo_max_bytes = 100,
     jo_bytes = 0, jo_next_cursor = 0, jo_dropped_updates = 0\<rparr>"

definition demo_io :: JournalIo where
  "demo_io = \<lparr>io_tmp_open = True, io_tmp_fdopen = True, io_tmp_write = (\<lambda>_. True), io_tmp_sync = True, io_tmp_close = True,
     io_rename = True, io_reopen = True, io_reopen_seek = True, io_seek = True, io_tell = True, io_append = None,
     io_truncate = True, io_late_flush = 0\<rparr>"

lemma demo_journal_ok: "journal_ok demo_print demo_journal" "disk_ok demo_print demo_journal"
  by (simp_all add: journal_ok_def disk_ok_def demo_journal_def cursors_ok_def lines_ok_def total_bytes_def)

lemma demo_record_json: "\<exists>tree. record_json 1 sample_event = Some tree"
  by (simp add: record_json_def me_analytics_event_to_json_def sample_event_def zero_event_def)

lemma demo_line: "record_to_line demo_print 1 sample_event = Some ''x\<newline>''"
  using demo_record_json by (auto simp: record_to_line_def demo_print_def)

lemma demo_storable: "storable demo_print demo_parse (new_record demo_print demo_journal sample_event)"
  using demo_record_json sample_event_encodable
  by (auto simp: storable_def new_record_def demo_journal_def Let_def record_line_def demo_line demo_print_def
      demo_parse_def safe_u64_def ME_JSON_SAFE_INTEGER_def)

lemma demo_append:
  "me_event_journal_append demo_print demo_io demo_journal (Some sample_event) =
     (Append_Durable 1,
      demo_journal\<lparr>jo_disk := ''x\<newline>'', jo_records := [new_record demo_print demo_journal sample_event],
                   jo_bytes := 2, jo_next_cursor := 1\<rparr>)"
proof -
  have "ev_phase sample_event = ME_EVENT_PHASE_START" by (simp add: sample_event_def)
  then show ?thesis
    by (simp add: me_event_journal_append_def demo_journal_def demo_io_def demo_line compact_to_fit_locked_def fits_def
        Let_def line_bytes_def new_record_def)
qed

theorem append_keeps_limits_witness:
  "journal_ok demo_print (snd (me_event_journal_append demo_print demo_io demo_journal (Some sample_event)))"
  using append_keeps_limits [OF demo_journal_ok(1)] by simp

theorem crash_recovery_witness:
  "\<exists>j''. me_event_journal_open demo_print demo_parse demo_io True True (Some ''journal'') 4 100
           (jo_disk (snd (me_event_journal_append demo_print demo_io demo_journal (Some sample_event)))) = Inr j'' \<and>
         map jr_event (jo_records j'') = [sample_event]"
proof -
  have c: "jo_max_bytes demo_journal \<noteq> 0" "jo_next_cursor demo_journal \<noteq> UINT64_MAX"
    "\<forall>r \<in> set (jo_records demo_journal @ [new_record demo_print demo_journal sample_event]). storable demo_print demo_parse r"
    "io_truncate demo_io \<longrightarrow> io_late_flush demo_io = 0" "io_truncate demo_io"
    using demo_storable by (simp_all add: demo_journal_def demo_io_def)
  have m: "jo_max_records demo_journal = 4" "jo_max_bytes demo_journal = 100" by (simp_all add: demo_journal_def)
  from crash_recovery [OF demo_journal_ok c(1-4) demo_append c(5), unfolded m] show ?thesis
    unfolding demo_append by (auto simp: new_record_def Let_def)
qed

end
