(* ===== verification/Event_Log.thy ===== *)
theory Event_Log
  imports Journal_Facts
begin

text \<open>
  What the engine and the control socket rely on of the event journal: an interface of a log with
  cursors. An append either refuses the event or makes it durable under a cursor above all earlier ones; the
  boundary records, those of START and END, only grow by the appended one. The journal implements it.
\<close>

locale event_log =
  fixes append :: "'io \<Rightarrow> 'log \<Rightarrow> 'ev \<Rightarrow> ('c :: linorder) option \<times> 'log"
    and boundaries :: "'log \<Rightarrow> ('c \<times> 'ev) list"
    and latest :: "'log \<Rightarrow> 'c"
    and is_boundary :: "'ev \<Rightarrow> bool"
  assumes append_durable: "append io l ev = (Some c, l') \<Longrightarrow>
      boundaries l' = boundaries l @ (if is_boundary ev then [(c, ev)] else []) \<and> latest l < c \<and> latest l' = c"
    and append_refused: "append io l ev = (None, l') \<Longrightarrow> boundaries l' = boundaries l \<and> latest l' = latest l"
begin

text \<open>
  The log \<open>l'\<close> extends \<open>l\<close> by the deliveries \<open>ds\<close>: their boundary records are the new ones, and their
  cursors lie between the latest ones of the two and increase.
\<close>

definition extends :: "'log \<Rightarrow> 'log \<Rightarrow> ('c \<times> 'ev) list \<Rightarrow> bool" where
  "extends l l' ds \<longleftrightarrow>
     boundaries l' = boundaries l @ filter (\<lambda>d. is_boundary (snd d)) ds \<and>
     sorted_wrt (<) (map fst ds) \<and> latest l \<le> latest l' \<and> (\<forall>d \<in> set ds. latest l < fst d \<and> fst d \<le> latest l')"

lemma extends_refl: "extends l l []"
  by (simp add: extends_def)

lemma extends_trans:
  assumes "extends l l1 ds" and "extends l1 l2 ds'"
  shows "extends l l2 (ds @ ds')"
proof -
  have "sorted_wrt (<) (map fst (ds @ ds'))"
    using assms by (fastforce simp: extends_def sorted_wrt_append intro: le_less_trans)
  moreover have "latest l \<le> latest l1" "latest l1 \<le> latest l2" using assms by (auto simp: extends_def)
  moreover have "\<forall>d \<in> set (ds @ ds'). latest l < fst d \<and> fst d \<le> latest l2"
    using assms calculation(2,3) unfolding extends_def by (auto intro: order.trans le_less_trans)
  ultimately show ?thesis using assms by (simp add: extends_def)
qed

lemma append_extends:
  "append io l ev = (co, l') \<Longrightarrow> extends l l' (case co of None \<Rightarrow> [] | Some c \<Rightarrow> [(c, ev)])"
  using append_durable append_refused by (cases co) (fastforce simp: extends_def intro: less_imp_le)+

text \<open>What a reader that holds the cursor \<open>k\<close> still has to see grows by the deliveries.\<close>

lemma extends_after:
  assumes "extends l l' ds" and "k \<le> latest l"
  shows "filter (\<lambda>d. k < fst d) (boundaries l') = filter (\<lambda>d. k < fst d) (boundaries l) @ filter (\<lambda>d. is_boundary (snd d)) ds"
proof -
  have "k < fst d" if "d \<in> set ds" for d using that assms by (auto simp: extends_def intro: le_less_trans)
  then have "filter (\<lambda>d. k < fst d) (filter (\<lambda>d. is_boundary (snd d)) ds) = filter (\<lambda>d. is_boundary (snd d)) ds"
    by (intro filter_True) auto
  then show ?thesis using assms(1) by (simp add: extends_def)
qed

end

text \<open>The append of the journal as the engine uses it: the cursor of a durable record, or nothing.\<close>

definition journal_append :: "json_printer \<Rightarrow> JournalIo \<Rightarrow> MeEventJournal \<Rightarrow> MeAnalyticsEvent \<Rightarrow> u64 option \<times> MeEventJournal" where
  "journal_append pr io j ev =
     (case me_event_journal_append pr io j (Some ev) of
        (Append_Durable cursor, j') \<Rightarrow> (Some cursor, j')
      | (_, j') \<Rightarrow> (None, j'))"

definition boundary_event :: "MeAnalyticsEvent \<Rightarrow> bool" where
  "boundary_event ev \<longleftrightarrow> ev_phase ev \<noteq> ME_EVENT_PHASE_UPDATE"

interpretation jlog: event_log "journal_append pr" "\<lambda>j. boundary_entries (jo_records j)" jo_next_cursor boundary_event for pr
proof
  fix io j ev c j'
  assume "journal_append pr io j ev = (Some c, j')"
  then show "boundary_entries (jo_records j') = boundary_entries (jo_records j) @ (if boundary_event ev then [(c, ev)] else []) \<and>
      jo_next_cursor j < c \<and> jo_next_cursor j' = c"
    using append_boundaries [where pr = pr and io = io and j = j and ev = ev]
    by (auto simp: journal_append_def boundary_event_def word_less_nat_alt split: prod.splits AppendResult.splits)
next
  fix io j ev j'
  assume "journal_append pr io j ev = (None, j')"
  then show "boundary_entries (jo_records j') = boundary_entries (jo_records j) \<and> jo_next_cursor j' = jo_next_cursor j"
    using append_boundaries [where pr = pr and io = io and j = j and ev = ev] by (auto simp: journal_append_def split: prod.splits AppendResult.splits)
qed

end
