(* ===== verification/Engine_Facts.thy ===== *)
theory Engine_Facts
  imports Engine_Runs Event_Demo Journal_Recovery Event_Log
begin

text \<open>
  What the engine promises: an accepted configuration starts, a stopped branch can be started again,
  a lease expires exactly after its time, and the events that reach the sink are those of the journal.
\<close>

subsection \<open>Start of the engine\<close>

lemma apply_options_valid: "apply_options cfg opts = (Cli_Ok, cfg') \<Longrightarrow> engine_config_validate (Some cfg') = None"
  by (induction cfg opts rule: apply_options.induct) (auto split: if_splits option.splits prod.splits)

text \<open>
  C16: a configuration that the command line accepted always starts the engine: the event engine takes
  its analytics section, whatever the journal, the camera, the pipeline and the detector do.
\<close>

theorem accepted_configuration_starts:
  assumes "engine_config_apply_cli files getopt (Some cfg0) argv = (Cli_Ok, Some cfg)"
  shows "\<exists>e. engine_init io log_text fs cfg = Inr e \<and> eg_cfg e = cfg \<and> engine_get_status e =
    \<lparr>es_running = False, es_fps = 0, es_bitrate = 0, es_session_id = [], es_channel_id = [], es_dest_ip = [],
     es_dest_port = 0, es_ssrc = 0\<rparr>"
proof -
  have "engine_config_validate (Some cfg) = None"
    using assms apply_options_valid
    by (auto simp: engine_config_apply_cli_def split: if_splits option.splits prod.splits)
  then have "\<exists>u. me_analytics_config_validate (Some (ec_analytics cfg)) = Inr u"
    by (auto simp: engine_config_validate_def split: sum.splits if_splits)
  then show ?thesis
    by (auto simp: engine_init_def me_event_engine_init_def Let_def engine_get_status_def session_mgr_new_def
        session_mgr_active_def split: prod.splits)
qed

subsection \<open>Delivery\<close>

lemma attach_evidence_journal: "attach_evidence io e ev = (ev', e') \<Longrightarrow> eg_event_journal e' = eg_event_journal e"
  by (auto simp: attach_evidence_def split: if_splits option.splits prod.splits)

lemma analytics_event_extends:
  assumes "engine_analytics_event io e ev = (e', d)" and "eg_event_journal e = Some j"
  shows "\<exists>j'. eg_event_journal e' = Some j' \<and> jlog.extends j j' (case d of None \<Rightarrow> [] | Some x \<Rightarrow> [x])"
proof -
  obtain ev1 e1 where a: "attach_evidence io e ev = (ev1, e1)" by fastforce
  obtain res j' where b: "me_event_journal_append (ev_print io) (ev_journal_io io) j (Some ev1) = (res, j')" by fastforce
  have "journal_append (ev_print io) (ev_journal_io io) j ev1 = (case res of Append_Durable c \<Rightarrow> Some c | _ \<Rightarrow> None, j')"
    using b by (simp add: journal_append_def split: AppendResult.splits)
  from jlog.append_extends [OF this] show ?thesis
    using assms a b by (auto simp: engine_analytics_event_def split: AppendResult.splits)
qed

lemma handle_events_extends:
  assumes "handle_events evs ios e = (e', ds)" and "eg_event_journal e = Some j"
  shows "\<exists>j'. eg_event_journal e' = Some j' \<and> jlog.extends j j' ds"
  using assms
proof (induction evs arbitrary: ios e j ds)
  case Nil
  then show ?case by (simp add: jlog.extends_refl)
next
  case (Cons ev evs)
  obtain e1 d where d: "engine_analytics_event (ios 0) e ev = (e1, d)" by fastforce
  obtain ds1 where ds1: "handle_events evs (\<lambda>n. ios (Suc n)) e1 = (e', ds1)"
    using Cons.prems(1) d by (auto split: prod.splits)
  obtain j1 where j1: "eg_event_journal e1 = Some j1" "jlog.extends j j1 (case d of None \<Rightarrow> [] | Some x \<Rightarrow> [x])"
    using analytics_event_extends [OF d Cons.prems(2)] by blast
  obtain j' where j': "eg_event_journal e' = Some j'" "jlog.extends j1 j' ds1" using Cons.IH [OF ds1 j1(1)] by blast
  have "ds = (case d of None \<Rightarrow> [] | Some x \<Rightarrow> [x]) @ ds1" using Cons.prems(1) d ds1 by (auto split: option.splits)
  with jlog.extends_trans [OF j1(2) j'(2)] j'(1) show ?case by simp
qed

lemma handle_events_no_journal:
  "handle_events evs ios e = (e', ds) \<Longrightarrow> eg_event_journal e = None \<Longrightarrow> ds = [] \<and> eg_event_journal e' = None"
  by (induction evs arbitrary: ios e ds) (auto simp: engine_analytics_event_def split: prod.splits)

text \<open>
  C9: the events that an observation sends to the sink are those the journal made durable. Without a
  journal nothing is sent. With one, the START and END records the journal gains are exactly those
  sent, in the same order and with the same cursors, whatever the system calls do; the cursors sent
  increase strictly and are new.
\<close>

theorem delivered_events_are_durable:
  assumes "engine_analytics_observation ios e ob = (e', ds)"
  shows "case eg_event_journal e of
           None \<Rightarrow> ds = []
         | Some j \<Rightarrow> \<exists>j'. eg_event_journal e' = Some j' \<and>
             boundary_entries (jo_records j') =
               boundary_entries (jo_records j) @ filter (\<lambda>d. ev_phase (snd d) \<noteq> ME_EVENT_PHASE_UPDATE) ds \<and>
             sorted_wrt (<) (map fst ds) \<and> (\<forall>d \<in> set ds. jo_next_cursor j < fst d \<and> fst d \<le> jo_next_cursor j')"
proof (cases "eg_analytics_initialized e")
  case True
  obtain evs e1 where h: "handle_events evs ios e1 = (e', ds)" and j: "eg_event_journal e1 = eg_event_journal e"
    using assms True by (auto simp: engine_analytics_observation_def Let_def split: prod.splits)
  show ?thesis
  proof (cases "eg_event_journal e")
    case None
    then show ?thesis using handle_events_no_journal [OF h] j by simp
  next
    case (Some jo)
    then show ?thesis using handle_events_extends [OF h, of jo] j by (auto simp: jlog.extends_def boundary_event_def)
  qed
next
  case False
  then show ?thesis using assms by (auto simp: engine_analytics_observation_def split: option.splits)
qed

subsection \<open>Stopping and starting again\<close>

text \<open>The calls that attach a created branch succeed.\<close>

definition attaches :: "StartOutcome \<Rightarrow> bool" where
  "attaches so \<longleftrightarrow> so_bin_add so \<and> so_queue so \<and> so_sink_pad so \<and> so_tee_pad so \<and> so_pad_link so \<and> so_playing so"

lemma start_live_succeeds:
  assumes "start_free r" and "sp_codec p = ''h264''" and "create_live_branch so p (ec_stream_rotation (gr_cfg r)) = Some settings"
    and "attaches so"
  shows "fst (gst_runner_start_live so p r) = ME_ERR_OK"
  using assms by (auto simp: gst_runner_start_live_def start_free_def attaches_def Let_def)

lemma stop_active:
  assumes "live_ok r" and "streaming r = Some sid" and "ret \<noteq> GST_STATE_CHANGE_FAILURE"
  shows "\<exists>r'. gst_runner_stop_live True ret sid r = (ME_ERR_OK, r') \<and> gr_base_ready r' = gr_base_ready r \<and> gr_cfg r' = gr_cfg r \<and>
    gr_event_cb r' = gr_event_cb r \<and>
    lv_phase (gr_live r') = (if ret = GST_STATE_CHANGE_ASYNC then LIVE_PHASE_WAITING_NULL else LIVE_PHASE_BUS_DRAIN)"
proof -
  have "gr_branch_active r" "lv_phase (gr_live r) = LIVE_PHASE_ACTIVE" "lv_session_id (gr_live r) = sid"
    "\<not> lv_teardown_idle (gr_live r)"
    using assms(1,2) by (auto simp: streaming_def live_ok_def Let_def split: if_splits)
  moreover have "gr_event_cb (change_stream c x) = gr_event_cb x" for c x
    by (simp add: change_stream_def Let_def split: option.splits)
  ultimately show ?thesis
    using assms(3) by (simp add: gst_runner_stop_live_def live_branch_teardown_def set_phase_def live_branch_schedule_destroy_def Let_def)
qed

lemma stop_live_result:
  assumes "engine_coupled e" and "eg_runner e = Some r" and "streaming r = Some sid" and "ret \<noteq> GST_STATE_CHANGE_FAILURE"
  shows "\<exists>r' m'. engine_stop_live True ret e sid = (ME_ERR_OK, e\<lparr>eg_sessions := Some m', eg_runner := Some r'\<rparr>) \<and>
    sm_sessions m' = [] \<and> gst_runner_stop_live True ret sid r = (ME_ERR_OK, r')"
proof -
  obtain m where m: "eg_sessions e = Some m" "live_ok r" "length (sm_sessions m) \<le> 1" "session_mgr_has m sid"
    using assms(1-3) by (auto simp: engine_coupled_def)
  obtain x where x: "sm_sessions m = [(sid, x)]" using single_session [OF m(3,4)] .
  obtain r' where r': "gst_runner_stop_live True ret sid r = (ME_ERR_OK, r')" using stop_active [OF m(2) assms(3,4)] by blast
  then show ?thesis
    using assms(2) m x by (auto simp: engine_stop_live_def session_mgr_stop_def backend_functions)
qed

text \<open>
  C10: a live session can be stopped and another one started. The stop succeeds unless the branch
  refuses the state change; after the message that the branch reached NULL, where that is pending, the
  idle callback is scheduled; once it ran, a valid request whose branch can be built and attached is
  accepted.
\<close>

theorem stopped_branch_restarts:
  assumes "engine_init io log_text fs cfg = Inr e0" and "engine_step\<^sup>*\<^sup>* e0 e"
    and "eg_runner e = Some r" and "streaming r = Some sid" and "ret \<noteq> GST_STATE_CHANGE_FAILURE"
    and "gr_base_ready r" and "aq_started (eg_aiq e)"
    and "sp_width p = ec_width (eg_cfg e)" "sp_height p = ec_height (eg_cfg e)" "sp_fps p = ec_fps (eg_cfg e)"
    and "sp_codec p = ''h264''" "create_live_branch so p (ec_stream_rotation (gr_cfg r)) \<noteq> None" "attaches so"
    and "e1 = snd (engine_stop_live True ret e sid)"
    and "e2 = (if ret = GST_STATE_CHANGE_ASYNC
               then fst (engine_bus_message True ret1 (GST_MESSAGE_STATE_CHANGED True True True) e1) else e1)"
  shows "fst (engine_stop_live True ret e sid) = ME_ERR_OK \<and>
    (\<exists>r2. eg_runner e2 = Some r2 \<and> lv_teardown_idle (gr_live r2) \<and>
       fst (engine_start_live so now (e2\<lparr>eg_runner := Some (live_branch_destroy_idle r2)\<rparr>) p) = ME_ERR_OK)"
proof -
  have c: "engine_coupled e" by (rule run_coupled [OF assms(2) init_coupled [OF assms(1)]])
  have ok: "live_ok r" using c assms(3) by (auto simp: engine_coupled_def)
  obtain r1 m1 where s: "engine_stop_live True ret e sid = (ME_ERR_OK, e\<lparr>eg_sessions := Some m1, eg_runner := Some r1\<rparr>)"
    and m1: "sm_sessions m1 = []" and g: "gst_runner_stop_live True ret sid r = (ME_ERR_OK, r1)"
    using stop_live_result [OF c assms(3-5)] by blast
  have r1: "live_ok r1" "gr_base_ready r1" "gr_cfg r1 = gr_cfg r"
    "lv_phase (gr_live r1) = (if ret = GST_STATE_CHANGE_ASYNC then LIVE_PHASE_WAITING_NULL else LIVE_PHASE_BUS_DRAIN)"
    using stop_active [OF ok assms(4,5)] stop_live_ok [OF ok g] g assms(6) by auto
  define r2 where "r2 = (if ret = GST_STATE_CHANGE_ASYNC then bus_update (GST_MESSAGE_STATE_CHANGED True True True) r1 else r1)"
  have e2: "e2 = e\<lparr>eg_sessions := Some m1, eg_runner := Some r2\<rparr>"
    using assms(14,15) s by (simp add: r2_def engine_bus_message_def bus_event_def Let_def split: if_splits)
  have r2: "live_ok r2" "gr_base_ready r2" "gr_cfg r2 = gr_cfg r" "lv_phase (gr_live r2) = LIVE_PHASE_BUS_DRAIN"
    using r1 bus_update_ok [of r1] unfolding r2_def
    by (auto simp: bus_update_def live_branch_schedule_destroy_def live_ok_def Let_def)
  then have idle: "lv_teardown_idle (gr_live r2)" by (simp add: live_ok_def Let_def)
  let ?r3 = "live_branch_destroy_idle r2"
  have "start_free ?r3" "gr_cfg ?r3 = gr_cfg r"
    using r2 destroy_idle_ok [OF r2(1) idle] by (auto simp: start_free_def live_branch_destroy_idle_def live_ok_def Let_def)
  then have "fst (gst_runner_start_live so p ?r3) = ME_ERR_OK"
    using start_live_succeeds assms(11-13) by auto
  then show ?thesis
    using s m1 e2 idle assms(7-11)
    by (auto simp: engine_start_live_def session_mgr_start_def session_mgr_has_def backend_functions split: prod.splits)
qed

subsection \<open>Leases\<close>

lemma stop_without_failure:
  "live_ok r \<Longrightarrow> ret \<noteq> GST_STATE_CHANGE_FAILURE \<Longrightarrow> fst (gst_runner_stop_live tee ret sid r) \<in> {ME_ERR_OK, ME_ERR_NOT_FOUND}"
  by (simp add: gst_runner_stop_live_def Let_def)

text \<open>
  C11: a keep-alive at time \<open>t\<close> renews the lease of a session for the configured number of seconds. A check
  before that time changes nothing; from that time on it stops the session, which is then neither
  registered nor streaming, unless the branch refuses the state change.
\<close>

theorem lease_expiry_exact:
  assumes "engine_init io log_text fs cfg = Inr e0" and "engine_step\<^sup>*\<^sup>* e0 e"
    and "eg_sessions e = Some m" and "session_mgr_has m sid" and "length sid < ME_SESSION_ID_MAX"
    and "ec_live_lease_timeout_s (eg_cfg e) = timeout" and "0 < timeout"
    and "engine_keepalive_live t e sid = (rc, e1)" and "ret \<noteq> GST_STATE_CHANGE_FAILURE"
  shows "rc = ME_ERR_OK \<and>
    (if now < t + timeout * 1000000 then engine_reap_expired True ret now e1 = (0, e1, None)
     else \<exists>e2 ev m2 r2. engine_reap_expired True ret now e1 = (1, e2, ev) \<and> eg_sessions e2 = Some m2 \<and> sm_sessions m2 = [] \<and>
            eg_runner e2 = Some r2 \<and> streaming r2 = None)"
proof -
  have c: "engine_coupled e" by (rule run_coupled [OF assms(2) init_coupled [OF assms(1)]])
  then obtain r where r: "eg_runner e = Some r" "live_ok r" and one: "length (sm_sessions m) \<le> 1"
    using assms(3) by (auto simp: engine_coupled_def)
  obtain x where x: "sm_sessions m = [(sid, x)]" using single_session [OF one assms(4)] .
  define m1 where "m1 = m\<lparr>sm_sessions := [(sid, x\<lparr>ms_last_activity_us := t\<rparr>)]\<rparr>"
  have e1: "rc = ME_ERR_OK" "e1 = e\<lparr>eg_sessions := Some m1\<rparr>"
    using assms(3,4,8) x by (auto simp: engine_keepalive_live_def session_mgr_touch_def m1_def)
  have c1: "engine_coupled e1" by (rule step_coupled [OF engine_step.keepalive [OF assms(8)] c])
  have expired: "session_mgr_expired m1 now (timeout * 1000000) ME_SESSION_ID_MAX =
      (if now < t + timeout * 1000000 then None else Some sid)"
    using assms(5,7) by (simp add: session_mgr_expired_def m1_def)
  show ?thesis
  proof (cases "now < t + timeout * 1000000")
    case True
    then show ?thesis using e1 assms(6,7) expired by (simp add: engine_reap_expired_def)
  next
    case False
    obtain rc2 r2 where g: "gst_runner_stop_live True ret sid r = (rc2, r2)" by fastforce
    have rc2: "rc2 = ME_ERR_OK \<or> rc2 = ME_ERR_NOT_FOUND" using stop_without_failure [OF r(2) assms(9), of True sid] g by simp
    have s: "engine_stop_live True ret e1 sid = (ME_ERR_OK, e1\<lparr>eg_sessions := Some (m1\<lparr>sm_sessions := []\<rparr>), eg_runner := Some r2\<rparr>)"
      using e1 r(1) g rc2 by (auto simp: engine_stop_live_def session_mgr_stop_def session_mgr_has_def backend_functions m1_def)
    have "streaming r2 = None"
    proof (cases "streaming r")
      case None
      then show ?thesis using stop_live_streaming [OF r(2) g] by simp
    next
      case (Some y)
      then have "y = sid" using c assms(3) r(1) x by (auto simp: engine_coupled_def session_mgr_has_def split: if_splits)
      then show ?thesis using stop_live_streaming [OF r(2) g] Some by simp
    qed
    then show ?thesis
      using False e1 assms(6,7) expired s by (auto simp: engine_reap_expired_def)
  qed
qed

subsection \<open>A concrete engine\<close>

text \<open>The default configuration, hardware that works and one live session.\<close>

definition demo_init_io :: InitIo where
  "demo_init_io =
     \<lparr>ii_print = demo_print, ii_parse = demo_parse, ii_journal_io = demo_io, ii_journal_setup = True, ii_journal_read = True,
      ii_aiq = \<lparr>ai_enum = 0, ai_phy_id = 0, ai_sensor_name = ''imx'', ai_init = True, ai_prepare = 0, ai_start = 0,
                ai_focus_mode = 0, ai_oneshot = 0\<rparr>,
      ii_sha = (\<lambda>_. []), ii_ls = (\<lambda>_. []),
      ii_evidence_io = \<lparr>ei_now = 0, ei_jpeg_write = Write_Done, ei_json_write = Write_Done, ei_unlink = (\<lambda>_. True),
                        ei_read = (\<lambda>_. True), ei_dir_sync = True\<rparr>,
      ii_mkdir = True,
      ii_runner = \<lparr>ro_parse_error = None, ro_pipeline = True, ro_tee = True, ro_analytics_sink = False, ro_evidence_sink = False,
                   ro_version = (ROCKIVA_RET_SUCCESS, ''v''), ro_ret_init = ROCKIVA_RET_SUCCESS,
                   ro_ret_detect = ROCKIVA_RET_SUCCESS, ro_ret_release = ROCKIVA_RET_SUCCESS,
                   ro_messages = [Base_Other, Base_Playing]\<rparr>\<rparr>"

definition demo_media :: Engine where
  "demo_media =
     \<lparr>eg_cfg = engine_config_defaults, eg_aiq = \<lparr>aq_started = True, aq_ctx = True, aq_error = None, aq_contexts = 1\<rparr>,
      eg_runner = Some ((new_runner engine_config_defaults None)\<lparr>gr_pipeline := True, gr_tee := True, gr_base_ready := True,
                          gr_bus_watch := True, gr_event_cb := True\<rparr>),
      eg_sessions = Some \<lparr>sm_sessions = []\<rparr>,
      eg_analytics = zero_engine\<lparr>en_config := me_analytics_config_defaults, en_config_version := 1, en_sink := True\<rparr>,
      eg_event_journal = None, eg_analytics_initialized = True, eg_event_cb = False, eg_analytics_event_cb = False,
      eg_files = Map.empty\<rparr>"

lemma defaults_fields:
  "\<not> cf_enabled me_analytics_config_defaults" "me_analytics_config_validate (Some me_analytics_config_defaults) = Inr ()"
  "ec_analytics engine_config_defaults = me_analytics_config_defaults" "ec_stream_rotation engine_config_defaults = 0"
  "ec_width engine_config_defaults = 3840" "ec_height engine_config_defaults = 2160" "ec_fps engine_config_defaults = 30"
  "ec_live_lease_timeout_s engine_config_defaults = 90" "ec_af_mode engine_config_defaults = ''off''"
  by (simp_all add: engine_config_defaults_def)
    (simp_all add: me_analytics_config_validate_def me_analytics_config_defaults_def
      bounded_string_def valid_rule_type_def me_analytics_evidence_mode_valid_def strcaseeq_def to_lower_def
      ME_ANALYTICS_COORD_SCALE_def)

lemma demo_media_init: "engine_init demo_init_io [] Map.empty engine_config_defaults = Inr demo_media"
  by (simp add: engine_init_def demo_init_io_def me_event_engine_init_def defaults_fields Let_def session_mgr_new_def
      aiq_ctrl_start_def aiq_off_def configure_focus_def gst_runner_new_def exact_evidence_enabled_def
      gst_runner_set_event_cb_def demo_media_def new_runner_def zero_engine_def)

definition demo_live_runner :: GstRunner where
  "demo_live_runner = snd (gst_runner_start_live all_good demo_params (the (eg_runner demo_media)))"

lemma demo_start_runner:
  "gst_runner_start_live all_good demo_params (the (eg_runner demo_media)) = (ME_ERR_OK, demo_live_runner)"
  "streaming demo_live_runner = Some ''s1''" "gr_base_ready demo_live_runner" "gr_cfg demo_live_runner = engine_config_defaults"
proof -
  have free: "start_free (the (eg_runner demo_media))" "gr_cfg (the (eg_runner demo_media)) = engine_config_defaults"
    by (simp_all add: start_free_def demo_media_def new_runner_def idle_branch_def)
  have "attaches all_good" "sp_codec demo_params = ''h264''" "sp_session_id demo_params = ''s1''"
    by (simp_all add: attaches_def all_good_def demo_params_def)
  with start_live_succeeds [OF free(1)] demo_branch free(2)
  show start: "gst_runner_start_live all_good demo_params (the (eg_runner demo_media)) = (ME_ERR_OK, demo_live_runner)"
    by (simp add: demo_live_runner_def defaults_fields prod_eq_iff)
  obtain settings where r: "demo_live_runner = change_stream (sp_channel_id demo_params) (started demo_params settings (the (eg_runner demo_media)))"
    using start_live_cases [OF start] by auto
  show "streaming demo_live_runner = Some ''s1''" "gr_base_ready demo_live_runner" "gr_cfg demo_live_runner = engine_config_defaults"
    unfolding r using free by (simp_all add: streaming_def started_def start_free_def demo_params_def)
qed

definition demo_live :: Engine where
  "demo_live = demo_media\<lparr>eg_sessions := Some \<lparr>sm_sessions = [(''s1'', \<lparr>ms_params = demo_params, ms_last_activity_us = 0\<rparr>)]\<rparr>,
                          eg_runner := Some demo_live_runner\<rparr>"

lemma demo_start: "engine_start_live all_good 0 demo_media demo_params = (ME_ERR_OK, demo_live)"
proof -
  have r: "eg_runner demo_media = Some (the (eg_runner demo_media))" "eg_sessions demo_media = Some \<lparr>sm_sessions = []\<rparr>"
    "aq_started (eg_aiq demo_media)" "eg_cfg demo_media = engine_config_defaults" by (simp_all add: demo_media_def)
  have p: "sp_width demo_params = 3840" "sp_height demo_params = 2160" "sp_fps demo_params = 30" "sp_codec demo_params = ''h264''"
    "sp_session_id demo_params = ''s1''" by (simp_all add: demo_params_def)
  have "session_mgr_start (engine_backend_start all_good) 0 \<lparr>sm_sessions = []\<rparr> demo_params (the (eg_runner demo_media)) =
      (ME_ERR_OK, \<lparr>sm_sessions = [(''s1'', \<lparr>ms_params = demo_params, ms_last_activity_us = 0\<rparr>)]\<rparr>, demo_live_runner)"
    using demo_start_runner(1) p(5) by (simp add: session_mgr_start_def session_mgr_has_def backend_functions)
  moreover have "engine_start_live all_good 0 demo_media demo_params =
      (case session_mgr_start (engine_backend_start all_good) 0 \<lparr>sm_sessions = []\<rparr> demo_params (the (eg_runner demo_media)) of
         (rc, m1, r1) \<Rightarrow> (rc, demo_media\<lparr>eg_sessions := Some m1, eg_runner := Some r1\<rparr>))"
    unfolding engine_start_live_def r(2) using r p by (simp add: defaults_fields) (metis option.sel option.simps(5))
  ultimately show ?thesis by (simp add: demo_live_def)
qed

lemma demo_live_run: "engine_step\<^sup>*\<^sup>* demo_media demo_live"
  by (rule r_into_rtranclp, rule engine_step.start [OF _ demo_start]) (simp add: params_ok_def demo_params_def)

lemma demo_live_fields:
  "eg_runner demo_live = Some demo_live_runner" "aq_started (eg_aiq demo_live)" "eg_cfg demo_live = engine_config_defaults"
  "eg_sessions demo_live = Some \<lparr>sm_sessions = [(''s1'', \<lparr>ms_params = demo_params, ms_last_activity_us = 0\<rparr>)]\<rparr>"
  by (simp_all add: demo_live_def demo_media_def)

theorem accepted_configuration_starts_witness:
  "\<exists>cfg e. engine_config_apply_cli (\<lambda>_. Yaml_Missing) (\<lambda>_. []) (Some engine_config_defaults) [''media_engine''] = (Cli_Ok, Some cfg) \<and>
     engine_init demo_init_io [] Map.empty cfg = Inr e"
proof -
  have a: "engine_config_apply_cli (\<lambda>_. Yaml_Missing) (\<lambda>_. []) (Some engine_config_defaults) [''media_engine''] =
      (Cli_Ok, Some engine_config_defaults)"
    by (simp add: engine_config_apply_cli_def engine_config_validate_def defaults_fields)
  from accepted_configuration_starts [OF a, of demo_init_io "[]" Map.empty] a show ?thesis by blast
qed

theorem stopped_branch_restarts_witness:
  "fst (engine_stop_live True GST_STATE_CHANGE_ASYNC demo_live ''s1'') = ME_ERR_OK"
  using stopped_branch_restarts [OF demo_media_init demo_live_run demo_live_fields(1) demo_start_runner(2),
      where ret = GST_STATE_CHANGE_ASYNC and p = demo_params and so = all_good] demo_branch
  by (simp add: demo_start_runner demo_live_fields defaults_fields) (simp add: demo_params_def attaches_def all_good_def)

theorem lease_expiry_exact_witness:
  "\<exists>e1. engine_keepalive_live 5000000 demo_live ''s1'' = (ME_ERR_OK, e1) \<and>
     engine_reap_expired True GST_STATE_CHANGE_SUCCESS 94999999 e1 = (0, e1, None)"
proof -
  have has: "session_mgr_has \<lparr>sm_sessions = [(''s1'', \<lparr>ms_params = demo_params, ms_last_activity_us = 0\<rparr>)]\<rparr> ''s1''"
    by (simp add: session_mgr_has_def)
  obtain rc e1 where k: "engine_keepalive_live 5000000 demo_live ''s1'' = (rc, e1)" by fastforce
  have t: "ec_live_lease_timeout_s (eg_cfg demo_live) = 90" by (simp add: demo_live_fields defaults_fields)
  have "rc = ME_ERR_OK \<and> engine_reap_expired True GST_STATE_CHANGE_SUCCESS 94999999 e1 = (0, e1, None)"
    using lease_expiry_exact [OF demo_media_init demo_live_run demo_live_fields(4) has _ t _ k,
        of GST_STATE_CHANGE_SUCCESS 94999999] by simp
  with k show ?thesis by blast
qed

theorem delivered_events_are_durable_witness:
  "\<exists>e' ds j'. engine_analytics_observation (\<lambda>_. \<lparr>ev_sha = (\<lambda>_. []), ev_print = demo_print,
       ev_evidence_io = ii_evidence_io demo_init_io, ev_journal_io = demo_io\<rparr>)
       (demo_live\<lparr>eg_analytics := demo_engine, eg_event_journal := Some demo_journal\<rparr>) demo_observation = (e', ds) \<and>
     eg_event_journal e' = Some j' \<and>
     boundary_entries (jo_records j') = filter (\<lambda>d. ev_phase (snd d) \<noteq> ME_EVENT_PHASE_UPDATE) ds"
proof -
  let ?ios = "\<lambda>_. \<lparr>ev_sha = (\<lambda>_. []), ev_print = demo_print, ev_evidence_io = ii_evidence_io demo_init_io, ev_journal_io = demo_io\<rparr>"
  let ?e = "demo_live\<lparr>eg_analytics := demo_engine, eg_event_journal := Some demo_journal\<rparr>"
  obtain e' ds where o: "engine_analytics_observation ?ios ?e demo_observation = (e', ds)" by fastforce
  have "boundary_entries (jo_records demo_journal) = []" by (simp add: demo_journal_def boundary_entries_def)
  with delivered_events_are_durable [OF o] o show ?thesis by auto
qed

theorem one_session_one_branch_witness:
  "\<exists>m r. eg_sessions demo_live = Some m \<and> eg_runner demo_live = Some r \<and> gr_branch_active r \<and> session_mgr_has m (lv_session_id (gr_live r)) \<and>
     gr_tee_pads r = 1"
proof -
  have "gr_branch_active demo_live_runner" using demo_start_runner(2) by (simp add: streaming_def split: if_splits)
  then show ?thesis using one_session_one_branch [OF demo_media_init demo_live_run] demo_live_fields(1) by auto
qed

theorem failed_stop_blocks_live_witness:
  "\<exists>e1 e2. engine_stop_live True GST_STATE_CHANGE_FAILURE demo_live ''s1'' = (ME_ERR_MEDIA, e1) \<and>
     engine_stop_live True GST_STATE_CHANGE_SUCCESS e1 ''s1'' = (ME_ERR_OK, e2) \<and>
     fst (engine_start_live all_good 1 e2 demo_params) \<noteq> ME_ERR_OK"
proof -
  obtain rc1 e1 where s1: "engine_stop_live True GST_STATE_CHANGE_FAILURE demo_live ''s1'' = (rc1, e1)" by fastforce
  obtain rc2 e2 where s2: "engine_stop_live True GST_STATE_CHANGE_SUCCESS e1 ''s1'' = (rc2, e2)" by fastforce
  obtain rc3 e3 where s3: "engine_start_live all_good 1 e2 demo_params = (rc3, e3)" by fastforce
  from failed_stop_blocks_live [OF demo_media_init demo_live_run demo_live_fields(1) demo_start_runner(2) s1 s2 rtranclp.rtrancl_refl s3]
  show ?thesis using s1 s2 s3 by auto
qed

end
