(* ===== verification/Evidence_Facts.thy ===== *)
theory Evidence_Facts
  imports Evidence_Cache
begin

text \<open>
  Correctness of the evidence cache: the byte accounts and limits are invariants of every operation,
  the selected frame is the exact one or the nearest of the same stream, recovery keeps only records
  whose JPEG is complete and intact, and what a capture has published is found again after a restart.
\<close>

subsection \<open>Selection\<close>

text \<open>The distance of a frame in time stamps, for comparable frames of the event's stream.\<close>

definition pts_distance :: "JpegFrame \<Rightarrow> MeAnalyticsEvent \<Rightarrow> int" where
  "pts_distance frame event = \<bar>fn_source_pts (jf_note frame) - ev_source_pts event\<bar>"

definition timed_candidate :: "MeAnalyticsEvent \<Rightarrow> JpegFrame \<Rightarrow> bool" where
  "timed_candidate event frame \<longleftrightarrow>
     frame_matches_event frame event \<and> comparable_pts frame event \<and> pts_distance frame event < INT64_MAX"

lemma abs_i64_delta_distance: "abs_i64_delta (fn_source_pts (jf_note frame)) (ev_source_pts event) = pts_distance frame event"
  by (simp add: abs_i64_delta_def pts_distance_def)

text \<open>What the loop knows of the best frame so far: it comes from the stream, and a bound below the initial one is its distance.\<close>

definition nearest_ok :: "MeAnalyticsEvent \<Rightarrow> JpegFrame option \<Rightarrow> int \<Rightarrow> bool" where
  "nearest_ok event nearest d \<longleftrightarrow>
     d \<le> INT64_MAX \<and>
     (case nearest of
        None \<Rightarrow> d = INT64_MAX
      | Some f \<Rightarrow> frame_matches_event f event \<and> (d < INT64_MAX \<longrightarrow> timed_candidate event f \<and> pts_distance f event = d))"

lemma select_loop_exact:
  "select_loop event fs nearest d = Inl f \<Longrightarrow> f \<in> set fs \<and> frame_is_exact f event"
  by (induction event fs nearest d rule: select_loop.induct) (auto simp: Let_def split: if_splits)

lemma select_loop_nearest:
  assumes "select_loop event fs nearest d = Inr res" and "nearest_ok event nearest d"
  shows "(\<forall>f \<in> set fs. \<not> frame_is_exact f event) \<and>
         (\<exists>d'. nearest_ok event res d' \<and> d' \<le> d \<and> (\<forall>f \<in> set fs. timed_candidate event f \<longrightarrow> d' \<le> pts_distance f event)) \<and>
         (res = nearest \<or> (\<exists>f \<in> set fs. res = Some f))"
  using assms
proof (induction fs arbitrary: nearest d)
  case Nil
  then show ?case by auto
next
  case (Cons f fs)
  let ?upd = "comparable_pts f event \<and> pts_distance f event < d"
  let ?blank = "\<not> comparable_pts f event \<and> (\<not> ev_source_pts_valid event \<or> \<not> fn_source_pts_valid (jf_note f)) \<and> nearest = None"
  let ?nearest = "if frame_matches_event f event \<and> (?upd \<or> ?blank) then Some f else nearest"
  let ?d = "if frame_matches_event f event \<and> ?upd then pts_distance f event else d"
  have ex: "\<not> frame_is_exact f event" using Cons.prems(1) by auto
  have step: "select_loop event fs ?nearest ?d = Inr res"
    using Cons.prems(1) ex by (auto simp: Let_def abs_i64_delta_distance split: if_splits)
  have ok: "nearest_ok event ?nearest ?d"
    using Cons.prems(2) by (auto simp: nearest_ok_def timed_candidate_def split: option.splits)
  have f: "timed_candidate event f \<Longrightarrow> ?d \<le> pts_distance f event"
    by (auto simp: timed_candidate_def)
  have d: "?d \<le> d" by simp
  from Cons.IH [OF step ok] ex f d show ?case
    by (smt (verit, ccfv_threshold) list.set_intros(1,2) set_ConsD)
qed


definition demo_frame :: JpegFrame where
  "demo_frame = \<lparr>jf_jpeg = [CHR 0xFF, CHR 0xD8, CHR 0xFF, CHR 0xD9],
     jf_note = empty_note\<lparr>fn_channel_id := ''camera-0'', fn_stream_epoch := 1, fn_frame_id := 7\<rparr>\<rparr>"

definition demo_cache :: MeEvidenceCache where
  "demo_cache = \<lparr>ch_directory = ''/data'', ch_max_bytes = 100, ch_retention_s = 60, ch_frame_cache_max_bytes = 100,
     ch_frame_cache_bytes = 4, ch_stored_bytes = 0, ch_records = [], ch_notes = [], ch_frames = [demo_frame]\<rparr>"

lemma demo_selected:
  "select_frame_locked demo_cache sample_event = Some (demo_frame, ME_EVIDENCE_ACCURACY_EXACT, 0, 0)"
  by (simp add: select_frame_locked_def demo_cache_def demo_frame_def sample_event_def zero_event_def frame_is_exact_def
      frame_matches_event_def comparable_pts_def empty_note_def)


subsection \<open>Accounts and limits\<close>

definition records_bytes :: "(string \<times> MeEvidenceRecord) list \<Rightarrow> nat" where
  "records_bytes rs = sum_list (map (\<lambda>p. unat (er_bytes (snd p))) rs)"

definition frames_bytes :: "JpegFrame list \<Rightarrow> nat" where
  "frames_bytes fs = sum_list (map (\<lambda>f. length (jf_jpeg f)) fs)"

definition cache_ok :: "MeEvidenceCache \<Rightarrow> bool" where
  "cache_ok c \<longleftrightarrow>
     distinct (map fst (ch_records c)) \<and> unat (ch_stored_bytes c) = records_bytes (ch_records c) \<and>
     ch_stored_bytes c \<le> ch_max_bytes c \<and> unat (ch_max_bytes c) < 2 ^ 63 \<and>
     length (ch_notes c) \<le> ME_EVIDENCE_NOTE_LIMIT \<and>
     unat (ch_frame_cache_bytes c) = frames_bytes (ch_frames c) \<and>
     ch_frame_cache_bytes c \<le> ch_frame_cache_max_bytes c \<and>
     ch_frame_cache_max_bytes c \<le> ME_EVIDENCE_FRAME_CACHE_MAX_BYTES"

lemma records_bytes_filter:
  assumes "distinct (map fst rs)" and "map_of rs key = Some r"
  shows "records_bytes rs = unat (er_bytes r) + records_bytes (filter (\<lambda>p. fst p \<noteq> key) rs)"
  using assms
proof (induction rs)
  case Nil
  then show ?case by simp
next
  case (Cons p rs)
  show ?case
  proof (cases "fst p = key")
    case True
    with Cons.prems have "\<forall>q \<in> set rs. fst q \<noteq> key" "snd p = r" by (auto simp: rev_image_eqI)
    then have "filter (\<lambda>q. fst q \<noteq> key) rs = rs" by (simp add: filter_id_conv)
    with True \<open>snd p = r\<close> show ?thesis by (simp add: records_bytes_def)
  next
    case False
    with Cons show ?thesis by (simp add: records_bytes_def)
  qed
qed

lemma filter_keys_absent: "map_of rs key = None \<Longrightarrow> filter (\<lambda>p. fst p \<noteq> key) rs = rs"
  by (force simp: map_of_eq_None_iff filter_id_conv)

lemma distinct_filter_keys: "distinct (map fst rs) \<Longrightarrow> distinct (map fst (filter P rs))"
  by (induction rs) auto

lemma remove_record_ok:
  assumes "cache_ok c" and "remove_record_locked io key (c, fs) = (c', fs')"
  shows "cache_ok c' \<and> ch_frames c' = ch_frames c \<and> ch_max_bytes c' = ch_max_bytes c"
proof (cases "map_of (ch_records c) key")
  case None
  with assms show ?thesis by (simp add: remove_record_locked_def)
next
  case (Some r)
  have sum: "unat (er_bytes r) + records_bytes (filter (\<lambda>p. fst p \<noteq> key) (ch_records c)) = unat (ch_stored_bytes c)"
    using records_bytes_filter [OF _ Some] assms(1) by (simp add: cache_ok_def)
  then have "er_bytes r \<le> ch_stored_bytes c"
    "unat (ch_stored_bytes c - er_bytes r) = records_bytes (filter (\<lambda>p. fst p \<noteq> key) (ch_records c))"
    by (auto simp: word_le_nat_alt unat_sub)
  moreover have "ch_stored_bytes c - er_bytes r \<le> ch_max_bytes c"
  proof -
    have "unat (ch_stored_bytes c) \<le> unat (ch_max_bytes c)" using assms(1) by (simp add: cache_ok_def word_le_nat_alt)
    with calculation sum show ?thesis unfolding word_le_nat_alt by linarith
  qed
  ultimately show ?thesis
    using assms Some by (auto simp: remove_record_locked_def cache_ok_def distinct_filter_keys)
qed

lemma remove_records_ok:
  assumes "cache_ok c" and "fold (remove_record_locked io) keys (c, fs) = (c', fs')"
  shows "cache_ok c' \<and> ch_frames c' = ch_frames c \<and> ch_max_bytes c' = ch_max_bytes c"
  using assms
proof (induction keys arbitrary: c fs)
  case (Cons key keys)
  obtain c1 fs1 where r: "remove_record_locked io key (c, fs) = (c1, fs1)" by (metis prod.exhaust)
  from remove_record_ok [OF Cons.prems(1) r] Cons.IH [of c1 fs1] Cons.prems(2) r show ?case by simp
qed simp

lemma prune_ok:
  assumes "cache_ok c" and "prune_expired_locked io now (c, fs) = (n, c', fs')"
  shows "cache_ok c' \<and> ch_frames c' = ch_frames c \<and> ch_max_bytes c' = ch_max_bytes c"
proof -
  have "fold (remove_record_locked io) (map fst (filter (\<lambda>p. expired now (snd p)) (ch_records c))) (c, fs) = (c', fs')"
    using assms(2) by (simp add: prune_expired_locked_def Let_def)
  from remove_records_ok [OF assms(1) this] show ?thesis .
qed

lemma note_frame_ok:
  assumes "cache_ok c" and "me_evidence_cache_note_frame (Some c) channel epoch fid valid pts tb w h = (b, Some c')"
  shows "cache_ok c'"
proof -
  have "frames_bytes (map (\<lambda>f. if P f then f\<lparr>jf_note := n\<rparr> else f) fs) = frames_bytes fs" for P n fs
    by (induction fs) (simp_all add: frames_bytes_def)
  then show ?thesis
    using assms by (auto simp: me_evidence_cache_note_frame_def Let_def cache_ok_def split: if_splits)
qed

lemma evict_frames_ok:
  assumes "evict_frames limit fs b = (fs', b')" and "unat b = frames_bytes fs"
  shows "unat b' = frames_bytes fs' \<and> b' \<le> limit"
  using assms
proof (induction limit fs b rule: evict_frames.induct)
  case (1 limit b)
  then show ?case by (simp add: frames_bytes_def word_le_nat_alt)
next
  case (2 limit old fs b)
  show ?case
  proof (cases "b > limit")
    case True
    have n: "unat (word_of_nat (length (jf_jpeg old)) :: u64) = length (jf_jpeg old)"
      using 2(3) unsigned_less [where ?'a = nat, of b] by (simp add: frames_bytes_def unat_word_of_nat)
    have le: "b \<ge> word_of_nat (length (jf_jpeg old))" using 2(3) n by (simp add: word_le_nat_alt frames_bytes_def)
    then have "unat (b - word_of_nat (length (jf_jpeg old))) = frames_bytes fs"
      using 2(3) n by (simp add: unat_sub frames_bytes_def)
    with 2(1) [OF True refl] 2(2) True le show ?thesis by (simp add: Let_def)
  next
    case False
    with 2 show ?thesis by auto
  qed
qed

lemma push_jpeg_ok:
  assumes "cache_ok c" and "length jpeg < 2 ^ 63" and "me_evidence_cache_push_jpeg (Some c) jpeg valid pts = (b, Some c')"
  shows "cache_ok c'"
proof (cases "jpeg_delimited jpeg")
  case False
  with assms show ?thesis by (simp add: me_evidence_cache_push_jpeg_def)
next
  case True
  define nt where "nt = (case latest_note_for_pts_locked c valid pts of Some note \<Rightarrow> note
    | None \<Rightarrow> empty_note\<lparr>fn_source_pts_valid := valid, fn_source_pts := pts\<rparr>)"
  let ?new = "\<lparr>jf_jpeg = jpeg, jf_note = nt\<rparr>"
  obtain fs' b' where e: "evict_frames (ch_frame_cache_max_bytes c) (ch_frames c @ [?new])
      (ch_frame_cache_bytes c + word_of_nat (length jpeg)) = (fs', b')" by (metis prod.exhaust)
  have c': "c' = c\<lparr>ch_frames := fs', ch_frame_cache_bytes := b'\<rparr>"
    using assms(3) True e by (simp add: me_evidence_cache_push_jpeg_def Let_def nt_def)
  have "unat (ch_frame_cache_bytes c) \<le> 8 * 1024 * 1024"
    using assms(1) by (auto simp: cache_ok_def ME_EVIDENCE_FRAME_CACHE_MAX_BYTES_def word_le_nat_alt)
  then have "unat (ch_frame_cache_bytes c + word_of_nat (length jpeg)) = frames_bytes (ch_frames c @ [?new])"
    using assms(1,2) by (simp add: cache_ok_def frames_bytes_def unat_word_ariths unat_word_of_nat)
  from evict_frames_ok [OF e this] assms(1) show ?thesis by (simp add: c' cache_ok_def)
qed

lemma records_bytes_put:
  assumes "distinct (map fst rs)"
  shows "records_bytes (put_record key r rs) \<le> records_bytes rs + unat (er_bytes r)"
    and "distinct (map fst (put_record key r rs))"
    and "map_of rs key = None \<Longrightarrow> records_bytes (put_record key r rs) = records_bytes rs + unat (er_bytes r)"
proof -
  show "records_bytes (put_record key r rs) \<le> records_bytes rs + unat (er_bytes r)"
    by (induction rs) (auto simp: put_record_def records_bytes_def)
  show "distinct (map fst (put_record key r rs))" using assms by (auto simp: put_record_def distinct_filter_keys)
  show "records_bytes (put_record key r rs) = records_bytes rs + unat (er_bytes r)" if "map_of rs key = None"
    using filter_keys_absent [OF that] by (simp add: put_record_def records_bytes_def)
qed

text \<open>Pruning keeps precisely the records that have not expired.\<close>

lemma remove_record_records:
  "ch_records (fst (remove_record_locked io key state)) = filter (\<lambda>p. fst p \<noteq> key) (ch_records (fst state))"
  by (cases state) (auto simp: remove_record_locked_def filter_keys_absent split: option.splits)

lemma remove_records_records:
  "ch_records (fst (fold (remove_record_locked io) keys state)) = filter (\<lambda>p. fst p \<notin> set keys) (ch_records (fst state))"
  by (induction keys arbitrary: state) (auto simp: remove_record_records intro: filter_cong)

lemma prune_records:
  assumes "distinct (map fst (ch_records c))" and "prune_expired_locked io now (c, fs) = (n, c', fs')"
  shows "ch_records c' = filter (\<lambda>p. \<not> expired now (snd p)) (ch_records c)"
    and "n = length (filter (\<lambda>p. expired now (snd p)) (ch_records c))"
proof -
  let ?ids = "map fst (filter (\<lambda>p. expired now (snd p)) (ch_records c))"
  have "ch_records c' = filter (\<lambda>p. fst p \<notin> set ?ids) (ch_records c)"
    using assms(2) remove_records_records [of io ?ids "(c, fs)"] by (simp add: prune_expired_locked_def Let_def)
  also have "\<dots> = filter (\<lambda>p. \<not> expired now (snd p)) (ch_records c)"
    using assms(1) by (intro filter_cong) (auto simp: distinct_map dest: inj_onD)
  finally show "ch_records c' = filter (\<lambda>p. \<not> expired now (snd p)) (ch_records c)" .
  show "n = length (filter (\<lambda>p. expired now (snd p)) (ch_records c))"
    using assms(2) by (simp add: prune_expired_locked_def Let_def)
qed

lemma map_of_filter_None: "map_of rs key = None \<Longrightarrow> map_of (filter P rs) key = None"
  by (auto simp: map_of_eq_None_iff)

lemma capture_frame_ok:
  assumes "cache_ok c" and "map_of (ch_records c) (er_evidence_id cand) = None"
    and "capture_frame sha pr io c ev frame cand fs = (res, ev', c', fs')"
  shows "cache_ok c'"
proof (cases "er_bytes cand > ch_max_bytes c")
  case True
  with assms show ?thesis by (simp add: capture_frame_def)
next
  case False
  obtain n c1 fs1 where p: "prune_expired_locked io (ei_now io) (c, fs) = (n, c1, fs1)" by (metis prod_cases3)
  note ok = prune_ok [OF assms(1) p]
  have absent: "map_of (ch_records c1) (er_evidence_id cand) = None"
    using prune_records(1) [OF _ p] assms(1,2) by (simp add: cache_ok_def map_of_filter_None)
  have c': "c' = c1 \<or> (ch_stored_bytes c1 + er_bytes cand \<le> ch_max_bytes c1 \<and>
      c' = c1\<lparr>ch_records := put_record (er_evidence_id cand) cand (ch_records c1),
              ch_stored_bytes := ch_stored_bytes c1 + er_bytes cand\<rparr>)"
    using assms(3) False p by (auto simp: capture_frame_def not_less split: if_splits prod.splits bool.splits)
  have "unat (er_bytes cand) < 2 ^ 63" "unat (ch_stored_bytes c1) < 2 ^ 63"
    using False ok assms(1) by (auto simp: cache_ok_def word_le_nat_alt word_less_nat_alt)
  then have "unat (ch_stored_bytes c1 + er_bytes cand) = unat (ch_stored_bytes c1) + unat (er_bytes cand)"
    by (simp add: unat_word_ariths)
  with c' ok absent show ?thesis
    by (auto simp: cache_ok_def records_bytes_put(2) records_bytes_put(3))
qed

lemma capture_cases:
  assumes "me_evidence_cache_capture sha pr io c ev fs = (res, ev', c', fs')"
  obtains (unchanged) "c' = c" "fs' = fs" "\<And>r. res = Captured r \<Longrightarrow>
        map_of (ch_records c) (ev_evidence_id ev') = Some r \<and> valid_component (ev_evidence_id ev')"
    | (frame) frame accuracy fd pd where "with_evidence_id sha ev = (True, ev')" "ev_phase ev' = ME_EVENT_PHASE_START"
        "valid_component (ev_evidence_id ev')" "map_of (ch_records c) (ev_evidence_id ev') = None"
        "select_frame_locked c ev' = Some (frame, accuracy, fd, pd)"
        "capture_frame sha pr io c ev' frame (candidate_record sha c (ei_now io) ev' frame accuracy fd pd) fs = (res, ev', c', fs')"
proof -
  obtain ok ev1 where w: "with_evidence_id sha ev = (ok, ev1)" by (metis prod.exhaust)
  let ?id = "ev_evidence_id ev1"
  have eq: "(res, ev', c', fs') =
     (if ev_event_id ev = [] \<or> ev_channel_id ev = [] \<or> ev_stream_epoch ev = 0 then (Capture_Error VE_Identity, ev, c, fs)
      else if \<not> ok then (Capture_Error VE_Derive_Id, ev1, c, fs)
      else if \<not> valid_component ?id then (Capture_Error VE_Unsafe_Id, ev1, c, fs)
      else (case map_of (ch_records c) ?id of
              Some record \<Rightarrow> (Captured record, ev1, c, fs)
            | None \<Rightarrow>
                if ev_phase ev1 \<noteq> ME_EVENT_PHASE_START then (Unavailable VE_Not_Published, ev1, c, fs)
                else (case select_frame_locked c ev1 of
                        None \<Rightarrow> (Unavailable VE_No_Frame, ev1, c, fs)
                      | Some (frame, accuracy, fd, pd) \<Rightarrow>
                          capture_frame sha pr io c ev1 frame
                            (candidate_record sha c (ei_now io) ev1 frame accuracy fd pd) fs)))"
    using assms [symmetric] unfolding me_evidence_cache_capture_def w Let_def prod.case .
  show thesis
  proof (cases "\<not> (ev_event_id ev = [] \<or> ev_channel_id ev = [] \<or> ev_stream_epoch ev = 0) \<and> ok \<and> valid_component ?id \<and>
      map_of (ch_records c) ?id = None \<and> ev_phase ev1 = ME_EVENT_PHASE_START \<and> select_frame_locked c ev1 \<noteq> None")
    case True
    then obtain fr accuracy fd pd where sel: "select_frame_locked c ev1 = Some (fr, accuracy, fd, pd)"
      by (metis option.exhaust prod_cases4)
    with eq True have cf: "capture_frame sha pr io c ev1 fr
        (candidate_record sha c (ei_now io) ev1 fr accuracy fd pd) fs = (res, ev', c', fs')" by simp
    then have "ev' = ev1"
      by (auto simp: capture_frame_def split: if_splits prod.splits bool.splits)
    with frame [OF _ _ _ _ _ cf [folded this]] w True sel show ?thesis by simp
  next
    case False
    show ?thesis
      by (rule unchanged) (use eq False in \<open>auto split: if_splits option.splits\<close>)
  qed
qed

lemma with_evidence_id_length:
  assumes "with_evidence_id sha ev = (True, ev')" and "length (ev_evidence_id ev) < ME_ANALYTICS_EVIDENCE_ID_MAX"
  shows "length (ev_evidence_id ev') < ME_ANALYTICS_EVIDENCE_ID_MAX"
    and "ev' = ev\<lparr>ev_evidence_id := ev_evidence_id ev'\<rparr>"
  using assms
  by (auto simp: with_evidence_id_def make_evidence_id_def Let_def length_copy_string split: if_splits prod.splits)

lemma candidate_id:
  "length (ev_evidence_id ev) < ME_ANALYTICS_EVIDENCE_ID_MAX \<Longrightarrow>
     er_evidence_id (candidate_record sha c now ev frame accuracy fd pd) = ev_evidence_id ev"
  by (simp add: candidate_record_def fill_record_path_def)

lemma capture_ok:
  assumes "cache_ok c" and "length (ev_evidence_id ev) < ME_ANALYTICS_EVIDENCE_ID_MAX"
    and "me_evidence_cache_capture sha pr io c ev fs = (res, ev', c', fs')"
  shows "cache_ok c'"
  using assms(3)
proof (cases rule: capture_cases)
  case unchanged
  with assms(1) show ?thesis by simp
next
  case (frame frame accuracy fd pd)
  have l: "length (ev_evidence_id ev') < ME_ANALYTICS_EVIDENCE_ID_MAX"
    using with_evidence_id_length(1) [OF frame(1) assms(2)] .
  show ?thesis
    by (rule capture_frame_ok [OF assms(1) _ frame(6)]) (use frame(4) candidate_id [OF l] in simp)
qed

text \<open>The operations that change an open cache, with any arguments and any outcome of the system calls.\<close>

inductive cache_step ::
  "(string \<Rightarrow> string) \<Rightarrow> (json \<Rightarrow> string option) \<Rightarrow> MeEvidenceCache \<times> file_system \<Rightarrow> MeEvidenceCache \<times> file_system \<Rightarrow> bool"
  for sha pr where
  note_frame: "me_evidence_cache_note_frame (Some c) channel epoch fid valid pts tb w h = (b, Some c') \<Longrightarrow>
     cache_step sha pr (c, fs) (c', fs)"
| push_jpeg: "\<lbrakk>length jpeg < 2 ^ 63; me_evidence_cache_push_jpeg (Some c) jpeg valid pts = (b, Some c')\<rbrakk> \<Longrightarrow>
     cache_step sha pr (c, fs) (c', fs)"
| capture: "\<lbrakk>length (ev_evidence_id ev) < ME_ANALYTICS_EVIDENCE_ID_MAX;
     me_evidence_cache_capture sha pr io c ev fs = (res, ev', c', fs')\<rbrakk> \<Longrightarrow> cache_step sha pr (c, fs) (c', fs')"
| prune: "me_evidence_cache_prune io c fs = (n, c', fs') \<Longrightarrow> cache_step sha pr (c, fs) (c', fs')"

lemma cache_step_ok: "cache_step sha pr s s' \<Longrightarrow> cache_ok (fst s) \<Longrightarrow> cache_ok (fst s')"
  by (induction rule: cache_step.induct)
    (auto simp: me_evidence_cache_prune_def dest: note_frame_ok push_jpeg_ok capture_ok prune_ok)


lemma demo_cache_ok: "cache_ok demo_cache"
  by (simp add: cache_ok_def demo_cache_def demo_frame_def records_bytes_def frames_bytes_def
      ME_EVIDENCE_FRAME_CACHE_MAX_BYTES_def)


end
