(* ===== verification/Evidence_Recovery.thy ===== *)
theory Evidence_Recovery
  imports Evidence_Facts
begin

text \<open>
  Recovery of the evidence cache: every record that opening a directory yields has its complete and
  intact JPEG, and the evidence that a capture has published is found again by the next open. The
  directory's path must leave room for the file names, since the stored path is cut to 255 bytes.
\<close>

subsection \<open>Paths\<close>

definition short_directory :: "MeEvidenceCache \<Rightarrow> bool" where
  "short_directory c \<longleftrightarrow> length (ch_directory c) < 155"

lemma build_filename_inj: "build_filename d a = build_filename d b \<longleftrightarrow> a = b"
  by (simp add: build_filename_def)

lemma length_build_filename: "length (build_filename d a) \<le> length d + 1 + length a"
  using length_dropWhile_le [of "\<lambda>c. c = CHR ''/''" "rev d"] by (simp add: build_filename_def)

lemma jpg_ne_json: "(a :: string) @ ''.jpg'' \<noteq> b @ ''.json''"
proof
  assume "a @ ''.jpg'' = b @ ''.json''"
  then have "last (a @ ''.jpg'') = last (b @ ''.json'')" by simp
  then show False by simp
qed

lemma path_eq_simps [simp]:
  "jpeg_path c a = jpeg_path c b \<longleftrightarrow> a = b" "json_path c a = json_path c b \<longleftrightarrow> a = b"
  "jpeg_path c a \<noteq> json_path c b" "json_path c b \<noteq> jpeg_path c a"
  using jpg_ne_json [of a b] by (auto simp: jpeg_path_def json_path_def build_filename_inj)

lemma length_jpeg_path:
  assumes "short_directory c" and "length key < ME_ANALYTICS_EVIDENCE_ID_MAX"
  shows "length (jpeg_path c key) < ME_EVIDENCE_PATH_MAX"
  using assms length_build_filename [of "ch_directory c" "key @ ''.jpg''"]
  by (simp add: short_directory_def jpeg_path_def)

lemma full_path:
  assumes "short_directory c" and "length (er_evidence_id r) < ME_ANALYTICS_EVIDENCE_ID_MAX"
  shows "er_path (fill_record_path c r) = jpeg_path c (er_evidence_id r)"
  using length_jpeg_path [OF assms] by (simp add: fill_record_path_def)

lemma ends_with_json: "ends_with ''.json'' name \<Longrightarrow> name = take (length name - 5) name @ ''.json''"
proof -
  assume "ends_with ''.json'' name"
  then have "drop (length name - 5) name = ''.json''" by (simp add: ends_with_def numeral_eq_Suc)
  then show ?thesis by (metis append_take_drop_id)
qed

lemma ends_with_append [simp]: "ends_with s (a @ s)"
  by (simp add: ends_with_def)

lemma unlink_other: "p \<noteq> q \<Longrightarrow> unlink io p fs q = fs q"
  by (simp add: unlink_def)

lemma evidence_json_string_length:
  "evidence_json_string j k n = Some s \<Longrightarrow> 0 < n \<Longrightarrow> length s < n"
  by (auto simp: evidence_json_string_def length_copy_string split: option.splits json.splits if_splits)

lemma guard_Some: "(if P then Some () else None) = Some u \<longleftrightarrow> P"
  by simp

lemma read_evidence_id:
  assumes "read_evidence j = Some (r, w, h, n, d, k)"
  shows "length (er_evidence_id r) < ME_ANALYTICS_EVIDENCE_ID_MAX \<and> valid_component (er_evidence_id r)"
  using assms unfolding read_evidence_def
  by (clarsimp simp: Option.bind_eq_Some_conv guard_Some dest!: evidence_json_string_length simp del: if_split)

lemma evidence_from_json_id:
  assumes "evidence_from_json j = Some r"
  shows "length (er_evidence_id r) < ME_ANALYTICS_EVIDENCE_ID_MAX \<and> valid_component (er_evidence_id r)"
proof -
  obtain r0 w h n d k where "read_evidence j = Some (r0, w, h, n, d, k)" "er_evidence_id r = er_evidence_id r0"
    using assms by (auto simp: evidence_from_json_def Let_def split: if_splits option.splits)
  with read_evidence_id show ?thesis by simp
qed

subsection \<open>Loading\<close>

lemma map_of_put_record: "map_of (put_record key r rs) k = (if k = key then Some r else map_of rs k)"
  by (induction rs) (auto simp: put_record_def)

text \<open>One step of the loading loop in terms of the key of the metadata file.\<close>

lemma load_record_cases:
  assumes "load_record sha pa io name (c, fs) = (c', fs')" and "short_directory c"
  obtains (skip) "c' = c" "fs' = fs"
    | (bad) key where "name = key @ ''.json''" "c' = c" "fs' = unlink io (json_path c key) fs"
    | (incomplete) key where "name = key @ ''.json''" "c' = c"
        "fs' = unlink io (jpeg_path c key) (unlink io (json_path c key) fs)"
    | (loaded) key contents tree r where "name = key @ ''.json''" "fs' = fs" "fs (json_path c key) = Some contents"
        "pa contents = Some tree" "evidence_from_json tree = Some r" "er_evidence_id r = key"
        "jpeg_intact sha io fs (fill_record_path c r)"
        "c' = c\<lparr>ch_stored_bytes := ch_stored_bytes c + er_bytes r,
                 ch_records := put_record key (fill_record_path c r) (ch_records c)\<rparr>"
proof (cases "ends_with ''.json'' name")
  case False
  with assms(1) skip show thesis by (simp add: load_record_def)
next
  case True
  define key where "key = take (length name - 5) name"
  have name: "name = key @ ''.json''" using ends_with_json [OF True] by (simp add: key_def)
  have path: "build_filename (ch_directory c) name = json_path c key" by (simp add: name json_path_def)
  have eq: "(c', fs') =
      (if \<not> valid_component key then (c, fs)
       else case (if ei_read io (json_path c key) then fs (json_path c key) else None) of
              None \<Rightarrow> (c, fs)
            | Some contents \<Rightarrow>
                (case Option.bind (pa contents) evidence_from_json of
                   None \<Rightarrow> (c, unlink io (json_path c key) fs)
                 | Some parsed \<Rightarrow>
                     if er_evidence_id parsed \<noteq> key then (c, unlink io (json_path c key) fs)
                     else if \<not> jpeg_intact sha io fs (fill_record_path c parsed)
                     then (c, unlink io (er_path (fill_record_path c parsed)) (unlink io (json_path c key) fs))
                     else (c\<lparr>ch_stored_bytes := ch_stored_bytes c + er_bytes (fill_record_path c parsed),
                              ch_records := put_record key (fill_record_path c parsed) (ch_records c)\<rparr>, fs)))"
    using assms(1) [symmetric] True
    unfolding load_record_def Let_def prod.case key_def [symmetric] path by (simp only: simp_thms if_False)
  have b: "er_bytes (fill_record_path c r) = er_bytes r" for r by (simp add: fill_record_path_def)
  have p: "er_path (fill_record_path c r) = jpeg_path c key"
    if "Option.bind (pa contents) evidence_from_json = Some r" "er_evidence_id r = key" for contents r
    using that evidence_from_json_id full_path [OF assms(2)] by (auto simp: Option.bind_eq_Some_conv)
  show thesis
  proof (cases "valid_component key \<and> ei_read io (json_path c key) \<and> fs (json_path c key) \<noteq> None")
    case False
    have "(c', fs') = (c, fs)" using eq False by (auto split: if_splits option.splits)
    with skip show ?thesis by simp
  next
    case True
    then obtain contents where c: "fs (json_path c key) = Some contents" by auto
    show ?thesis
    proof (cases "Option.bind (pa contents) evidence_from_json")
      case None
      with eq True c bad [OF name] show ?thesis by simp
    next
      case (Some r)
      then obtain tree where t: "pa contents = Some tree" "evidence_from_json tree = Some r"
        by (auto simp: Option.bind_eq_Some_conv)
      show ?thesis
      proof (cases "er_evidence_id r = key")
        case False
        with eq True c Some bad [OF name] show ?thesis by simp
      next
        case key: True
        show ?thesis
        proof (cases "jpeg_intact sha io fs (fill_record_path c r)")
          case False
          have "c' = c \<and> fs' = unlink io (jpeg_path c key) (unlink io (json_path c key) fs)"
            using eq True c Some key False p [OF Some key] by simp
          with incomplete [OF name] show ?thesis by blast
        next
          case intact: True
          with eq True c Some key b have "fs' = fs" "c' = c\<lparr>ch_stored_bytes := ch_stored_bytes c + er_bytes r,
                 ch_records := put_record key (fill_record_path c r) (ch_records c)\<rparr>" by simp_all
          from loaded [OF name this(1) c t key intact this(2)] show ?thesis .
        qed
      qed
    qed
  qed
qed

text \<open>A record under its own key and path, and its JPEG complete on disk.\<close>

definition named :: "MeEvidenceCache \<Rightarrow> string \<Rightarrow> MeEvidenceRecord \<Rightarrow> bool" where
  "named c key r \<longleftrightarrow>
     er_evidence_id r = key \<and> valid_component key \<and> length key < ME_ANALYTICS_EVIDENCE_ID_MAX \<and> er_path r = jpeg_path c key"

definition on_disk :: "(string \<Rightarrow> string) \<Rightarrow> file_system \<Rightarrow> MeEvidenceRecord \<Rightarrow> bool" where
  "on_disk sha fs r \<longleftrightarrow>
     (\<exists>jpeg. fs (er_path r) = Some jpeg \<and> word_of_nat (length jpeg) = er_bytes r \<and> strcaseeq (sha jpeg) (er_sha256 r))"

text \<open>Every record of the cache is named, and those whose key satisfies \<open>Q\<close> are on disk.\<close>

definition recovered :: "(string \<Rightarrow> string) \<Rightarrow> (string \<Rightarrow> bool) \<Rightarrow> MeEvidenceCache \<Rightarrow> file_system \<Rightarrow> bool" where
  "recovered sha Q c fs \<longleftrightarrow>
     (\<forall>k r. map_of (ch_records c) k = Some r \<longrightarrow> named c k r \<and> (Q k \<longrightarrow> on_disk sha fs r))"

lemma path_cong:
  "ch_directory c' = ch_directory c \<Longrightarrow> jpeg_path c' = jpeg_path c \<and> json_path c' = json_path c \<and> named c' = named c"
  by (auto simp: jpeg_path_def json_path_def named_def fun_eq_iff)

lemma on_disk_cong: "fs' (er_path r) = fs (er_path r) \<Longrightarrow> on_disk sha fs' r = on_disk sha fs r"
  by (simp add: on_disk_def)

text \<open>A step concerns only the files and the record of its own key.\<close>

lemma load_record_other:
  assumes "load_record sha pa io name (c, fs) = (c', fs')" and "short_directory c" and "name \<noteq> key @ ''.json''"
  shows "ch_directory c' = ch_directory c \<and> fs' (jpeg_path c key) = fs (jpeg_path c key) \<and>
         fs' (json_path c key) = fs (json_path c key) \<and> map_of (ch_records c') key = map_of (ch_records c) key"
  using assms(1,2)
  by (cases rule: load_record_cases) (use assms(3) in \<open>auto simp: unlink_other map_of_put_record\<close>)

lemma load_record_self:
  assumes "load_record sha pa io (key @ ''.json'') (c, fs) = (c', fs')" and "short_directory c"
    and "map_of (ch_records c) key = None" and "map_of (ch_records c') key = Some r"
  shows "named c key r \<and> on_disk sha fs' r"
  using assms(1,2)
proof (cases rule: load_record_cases)
  case (loaded key' contents tree r')
  then have "r = fill_record_path c r'" "key' = key" using assms(4) by (simp_all add: map_of_put_record)
  with loaded evidence_from_json_id [of tree r'] full_path [OF assms(2), of r'] show ?thesis
    by (auto simp: named_def on_disk_def jpeg_intact_def fill_record_path_def split: option.splits)
qed (use assms(3,4) in auto)

lemma load_record_directory:
  assumes "load_record sha pa io name (c, fs) = (c', fs')" and "short_directory c"
  shows "ch_directory c' = ch_directory c"
  using assms by (cases rule: load_record_cases) auto

lemma load_record_recovered:
  assumes l: "load_record sha pa io name (c, fs) = (c', fs')" and short: "short_directory c"
    and ok: "recovered sha Q c fs" and fresh: "\<And>k. name = k @ ''.json'' \<Longrightarrow> map_of (ch_records c) k = None"
  shows "recovered sha Q c' fs'"
  unfolding recovered_def
proof (intro allI impI)
  fix k r assume r: "map_of (ch_records c') k = Some r"
  note d = path_cong [OF load_record_directory [OF l short]]
  show "named c' k r \<and> (Q k \<longrightarrow> on_disk sha fs' r)"
  proof (cases "name = k @ ''.json''")
    case True
    with load_record_self [OF l [unfolded True] short fresh [OF True] r] d show ?thesis by simp
  next
    case False
    note o = load_record_other [OF l short False]
    with r ok have "named c k r" "Q k \<longrightarrow> on_disk sha fs r" by (simp_all add: recovered_def)
    with o d on_disk_cong [of fs' r fs sha] show ?thesis by (simp add: named_def)
  qed
qed

lemma load_records_recovered:
  assumes "distinct names" and "short_directory c" and "recovered sha Q c fs"
    and "\<And>k. k @ ''.json'' \<in> set names \<Longrightarrow> map_of (ch_records c) k = None"
    and "load_records sha pa io names (c, fs) = (c', fs')"
  shows "recovered sha Q c' fs' \<and> ch_directory c' = ch_directory c"
  using assms
proof (induction names arbitrary: c fs)
  case Nil
  then show ?case by (simp add: load_records_def)
next
  case (Cons name names)
  obtain c1 fs1 where l: "load_record sha pa io name (c, fs) = (c1, fs1)" by (metis prod.exhaust)
  have rest: "load_records sha pa io names (c1, fs1) = (c', fs')" using Cons.prems(5) l by (simp add: load_records_def)
  have d: "ch_directory c1 = ch_directory c" by (rule load_record_directory [OF l Cons.prems(2)])
  have fresh: "map_of (ch_records c1) k = None" if "k @ ''.json'' \<in> set names" for k
  proof -
    have "name \<noteq> k @ ''.json''" using that Cons.prems(1) by auto
    from load_record_other [OF l Cons.prems(2) this] Cons.prems(4) that show ?thesis by simp
  qed
  have "recovered sha Q c1 fs1"
    by (rule load_record_recovered [OF l Cons.prems(2,3)]) (use Cons.prems(4) in simp)
  from Cons.IH [OF _ _ this fresh rest] Cons.prems(1,2) d show ?case by (simp add: short_directory_def)
qed

lemma load_records_distinct:
  assumes "distinct (map fst (ch_records c))" and "load_records sha pa io names (c, fs) = (c', fs')"
  shows "distinct (map fst (ch_records c'))"
proof -
  have one: "distinct (map fst (ch_records (fst (load_record sha pa io name state))))"
    if "distinct (map fst (ch_records (fst state)))" for name state
    using that records_bytes_put(2)
    by (cases state) (auto simp: load_record_def Let_def split: option.splits)
  have "distinct (map fst (ch_records (fst (fold (load_record sha pa io) names state))))"
    if "distinct (map fst (ch_records (fst state)))" for state
    using that by (induction names arbitrary: state) (simp_all add: one)
  from this [of "(c, fs)"] assms show ?thesis by (simp add: load_records_def)
qed

subsection \<open>Cleaning and pruning\<close>

lemma known_not_orphan:
  assumes "named c k r" and "map_of (ch_records c) k = Some r" and "\<not> is_evidence_temp_file (k @ ''.jpg'')"
  shows "\<not> is_orphan c (k @ ''.jpg'')"
proof -
  have "k \<noteq> []" using assms(1) by (auto simp: named_def valid_component_def)
  with assms(1) have "evidence_id_from_suffix (k @ ''.jpg'') ''.jpg'' = Some k"
    by (simp add: evidence_id_from_suffix_def named_def Let_def)
  with assms(2,3) show ?thesis by (simp add: is_orphan_def)
qed

lemma remove_orphans_other:
  assumes "remove_orphans io c names fs = (ok, changed, fs')" and "\<not> is_orphan c name"
  shows "fs' (build_filename (ch_directory c) name) = fs (build_filename (ch_directory c) name)"
  using assms
proof (induction names arbitrary: fs ok changed)
  case (Cons n names)
  show ?case
  proof (cases "is_orphan c n")
    case True
    with Cons.prems(2) have "build_filename (ch_directory c) name \<noteq> build_filename (ch_directory c) n"
      by (auto simp: build_filename_inj)
    with True Cons show ?thesis by (fastforce simp: Let_def split: if_splits prod.splits)
  next
    case False
    with Cons show ?thesis by simp
  qed
qed simp

lemma remove_record_recovered:
  assumes "recovered sha Q c fs" and "remove_record_locked io key (c, fs) = (c', fs')"
  shows "recovered sha Q c' fs' \<and> ch_directory c' = ch_directory c"
proof (cases "map_of (ch_records c) key")
  case None
  with assms show ?thesis by (simp add: remove_record_locked_def)
next
  case (Some r)
  with assms(2) have c': "ch_records c' = filter (\<lambda>p. fst p \<noteq> key) (ch_records c)" "ch_directory c' = ch_directory c"
    and fs': "fs' = unlink io (json_path c key) (unlink io (er_path r) fs)"
    by (auto simp: remove_record_locked_def)
  have m: "map_of (filter (\<lambda>p. fst p \<noteq> key) rs) k = (if k = key then None else map_of rs k)"
    for rs :: "(string \<times> MeEvidenceRecord) list" and k by (induction rs) auto
  have "er_path r = jpeg_path c key" using Some assms(1) by (auto simp: recovered_def named_def)
  have "named c k q \<and> (Q k \<longrightarrow> on_disk sha fs' q)" if "map_of (ch_records c') k = Some q" for k q
  proof -
    have "k \<noteq> key" "map_of (ch_records c) k = Some q" using that by (auto simp: c' m split: if_splits)
    with assms(1) have q: "named c k q" "Q k \<longrightarrow> on_disk sha fs q" by (auto simp: recovered_def)
    have "fs' (er_path q) = fs (er_path q)"
      using q(1) \<open>k \<noteq> key\<close> \<open>er_path r = jpeg_path c key\<close> by (simp add: fs' named_def unlink_other)
    with q show ?thesis by (simp add: on_disk_def)
  qed
  then show ?thesis using path_cong [OF c'(2)] c'(2) by (simp add: recovered_def)
qed

lemma remove_records_recovered:
  assumes "recovered sha Q c fs" and "fold (remove_record_locked io) keys (c, fs) = (c', fs')"
  shows "recovered sha Q c' fs' \<and> ch_directory c' = ch_directory c"
  using assms
proof (induction keys arbitrary: c fs)
  case (Cons key keys)
  obtain c1 fs1 where r: "remove_record_locked io key (c, fs) = (c1, fs1)" by (metis prod.exhaust)
  from remove_record_recovered [OF Cons.prems(1) r] Cons.IH [of c1 fs1] Cons.prems(2) r show ?case by simp
qed simp

lemma cleanup_recovered:
  assumes "recovered sha (\<lambda>k. True) c fs" and "cleanup_orphan_files io c names fs = (ok, fs')"
  shows "recovered sha (\<lambda>k. \<not> is_evidence_temp_file (k @ ''.jpg'')) c fs'"
  unfolding recovered_def
proof (intro allI impI conjI)
  fix k r assume k: "map_of (ch_records c) k = Some r"
  with assms(1) have r: "named c k r" "on_disk sha fs r" by (auto simp: recovered_def)
  then show "named c k r" by simp
  assume t: "\<not> is_evidence_temp_file (k @ ''.jpg'')"
  obtain ok1 changed where o: "remove_orphans io c names fs = (ok1, changed, fs')"
    using assms(2) by (auto simp: cleanup_orphan_files_def split: prod.splits)
  have "fs' (jpeg_path c k) = fs (jpeg_path c k)"
    using remove_orphans_other [OF o known_not_orphan [OF r(1) k t]] by (simp add: jpeg_path_def)
  with r show "on_disk sha fs' r" by (simp add: on_disk_def named_def)
qed

text \<open>
  C24: whatever a directory contains, each record of a cache opened on it has a JPEG in the file
  system, at the record's path, of the recorded size and with the recorded checksum; metadata whose
  JPEG is missing, truncated or altered is not recovered. Ids that contain the marker of temporary
  files, which the engine never derives, and directory paths too long for the path field are excluded.
\<close>

theorem recovered_evidence_is_complete:
  assumes "me_evidence_cache_open sha pa ls io mkdir_ok directory max_bytes retention_s fs = (Inr c, fs')"
    and "distinct (ls fs)" and "length directory < 155"
    and "me_evidence_cache_lookup c k = Some r" and "\<not> is_evidence_temp_file (k @ ''.jpg'')"
  shows "er_evidence_id r = k \<and> er_path r = jpeg_path c k \<and>
         (\<exists>jpeg. fs' (jpeg_path c k) = Some jpeg \<and> word_of_nat (length jpeg) = er_bytes r \<and> strcaseeq (sha jpeg) (er_sha256 r))"
proof -
  let ?c = "\<lparr>ch_directory = directory, ch_max_bytes = max_bytes, ch_retention_s = retention_s,
      ch_frame_cache_max_bytes = min max_bytes ME_EVIDENCE_FRAME_CACHE_MAX_BYTES,
      ch_frame_cache_bytes = 0, ch_stored_bytes = 0, ch_records = [], ch_notes = [], ch_frames = []\<rparr>"
  obtain c1 fs1 where l: "load_records sha pa io (ls fs) (?c, fs) = (c1, fs1)" by (metis prod.exhaust)
  obtain ok fs2 where cl: "cleanup_orphan_files io c1 (ls fs1) fs1 = (ok, fs2)" by (metis prod.exhaust)
  obtain n c2 fs3 where p: "prune_expired_locked io (ei_now io) (c1, fs2) = (n, c2, fs3)" by (metis prod_cases3)
  have res: "c2 = c" "fs3 = fs'"
    using assms(1) l cl p by (simp_all add: me_evidence_cache_open_def Let_def split: if_splits)
  have "recovered sha (\<lambda>k. True) ?c fs" "short_directory ?c"
    using assms(3) by (simp_all add: recovered_def short_directory_def)
  with load_records_recovered [OF assms(2) _ _ _ l] have "recovered sha (\<lambda>k. True) c1 fs1" by simp
  from cleanup_recovered [OF this cl]
  have "recovered sha (\<lambda>k. \<not> is_evidence_temp_file (k @ ''.jpg'')) c1 fs2" .
  moreover have "fold (remove_record_locked io)
      (map fst (filter (\<lambda>p. expired (ei_now io) (snd p)) (ch_records c1))) (c1, fs2) = (c, fs')"
    using p res by (simp add: prune_expired_locked_def Let_def)
  ultimately have "recovered sha (\<lambda>k. \<not> is_evidence_temp_file (k @ ''.jpg'')) c fs'" "ch_directory c = ch_directory c1"
    by (auto dest: remove_records_recovered)
  then have "named c k r" "on_disk sha fs' r" using assms(4,5) by (auto simp: recovered_def me_evidence_cache_lookup_def)
  then show ?thesis by (simp add: named_def on_disk_def)
qed

subsection \<open>The metadata round trip\<close>

lemma truncate_rat_of_int [simp]: "truncate_rat (of_int n) = n"
  by (simp add: truncate_rat_def)

lemma double_of_safe: "\<bar>n\<bar> \<le> ME_JSON_SAFE_INTEGER \<Longrightarrow> double_of_int n = Fin (of_int n)"
  by (simp add: double_of_int_def round_double_small ME_JSON_SAFE_INTEGER_def)

lemma evidence_number:
  assumes "json_item j k = Some (JNumber (double_of_int n))" and "0 \<le> n" and "n \<le> ME_JSON_SAFE_INTEGER"
  shows "evidence_json_u64 j k = Some (word_of_int n)"
  using assms double_of_safe [of n]
  by (simp add: evidence_json_u64_def negative_double_def u64_of_double_def ME_JSON_SAFE_INTEGER_def)

lemma evidence_u64_number:
  "json_item j k = Some (JNumber (double_of_u64 w)) \<Longrightarrow> safe_u64 w \<Longrightarrow> evidence_json_u64 j k = Some w"
  using evidence_number [of j k "uint w"] by (simp add: double_of_u64_def safe_u64_def)

lemma evidence_u32_number:
  "json_item j k = Some (JNumber (double_of_u32 w)) \<Longrightarrow> evidence_json_u64 j k = Some (ucast w)"
  using evidence_number [of j k "uint w"] uint_u32_less [of w]
  by (simp add: double_of_u32_def ME_JSON_SAFE_INTEGER_def)

lemma evidence_i64_number:
  assumes "json_item j k = Some (JNumber (double_of_int n))" and "safe_i64 n"
  shows "evidence_json_i64 j k = Some n"
  using assms double_of_safe [of n]
  by (simp add: evidence_json_i64_def i64_of_double_def safe_i64_def ME_JSON_SAFE_INTEGER_def INT64_MAX_def INT64_MIN_def)

lemma evidence_string_item:
  "json_item j k = Some (JString s) \<Longrightarrow> s \<noteq> [] \<Longrightarrow> length s < n \<Longrightarrow> evidence_json_string j k n = Some s"
  by (simp add: evidence_json_string_def)

lemma evidence_bool_item: "json_item j k = Some (JBool b) \<Longrightarrow> evidence_json_bool j k = Some b"
  by (simp add: evidence_json_bool_def)

text \<open>The records whose metadata the reader accepts unchanged.\<close>

definition evidence_encodable :: "MeEvidenceRecord \<Rightarrow> bool" where
  "evidence_encodable r \<longleftrightarrow>
     valid_component (er_evidence_id r) \<and> length (er_evidence_id r) < ME_ANALYTICS_EVIDENCE_ID_MAX \<and>
     bounded_string (er_event_id r) ME_ANALYTICS_EVENT_ID_MAX \<and> bounded_string (er_channel_id r) ME_ANALYTICS_CHANNEL_ID_MAX \<and>
     valid_sha256 (er_sha256 r) \<and>
     bounded_string (er_storage_state r) ME_EVIDENCE_STATE_MAX \<and> bounded_string (er_delivery_state r) ME_EVIDENCE_STATE_MAX \<and>
     safe_u64 (er_stream_epoch r) \<and> safe_u64 (er_frame_id r) \<and> safe_u64 (er_bytes r) \<and> safe_u64 (er_frame_delta r) \<and>
     safe_i64 (er_source_pts r) \<and> safe_i64 (er_capture_time_us r) \<and> safe_i64 (er_pts_delta r) \<and>
     safe_i64 (er_created_at_us r) \<and> safe_i64 (er_expires_at_us r) \<and>
     (er_source_pts_valid r \<longrightarrow> tb_num (er_source_timebase r) \<noteq> 0 \<and> tb_den (er_source_timebase r) \<noteq> 0) \<and>
     er_accuracy r \<noteq> ME_EVIDENCE_ACCURACY_NONE"

lemma read_evidence_encoded:
  assumes "evidence_encodable r"
  shows "read_evidence (evidence_to_json r) =
     Some (r\<lparr>er_source_timebase := zero_timebase, er_width := 0, er_height := 0, er_accuracy := ME_EVIDENCE_ACCURACY_NONE,
             er_path := []\<rparr>, ucast (er_width r), ucast (er_height r), ucast (tb_num (er_source_timebase r)),
           ucast (tb_den (er_source_timebase r)), er_evidence_id r @ ''.jpg'')"
proof -
  let ?j = "evidence_to_json r"
  have items: "json_item ?j k = map_of (case ?j of JObject m \<Rightarrow> m | _ \<Rightarrow> []) k" for k
    by (simp add: json_item_def evidence_to_json_def)
  have str: "evidence_json_string ?j ''evidence_id'' ME_ANALYTICS_EVIDENCE_ID_MAX = Some (er_evidence_id r)"
    "evidence_json_string ?j ''event_id'' ME_ANALYTICS_EVENT_ID_MAX = Some (er_event_id r)"
    "evidence_json_string ?j ''channel_id'' ME_ANALYTICS_CHANNEL_ID_MAX = Some (er_channel_id r)"
    "evidence_json_string ?j ''sha256'' ME_EVIDENCE_SHA256_MAX = Some (er_sha256 r)"
    "evidence_json_string ?j ''storage_state'' ME_EVIDENCE_STATE_MAX = Some (er_storage_state r)"
    "evidence_json_string ?j ''delivery_state'' ME_EVIDENCE_STATE_MAX = Some (er_delivery_state r)"
    "evidence_json_string ?j ''object_key'' ME_EVIDENCE_PATH_MAX = Some (er_evidence_id r @ ''.jpg'')"
    using assms
    by (auto intro!: evidence_string_item simp: json_item_def evidence_to_json_def evidence_encodable_def bounded_string_def
        valid_component_def valid_sha256_def)
  have u64: "evidence_json_u64 ?j ''stream_epoch'' = Some (er_stream_epoch r)"
    "evidence_json_u64 ?j ''frame_id'' = Some (er_frame_id r)" "evidence_json_u64 ?j ''bytes'' = Some (er_bytes r)"
    "evidence_json_u64 ?j ''frame_delta'' = Some (er_frame_delta r)"
    using assms by (auto intro!: evidence_u64_number simp: json_item_def evidence_to_json_def evidence_encodable_def)
  have u32: "evidence_json_u64 ?j ''source_timebase_num'' = Some (ucast (tb_num (er_source_timebase r)))"
    "evidence_json_u64 ?j ''source_timebase_den'' = Some (ucast (tb_den (er_source_timebase r)))"
    "evidence_json_u64 ?j ''width'' = Some (ucast (er_width r))" "evidence_json_u64 ?j ''height'' = Some (ucast (er_height r))"
    by (auto intro!: evidence_u32_number simp: json_item_def evidence_to_json_def)
  have i64: "evidence_json_i64 ?j ''source_pts'' = Some (er_source_pts r)"
    "evidence_json_i64 ?j ''capture_time_us'' = Some (er_capture_time_us r)"
    "evidence_json_i64 ?j ''pts_delta'' = Some (er_pts_delta r)" "evidence_json_i64 ?j ''created_at_us'' = Some (er_created_at_us r)"
    "evidence_json_i64 ?j ''expires_at_us'' = Some (er_expires_at_us r)"
    using assms by (auto intro!: evidence_i64_number simp: json_item_def evidence_to_json_def evidence_encodable_def)
  have bool: "evidence_json_bool ?j ''source_pts_valid'' = Some (er_source_pts_valid r)"
    by (rule evidence_bool_item) (simp add: json_item_def evidence_to_json_def)
  have "valid_component (er_evidence_id r)" "valid_sha256 (er_sha256 r)" using assms by (simp_all add: evidence_encodable_def)
  then show ?thesis
    unfolding read_evidence_def by (simp add: str u64 u32 i64 bool)
qed

lemma unat_ucast_u32: "unat (ucast (w :: u32) :: u64) = unat w"
proof -
  have "unat w < 2 ^ 64" using unsigned_less [where ?'a = nat, of w] by simp
  then show ?thesis by (simp add: unsigned_ucast_eq take_bit_nat_eq_self)
qed

lemma evidence_json_roundtrip:
  assumes "evidence_encodable r"
  shows "evidence_from_json (evidence_to_json r) = Some (r\<lparr>er_path := []\<rparr>)"
proof -
  have v: "metadata_version_ok (evidence_to_json r)"
    by (simp add: metadata_version_ok_def json_item_def evidence_to_json_def ME_EVIDENCE_METADATA_VERSION_def
        double_of_safe ME_JSON_SAFE_INTEGER_def u64_of_double_def truncate_rat_def)
  have a: "parse_accuracy (evidence_to_json r) = Some (er_accuracy r)"
    using assms
    by (cases "er_accuracy r") (simp_all add: parse_accuracy_def json_item_def evidence_to_json_def me_evidence_accuracy_name_def
        evidence_encodable_def)
  have l: "unat w \<le> 4294967295" for w :: u32 using unsigned_less [where ?'a = nat, of w] by simp
  have tb: "er_source_pts_valid r \<longrightarrow> tb_num (er_source_timebase r) \<noteq> 0 \<and> tb_den (er_source_timebase r) \<noteq> 0"
    using assms by (simp add: evidence_encodable_def)
  have u: "ucast (ucast (w :: u32) :: u64) = w" for w by (simp add: ucast_up_ucast_id is_up)
  show ?thesis
    unfolding evidence_from_json_def
    using v a tb by (simp add: read_evidence_encoded [OF assms] unat_ucast_u32 not_less [THEN iffD2, OF l] u Let_def)
qed

subsection \<open>Published evidence after a restart\<close>

lemma load_records_other:
  assumes "load_records sha pa io names (c, fs) = (c', fs')" and "short_directory c" and "key @ ''.json'' \<notin> set names"
  shows "ch_directory c' = ch_directory c \<and> fs' (jpeg_path c key) = fs (jpeg_path c key) \<and>
         fs' (json_path c key) = fs (json_path c key) \<and> map_of (ch_records c') key = map_of (ch_records c) key"
  using assms
proof (induction names arbitrary: c fs)
  case Nil
  then show ?case by (simp add: load_records_def)
next
  case (Cons name names)
  obtain c1 fs1 where l: "load_record sha pa io name (c, fs) = (c1, fs1)" by (metis prod.exhaust)
  have rest: "load_records sha pa io names (c1, fs1) = (c', fs')" using Cons.prems(1) l by (simp add: load_records_def)
  have "name \<noteq> key @ ''.json''" using Cons.prems(3) by auto
  note o = load_record_other [OF l Cons.prems(2) this]
  from Cons.IH [OF rest] Cons.prems(2,3) o path_cong [of c1 c] show ?case by (simp add: short_directory_def)
qed

text \<open>The files of a record, as a capture publishes them and a later run reads them.\<close>

definition published :: "(string \<Rightarrow> string) \<Rightarrow> (json \<Rightarrow> string option) \<Rightarrow> MeEvidenceCache \<Rightarrow> file_system \<Rightarrow> MeEvidenceRecord \<Rightarrow> bool" where
  "published sha pr c fs r \<longleftrightarrow>
     er_path r = jpeg_path c (er_evidence_id r) \<and>
     fs (json_path c (er_evidence_id r)) = pr (evidence_to_json r) \<and> pr (evidence_to_json r) \<noteq> None \<and> on_disk sha fs r"

lemma published_cong:
  assumes "published sha pr c fs r" and "ch_directory c' = ch_directory c"
    and "fs' (jpeg_path c (er_evidence_id r)) = fs (jpeg_path c (er_evidence_id r))"
    and "fs' (json_path c (er_evidence_id r)) = fs (json_path c (er_evidence_id r))"
  shows "published sha pr c' fs' r"
  using assms path_cong [OF assms(2)] by (auto simp: published_def on_disk_def)

lemma load_record_published:
  assumes "published sha pr c fs r" and "evidence_encodable r" and "\<forall>p. ei_read io p" and "short_directory c"
    and "pa (the (pr (evidence_to_json r))) = Some (evidence_to_json r)"
  shows "load_record sha pa io (er_evidence_id r @ ''.json'') (c, fs) =
     (c\<lparr>ch_stored_bytes := ch_stored_bytes c + er_bytes r, ch_records := put_record (er_evidence_id r) r (ch_records c)\<rparr>, fs)"
proof -
  obtain contents where c: "pr (evidence_to_json r) = Some contents" "fs (json_path c (er_evidence_id r)) = Some contents"
    using assms(1) by (auto simp: published_def)
  have path: "build_filename (ch_directory c) (er_evidence_id r @ ''.json'') = json_path c (er_evidence_id r)"
    by (simp add: json_path_def)
  have k: "valid_component (er_evidence_id r)" "length (er_evidence_id r) < ME_ANALYTICS_EVIDENCE_ID_MAX"
    using assms(2) by (simp_all add: evidence_encodable_def)
  have "er_path (fill_record_path c (r\<lparr>er_path := []\<rparr>)) = er_path r"
    using full_path [OF assms(4), of "r\<lparr>er_path := []\<rparr>"] k(2) assms(1) by (simp add: published_def)
  then have fill: "fill_record_path c (r\<lparr>er_path := []\<rparr>) = r" by (simp add: fill_record_path_def)
  have intact: "jpeg_intact sha io fs r" using assms(1,3) by (auto simp: published_def on_disk_def jpeg_intact_def)
  have parse: "Option.bind (pa contents) evidence_from_json = Some (r\<lparr>er_path := []\<rparr>)"
    using assms(5) c(1) evidence_json_roundtrip [OF assms(2)] by simp
  show ?thesis
    using assms(3) k c(2) parse fill intact
    by (simp add: load_record_def Let_def path)
qed

lemma load_records_published:
  assumes pub: "published sha pr c fs r" "evidence_encodable r" "\<forall>p. ei_read io p" "short_directory c"
      "pa (the (pr (evidence_to_json r))) = Some (evidence_to_json r)"
    and names: "distinct names" "er_evidence_id r @ ''.json'' \<in> set names"
    and l: "load_records sha pa io names (c, fs) = (c', fs')"
  shows "map_of (ch_records c') (er_evidence_id r) = Some r"
proof -
  let ?name = "er_evidence_id r @ ''.json''"
  obtain xs ys where ns: "names = xs @ ?name # ys" "?name \<notin> set xs" "?name \<notin> set ys"
    using names by (metis distinct.simps(2) distinct_append split_list not_distinct_conv_prefix)
  obtain c1 fs1 where x: "load_records sha pa io xs (c, fs) = (c1, fs1)" by (metis prod.exhaust)
  note o = load_records_other [OF x pub(4) ns(2)]
  have pub1: "published sha pr c1 fs1 r" using published_cong [OF pub(1)] o by blast
  have short: "short_directory c1" using pub(4) o by (simp add: short_directory_def)
  let ?c2 = "c1\<lparr>ch_stored_bytes := ch_stored_bytes c1 + er_bytes r, ch_records := put_record (er_evidence_id r) r (ch_records c1)\<rparr>"
  have "load_records sha pa io ys (?c2, fs1) = (c', fs')"
    using l x load_record_published [where pa = pa and pr = pr, OF pub1 pub(2,3) short pub(5)] by (simp add: load_records_def ns(1))
  from load_records_other [OF this _ ns(3)] short show ?thesis by (simp add: short_directory_def map_of_put_record)
qed

lemma write_atomic_True: "write_atomic outcome path d fs = (True, fs') \<Longrightarrow> fs' = fs(path \<mapsto> d)"
  by (cases outcome) (auto simp: write_atomic_def)

lemma publish_True:
  assumes "publish pr io c cand jpeg fs = (True, fs')"
  shows "\<exists>body. pr (evidence_to_json cand) = Some body \<and>
           fs' = fs(jpeg_path c (er_evidence_id cand) \<mapsto> jpeg, json_path c (er_evidence_id cand) \<mapsto> body)"
  using assms write_atomic_True
  by (auto simp: publish_def Let_def split: prod.splits bool.splits option.splits)

lemma remove_record_directory: "ch_directory (fst (remove_record_locked io key state)) = ch_directory (fst state)"
  by (cases state) (auto simp: remove_record_locked_def split: option.splits)

lemma prune_directory:
  assumes "prune_expired_locked io now (c, fs) = (n, c', fs')"
  shows "ch_directory c' = ch_directory c"
proof -
  have "ch_directory (fst (fold (remove_record_locked io) keys state)) = ch_directory (fst state)" for keys state
    by (induction keys arbitrary: state) (simp_all add: remove_record_directory)
  from this [of "map fst (filter (\<lambda>p. expired now (snd p)) (ch_records c))" "(c, fs)"] assms show ?thesis
    by (simp add: prune_expired_locked_def Let_def)
qed

lemma capture_published:
  assumes "me_evidence_cache_capture sha pr io c ev fs = (Captured r, ev', c', fs')"
    and "map_of (ch_records c) (ev_evidence_id ev') = None" and "length (ev_evidence_id ev) < ME_ANALYTICS_EVIDENCE_ID_MAX"
    and "short_directory c" and "\<forall>x. valid_sha256 (sha x)"
  shows "published sha pr c fs' r \<and> er_evidence_id r = ev_evidence_id ev'"
  using assms(1)
proof (cases rule: capture_cases)
  case unchanged
  with assms(2) show ?thesis by auto
next
  case (frame frame accuracy fd pd)
  let ?cand = "candidate_record sha c (ei_now io) ev' frame accuracy fd pd"
  have l: "length (ev_evidence_id ev') < ME_ANALYTICS_EVIDENCE_ID_MAX" by (rule with_evidence_id_length(1) [OF frame(1) assms(3)])
  obtain n c1 fs1 where p: "prune_expired_locked io (ei_now io) (c, fs) = (n, c1, fs1)" by (metis prod_cases3)
  have "r = ?cand" and pub: "publish pr io c1 ?cand (jf_jpeg frame) fs1 = (True, fs')"
    using frame(6) p by (auto simp: capture_frame_def split: if_splits prod.splits bool.splits)
  have dir: "ch_directory c1 = ch_directory c" using prune_directory [OF p] .
  from publish_True [OF pub] path_cong [OF dir] obtain body where
    "pr (evidence_to_json r) = Some body" "fs' (jpeg_path c (er_evidence_id r)) = Some (jf_jpeg frame)"
    "fs' (json_path c (er_evidence_id r)) = Some body" using \<open>r = ?cand\<close> by auto
  moreover have "er_path r = jpeg_path c (er_evidence_id r)"
    using \<open>r = ?cand\<close> l length_jpeg_path [OF assms(4) l] by (simp add: candidate_record_def fill_record_path_def)
  moreover have "er_sha256 r = sha (jf_jpeg frame)" "er_bytes r = word_of_nat (length (jf_jpeg frame))"
    using \<open>r = ?cand\<close> assms(5) by (simp_all add: candidate_record_def fill_record_path_def valid_sha256_def)
  ultimately show ?thesis using candidate_id [OF l] \<open>r = ?cand\<close> by (simp add: published_def on_disk_def)
qed


subsection \<open>A concrete capture and restart\<close>

definition demo_sha :: "string \<Rightarrow> string" where
  "demo_sha x = replicate 64 CHR ''0''"

definition demo_evidence_event :: MeAnalyticsEvent where
  "demo_evidence_event = sample_event\<lparr>ev_evidence_id := ''e1''\<rparr>"

definition demo_evidence_io :: EvidenceIo where
  "demo_evidence_io = \<lparr>ei_now = 1000, ei_jpeg_write = Write_Done, ei_json_write = Write_Done, ei_unlink = (\<lambda>_. True),
     ei_read = (\<lambda>_. True), ei_dir_sync = True\<rparr>"

definition demo_record :: MeEvidenceRecord where
  "demo_record = candidate_record demo_sha demo_cache 1000 demo_evidence_event demo_frame ME_EVIDENCE_ACCURACY_EXACT 0 0"

definition demo_files :: file_system where
  "demo_files = Map.empty(jpeg_path demo_cache ''e1'' \<mapsto> jf_jpeg demo_frame, json_path demo_cache ''e1'' \<mapsto> ''m'')"

lemma demo_record_id: "er_evidence_id demo_record = ''e1''" "er_expires_at_us demo_record = 60001000"
  by (simp_all add: demo_record_def candidate_record_def fill_record_path_def demo_evidence_event_def demo_cache_def INT64_MAX_def)

lemma demo_component: "valid_component ''e1''"
  by (simp add: valid_component_def isalnum_def isdigit_def char_code_def)

lemma demo_sha_valid: "\<forall>x. valid_sha256 (demo_sha x)"
  by (simp add: demo_sha_def valid_sha256_def isxdigit_def isdigit_def char_code_def)

lemma demo_record_encodable: "evidence_encodable demo_record"
  using demo_component demo_sha_valid
  by (simp add: evidence_encodable_def demo_record_def candidate_record_def fill_record_path_def demo_evidence_event_def
      sample_event_def zero_event_def demo_frame_def empty_note_def demo_cache_def bounded_string_def safe_u64_def safe_i64_def
      ME_JSON_SAFE_INTEGER_def INT64_MAX_def zero_timebase_def demo_sha_def valid_sha256_def isxdigit_def isdigit_def char_code_def)

lemma demo_capture:
  "me_evidence_cache_capture demo_sha (\<lambda>_. Some ''m'') demo_evidence_io demo_cache demo_evidence_event Map.empty =
     (Captured demo_record, demo_evidence_event,
      demo_cache\<lparr>ch_records := [(''e1'', demo_record)], ch_stored_bytes := 4\<rparr>, demo_files)"
proof -
  have s: "select_frame_locked demo_cache demo_evidence_event = Some (demo_frame, ME_EVIDENCE_ACCURACY_EXACT, 0, 0)"
    using demo_selected
    by (simp add: demo_evidence_event_def select_frame_locked_def demo_cache_def demo_frame_def sample_event_def zero_event_def
        frame_is_exact_def frame_matches_event_def comparable_pts_def empty_note_def)
  have b: "er_bytes demo_record = 4"
    by (simp add: demo_record_def candidate_record_def fill_record_path_def demo_frame_def)
  have cf: "capture_frame demo_sha (\<lambda>_. Some ''m'') demo_evidence_io demo_cache demo_evidence_event demo_frame demo_record Map.empty =
      (Captured demo_record, demo_evidence_event,
       demo_cache\<lparr>ch_records := [(''e1'', demo_record)], ch_stored_bytes := 4\<rparr>, demo_files)"
    by (simp add: capture_frame_def b demo_record_id prune_expired_locked_def demo_cache_def publish_def write_atomic_def
        demo_evidence_io_def put_record_def demo_files_def jpeg_path_def json_path_def Let_def)
  have "ev_event_id demo_evidence_event \<noteq> []" "ev_channel_id demo_evidence_event \<noteq> []" "ev_stream_epoch demo_evidence_event \<noteq> 0"
    "ev_phase demo_evidence_event = ME_EVENT_PHASE_START" "ev_evidence_id demo_evidence_event = ''e1''"
    "ch_records demo_cache = []" "ei_now demo_evidence_io = 1000"
    by (simp_all add: demo_evidence_event_def sample_event_def zero_event_def demo_cache_def demo_evidence_io_def)
  with s cf demo_component show ?thesis
    by (simp add: me_evidence_cache_capture_def with_evidence_id_def demo_record_def [symmetric])
qed

definition demo_reopened :: MeEvidenceCache where
  "demo_reopened = demo_cache\<lparr>ch_frame_cache_bytes := 0, ch_frames := [], ch_stored_bytes := 4, ch_records := [(''e1'', demo_record)]\<rparr>"

lemma demo_open:
  "me_evidence_cache_open demo_sha (\<lambda>_. Some (evidence_to_json demo_record)) (\<lambda>_. [''e1.json'']) demo_evidence_io True
     (ch_directory demo_cache) 100 60 demo_files = (Inr demo_reopened, demo_files)"
proof -
  let ?c = "\<lparr>ch_directory = ch_directory demo_cache, ch_max_bytes = 100, ch_retention_s = 60,
      ch_frame_cache_max_bytes = min 100 ME_EVIDENCE_FRAME_CACHE_MAX_BYTES,
      ch_frame_cache_bytes = 0, ch_stored_bytes = 0, ch_records = [], ch_notes = [], ch_frames = []\<rparr>"
  have short: "short_directory demo_cache" "short_directory ?c" by (simp_all add: short_directory_def demo_cache_def)
  have n: "map_of (ch_records demo_cache) (ev_evidence_id demo_evidence_event) = None"
    "length (ev_evidence_id demo_evidence_event) < ME_ANALYTICS_EVIDENCE_ID_MAX"
    by (simp_all add: demo_cache_def demo_evidence_event_def)
  have "published demo_sha (\<lambda>_. Some ''m'') demo_cache demo_files demo_record"
    using capture_published [OF demo_capture n short(1) demo_sha_valid] by blast
  then have pub: "published demo_sha (\<lambda>_. Some ''m'') ?c demo_files demo_record" by (rule published_cong) simp_all
  have "\<forall>p. ei_read demo_evidence_io p" by (simp add: demo_evidence_io_def)
  have "load_record demo_sha (\<lambda>_. Some (evidence_to_json demo_record)) demo_evidence_io (er_evidence_id demo_record @ ''.json'')
      (?c, demo_files) = (?c\<lparr>ch_stored_bytes := ch_stored_bytes ?c + er_bytes demo_record,
        ch_records := put_record (er_evidence_id demo_record) demo_record (ch_records ?c)\<rparr>, demo_files)"
    by (rule load_record_published [OF pub demo_record_encodable \<open>\<forall>p. ei_read demo_evidence_io p\<close> short(2)]) simp
  moreover have "er_bytes demo_record = 4"
    by (simp add: demo_record_def candidate_record_def fill_record_path_def demo_frame_def)
  ultimately have l: "load_records demo_sha (\<lambda>_. Some (evidence_to_json demo_record)) demo_evidence_io [''e1.json'']
      (?c, demo_files) = (demo_reopened, demo_files)"
    by (simp add: load_records_def demo_record_id put_record_def demo_reopened_def demo_cache_def ME_EVIDENCE_FRAME_CACHE_MAX_BYTES_def)
  have "\<not> is_orphan demo_reopened ''e1.json''"
    using demo_component
    by (simp add: is_orphan_def is_evidence_temp_file_def evidence_id_from_suffix_def ends_with_def demo_reopened_def)
  then have cl: "cleanup_orphan_files demo_evidence_io demo_reopened [''e1.json''] demo_files = (True, demo_files)"
    by (simp add: cleanup_orphan_files_def)
  have p: "prune_expired_locked demo_evidence_io 1000 (demo_reopened, demo_files) = (0, demo_reopened, demo_files)"
    by (simp add: prune_expired_locked_def demo_reopened_def expired_def demo_record_id)
  have "ei_now demo_evidence_io = 1000" "ch_directory demo_cache \<noteq> []" "length (ch_directory demo_cache) < ME_EVIDENCE_PATH_MAX"
    by (simp_all add: demo_evidence_io_def demo_cache_def)
  with l cl p show ?thesis by (simp add: me_evidence_cache_open_def Let_def)
qed

theorem recovered_evidence_is_complete_witness:
  "er_path demo_record = jpeg_path demo_reopened ''e1'' \<and> demo_files (jpeg_path demo_reopened ''e1'') \<noteq> None"
proof -
  have "me_evidence_cache_lookup demo_reopened ''e1'' = Some demo_record"
    by (simp add: me_evidence_cache_lookup_def demo_reopened_def)
  moreover have "\<not> is_evidence_temp_file (''e1'' @ ''.jpg'')" by (simp add: is_evidence_temp_file_def)
  moreover have "length (ch_directory demo_cache) < 155" by (simp add: demo_cache_def)
  ultimately show ?thesis using recovered_evidence_is_complete [OF demo_open, of "''e1''" demo_record] by auto
qed


end
