(* ===== verification/Rockiva_Facts.thy ===== *)
theory Rockiva_Facts
  imports Rockiva_Runner
begin

text \<open>
  Correctness of the detector runner: an accepted frame layout lies inside its buffer and survives
  the 16-bit fields of the detector's image, detections become valid observations, every buffer
  reference is dropped exactly once in every interleaving of the callbacks, a successful shutdown
  leaves no frame behind, and a free frame id is found.
\<close>

subsection \<open>Layouts\<close>

lemma finish_layout_facts:
  assumes "finish_layout sample layout = Some ly"
  shows "0 < ly_stride layout \<and> ly_stride layout \<le> 65535 \<and> sint (ly_width layout) \<le> ly_stride layout \<and>
         ly_uv_stride layout = ly_stride layout \<and> ly_offset layout = 0 \<and>
         ly = layout\<lparr>ly_hstride := ucast (ly_uv_offset layout div word_of_int (ly_stride layout)), ly_fd := sa_fd sample\<rparr> \<and>
         ucast (ly_height layout) \<le> ly_uv_offset layout div word_of_int (ly_stride layout) \<and>
         ly_uv_offset layout div word_of_int (ly_stride layout) \<le> 65535 \<and>
         ly_uv_offset layout div word_of_int (ly_stride layout) * word_of_int (ly_stride layout) = ly_uv_offset layout \<and>
         ly_uv_offset layout \<le> UINT64_MAX - word_of_int (ly_stride layout) * ucast (ly_height layout div 2) \<and>
         ly_uv_offset layout + word_of_int (ly_stride layout) * ucast (ly_height layout div 2) \<le> sa_visible_size sample \<and>
         0 \<le> sa_fd sample"
  using assms
  by (simp add: finish_layout_def Let_def not_less not_le split: if_splits)

text \<open>The layout's planes, in plain numbers.\<close>

definition layout_ok :: "Sample \<Rightarrow> MeRockivaLayout \<Rightarrow> bool" where
  "layout_ok sample ly \<longleftrightarrow>
     0 < ly_stride ly \<and> ly_stride ly \<le> 65535 \<and> sint (ly_width ly) \<le> ly_stride ly \<and> unat (ly_hstride ly) \<le> 65535 \<and>
     unat (ly_height ly) \<le> unat (ly_hstride ly) \<and> unat (ly_uv_offset ly) = unat (ly_hstride ly) * nat (ly_stride ly) \<and>
     unat (ly_hstride ly) * nat (ly_stride ly) + nat (ly_stride ly) * (unat (ly_height ly) div 2) \<le> unat (sa_visible_size sample) \<and>
     0 \<le> ly_fd ly"

lemma unat_word_of_int_u64: "0 \<le> n \<Longrightarrow> n < 2 ^ 64 \<Longrightarrow> unat (word_of_int n :: u64) = nat n"
  by (simp add: unat_eq_nat_uint uint_word_of_int_eq take_bit_int_eq_self)

lemma unat_add_no_wrap: "unat a + unat b < 2 ^ 64 \<Longrightarrow> unat (a + b) = unat a + unat (b :: u64)"
  by (simp add: unat_word_ariths)

lemma unat_mult_no_wrap: "unat a * unat b < 2 ^ 64 \<Longrightarrow> unat (a * b) = unat a * unat (b :: u64)"
  by (simp add: unat_word_ariths)

lemma unat_ucast_u64: "unat (ucast (w :: u32) :: u64) = unat w"
proof -
  have "unat w < 2 ^ 64" using unsigned_less [where ?'a = nat, of w] by simp
  then show ?thesis by (simp add: unsigned_ucast_eq take_bit_nat_eq_self)
qed

lemma finish_layout_ok:
  assumes "finish_layout sample layout = Some ly"
  shows "layout_ok sample ly \<and> ly_width ly = ly_width layout \<and> ly_height ly = ly_height layout"
proof -
  note f = finish_layout_facts [OF assms]
  let ?s = "word_of_int (ly_stride layout) :: u64"
  let ?h = "ly_uv_offset layout div ?s"
  have s: "unat ?s = nat (ly_stride layout)" using f by (simp add: unat_word_of_int_u64)
  have h: "unat ?h \<le> 65535" using f by (simp add: word_le_nat_alt)
  then have uh: "unat (ucast ?h :: u32) = unat ?h" by (simp add: unsigned_ucast_eq take_bit_nat_eq_self)
  have height: "unat (ly_height layout) \<le> unat ?h" using f by (simp add: word_le_nat_alt unat_ucast_u64)
  have prod: "unat ?h * nat (ly_stride layout) \<le> 65535 * 65535" using h f by (intro mult_mono) auto
  have "unat (ly_uv_offset layout) = unat (?h * ?s)" using f by simp
  also have "\<dots> = unat ?h * nat (ly_stride layout)" 
  proof -
    have "unat ?h * unat ?s < 2 ^ 64" unfolding s using prod by simp
    from unat_mult_no_wrap [OF this] show ?thesis by (simp only: s)
  qed
  finally have off: "unat (ly_uv_offset layout) = unat ?h * nat (ly_stride layout)" .
  have half: "unat (ucast (ly_height layout div 2) :: u64) = unat (ly_height layout) div 2"
    by (simp add: unat_ucast_u64 unat_div)
  have prod2: "nat (ly_stride layout) * (unat (ly_height layout) div 2) \<le> 65535 * 65535"
    using f height h by (intro mult_mono) auto
  have uv: "unat (?s * ucast (ly_height layout div 2)) = nat (ly_stride layout) * (unat (ly_height layout) div 2)"
  proof -
    have "unat ?s * unat (ucast (ly_height layout div 2) :: u64) < 2 ^ 64" unfolding s half using prod2 by simp
    from unat_mult_no_wrap [OF this] show ?thesis by (simp only: s half)
  qed
  have "unat (ly_uv_offset layout) + unat (?s * ucast (ly_height layout div 2)) < 2 ^ 64"
    unfolding off uv using prod prod2 by simp
  then have "unat (ly_uv_offset layout + ?s * ucast (ly_height layout div 2)) =
      unat (ly_uv_offset layout) + unat (?s * ucast (ly_height layout div 2))"
    by (rule unat_add_no_wrap)
  moreover have "unat (ly_uv_offset layout + ?s * ucast (ly_height layout div 2)) \<le> unat (sa_visible_size sample)"
    using f by (simp add: word_le_nat_alt)
  ultimately have "unat ?h * nat (ly_stride layout) + nat (ly_stride layout) * (unat (ly_height layout) div 2) \<le> unat (sa_visible_size sample)"
    by (simp only: off uv)
  moreover have "ly = layout\<lparr>ly_hstride := ucast ?h, ly_fd := sa_fd sample\<rparr>" using f by simp
  ultimately show ?thesis
    using f h height off uh by (simp add: layout_ok_def)
qed

lemma inspect_sample_ok:
  assumes "inspect_sample sample config = Some ly"
  shows "layout_ok sample ly \<and> ly_width ly = word_of_int (cf_width config) \<and> ly_height ly = word_of_int (cf_height config)"
  using assms
  by (auto simp: inspect_sample_def Let_def split: if_splits option.splits dest!: finish_layout_ok)

lemma small_word:
  assumes "0 \<le> n" and "n \<le> 65535"
  shows "uint (word_of_int n :: u32) = n" "uint (word_of_int n :: 16 word) = n" "sint (word_of_int n :: u32) = n"
    "uint (ucast (word_of_int n :: u32) :: 16 word) = n"
proof -
  show u: "uint (word_of_int n :: u32) = n" using assms by (simp add: uint_word_of_int_eq take_bit_int_eq_self)
  show "uint (word_of_int n :: 16 word) = n" using assms by (simp add: uint_word_of_int_eq take_bit_int_eq_self)
  show "sint (word_of_int n :: u32) = n" using assms by (simp add: signed_of_int signed_take_bit_int_eq_self)
  have "uint (ucast (word_of_int n :: u32) :: 16 word) = take_bit 16 (uint (word_of_int n :: u32))"
    by (simp add: unsigned_ucast_eq)
  then show "uint (ucast (word_of_int n :: u32) :: 16 word) = n" unfolding u using assms by (simp add: take_bit_int_eq_self)
qed

text \<open>
  C28: a sample is submitted to the detector only with a layout that lies inside the visible memory of
  its buffer: the luma plane of stride times height rows, then the chroma plane of half the height.
  The 16-bit width, height and strides of the detector's image are the layout's own values.
\<close>

theorem accepted_layout_in_bounds:
  assumes "inspect_sample sample config = Some layout"
    and "0 < cf_width config" "cf_width config \<le> 65535" "0 < cf_height config" "cf_height config \<le> 65535"
  shows "unat (ly_hstride layout) * nat (ly_stride layout) + nat (ly_stride layout) * (nat (cf_height config) div 2)
           \<le> unat (sa_visible_size sample) \<and>
         unat (ly_uv_offset layout) = unat (ly_hstride layout) * nat (ly_stride layout) \<and>
         nat (cf_height config) \<le> unat (ly_hstride layout) \<and> cf_width config \<le> ly_stride layout \<and>
         uint (im_width (pushed_image layout i)) = cf_width config \<and> uint (im_height (pushed_image layout i)) = cf_height config \<and>
         uint (im_wstride (pushed_image layout i)) = ly_stride layout \<and>
         uint (im_hstride (pushed_image layout i)) = uint (ly_hstride layout)"
proof -
  note ok = inspect_sample_ok [OF assms(1)]
  have w: "ly_width layout = word_of_int (cf_width config)" "ly_height layout = word_of_int (cf_height config)" using ok by auto
  have n: "unat (ly_height layout) = nat (cf_height config)"
    using small_word(1) [of "cf_height config"] assms(4,5) w(2) by (simp add: unat_eq_nat_uint)
  have h: "uint (ucast (ly_hstride layout) :: 16 word) = uint (ly_hstride layout)"
  proof -
    have "int (unat (ly_hstride layout)) \<le> int 65535" using ok unfolding layout_ok_def of_nat_le_iff by blast
    then show ?thesis using small_word(4) [of "uint (ly_hstride layout)"] by simp
  qed
  have im: "uint (im_width (pushed_image layout i)) = cf_width config" "uint (im_height (pushed_image layout i)) = cf_height config"
    using small_word(4) [of "cf_width config"] small_word(4) [of "cf_height config"] assms(2-5)
    by (simp_all add: pushed_image_def w)
  have st: "uint (im_wstride (pushed_image layout i)) = ly_stride layout"
    "uint (im_hstride (pushed_image layout i)) = uint (ly_hstride layout)"
    using small_word(2) [of "ly_stride layout"] ok h by (simp_all add: pushed_image_def layout_ok_def)
  have "cf_width config \<le> ly_stride layout"
    using small_word(3) [of "cf_width config"] ok assms(2,3) by (simp add: layout_ok_def w)
  with ok n im st show ?thesis by (simp add: layout_ok_def)
qed

definition demo_sample :: Sample where
  "demo_sample =
     \<lparr>sa_has_buffer_and_caps = True, sa_caps_size = 1,
      sa_info = Some \<lparr>pl_nv12 = True, pl_n_planes = 2, pl_width = 640, pl_height = 360, pl_stride0 = 640, pl_stride1 = 640,
                      pl_offset0 = 0, pl_offset1 = 230400\<rparr>,
      sa_progressive = True, sa_n_memory = 1, sa_dmabuf = True, sa_meta = None, sa_memory_offset = 0,
      sa_visible_size = 345600, sa_buffer_size = 345600, sa_fd = 5\<rparr>"

definition demo_analytics :: MeAnalyticsConfig where
  "demo_analytics = me_analytics_config_defaults\<lparr>cf_enabled := True, cf_model := ''pfp'', cf_width := 640, cf_height := 360, cf_fps := 10\<rparr>"

lemma demo_layout:
  "inspect_sample demo_sample demo_analytics =
     Some \<lparr>ly_width = 640, ly_height = 360, ly_hstride = 360, ly_stride = 640, ly_uv_stride = 640, ly_offset = 0,
           ly_uv_offset = 230400, ly_fd = 5\<rparr>"
  by (simp add: inspect_sample_def finish_layout_def demo_sample_def demo_analytics_def me_analytics_config_defaults_def)

theorem accepted_layout_in_bounds_witness:
  "\<exists>layout. inspect_sample demo_sample demo_analytics = Some layout \<and> unat (ly_uv_offset layout) = 360 * 640"
  using accepted_layout_in_bounds [OF demo_layout] demo_layout
  by (simp add: demo_analytics_def me_analytics_config_defaults_def)

subsection \<open>Observations\<close>

lemma live_tracks_add:
  assumes "length (ob_tracks ob) = ME_ANALYTICS_MAX_TRACKS" and "unat (ob_track_count ob) < ME_ANALYTICS_MAX_TRACKS"
  shows "live_tracks (add_track ob t) = live_tracks ob @ [t]" "unat (ob_track_count (add_track ob t)) = Suc (unat (ob_track_count ob))"
proof -
  show u: "unat (ob_track_count (add_track ob t)) = Suc (unat (ob_track_count ob))"
    using assms(2) by (simp add: add_track_def unat_word_ariths)
  show "live_tracks (add_track ob t) = live_tracks ob @ [t]"
    unfolding live_tracks_def u using assms by (simp add: add_track_def take_Suc_conv_app_nth)
qed

lemma observation_ok_add:
  assumes "observation_ok ob" and "length (ob_tracks ob) = ME_ANALYTICS_MAX_TRACKS"
    and "unat (ob_track_count ob) < ME_ANALYTICS_MAX_TRACKS" and "track_ok t" and "to_track_id t \<notin> to_track_id ` set (live_tracks ob)"
  shows "observation_ok (add_track ob t)"
proof -
  have "ob_track_count (add_track ob t) \<le> 64"
    using live_tracks_add(2) [OF assms(2,3), of t] assms(3) by (simp add: word_le_nat_alt)
  moreover have "live_rules (add_track ob t) = live_rules ob" by (simp add: live_rules_def add_track_def)
  ultimately show ?thesis
    using assms(1,4,5) unfolding observation_ok_def live_tracks_add(1) [OF assms(2,3)]
    by (simp add: add_track_def)
qed

lemma clamp_coord_le: "clamp_coord v \<le> 10000"
  by (auto simp: clamp_coord_def ME_ANALYTICS_COORD_SCALE_def word_le_def uint_word_of_int_eq take_bit_int_eq_self)

lemma score_le: "(if s \<ge> 100 then ME_ANALYTICS_COORD_SCALE else s * 100) \<le> (10000 :: u32)"
proof (cases "s \<ge> 100")
  case False
  then have "unat s < 100" by (simp add: word_less_nat_alt not_le)
  then have "unat (s * 100) = unat s * 100" by (simp add: unat_word_ariths)
  with False \<open>unat s < 100\<close> show ?thesis by (simp add: word_le_nat_alt)
qed (simp add: ME_ANALYTICS_COORD_SCALE_def)

lemma distinct_take_filter: "distinct (map f (filter P xs)) \<Longrightarrow> distinct (map f (filter P (take n xs)))"
  by (metis append_take_drop_id distinct_append filter_append map_append)

text \<open>The observation built so far is valid and its ids come from the objects seen.\<close>

definition building :: "u64 set \<Rightarrow> MeNormalizedObservation \<Rightarrow> bool" where
  "building ids ob \<longleftrightarrow>
     observation_ok ob \<and> length (ob_tracks ob) = ME_ANALYTICS_MAX_TRACKS \<and> to_track_id ` set (live_tracks ob) \<subseteq> ids"

lemma add_object_building:
  assumes "building ids ob" and "io_person object \<Longrightarrow> ucast (io_objId object) \<notin> ids"
  shows "building (if io_person object then insert (ucast (io_objId object)) ids else ids) (add_object ob object)"
proof (cases "add_object ob object = ob")
  case True
  with assms(1) show ?thesis by (auto simp: building_def)
next
  case False
  then obtain st where st: "map_track_state (io_state object) = Some st"
    and c: "io_person object" "io_objId object \<noteq> 0" "unat (ob_track_count ob) < ME_ANALYTICS_MAX_TRACKS"
      "clamp_coord (io_left object) < clamp_coord (io_right object)" "clamp_coord (io_top object) < clamp_coord (io_bottom object)"
    by (auto simp: add_object_def Let_def not_le split: option.splits if_splits)
  let ?t = "\<lparr>to_track_id = ucast (io_objId object), to_class_id = ME_TRACK_CLASS_PERSON, to_state = st,
     to_bbox = \<lparr>bb_left = clamp_coord (io_left object), bb_top = clamp_coord (io_top object),
                bb_right = clamp_coord (io_right object), bb_bottom = clamp_coord (io_bottom object)\<rparr>,
     to_score_q = (if io_score object \<ge> 100 then ME_ANALYTICS_COORD_SCALE else io_score object * 100)\<rparr>"
  have eq: "add_object ob object = add_track ob ?t"
    using st c by (simp add: add_object_def Let_def not_le)
  have "ucast (io_objId object) \<noteq> (0 :: u64)"
    using c(2) unat_ucast_u64 [of "io_objId object"] by (metis unat_eq_zero unsigned_0)
  then have t: "track_ok ?t"
    using c(4,5) st clamp_coord_le score_le [of "io_score object"]
    by (auto simp: track_ok_def map_track_state_def valid_track_state_def split: RockIvaObjectState.splits)
  have len: "length (ob_tracks ob) = ME_ANALYTICS_MAX_TRACKS" using assms(1) by (simp add: building_def)
  have "observation_ok (add_track ob ?t)"
    by (rule observation_ok_add [OF _ len c(3) t]) (use assms c(1) in \<open>auto simp: building_def\<close>)
  then show ?thesis
    unfolding eq building_def live_tracks_add(1) [OF len c(3)] using assms(1) c(1) by (auto simp: building_def add_track_def)
qed

lemma add_objects_building:
  assumes "building ids ob" and "distinct (map io_objId (filter io_person objects))"
    and "\<forall>ob \<in> set objects. io_person ob \<longrightarrow> ucast (io_objId ob) \<notin> ids"
  shows "\<exists>ids'. building ids' (foldl add_object ob objects)"
  using assms
proof (induction objects arbitrary: ids ob)
  case Nil
  then show ?case by auto
next
  case (Cons o1 objects)
  have inj: "(ucast a :: u64) = ucast b \<Longrightarrow> a = b" for a b :: u32 by (metis unat_ucast_u64 word_unat_eq_iff)
  have "building (if io_person o1 then insert (ucast (io_objId o1)) ids else ids) (add_object ob o1)"
    using Cons.prems by (intro add_object_building) auto
  moreover have "\<forall>x \<in> set objects. io_person x \<longrightarrow>
      ucast (io_objId x) \<notin> (if io_person o1 then insert (ucast (io_objId o1)) ids else ids)"
  proof (intro ballI impI)
    fix x assume x: "x \<in> set objects" "io_person x"
    then have "ucast (io_objId x) \<notin> ids" using Cons.prems(3) by simp
    moreover have "io_person o1 \<Longrightarrow> io_objId x \<noteq> io_objId o1" using Cons.prems(2) x by (simp add: image_iff) metis
    ultimately show "ucast (io_objId x) \<notin> (if io_person o1 then insert (ucast (io_objId o1)) ids else ids)"
      using inj [of "io_objId x" "io_objId o1"] by auto
  qed
  moreover have "distinct (map io_objId (filter io_person objects))" using Cons.prems(2) by (simp split: if_splits)
  ultimately show ?case using Cons.IH by simp
qed

lemma detected_observation:
  assumes "detect_callback max_obj runner success frameId objects = (runner', Some ob)"
  obtains channel epoch bv mv pts valid where
    "channel \<noteq> []" "length channel < 64" "epoch \<noteq> 0" "frameId \<noteq> 0"
    "bounded_string bv 64" "bounded_string mv 64" "0 \<le> pts" "\<not> valid \<Longrightarrow> pts = 0"
    "ob = foldl add_object (me_observation_init\<lparr>ob_channel_id := channel, ob_stream_epoch := epoch,
        ob_frame_id := ucast frameId,
        ob_frame_width := (case rr_frames runner frameId of None \<Rightarrow> word_of_int (cf_width (rr_config runner)) | Some f \<Rightarrow> fr_width f),
        ob_frame_height := (case rr_frames runner frameId of None \<Rightarrow> word_of_int (cf_height (rr_config runner)) | Some f \<Rightarrow> fr_height f),
        ob_backend_name := ''rockiva'',
        ob_backend_version := bv, ob_model_version := mv, ob_source_pts := pts, ob_source_pts_valid := valid\<rparr>) (take max_obj objects)"
proof -
  let ?f = "rr_frames runner frameId"
  let ?pts = "case ?f of None \<Rightarrow> GST_CLOCK_TIME_NONE | Some f \<Rightarrow> fr_pts f"
  let ?valid = "?pts \<noteq> GST_CLOCK_TIME_NONE \<and> uint ?pts \<le> INT64_MAX"
  let ?channel = "copy_string ME_ANALYTICS_CHANNEL_ID_MAX (case ?f of None \<Rightarrow> rr_channel_id runner | Some f \<Rightarrow> fr_channel_id f)"
  let ?epoch = "case ?f of None \<Rightarrow> rr_stream_epoch runner | Some f \<Rightarrow> fr_stream_epoch f"
  let ?bv = "copy_string ME_ANALYTICS_VERSION_MAX (if rr_backend_version runner \<noteq> [] then rr_backend_version runner else ''unknown'')"
  let ?mv = "copy_string ME_ANALYTICS_MODEL_VERSION_MAX (if rr_model_version runner \<noteq> [] then rr_model_version runner else ''unknown'')"
  let ?base = "me_observation_init\<lparr>ob_channel_id := ?channel, ob_stream_epoch := ?epoch,
        ob_frame_id := ucast frameId,
        ob_frame_width := (case ?f of None \<Rightarrow> word_of_int (cf_width (rr_config runner)) | Some f \<Rightarrow> fr_width f),
        ob_frame_height := (case ?f of None \<Rightarrow> word_of_int (cf_height (rr_config runner)) | Some f \<Rightarrow> fr_height f),
        ob_backend_name := ''rockiva'', ob_backend_version := ?bv, ob_model_version := ?mv\<rparr>"
  have c: "?channel \<noteq> [] \<and> ?epoch \<noteq> 0 \<and> frameId \<noteq> 0 \<and>
      ob = foldl add_object (if ?valid then ?base\<lparr>ob_source_pts := uint ?pts, ob_source_pts_valid := True\<rparr> else ?base) (take max_obj objects)"
    using assms unfolding detect_callback_def Let_def by (simp only: prod.inject option.inject option.distinct split: if_splits) simp_all
  have base: "(if ?valid then ?base\<lparr>ob_source_pts := uint ?pts, ob_source_pts_valid := True\<rparr> else ?base) =
      ?base\<lparr>ob_source_pts := if ?valid then uint ?pts else 0, ob_source_pts_valid := ?valid\<rparr>"
    by (simp add: me_observation_init_def zero_observation_def)
  have bounded: "bounded_string ?bv 64" "bounded_string ?mv 64"
    by (auto simp: bounded_string_def copy_string_def)
  have "length ?channel < 64" by (rule length_copy_string) simp
  then show ?thesis
    using c bounded unfolding base by (intro that [of ?channel ?epoch ?bv ?mv "if ?valid then uint ?pts else 0" ?valid]) auto
qed

text \<open>
  C27: a successful detection becomes an observation that passes the validation of the event engine:
  boxes are clamped to the coordinate scale, degenerate ones dropped, scores scaled, at most 64
  tracks taken. The detector must not report one person id twice, and the frames in flight must have
  the positive size that every accepted layout has.
\<close>

theorem detections_give_valid_observations:
  assumes "detect_callback max_obj runner success frameId objects = (runner', Some ob)"
    and "distinct (map io_objId (filter io_person objects))"
    and "\<forall>f \<in> ran (rr_frames runner). fr_width f \<noteq> 0 \<and> fr_height f \<noteq> 0"
    and "0 < cf_width (rr_config runner)" "cf_width (rr_config runner) \<le> 65535"
    and "0 < cf_height (rr_config runner)" "cf_height (rr_config runner) \<le> 65535"
  shows "me_observation_validate (Some ob) = Inr ()"
proof -
  let ?frame = "rr_frames runner frameId"
  let ?w = "case ?frame of None \<Rightarrow> word_of_int (cf_width (rr_config runner)) | Some f \<Rightarrow> fr_width f"
  let ?h = "case ?frame of None \<Rightarrow> word_of_int (cf_height (rr_config runner)) | Some f \<Rightarrow> fr_height f"
  have nz: "(word_of_int n :: u32) \<noteq> 0" if "0 < n" "n \<le> 65535" for n
    using small_word(1) [of n] that by (metis less_le unsigned_0 order_less_imp_le)
  have size: "?w \<noteq> 0" "?h \<noteq> 0"
    using assms(3) nz [OF assms(4,5)] nz [OF assms(6,7)] by (auto split: option.splits intro: ranI)
  from assms(1) obtain channel epoch bv mv pts valid where
      ids: "channel \<noteq> []" "length channel < 64" "epoch \<noteq> 0" "frameId \<noteq> 0"
    and names: "bounded_string bv 64" "bounded_string mv 64" and pts: "0 \<le> pts" "\<not> valid \<Longrightarrow> pts = 0"
    and ob: "ob = foldl add_object (me_observation_init\<lparr>ob_channel_id := channel, ob_stream_epoch := epoch,
        ob_frame_id := ucast frameId, ob_frame_width := ?w, ob_frame_height := ?h, ob_backend_name := ''rockiva'',
        ob_backend_version := bv, ob_model_version := mv, ob_source_pts := pts, ob_source_pts_valid := valid\<rparr>) (take max_obj objects)"
    by (rule detected_observation) (rule that)
  let ?ob1 = "me_observation_init\<lparr>ob_channel_id := channel, ob_stream_epoch := epoch,
        ob_frame_id := ucast frameId, ob_frame_width := ?w, ob_frame_height := ?h, ob_backend_name := ''rockiva'',
        ob_backend_version := bv, ob_model_version := mv, ob_source_pts := pts, ob_source_pts_valid := valid\<rparr>"
  have "ucast frameId \<noteq> (0 :: u64)" using ids(4) unat_ucast_u64 [of frameId] by (metis unat_eq_zero unsigned_0)
  then have "building {} ?ob1"
    using ids names pts size
    by (simp add: building_def observation_ok_def me_observation_init_def zero_observation_def ME_ANALYTICS_CONTRACT_VERSION_def
        bounded_string_def clock_ok_def live_tracks_def live_rules_def)
  moreover have "distinct (map io_objId (filter io_person (take max_obj objects)))"
    using assms(2) distinct_take_filter by blast
  ultimately have "observation_ok ob" using add_objects_building ob by (fastforce simp: building_def)
  then show ?thesis by (simp add: validate_Inr_iff)
qed

definition demo_rockiva :: MeRockivaRunner where
  "demo_rockiva =
     \<lparr>rr_frames = Map.empty, rr_handle_initialized = True, rr_detect_initialized = True,
      rr_release_callback_initialized = True, rr_stopping = False, rr_active_callbacks = 0,
      rr_pending_frames = 0, rr_next_frame_id = 0, rr_rejected_samples = 0, rr_stream_epoch = 1,
      rr_channel_id = ''camera'', rr_model_version = ''pfp'', rr_backend_version = ''v1'', rr_config = demo_analytics\<rparr>"

lemma demo_rockiva_new:
  "me_rockiva_runner_new True (Some demo_analytics) True (ROCKIVA_RET_SUCCESS, ''v1'') ROCKIVA_RET_SUCCESS ROCKIVA_RET_SUCCESS
     ROCKIVA_RET_SUCCESS = Inr demo_rockiva"
  by (simp add: me_rockiva_runner_new_def demo_rockiva_def demo_analytics_def me_analytics_config_defaults_def
      model_from_name_def strcaseeq_def)

definition demo_person :: RockIvaObject where
  "demo_person = \<lparr>io_person = True, io_objId = 7, io_state = ROCKIVA_OBJECT_STATE_TRACKING, io_left = -5, io_top = 100,
                  io_right = 12000, io_bottom = 900, io_score = 88\<rparr>"

theorem detections_give_valid_observations_witness:
  "\<exists>ob. detect_callback 128 demo_rockiva True 3 [demo_person] = (demo_rockiva, Some ob) \<and> me_observation_validate (Some ob) = Inr ()"
proof -
  have "\<exists>ob. detect_callback 128 demo_rockiva True 3 [demo_person] = (demo_rockiva, Some ob)"
    by (simp add: detect_callback_def demo_rockiva_def Let_def)
  then obtain ob where ob: "detect_callback 128 demo_rockiva True 3 [demo_person] = (demo_rockiva, Some ob)" by blast
  have "me_observation_validate (Some ob) = Inr ()"
    by (rule detections_give_valid_observations [OF ob])
      (simp_all add: demo_rockiva_def demo_analytics_def me_analytics_config_defaults_def)
  with ob show ?thesis by blast
qed

subsection \<open>Frame ids\<close>

lemma next_id_loop_found:
  "fst (next_id_loop n frames c) \<noteq> None \<longleftrightarrow> (\<exists>k \<in> {1..n}. c + of_nat k \<noteq> 0 \<and> frames (c + of_nat k) = None)"
proof (induction n arbitrary: c)
  case (Suc n)
  have range: "(\<exists>k \<in> {1..Suc n}. P k) \<longleftrightarrow> P 1 \<or> (\<exists>k \<in> {1..n}. P (Suc k))" for P
  proof
    assume "\<exists>k \<in> {1..Suc n}. P k"
    then obtain k where k: "1 \<le> k" "k \<le> Suc n" "P k" by auto
    show "P 1 \<or> (\<exists>k \<in> {1..n}. P (Suc k))" using k by (cases "k = 1"; cases k) auto
  qed (auto intro: bexI [of _ "Suc _"])
  have shift: "c + of_nat (Suc k) = c + 1 + of_nat k" for k by simp
  show ?case
    unfolding range next_id_loop.simps Let_def shift of_nat_1 Suc.IH [of "c + 1", symmetric] by auto
qed simp

lemma next_id_loop_free: "next_id_loop n frames c = (Some i, c') \<Longrightarrow> i \<noteq> 0 \<and> frames i = None \<and> c' = i"
  by (induction n arbitrary: c) (auto simp: Let_def split: if_splits)

lemma next_frame_id_free:
  "next_frame_id_locked runner = (Some i, runner') \<Longrightarrow>
     i \<noteq> 0 \<and> rr_frames runner i = None \<and> runner' = runner\<lparr>rr_next_frame_id := i\<rparr>"
  by (auto simp: next_frame_id_locked_def split: prod.splits dest!: next_id_loop_free)

text \<open>
  the search for a frame id ends with an id exactly when a non-zero id other than the last one
  handed out is free, and the id it gives is non-zero and free: the wrap-around of the 32-bit counter
  never reuses the id of a frame in flight.
\<close>

theorem frame_id_found_iff_free:
  "(\<exists>i runner'. next_frame_id_locked runner = (Some i, runner') \<and> i \<noteq> 0 \<and> rr_frames runner i = None \<and> rr_next_frame_id runner' = i)
     \<longleftrightarrow> (\<exists>i. i \<noteq> 0 \<and> i \<noteq> rr_next_frame_id runner \<and> rr_frames runner i = None)"
proof -
  let ?c = "rr_next_frame_id runner"
  have "(\<exists>k \<in> {1..unat UINT32_MAX}. ?c + of_nat k \<noteq> 0 \<and> rr_frames runner (?c + of_nat k) = None) \<longleftrightarrow>
      (\<exists>i. i \<noteq> 0 \<and> i \<noteq> ?c \<and> rr_frames runner i = None)" (is "?L \<longleftrightarrow> ?R")
  proof
    assume ?L
    then obtain k where k: "k \<in> {1..unat UINT32_MAX}" "?c + of_nat k \<noteq> 0" "rr_frames runner (?c + of_nat k) = None" by blast
    have "unat (of_nat k :: u32) = k" using k(1) by (simp add: unat_UINT32_MAX take_bit_nat_eq_self unsigned_of_nat)
    then have "(of_nat k :: u32) \<noteq> 0" using k(1) by auto
    then show ?R using k(2,3) by (metis add_cancel_right_right)
  next
    assume ?R
    then obtain i where i: "i \<noteq> 0" "i \<noteq> ?c" "rr_frames runner i = None" by blast
    have "0 < unat (i - ?c)" using i(2) by (simp add: unat_gt_0)
    moreover have "unat (i - ?c) \<le> unat UINT32_MAX"
      using unsigned_less [where ?'a = nat, of "i - ?c"] by (simp add: unat_UINT32_MAX)
    moreover have "?c + of_nat (unat (i - ?c)) = i" by simp
    ultimately show ?L using i by (intro bexI [of _ "unat (i - ?c)"]) auto
  qed
  then have iff: "fst (next_frame_id_locked runner) \<noteq> None \<longleftrightarrow> ?R"
    using next_id_loop_found [of "unat UINT32_MAX" "rr_frames runner" ?c]
    by (simp add: next_frame_id_locked_def case_prod_beta)
  show ?thesis
  proof
    assume ?R
    then obtain i r' where "next_frame_id_locked runner = (Some i, r')" using iff by (metis not_None_eq prod.collapse)
    with next_frame_id_free [OF this]
    show "\<exists>i runner'. next_frame_id_locked runner = (Some i, runner') \<and> i \<noteq> 0 \<and> rr_frames runner i = None \<and> rr_next_frame_id runner' = i"
      by simp
  qed (use iff in fastforce)
qed

end
