(* ===== verification/Rockiva_Runs.thy ===== *)
theory Rockiva_Runs
  imports Rockiva_Facts
begin

text \<open>
  Runs of the detector runner: any interleaving of the critical sections of the streaming callback,
  the detection and release callbacks, stream changes and the start of a shutdown. The state carries
  the buffer references taken and dropped so far and the number of threads inside the streaming
  callback. The invariant gives that no reference leaks or is dropped twice and that a shutdown that
  succeeds leaves nothing behind.
\<close>

record RunState =
  rs_runner :: MeRockivaRunner
  rs_taken :: "nat multiset"
  rs_dropped :: "nat multiset"
  rs_inside :: nat

definition mset_option :: "nat option \<Rightarrow> nat multiset" where
  "mset_option b = (case b of None \<Rightarrow> {#} | Some x \<Rightarrow> {#x#})"

text \<open>
  A thread enters while fewer than \<open>2\<^sup>3\<^sup>2 - 1\<close> are inside, so that the 32-bit counter of active
  callbacks does not wrap; the sections after the entry need a thread inside.
\<close>

inductive runner_step :: "nat \<Rightarrow> RunState \<Rightarrow> RunState \<Rightarrow> bool" for max_obj where
  enter: "sample_enter (rs_runner s) = (GST_FLOW_OK, r) \<Longrightarrow> Suc (rs_inside s) < 2 ^ 32 \<Longrightarrow>
    runner_step max_obj s (s\<lparr>rs_runner := r, rs_inside := Suc (rs_inside s)\<rparr>)"
| flushing: "sample_enter (rs_runner s) = (GST_FLOW_FLUSHING, r) \<Longrightarrow> runner_step max_obj s (s\<lparr>rs_runner := r\<rparr>)"
| reject: "0 < rs_inside s \<Longrightarrow> runner_step max_obj s (s\<lparr>rs_runner := sample_rejected (rs_runner s)\<rparr>)"
| submit: "0 < rs_inside s \<Longrightarrow> sample_submit layout buffer pts (rs_runner s) = (Some i, r) \<Longrightarrow>
    runner_step max_obj s (s\<lparr>rs_runner := r, rs_taken := add_mset buffer (rs_taken s)\<rparr>)"
| refuse: "0 < rs_inside s \<Longrightarrow> sample_submit layout buffer pts (rs_runner s) = (None, r) \<Longrightarrow>
    runner_step max_obj s (s\<lparr>rs_runner := r\<rparr>)"
| pushed: "0 < rs_inside s \<Longrightarrow> sample_pushed i ret (rs_runner s) = (r, b) \<Longrightarrow>
    runner_step max_obj s (s\<lparr>rs_runner := r, rs_dropped := rs_dropped s + mset_option b\<rparr>)"
| leave: "0 < rs_inside s \<Longrightarrow>
    runner_step max_obj s (s\<lparr>rs_runner := sample_exit (rs_runner s), rs_inside := rs_inside s - 1\<rparr>)"
| detected: "detect_callback max_obj (rs_runner s) success i objects = (r, ob) \<Longrightarrow>
    runner_step max_obj s (s\<lparr>rs_runner := r\<rparr>)"
| released: "release_callback max_obj frames (rs_runner s) = (r, bs) \<Longrightarrow>
    runner_step max_obj s (s\<lparr>rs_runner := r, rs_dropped := rs_dropped s + mset bs\<rparr>)"
| set_stream: "me_rockiva_runner_set_stream (Some (rs_runner s)) channel epoch = Some r \<Longrightarrow>
    runner_step max_obj s (s\<lparr>rs_runner := r\<rparr>)"
| stop: "runner_step max_obj s (s\<lparr>rs_runner := free_begin (rs_runner s)\<rparr>)"

inductive_cases runner_stepE: "runner_step max_obj s s'"

definition start_run :: "MeRockivaRunner \<Rightarrow> RunState" where
  "start_run runner = \<lparr>rs_runner = runner, rs_taken = {#}, rs_dropped = {#}, rs_inside = 0\<rparr>"

text \<open>The buffers referenced from the table.\<close>

definition held :: "MeRockivaRunner \<Rightarrow> nat multiset" where
  "held runner = image_mset (\<lambda>i. the (fr_buffer (the (rr_frames runner i)))) (mset_set (dom (rr_frames runner)))"

definition table_ok :: "MeRockivaRunner \<Rightarrow> bool" where
  "table_ok runner \<longleftrightarrow>
     0 \<notin> dom (rr_frames runner) \<and> (\<forall>f \<in> ran (rr_frames runner). fr_buffer f \<noteq> None) \<and>
     unat (rr_pending_frames runner) = card (dom (rr_frames runner))"

definition run_ok :: "RunState \<Rightarrow> bool" where
  "run_ok s \<longleftrightarrow>
     table_ok (rs_runner s) \<and> unat (rr_active_callbacks (rs_runner s)) = rs_inside s \<and>
     rs_taken s = rs_dropped s + held (rs_runner s)"

lemma table_ok_cong:
  "rr_frames r' = rr_frames r \<Longrightarrow> rr_pending_frames r' = rr_pending_frames r \<Longrightarrow>
     table_ok r' = table_ok r \<and> held r' = held r"
  by (simp add: table_ok_def held_def)

subsection \<open>The table\<close>

lemma finite_ids [simp]: "finite (S :: u32 set)"
  by (rule finite_subset [OF subset_UNIV]) simp

lemma ids_card: "0 \<notin> S \<Longrightarrow> card (S :: u32 set) < 2 ^ 32"
proof -
  assume "0 \<notin> S"
  then have "S \<subset> UNIV" by auto
  then have "card S < CARD(u32)" by (intro psubset_card_mono) auto
  then show ?thesis by (simp add: card_word)
qed

lemma insert_frame:
  assumes "table_ok r" and "i \<noteq> 0" and "rr_frames r i = None" and "fr_buffer f = Some b"
    and "rr_frames r' = (rr_frames r)(i \<mapsto> f)" and "rr_pending_frames r' = rr_pending_frames r + 1"
  shows "table_ok r' \<and> held r' = add_mset b (held r)"
proof -
  have i: "i \<notin> dom (rr_frames r)" using assms(3) by auto
  have card: "card (dom (rr_frames r')) = Suc (card (dom (rr_frames r)))" using i assms(5) by simp
  have "0 \<notin> dom (rr_frames r')" using assms by (auto simp: table_ok_def)
  then have "card (dom (rr_frames r')) < 2 ^ 32" by (rule ids_card)
  then have "unat (rr_pending_frames r') = card (dom (rr_frames r'))"
    using card assms(1,6) by (simp add: table_ok_def unat_word_ariths)
  moreover have "held r' = add_mset b (held r)"
  proof -
    have "image_mset (\<lambda>j. the (fr_buffer (the (rr_frames r' j)))) (mset_set (dom (rr_frames r))) = held r"
      unfolding held_def using i assms(5) by (intro image_mset_cong) auto
    then show ?thesis using i assms(4,5) by (simp add: held_def)
  qed
  ultimately show ?thesis
    using \<open>0 \<notin> dom (rr_frames r')\<close> assms(1,3-5) by (auto simp: table_ok_def ran_def split: if_splits)
qed

lemma drop_frame_table:
  assumes "table_ok r" and "rr_frames r i = Some f" and "drop_frame i f r = (r', b)"
  shows "table_ok r' \<and> held r = held r' + mset_option b"
proof -
  have r': "rr_frames r' = (rr_frames r)(i := None)" "b = fr_buffer f"
    "rr_pending_frames r' = (if rr_pending_frames r > 0 then rr_pending_frames r - 1 else rr_pending_frames r)"
    using assms(3) by (auto simp: drop_frame_def)
  have i: "i \<in> dom (rr_frames r)" using assms(2) by auto
  obtain x where x: "fr_buffer f = Some x" using assms(1,2) by (auto simp: table_ok_def ran_def)
  have pos: "0 < card (dom (rr_frames r))" using i by (auto simp: card_gt_0_iff)
  then have "0 < unat (rr_pending_frames r)" using assms(1) by (simp add: table_ok_def)
  then have "unat (rr_pending_frames r') = card (dom (rr_frames r) - {i})"
    using assms(1) i r'(3) by (simp add: table_ok_def word_less_nat_alt unat_sub_if_size)
  moreover have "held r = add_mset x (held r')"
  proof -
    have "image_mset (\<lambda>j. the (fr_buffer (the (rr_frames r' j)))) (mset_set (dom (rr_frames r) - {i})) =
          image_mset (\<lambda>j. the (fr_buffer (the (rr_frames r j)))) (mset_set (dom (rr_frames r) - {i}))"
      using r'(1) by (intro image_mset_cong) auto
    moreover have "mset_set (dom (rr_frames r)) = add_mset i (mset_set (dom (rr_frames r) - {i}))"
      using i by (simp add: mset_set.remove)
    ultimately show ?thesis using x assms(2) r'(1) by (simp add: held_def)
  qed
  moreover have "ran (rr_frames r') \<subseteq> ran (rr_frames r)" using r'(1) by (auto simp: ran_def split: if_splits)
  ultimately show ?thesis
    using assms(1) r'(1,2) x by (auto simp: table_ok_def mset_option_def)
qed

lemma next_frame_id_keeps:
  "rr_frames (snd (next_frame_id_locked r)) = rr_frames r"
  "rr_pending_frames (snd (next_frame_id_locked r)) = rr_pending_frames r"
  "rr_active_callbacks (snd (next_frame_id_locked r)) = rr_active_callbacks r"
  "rr_stopping (snd (next_frame_id_locked r)) = rr_stopping r"
  by (simp_all add: next_frame_id_locked_def case_prod_beta)

lemma sample_submit_cases:
  assumes "sample_submit layout buffer pts r = (io, r')" and "table_ok r"
  shows "rr_active_callbacks r' = rr_active_callbacks r \<and> rr_stopping r' = rr_stopping r \<and>
    (case io of None \<Rightarrow> table_ok r' \<and> held r' = held r \<and> rr_frames r' = rr_frames r
              | Some i \<Rightarrow> table_ok r' \<and> held r' = add_mset buffer (held r) \<and> \<not> rr_stopping r)"
proof (cases "rr_stopping r \<or> fst (next_frame_id_locked r) = None")
  case True
  then have "io = None \<and> (r' = r \<or> r' = snd (next_frame_id_locked r))"
    using assms(1) by (auto simp: sample_submit_def split: if_splits prod.splits option.splits)
  then show ?thesis using assms(2) table_ok_cong [of r' r] next_frame_id_keeps [of r] by auto
next
  case False
  then obtain i r1 where n: "next_frame_id_locked r = (Some i, r1)" by (metis not_None_eq prod.collapse)
  note free = next_frame_id_free [OF n]
  have io: "io = Some i" and act: "rr_active_callbacks r' = rr_active_callbacks r \<and> rr_stopping r' = rr_stopping r"
    and p: "rr_pending_frames r' = rr_pending_frames r + 1"
    and f: "fr_buffer (the (rr_frames r' i)) = Some buffer" "rr_frames r' = (rr_frames r)(i \<mapsto> the (rr_frames r' i))"
    using assms(1) False n free by (auto simp: sample_submit_def Let_def)
  with insert_frame [OF assms(2) _ _ f p] free io act False show ?thesis by simp
qed

text \<open>What an operation that may drop a frame keeps.\<close>

definition drops :: "MeRockivaRunner \<Rightarrow> MeRockivaRunner \<Rightarrow> nat multiset \<Rightarrow> bool" where
  "drops r r' bs \<longleftrightarrow>
     table_ok r' \<and> held r = held r' + bs \<and> rr_active_callbacks r' = rr_active_callbacks r \<and>
     rr_stopping r' = rr_stopping r"

lemma drops_refl: "table_ok r \<Longrightarrow> drops r r {#}"
  by (simp add: drops_def)

lemma drops_trans: "drops r r1 bs \<Longrightarrow> drops r1 r2 cs \<Longrightarrow> drops r r2 (bs + cs)"
  by (auto simp: drops_def)

lemma drop_frame_drops:
  "table_ok r \<Longrightarrow> rr_frames r i = Some f \<Longrightarrow> drop_frame i f r = (r', b) \<Longrightarrow> drops r r' (mset_option b)"
  using drop_frame_table [of r i f r' b] by (auto simp: drops_def drop_frame_def split: if_splits)

lemma sample_pushed_drops: "table_ok r \<Longrightarrow> sample_pushed i ret r = (r', b) \<Longrightarrow> drops r r' (mset_option b)"
  using drop_frame_drops [of r i _ r' b] drops_refl [of r]
  by (auto simp: sample_pushed_def mset_option_def split: option.splits if_splits)

lemma release_frame_drops: "table_ok r \<Longrightarrow> release_frame x r = (r', b) \<Longrightarrow> drops r r' (mset_option b)"
  using drop_frame_drops [of r "rl_frameId x" _ r' b] drops_refl [of r]
  by (auto simp: release_frame_def mset_option_def split: option.splits if_splits)

lemma release_frames_drops: "table_ok r \<Longrightarrow> release_frames xs r = (r', bs) \<Longrightarrow> drops r r' (mset bs)"
proof (induction xs arbitrary: r bs)
  case Nil
  then show ?case by (simp add: drops_refl)
next
  case (Cons x xs)
  obtain r1 b where b: "release_frame x r = (r1, b)" by fastforce
  obtain cs where cs: "release_frames xs r1 = (r', cs)" and bs: "mset bs = mset_option b + mset cs"
    using Cons.prems(2) b by (auto simp: mset_option_def split: prod.splits option.splits)
  have d: "drops r r1 (mset_option b)" using release_frame_drops Cons.prems(1) b by blast
  then have "table_ok r1" by (simp add: drops_def)
  then have "drops r1 r' (mset cs)" using cs by (rule Cons.IH)
  with d bs show ?case using drops_trans by metis
qed

lemma detect_callback_drops:
  assumes "table_ok r" and "detect_callback max_obj r success i objects = (r', ob)"
  shows "drops r r' {#}"
proof (cases "r' = r")
  case False
  then obtain f where f: "rr_frames r i = Some f" and r': "r' = r\<lparr>rr_frames := (rr_frames r)(i \<mapsto> f\<lparr>fr_detection_seen := True\<rparr>)\<rparr>"
    using assms(2) unfolding detect_callback_def Let_def
    by (cases "rr_frames r i") (auto simp only: prod.inject option.case split: if_splits)
  have dom: "dom (rr_frames r') = dom (rr_frames r)" using f r' by auto
  have "ran (rr_frames r') \<subseteq> insert (f\<lparr>fr_detection_seen := True\<rparr>) (ran (rr_frames r))"
    using r' by (auto simp: ran_def split: if_splits)
  moreover have "f \<in> ran (rr_frames r)" using f by (rule ranI)
  moreover have "held r' = held r" unfolding held_def dom using f r' by (intro image_mset_cong) auto
  ultimately show ?thesis using assms(1) dom r' by (auto simp: drops_def table_ok_def)
qed (use assms drops_refl in auto)

subsection \<open>The invariant\<close>

lemma run_ok_drops:
  "run_ok s \<Longrightarrow> drops (rs_runner s) r bs \<Longrightarrow> run_ok (s\<lparr>rs_runner := r, rs_dropped := rs_dropped s + bs\<rparr>)"
  by (auto simp: run_ok_def drops_def ac_simps)

lemma run_ok_keep:
  "run_ok s \<Longrightarrow> rr_frames r = rr_frames (rs_runner s) \<Longrightarrow> rr_pending_frames r = rr_pending_frames (rs_runner s) \<Longrightarrow>
     unat (rr_active_callbacks r) = n \<Longrightarrow> run_ok (s\<lparr>rs_runner := r, rs_inside := n\<rparr>)"
  using table_ok_cong [of r "rs_runner s"] by (simp add: run_ok_def)

lemma run_ok_keep':
  "run_ok s \<Longrightarrow> rr_frames r = rr_frames (rs_runner s) \<Longrightarrow> rr_pending_frames r = rr_pending_frames (rs_runner s) \<Longrightarrow>
     rr_active_callbacks r = rr_active_callbacks (rs_runner s) \<Longrightarrow> run_ok (s\<lparr>rs_runner := r\<rparr>)"
  using table_ok_cong [of r "rs_runner s"] by (simp add: run_ok_def)

lemma step_run_ok:
  assumes "runner_step max_obj s s'" and "run_ok s"
  shows "run_ok s'"
  using assms(1)
proof cases
  case (enter r)
  then have "r = (rs_runner s)\<lparr>rr_active_callbacks := rr_active_callbacks (rs_runner s) + 1\<rparr>"
    by (simp add: sample_enter_def split: if_splits)
  moreover have "unat (rr_active_callbacks (rs_runner s) + 1) = Suc (rs_inside s)"
    using assms(2) enter(3) by (simp add: run_ok_def unat_word_ariths)
  ultimately show ?thesis unfolding enter(1) using assms(2) by (intro run_ok_keep) auto
next
  case leave
  then have "0 < unat (rr_active_callbacks (rs_runner s))" using assms(2) by (simp add: run_ok_def)
  then have "unat (rr_active_callbacks (sample_exit (rs_runner s))) = rs_inside s - 1"
    using assms(2) by (simp add: sample_exit_def run_ok_def word_less_nat_alt unat_sub_if_size)
  then show ?thesis unfolding leave(1) using assms(2) by (intro run_ok_keep) (auto simp: sample_exit_def)
next
  case (submit layout buffer pts i r)
  with sample_submit_cases [OF submit(3)] assms(2) show ?thesis by (auto simp: run_ok_def)
next
  case (refuse layout buffer pts r)
  with sample_submit_cases [OF refuse(3)] assms(2) show ?thesis by (auto simp: run_ok_def)
next
  case (pushed i ret r b)
  have "table_ok (rs_runner s)" using assms(2) by (simp add: run_ok_def)
  then show ?thesis unfolding pushed(1) using sample_pushed_drops pushed(3) assms(2) by (blast intro: run_ok_drops)
next
  case (detected success i objects r ob)
  with detect_callback_drops [OF _ detected(2)] assms(2) show ?thesis by (auto simp: run_ok_def drops_def)
next
  case (released frames r bs)
  have "table_ok (rs_runner s)" using assms(2) by (simp add: run_ok_def)
  then show ?thesis
    unfolding released(1) using release_frames_drops released(2) assms(2) unfolding release_callback_def by (blast intro: run_ok_drops)
next
  case (flushing r)
  then show ?thesis using assms(2) by (auto simp: sample_enter_def intro!: run_ok_keep' split: if_splits)
next
  case reject
  then show ?thesis using assms(2) by (auto simp: sample_rejected_def intro!: run_ok_keep')
next
  case (set_stream channel epoch r)
  then show ?thesis using assms(2) by (auto simp: me_rockiva_runner_set_stream_def intro!: run_ok_keep')
next
  case stop
  then show ?thesis using assms(2) by (auto simp: free_begin_def intro!: run_ok_keep')
qed

lemma run_run_ok: "(runner_step max_obj)\<^sup>*\<^sup>* s s' \<Longrightarrow> run_ok s \<Longrightarrow> run_ok s'"
  by (induction rule: rtranclp_induct) (auto intro: step_run_ok)

lemma start_run_ok:
  "me_rockiva_runner_new appsink co callback version ret1 ret2 ret3 = Inr runner \<Longrightarrow> run_ok (start_run runner)"
  by (auto simp: me_rockiva_runner_new_def run_ok_def table_ok_def start_run_def held_def split: option.splits if_splits)

text \<open>
  C21: in every interleaving of the callbacks, each buffer reference the runner takes is dropped at
  most once and is otherwise still held by a frame in the table: the references taken are those
  dropped together with those of the table, as multisets. The counter of pending frames is the size
  of the table.
\<close>

theorem buffer_references_balance:
  assumes "me_rockiva_runner_new appsink config callback version ret1 ret2 ret3 = Inr runner"
    and "(runner_step max_obj)\<^sup>*\<^sup>* (start_run runner) s"
  shows "rs_taken s = rs_dropped s + held (rs_runner s) \<and>
         unat (rr_pending_frames (rs_runner s)) = card (dom (rr_frames (rs_runner s)))"
  using run_run_ok [OF assms(2) start_run_ok [OF assms(1)]] by (simp add: run_ok_def table_ok_def)

subsection \<open>Shutdown\<close>

lemma step_stopping:
  assumes "runner_step max_obj s s'" and "run_ok s" and "rr_stopping (rs_runner s)"
  shows "rr_stopping (rs_runner s') \<and> rs_inside s' \<le> rs_inside s"
  using assms(1)
proof cases
  case (submit layout buffer pts i r)
  with sample_submit_cases [OF submit(3)] assms(2,3) show ?thesis by (auto simp: run_ok_def)
next
  case (refuse layout buffer pts r)
  with sample_submit_cases [OF refuse(3)] assms(2,3) show ?thesis by (auto simp: run_ok_def)
next
  case (pushed i ret r b)
  with sample_pushed_drops [OF _ pushed(3)] assms(2,3) show ?thesis by (auto simp: run_ok_def drops_def)
next
  case (detected success i objects r ob)
  with detect_callback_drops [OF _ detected(2)] assms(2,3) show ?thesis by (auto simp: run_ok_def drops_def)
next
  case (released frames r bs)
  with release_frames_drops [OF _ released(2) [unfolded release_callback_def]] assms(2,3) show ?thesis
    by (auto simp: run_ok_def drops_def)
qed (use assms(3) in \<open>auto simp: sample_enter_def sample_rejected_def sample_exit_def me_rockiva_runner_set_stream_def
        free_begin_def split: if_splits\<close>)

lemma run_stopping:
  "(runner_step max_obj)\<^sup>*\<^sup>* s s' \<Longrightarrow> run_ok s \<Longrightarrow> rr_stopping (rs_runner s) \<Longrightarrow>
     rr_stopping (rs_runner s') \<and> rs_inside s' \<le> rs_inside s"
proof (induction rule: rtranclp_induct)
  case (step s1 s2)
  have "run_ok s1" using run_run_ok step.hyps(1) step.prems(1) by blast
  with step step_stopping [OF step.hyps(2)] show ?case by force
qed simp

text \<open>
  C22: when shutdown releases the runner, it had seen the active callbacks end at one point of the run
  and the pending frames at a later one; at that later point no thread is inside the streaming
  callback, the frame table is empty, and every buffer reference ever taken has been dropped.
\<close>

theorem released_runner_holds_nothing:
  assumes "me_rockiva_runner_new appsink config callback version ret1 ret2 ret3 = Inr runner"
    and "(runner_step max_obj)\<^sup>*\<^sup>* (start_run runner) s"
    and "(runner_step max_obj)\<^sup>*\<^sup>* (s\<lparr>rs_runner := free_begin (rs_runner s)\<rparr>) s1" and "(runner_step max_obj)\<^sup>*\<^sup>* s1 s2"
    and "rr_handle_initialized (rs_runner s2)"
    and "free_finish (rs_runner s1) (rs_runner s2) ret_wait ret_detect ret_final ret_release = None"
  shows "rs_inside s2 = 0 \<and> rr_frames (rs_runner s2) = Map.empty \<and> rs_taken s2 = rs_dropped s2"
proof -
  have ok: "run_ok s" by (rule run_run_ok [OF assms(2) start_run_ok [OF assms(1)]])
  then have "run_ok (s\<lparr>rs_runner := free_begin (rs_runner s)\<rparr>)"
    by (rule step_run_ok [OF runner_step.stop])
  moreover have "rr_stopping (free_begin (rs_runner s))" by (simp add: free_begin_def)
  ultimately have s1: "run_ok s1" "rr_stopping (rs_runner s1)"
    using run_run_ok [OF assms(3)] run_stopping [OF assms(3)] by auto
  have s2: "run_ok s2" and inside: "rs_inside s2 \<le> rs_inside s1"
    using run_run_ok [OF assms(4)] run_stopping [OF assms(4)] s1 by auto
  have "rr_active_callbacks (rs_runner s1) = 0" "rr_pending_frames (rs_runner s2) = 0"
    using assms(5,6) by (auto simp: free_finish_def Let_def split: if_splits)
  with s1(1) s2 inside have "rs_inside s2 = 0" "dom (rr_frames (rs_runner s2)) = {}"
    by (auto simp: run_ok_def table_ok_def)
  moreover from this have "held (rs_runner s2) = {#}" by (simp add: held_def)
  ultimately show ?thesis using s2 by (auto simp: run_ok_def)
qed

subsection \<open>A run with one frame\<close>

definition demo_rockiva_frame :: MeRockivaFrame where
  "demo_rockiva_frame = \<lparr>fr_buffer = Some 11, fr_fd = 5, fr_pts = 40, fr_width = 640, fr_height = 360, fr_hstride = 360, fr_stride = 640,
                 fr_stream_epoch = 1, fr_channel_id = ''camera'', fr_detection_seen = False, fr_release_seen = False\<rparr>"

definition demo_busy :: MeRockivaRunner where
  "demo_busy = demo_rockiva\<lparr>rr_frames := [1 \<mapsto> demo_rockiva_frame], rr_pending_frames := 1, rr_next_frame_id := 1\<rparr>"

lemma next_id_loop_hit:
  "0 < n \<Longrightarrow> c + 1 \<noteq> 0 \<Longrightarrow> frames (c + 1) = None \<Longrightarrow> next_id_loop n frames c = (Some (c + 1), c + 1)"
  by (cases n) (simp_all add: Let_def)

lemma demo_submit:
  "sample_submit (the (inspect_sample demo_sample demo_analytics)) 11 40 (demo_rockiva\<lparr>rr_active_callbacks := 1\<rparr>) =
     (Some 1, demo_busy\<lparr>rr_active_callbacks := 1\<rparr>)"
  unfolding demo_layout
  by (simp add: sample_submit_def next_frame_id_locked_def unat_UINT32_MAX next_id_loop_hit demo_busy_def demo_rockiva_def
      demo_rockiva_frame_def Let_def)

lemma demo_run_busy:
  "(runner_step 128)\<^sup>*\<^sup>* (start_run demo_rockiva) \<lparr>rs_runner = demo_busy, rs_taken = {#11#}, rs_dropped = {#}, rs_inside = 0\<rparr>"
proof -
  let ?layout = "the (inspect_sample demo_sample demo_analytics)"
  let ?s1 = "(start_run demo_rockiva)\<lparr>rs_runner := demo_rockiva\<lparr>rr_active_callbacks := 1\<rparr>, rs_inside := Suc (rs_inside (start_run demo_rockiva))\<rparr>"
  let ?s2 = "?s1\<lparr>rs_runner := demo_busy\<lparr>rr_active_callbacks := 1\<rparr>, rs_taken := add_mset 11 (rs_taken ?s1)\<rparr>"
  let ?s3 = "?s2\<lparr>rs_runner := sample_exit (rs_runner ?s2), rs_inside := rs_inside ?s2 - 1\<rparr>"
  have "runner_step 128 (start_run demo_rockiva) ?s1"
    by (rule runner_step.enter) (simp_all add: start_run_def sample_enter_def demo_rockiva_def)
  moreover have "runner_step 128 ?s1 ?s2"
    by (rule runner_step.submit [where layout = ?layout and pts = 40 and i = 1]) (use demo_submit in simp_all)
  moreover have "runner_step 128 ?s2 ?s3" by (rule runner_step.leave) simp
  moreover have "?s3 = \<lparr>rs_runner = demo_busy, rs_taken = {#11#}, rs_dropped = {#}, rs_inside = 0\<rparr>"
    by (simp add: start_run_def sample_exit_def demo_busy_def demo_rockiva_def)
  ultimately show ?thesis by (metis (no_types, lifting) converse_rtranclp_into_rtranclp rtranclp.rtrancl_refl)
qed

lemma demo_run_released:
  "(runner_step 128)\<^sup>*\<^sup>* \<lparr>rs_runner = free_begin demo_busy, rs_taken = {#11#}, rs_dropped = {#}, rs_inside = 0\<rparr>
     \<lparr>rs_runner = free_begin (demo_rockiva\<lparr>rr_next_frame_id := 1\<rparr>), rs_taken = {#11#}, rs_dropped = {#11#}, rs_inside = 0\<rparr>"
proof -
  let ?s = "\<lparr>rs_runner = free_begin demo_busy, rs_taken = {#11#}, rs_dropped = {#}, rs_inside = 0\<rparr>"
  let ?x = "\<lparr>rl_frameId = 1, rl_dataFd = 5, rl_channelId = 0, rl_dataAddr = False, rl_dataPhyAddr = False\<rparr>"
  have "release_callback 128 [?x] (rs_runner ?s) = (free_begin (demo_rockiva\<lparr>rr_next_frame_id := 1\<rparr>), [11])"
    by (simp add: release_callback_def release_frame_def drop_frame_def demo_busy_def demo_rockiva_def demo_rockiva_frame_def
        free_begin_def ME_ROCKIVA_CHANNEL_ID_def)
  from runner_step.released [where s = ?s, OF this] show ?thesis by simp
qed

theorem buffer_references_balance_witness:
  "\<exists>s. (runner_step 128)\<^sup>*\<^sup>* (start_run demo_rockiva) s \<and> rs_taken s = {#11#} \<and> rs_taken s = rs_dropped s + held (rs_runner s)"
  using buffer_references_balance [OF demo_rockiva_new demo_run_busy] demo_run_busy by force

theorem released_runner_holds_nothing_witness:
  "\<exists>s :: RunState. free_finish (rs_runner s) (rs_runner s) ROCKIVA_RET_SUCCESS ROCKIVA_RET_SUCCESS ROCKIVA_RET_UNSUPPORTED ROCKIVA_RET_SUCCESS = None \<and>
     rs_taken s = {#11#} \<and> rs_taken s = rs_dropped s"
proof -
  let ?s = "\<lparr>rs_runner = demo_busy, rs_taken = {#11#}, rs_dropped = {#}, rs_inside = 0\<rparr>"
  let ?s2 = "\<lparr>rs_runner = free_begin (demo_rockiva\<lparr>rr_next_frame_id := 1\<rparr>), rs_taken = {#11#}, rs_dropped = {#11#}, rs_inside = 0\<rparr>"
  have run: "(runner_step 128)\<^sup>*\<^sup>* (?s\<lparr>rs_runner := free_begin (rs_runner ?s)\<rparr>) ?s2" using demo_run_released by simp
  have fin: "free_finish (rs_runner ?s2) (rs_runner ?s2) ROCKIVA_RET_SUCCESS ROCKIVA_RET_SUCCESS ROCKIVA_RET_UNSUPPORTED ROCKIVA_RET_SUCCESS = None"
    and handle: "rr_handle_initialized (rs_runner ?s2)"
    by (simp_all add: free_finish_def free_begin_def demo_rockiva_def ret_finished_def)
  from released_runner_holds_nothing [OF demo_rockiva_new demo_run_busy run rtranclp.rtrancl_refl handle fin] fin
  show ?thesis by (intro exI [of _ ?s2] conjI) simp_all
qed

end
