(* ===== verification/Ipc_Server.thy ===== *)
theory Ipc_Server
  imports Media_Engine
begin

text \<open>
  \<^verbatim>\<open>media_engine/src/ipc/ipc_server.{h,c}\<close>: the control socket. A client is a record; what the kernel does
  with its socket is part of that record: \<open>ic_written\<close> holds the bytes that \<^verbatim>\<open>write\<close> has taken so far and
  \<open>ic_socket\<close> the outcomes of the next calls of \<^verbatim>\<open>write\<close>. The functions that handle one client change the
  engine and that client only, so they are functions on the pair; \<open>ipc_server_keep\<close> puts the client back
  among the clients of the server, or takes it out when it was closed. The handlers of the source
  return \<open>c->alive\<close>, which here is read off the returned client. A printed text is a byte string
  without NUL.
\<close>

subsection \<open>Data\<close>

definition ME_IPC_MAX_LINE :: nat where
  "ME_IPC_MAX_LINE = 64 * 1024"

definition ME_IPC_READ_CHUNK :: nat where
  "ME_IPC_READ_CHUNK = 8192"

definition ME_IPC_ERR_PARSE :: int where
  "ME_IPC_ERR_PARSE = -32600"

abbreviation ME_CODEC_MAX :: nat where "ME_CODEC_MAX \<equiv> 8"

datatype WriteResult = W_Bytes nat | W_Eintr | W_Eagain | W_Error

datatype ReadResult = R_Bytes string | R_Eintr | R_Eagain | R_Error

text \<open>\<open>ic_want_out\<close> says that the poll events contain \<^verbatim>\<open>G_IO_OUT\<close>; \<open>ic_lines\<close> counts the lines that were handled.\<close>

record IpcClient =
  ic_fd :: int
  ic_in :: string
  ic_out :: "string list"
  ic_alive :: bool
  ic_analytics_subscribed :: bool
  ic_analytics_ack_cursor :: u64
  ic_want_out :: bool
  ic_lines :: nat
  ic_written :: string
  ic_socket :: "WriteResult list"

record IpcServer =
  is_engine :: Engine
  is_socket_path :: string
  is_listening :: bool
  is_clients :: "IpcClient list"

text \<open>
  The JSON library, with the conversion of a double that no 64-bit integer can hold, which C leaves
  undefined.
\<close>

record IpcLib =
  il_print :: json_printer
  il_parse :: json_parser
  il_huge :: "double \<Rightarrow> u64"

text \<open>What the engine meets while one request is handled, and the text of the error it reports.\<close>

record RequestIo =
  rq_start :: StartOutcome
  rq_tee :: bool
  rq_state :: GstStateChangeReturn
  rq_now :: i64
  rq_errbuf :: string

type_synonym served = "Engine \<times> IpcClient"

subsection \<open>Client lifecycle and output\<close>

definition ipc_client_arm_output :: "IpcClient \<Rightarrow> IpcClient" where
  "ipc_client_arm_output c = c\<lparr>ic_want_out := ic_out c \<noteq> []\<rparr>"

text \<open>
  The loop of \<open>ipc_try_write\<close>: whether no fatal error occurred, what is left of the text, and the
  outcomes that remain. When none remain the socket takes no more.
\<close>

fun write_loop :: "string \<Rightarrow> WriteResult list \<Rightarrow> bool \<times> string \<times> WriteResult list" where
  "write_loop [] ws = (True, [], ws)"
| "write_loop data [] = (True, data, [])"
| "write_loop data (W_Bytes n # ws) = (if n = 0 then (True, data, ws) else write_loop (drop n data) ws)"
| "write_loop data (W_Eintr # ws) = write_loop data ws"
| "write_loop data (W_Eagain # ws) = (True, data, ws)"
| "write_loop data (W_Error # ws) = (False, data, ws)"

definition ipc_try_write :: "IpcClient \<Rightarrow> string \<Rightarrow> nat option \<times> IpcClient" where
  "ipc_try_write c data =
     (case write_loop data (ic_socket c) of
        (ok, rest, ws) \<Rightarrow>
          (let n = length data - length rest
           in (if ok then Some n else None, c\<lparr>ic_written := ic_written c @ take n data, ic_socket := ws\<rparr>)))"

definition ipc_client_close :: "IpcClient \<Rightarrow> IpcClient" where
  "ipc_client_close c = (if \<not> ic_alive c then c else c\<lparr>ic_in := [], ic_out := [], ic_alive := False\<rparr>)"

definition ipc_client_send :: "IpcClient \<Rightarrow> string \<Rightarrow> bool \<times> IpcClient" where
  "ipc_client_send c data =
     (if ic_out c = []
      then (case ipc_try_write c data of
              (None, c1) \<Rightarrow> (False, ipc_client_close c1)
            | (Some n, c1) \<Rightarrow>
                if n = length data then (True, c1)
                else (True, ipc_client_arm_output (c1\<lparr>ic_out := ic_out c1 @ [drop n data]\<rparr>)))
      else (True, ipc_client_arm_output (c\<lparr>ic_out := ic_out c @ [data]\<rparr>)))"

text \<open>The loop of \<open>ipc_client_flush\<close> over the queue that the client had at its start.\<close>

primrec flush_loop :: "string list \<Rightarrow> IpcClient \<Rightarrow> bool \<times> IpcClient" where
  "flush_loop [] c = (True, ipc_client_arm_output (c\<lparr>ic_out := []\<rparr>))"
| "flush_loop (head # rest) c =
     (case ipc_try_write c head of
        (None, c1) \<Rightarrow> (False, ipc_client_close c1)
      | (Some n, c1) \<Rightarrow>
          if n < length head then (True, ipc_client_arm_output (c1\<lparr>ic_out := drop n head # rest\<rparr>))
          else flush_loop rest c1)"

definition ipc_client_flush :: "IpcClient \<Rightarrow> bool \<times> IpcClient" where
  "ipc_client_flush c = flush_loop (ic_out c) c"

text \<open>A new client; \<open>ws\<close> is what its socket will do.\<close>

definition new_client :: "int \<Rightarrow> WriteResult list \<Rightarrow> IpcClient" where
  "new_client fd ws =
     \<lparr>ic_fd = fd, ic_in = [], ic_out = [], ic_alive = True, ic_analytics_subscribed = False,
      ic_analytics_ack_cursor = 0, ic_want_out = False, ic_lines = 0, ic_written = [], ic_socket = ws\<rparr>"

definition ipc_client_create :: "IpcServer \<Rightarrow> int \<Rightarrow> WriteResult list \<Rightarrow> IpcServer" where
  "ipc_client_create s fd ws = s\<lparr>is_clients := new_client fd ws # is_clients s\<rparr>"

subsection \<open>Fields of requests\<close>

definition ipc_json_string :: "json \<Rightarrow> string \<Rightarrow> string option" where
  "ipc_json_string params key = (case json_item params key of Some (JString s) \<Rightarrow> Some s | _ \<Rightarrow> None)"

text \<open>\<open>!sval || !*sval\<close> refuses the empty string with the missing one.\<close>

definition required_string :: "json \<Rightarrow> string \<Rightarrow> string option" where
  "required_string params key =
     (case ipc_json_string params key of Some s \<Rightarrow> if s = [] then None else Some s | None \<Rightarrow> None)"

definition ipc_json_int :: "json \<Rightarrow> string \<Rightarrow> int option" where
  "ipc_json_int params key =
     (case json_item params key of
        Some (JNumber (Fin d)) \<Rightarrow>
          if d \<noteq> of_int \<lfloor>d\<rfloor> \<or> d < -2147483648 \<or> d > 2147483647 then None else Some \<lfloor>d\<rfloor>
      | _ \<Rightarrow> None)"

text \<open>An integer between two bounds.\<close>

definition int_between :: "int \<Rightarrow> int \<Rightarrow> json \<Rightarrow> string \<Rightarrow> int option" where
  "int_between low high params key =
     (case ipc_json_int params key of
        Some i \<Rightarrow> if i < low \<or> i > high then None else Some i
      | None \<Rightarrow> None)"

definition ipv4_param :: "json \<Rightarrow> string \<Rightarrow> string option" where
  "ipv4_param params key =
     (case ipc_json_string params key of Some s \<Rightarrow> if me_valid_ipv4 (Some s) then Some s else None | None \<Rightarrow> None)"

definition ipc_json_u64 :: "json \<Rightarrow> string \<Rightarrow> u64 option" where
  "ipc_json_u64 params key =
     (case json_item params key of
        Some (JNumber (Fin d)) \<Rightarrow>
          if d < 0 \<or> d \<noteq> of_int \<lfloor>d\<rfloor> \<or> d > 9007199254740991 then None else Some (word_of_int \<lfloor>d\<rfloor>)
      | Some (JString s) \<Rightarrow>
          if s = [] \<or> \<not> isdigit (hd s) then None
          else (let (parsed, erange, rest) = strtoull s
                in if erange \<or> rest \<noteq> [] then None else Some parsed)
      | _ \<Rightarrow> None)"

subsection \<open>Responses\<close>

definition ipc_send_json :: "IpcLib \<Rightarrow> IpcClient \<Rightarrow> json \<Rightarrow> bool \<times> IpcClient" where
  "ipc_send_json lib c object =
     (case il_print lib object of
        None \<Rightarrow> (False, c)
      | Some line \<Rightarrow> ipc_client_send c (line @ [newline]))"

definition result_json :: "u64 \<Rightarrow> json \<Rightarrow> json" where
  "result_json request_id result =
     JObject [(''v'', JNumber (double_of_int 1)), (''id'', JNumber (double_of_u64 request_id)), (''result'', result)]"

definition error_json :: "u64 \<Rightarrow> int \<Rightarrow> string \<Rightarrow> json" where
  "error_json request_id code message =
     JObject [(''v'', JNumber (double_of_int 1)), (''id'', JNumber (double_of_u64 request_id)),
              (''error'', JObject [(''code'', JNumber (double_of_int code)), (''message'', JString message)])]"

definition ipc_send_result :: "IpcLib \<Rightarrow> IpcClient \<Rightarrow> u64 \<Rightarrow> json \<Rightarrow> IpcClient" where
  "ipc_send_result lib c request_id result = snd (ipc_send_json lib c (result_json request_id result))"

definition ipc_send_error :: "IpcLib \<Rightarrow> IpcClient \<Rightarrow> u64 \<Rightarrow> int \<Rightarrow> string \<Rightarrow> IpcClient" where
  "ipc_send_error lib c request_id code message = snd (ipc_send_json lib c (error_json request_id code message))"

definition ipc_bad_params :: "IpcLib \<Rightarrow> IpcClient \<Rightarrow> u64 \<Rightarrow> string \<Rightarrow> IpcClient" where
  "ipc_bad_params lib c request_id message = ipc_send_error lib c request_id (-32002) message"

definition ok_result :: json where
  "ok_result = JObject [(''ok'', JBool True)]"

text \<open>The end of a handler that called the engine: an error with the code of the engine, or \<open>ok\<close>.\<close>

definition answer_code :: "IpcLib \<Rightarrow> RequestIo \<Rightarrow> IpcClient \<Rightarrow> u64 \<Rightarrow> int \<Rightarrow> IpcClient" where
  "answer_code lib rq c request_id rc =
     (if rc \<noteq> ME_ERR_OK then ipc_send_error lib c request_id rc (rq_errbuf rq)
      else ipc_send_result lib c request_id ok_result)"

subsection \<open>Handlers\<close>

definition is_object :: "json option \<Rightarrow> bool" where
  "is_object params = (case params of Some (JObject _) \<Rightarrow> True | _ \<Rightarrow> False)"

text \<open>A check that refuses a request with its message.\<close>

definition require :: "'a option \<Rightarrow> string \<Rightarrow> ('a \<Rightarrow> string + 'b) \<Rightarrow> string + 'b" where
  "require x message continue = (case x of None \<Rightarrow> Inl message | Some v \<Rightarrow> continue v)"

text \<open>The parameters of \<^verbatim>\<open>media.start_live\<close> in the order in which they are checked, or the text of the refusal.\<close>

definition start_live_params :: "json option \<Rightarrow> string + SessionParams" where
  "start_live_params po =
     (if \<not> is_object po then Inl ''start_live: params must be an object''
      else
        let params = the po in
        require (required_string params ''session_id'') ''start_live: session_id required'' (\<lambda>session_id.
        require (required_string params ''channel_id'') ''start_live: channel_id required'' (\<lambda>channel_id.
        require (required_string params ''codec'') ''start_live: codec required'' (\<lambda>codec.
        require (int_between 1 2147483647 params ''width'') ''start_live: width must be positive integer'' (\<lambda>width.
        require (int_between 1 2147483647 params ''height'') ''start_live: height must be positive integer'' (\<lambda>height.
        require (int_between 1 2147483647 params ''fps'') ''start_live: fps must be positive integer'' (\<lambda>fps.
        require (int_between 1 2147483647 params ''bitrate'') ''start_live: bitrate must be positive integer'' (\<lambda>bitrate.
        require (int_between 1 65535 params ''dest_port'') ''start_live: dest_port out of range'' (\<lambda>dest_port.
        require (int_between 0 127 params ''payload_type'') ''start_live: payload_type must be 0..127'' (\<lambda>payload_type.
        require (ipv4_param params ''dest_ip'') ''start_live: dest_ip invalid IPv4'' (\<lambda>dest_ip.
        require (me_parse_u32_decimal (ipc_json_string params ''ssrc'')) ''start_live: ssrc must be decimal uint32'' (\<lambda>ssrc.
        Inr \<lparr>sp_session_id = copy_string ME_SESSION_ID_MAX session_id,
             sp_channel_id = copy_string ME_CHANNEL_ID_MAX channel_id, sp_codec = copy_string ME_CODEC_MAX codec,
             sp_width = width, sp_height = height, sp_fps = fps, sp_bitrate = bitrate,
             sp_dest_ip = copy_string ME_DEST_IP_MAX dest_ip, sp_dest_port = dest_port, sp_ssrc = ssrc,
             sp_payload_type = payload_type\<rparr>))))))))))))"

definition ipc_handle_start_live :: "IpcLib \<Rightarrow> RequestIo \<Rightarrow> u64 \<Rightarrow> json option \<Rightarrow> Engine \<Rightarrow> IpcClient \<Rightarrow> served" where
  "ipc_handle_start_live lib rq request_id params e c =
     (case start_live_params params of
        Inl message \<Rightarrow> (e, ipc_bad_params lib c request_id message)
      | Inr p \<Rightarrow>
          (case engine_start_live (rq_start rq) (rq_now rq) e p of
             (rc, e1) \<Rightarrow> (e1, answer_code lib rq c request_id rc)))"

definition ipc_handle_stop_live :: "IpcLib \<Rightarrow> RequestIo \<Rightarrow> u64 \<Rightarrow> json option \<Rightarrow> Engine \<Rightarrow> IpcClient \<Rightarrow> served" where
  "ipc_handle_stop_live lib rq request_id params e c =
     (if \<not> is_object params then (e, ipc_bad_params lib c request_id ''stop_live: params must be an object'')
      else (case required_string (the params) ''session_id'' of
              None \<Rightarrow> (e, ipc_bad_params lib c request_id ''stop_live: session_id required'')
            | Some session_id \<Rightarrow>
                (case engine_stop_live (rq_tee rq) (rq_state rq) e session_id of
                   (rc, e1) \<Rightarrow> (e1, answer_code lib rq c request_id rc))))"

definition ipc_handle_keepalive_live ::
  "IpcLib \<Rightarrow> RequestIo \<Rightarrow> u64 \<Rightarrow> json option \<Rightarrow> Engine \<Rightarrow> IpcClient \<Rightarrow> served" where
  "ipc_handle_keepalive_live lib rq request_id params e c =
     (if \<not> is_object params then (e, ipc_bad_params lib c request_id ''keepalive_live: params must be an object'')
      else (case required_string (the params) ''session_id'' of
              None \<Rightarrow> (e, ipc_bad_params lib c request_id ''keepalive_live: session_id required'')
            | Some session_id \<Rightarrow>
                (case engine_keepalive_live (rq_now rq) e session_id of
                   (rc, e1) \<Rightarrow> (e1, answer_code lib rq c request_id rc))))"

definition ipc_handle_snapshot :: "IpcLib \<Rightarrow> RequestIo \<Rightarrow> u64 \<Rightarrow> json option \<Rightarrow> Engine \<Rightarrow> IpcClient \<Rightarrow> served" where
  "ipc_handle_snapshot lib rq request_id params e c =
     (if \<not> is_object params then (e, ipc_bad_params lib c request_id ''snapshot: params must be an object'')
      else (case required_string (the params) ''channel_id'' of
              None \<Rightarrow> (e, ipc_bad_params lib c request_id ''snapshot: channel_id required'')
            | Some channel_id \<Rightarrow> (e, answer_code lib rq c request_id (engine_snapshot e channel_id))))"

definition status_json :: "EngineStatus \<Rightarrow> json" where
  "status_json st =
     JObject ([(''running'', JBool (es_running st)), (''fps'', JNumber (double_of_int (es_fps st))),
               (''bitrate'', JNumber (double_of_int (es_bitrate st)))] @
              (if es_running st
               then [(''session_id'', JString (es_session_id st)), (''channel_id'', JString (es_channel_id st)),
                     (''dest_ip'', JString (es_dest_ip st)), (''dest_port'', JNumber (double_of_int (es_dest_port st))),
                     (''ssrc'', JString (show_dec (unat (es_ssrc st))))]
               else []))"

definition ipc_handle_get_status :: "IpcLib \<Rightarrow> u64 \<Rightarrow> Engine \<Rightarrow> IpcClient \<Rightarrow> served" where
  "ipc_handle_get_status lib request_id e c = (e, ipc_send_result lib c request_id (status_json (engine_get_status e)))"

definition notification_json :: "(string \<times> json) list \<Rightarrow> json" where
  "notification_json params =
     JObject [(''v'', JNumber (double_of_int 1)), (''method'', JString ''media.event''), (''params'', JObject params)]"

definition analytics_json :: "u64 \<Rightarrow> json \<Rightarrow> json" where
  "analytics_json cursor analytics =
     notification_json [(''event'', JString ''analytics''), (''cursor'', JNumber (double_of_u64 cursor)), (''analytics'', analytics)]"

definition ipc_send_analytics_record :: "IpcLib \<Rightarrow> IpcClient \<Rightarrow> u64 \<Rightarrow> MeAnalyticsEvent \<Rightarrow> bool \<times> IpcClient" where
  "ipc_send_analytics_record lib c cursor event =
     (if cursor = 0 then (False, c)
      else (case me_analytics_event_to_json (Some event) of
              None \<Rightarrow> (False, c)
            | Some analytics \<Rightarrow> ipc_send_json lib c (analytics_json cursor analytics)))"

primrec send_records :: "IpcLib \<Rightarrow> dispatch list \<Rightarrow> IpcClient \<Rightarrow> IpcClient" where
  "send_records lib [] c = c"
| "send_records lib (r # rs) c =
     (case ipc_send_analytics_record lib c (fst r) (snd r) of
        (sent, c1) \<Rightarrow> if sent then send_records lib rs c1 else c1)"

text \<open>The cursor after which to replay: 0 when there is no such member, \<open>None\<close> when it is not a number.\<close>

definition after_cursor_param :: "json option \<Rightarrow> u64 option" where
  "after_cursor_param po =
     (case po of
        None \<Rightarrow> Some 0
      | Some params \<Rightarrow> if json_item params ''after_cursor'' = None then Some 0 else ipc_json_u64 params ''after_cursor'')"

definition subscribed_json :: "JournalSnapshot \<Rightarrow> json" where
  "subscribed_json sn =
     JObject [(''subscribed'', JBool True), (''replay_gap'', JBool (sn_replay_gap sn)),
              (''oldest_cursor'', JNumber (double_of_u64 (sn_oldest sn))),
              (''latest_cursor'', JNumber (double_of_u64 (sn_latest sn)))]"

definition ipc_handle_subscribe_events :: "IpcLib \<Rightarrow> u64 \<Rightarrow> json option \<Rightarrow> Engine \<Rightarrow> IpcClient \<Rightarrow> served" where
  "ipc_handle_subscribe_events lib request_id params e c =
     (if eg_event_journal e = None
      then (e, ipc_bad_params lib c request_id ''subscribe_events: event journal unavailable'')
      else if params \<noteq> None \<and> \<not> is_object params
      then (e, ipc_bad_params lib c request_id ''subscribe_events: params must be an object'')
      else (case after_cursor_param params of
              None \<Rightarrow> (e, ipc_bad_params lib c request_id ''subscribe_events: after_cursor must be uint64'')
            | Some after_cursor \<Rightarrow>
                (case me_event_journal_snapshot_after (eg_event_journal e) after_cursor of
                   None \<Rightarrow> (e, ipc_bad_params lib c request_id ''subscribe_events: event journal snapshot failed'')
                 | Some sn \<Rightarrow>
                     (let c1 = ipc_send_result lib
                                 (c\<lparr>ic_analytics_subscribed := True, ic_analytics_ack_cursor := after_cursor\<rparr>)
                                 request_id (subscribed_json sn)
                      in (e, if ic_alive c1 then send_records lib (sn_records sn) c1 else c1)))))"

definition ipc_handle_ack_events :: "IpcLib \<Rightarrow> u64 \<Rightarrow> json option \<Rightarrow> Engine \<Rightarrow> IpcClient \<Rightarrow> served" where
  "ipc_handle_ack_events lib request_id params e c =
     (if \<not> ic_analytics_subscribed c then (e, ipc_bad_params lib c request_id ''ack_events: client is not subscribed'')
      else (case (if is_object params then ipc_json_u64 (the params) ''cursor'' else None) of
              None \<Rightarrow> (e, ipc_bad_params lib c request_id ''ack_events: cursor must be uint64'')
            | Some cursor \<Rightarrow>
                if cursor > me_event_journal_latest_cursor (eg_event_journal e)
                then (e, ipc_bad_params lib c request_id ''ack_events: cursor is beyond journal tail'')
                else (let c1 = (if cursor > ic_analytics_ack_cursor c then c\<lparr>ic_analytics_ack_cursor := cursor\<rparr> else c)
                      in (e, ipc_send_result lib c1 request_id
                               (JObject [(''acked_cursor'', JNumber (double_of_u64 (ic_analytics_ack_cursor c1)))])))))"

subsection \<open>Lines\<close>

text \<open>The id of a request: a number that is a non-negative integer.\<close>

definition request_id_of :: "IpcLib \<Rightarrow> json option \<Rightarrow> u64 option" where
  "request_id_of lib item =
     (case item of
        Some (JNumber (Fin d)) \<Rightarrow>
          if d < 0 \<or> d \<noteq> of_int \<lfloor>d\<rfloor> then None
          else if d < 2 ^ 64 then Some (word_of_int \<lfloor>d\<rfloor>) else Some (il_huge lib (Fin d))
      | Some (JNumber Pos_Inf) \<Rightarrow> Some (il_huge lib Pos_Inf)
      | _ \<Rightarrow> None)"

definition ipc_dispatch :: "IpcLib \<Rightarrow> RequestIo \<Rightarrow> u64 \<Rightarrow> string \<Rightarrow> json option \<Rightarrow> Engine \<Rightarrow> IpcClient \<Rightarrow> served" where
  "ipc_dispatch lib rq request_id method_name params e c =
     (if method_name = ''media.ping'' then (e, ipc_send_result lib c request_id ok_result)
      else if method_name = ''media.start_live'' then ipc_handle_start_live lib rq request_id params e c
      else if method_name = ''media.stop_live'' then ipc_handle_stop_live lib rq request_id params e c
      else if method_name = ''media.keepalive_live'' then ipc_handle_keepalive_live lib rq request_id params e c
      else if method_name = ''media.snapshot'' then ipc_handle_snapshot lib rq request_id params e c
      else if method_name = ''media.get_status'' then ipc_handle_get_status lib request_id e c
      else if method_name = ''media.subscribe_events'' then ipc_handle_subscribe_events lib request_id params e c
      else if method_name = ''media.ack_events'' then ipc_handle_ack_events lib request_id params e c
      else (e, ipc_send_error lib c request_id ME_IPC_ERR_PARSE (copy_string 128 (''unknown method: '' @ method_name))))"

definition strip_line :: "string \<Rightarrow> string" where
  "strip_line line = rev (dropWhile (\<lambda>ch. ch = newline \<or> ch = CHR 0x0D) (rev line))"

definition ipc_handle_line :: "IpcLib \<Rightarrow> RequestIo \<Rightarrow> string \<Rightarrow> Engine \<Rightarrow> IpcClient \<Rightarrow> served" where
  "ipc_handle_line lib rq line e c =
     (if strip_line line = [] then (e, c)
      else (case il_parse lib (strip_line line) of
              Some (JObject members) \<Rightarrow>
                (let request = JObject members
                 in if json_item request ''v'' \<noteq> Some (JNumber (Fin 1))
                    then (e, ipc_send_error lib c 0 ME_IPC_ERR_PARSE ''unsupported protocol version'')
                    else (case request_id_of lib (json_item request ''id'') of
                            None \<Rightarrow> (e, ipc_send_error lib c 0 ME_IPC_ERR_PARSE ''invalid id'')
                          | Some request_id \<Rightarrow>
                              (case ipc_json_string request ''method'' of
                                 None \<Rightarrow> (e, ipc_send_error lib c request_id ME_IPC_ERR_PARSE ''method required'')
                               | Some method_name \<Rightarrow>
                                   ipc_dispatch lib rq request_id method_name (json_item request ''params'') e c)))
            | _ \<Rightarrow> (e, ipc_send_error lib c 0 ME_IPC_ERR_PARSE ''invalid JSON: object expected'')))"

end
