(* ===== verification/Ipc_Output.thy ===== *)
theory Ipc_Output
  imports Ipc_Server
begin

text \<open>
  What the handlers of the control socket write. The output of a client is one byte stream: what
  \<^verbatim>\<open>write\<close> has taken, followed by the queue. Every function that sends appends to that stream and never
  reorders it; a line of input is answered by exactly one response with the id of the request.
\<close>

subsection \<open>The stream of a client\<close>

definition stream :: "IpcClient \<Rightarrow> string" where
  "stream c = ic_written c @ concat (ic_out c)"

text \<open>The poll events ask for \<^verbatim>\<open>G_IO_OUT\<close> exactly while something is queued.\<close>

definition armed :: "IpcClient \<Rightarrow> bool" where
  "armed c \<longleftrightarrow> ic_want_out c = (ic_out c \<noteq> [])"

text \<open>From \<open>c\<close> to \<open>c'\<close> the text was sent: all of it goes to the stream of a client that stays open, and a part to a client that was closed.\<close>

definition appends :: "IpcClient \<Rightarrow> string \<Rightarrow> IpcClient \<Rightarrow> bool" where
  "appends c data c' \<longleftrightarrow>
     ic_fd c' = ic_fd c \<and> ic_lines c' = ic_lines c \<and> ic_analytics_subscribed c' = ic_analytics_subscribed c \<and>
     ic_analytics_ack_cursor c' = ic_analytics_ack_cursor c \<and>
     (\<exists>rest. ic_written c' @ rest = stream c @ data) \<and>
     (ic_alive c' \<longrightarrow>
        ic_alive c \<and> ic_in c' = ic_in c \<and> stream c' = stream c @ data \<and> (armed c \<longrightarrow> armed c'))"

lemma appends_refl: "appends c [] c"
  by (simp add: appends_def stream_def)

lemma appends_trans:
  assumes "appends c x c1" and "appends c1 y c2" and "ic_alive c1"
  shows "appends c (x @ y) c2"
  using assms by (auto simp: appends_def)

lemma appends_dead: "appends c x c1 \<Longrightarrow> \<not> ic_alive c1 \<Longrightarrow> appends c (x @ y) c1"
  unfolding appends_def by (metis append.assoc)

lemma write_loop_suffix: "write_loop data ws = (ok, rest, ws') \<Longrightarrow> \<exists>sent. data = sent @ rest"
proof (induction data ws rule: write_loop.induct)
  case (3 ch data n ws)
  show ?case
  proof (cases "n = 0")
    case False
    then obtain sent where "drop n (ch # data) = sent @ rest" using 3 by auto
    then have "ch # data = (take n (ch # data) @ sent) @ rest" by (metis append_take_drop_id append.assoc)
    then show ?thesis by blast
  qed (use 3 in simp)
qed auto

lemma try_write_effect:
  assumes "ipc_try_write c data = (r, c')"
  shows "\<exists>n ws. n \<le> length data \<and> c' = c\<lparr>ic_written := ic_written c @ take n data, ic_socket := ws\<rparr> \<and> (r = None \<or> r = Some n)"
proof -
  obtain ok rest ws where w: "write_loop data (ic_socket c) = (ok, rest, ws)" by (metis prod_cases3)
  show ?thesis using assms w by (auto simp: ipc_try_write_def Let_def intro!: exI [of _ "length data - length rest"])
qed

lemma close_appends: "appends c data (ipc_client_close (c\<lparr>ic_written := ic_written c @ take n data, ic_socket := ws\<rparr>))" if "ic_out c = []"
  using that append_take_drop_id [of n data]
  by (auto simp: appends_def ipc_client_close_def stream_def intro!: exI [of _ "drop n data"])

lemma send_appends:
  assumes "ipc_client_send c data = (sent, c')"
  shows "appends c data c' \<and> (ic_alive c \<longrightarrow> sent = ic_alive c')"
proof (cases "ic_out c = []")
  case True
  obtain r c1 where t: "ipc_try_write c data = (r, c1)" by fastforce
  obtain n ws where n: "n \<le> length data" "c1 = c\<lparr>ic_written := ic_written c @ take n data, ic_socket := ws\<rparr>" "r = None \<or> r = Some n"
    using try_write_effect [OF t] by blast
  show ?thesis
  proof (cases r)
    case None
    then have "c' = ipc_client_close c1" "\<not> sent" using assms True t by (auto simp: ipc_client_send_def)
    with close_appends [OF True, where n = n and ws = ws and data = data] n(2) show ?thesis by (auto simp: ipc_client_close_def)
  next
    case (Some m)
    then have "m = n" using n(3) by simp
    with Some assms True t n(1,2) append_take_drop_id [of n data] show ?thesis
      by (auto simp: ipc_client_send_def ipc_client_arm_output_def appends_def stream_def armed_def split: if_splits
          intro!: exI [of _ "drop n data"])
  qed
next
  case False
  with assms show ?thesis
    by (auto simp: ipc_client_send_def ipc_client_arm_output_def appends_def stream_def armed_def)
qed

lemma flush_loop_appends:
  "flush_loop q c = (sent, c') \<Longrightarrow>
     appends (c\<lparr>ic_out := q\<rparr>) [] c' \<and> (ic_alive c \<longrightarrow> sent = ic_alive c') \<and> (ic_alive c' \<longrightarrow> armed c')"
proof (induction q arbitrary: c)
  case Nil
  then show ?case by (auto simp: ipc_client_arm_output_def appends_def stream_def armed_def)
next
  case (Cons head q)
  obtain r c1 where t: "ipc_try_write c head = (r, c1)" by fastforce
  obtain n ws where n: "n \<le> length head" "c1 = c\<lparr>ic_written := ic_written c @ take n head, ic_socket := ws\<rparr>" "r = None \<or> r = Some n"
    using try_write_effect [OF t] by blast
  have head: "take n head @ drop n head @ concat q = head @ concat q" by (metis append_take_drop_id append.assoc)
  then have part: "\<exists>rest. take n head @ rest = head @ concat q" by blast
  consider "r = None" | "r = Some n" "n < length head" | "r = Some n" "n = length head" using n(1,3) by fastforce
  then show ?case
  proof cases
    case 3
    then have "flush_loop q c1 = (sent, c')" using Cons.prems t by simp
    moreover have "stream (c1\<lparr>ic_out := q\<rparr>) = stream (c\<lparr>ic_out := head # q\<rparr>)" using n(2) 3 by (simp add: stream_def)
    ultimately show ?thesis using Cons.IH [of c1] n(2) by (auto simp: appends_def armed_def)
  qed (use Cons.prems t n(2) head part in \<open>auto simp: ipc_client_close_def ipc_client_arm_output_def appends_def stream_def armed_def split: if_splits\<close>)
qed

lemma flush_appends:
  "ipc_client_flush c = (sent, c') \<Longrightarrow> appends c [] c' \<and> (ic_alive c \<longrightarrow> sent = ic_alive c') \<and> (ic_alive c' \<longrightarrow> armed c')"
  using flush_loop_appends [of "ic_out c" c] by (simp add: ipc_client_flush_def)

subsection \<open>Lines of output\<close>

text \<open>What one JSON value becomes on the socket; a value that cannot be printed is not sent.\<close>

definition line_of :: "IpcLib \<Rightarrow> json \<Rightarrow> string" where
  "line_of lib object = (case il_print lib object of None \<Rightarrow> [] | Some line \<Rightarrow> line @ [newline])"

definition lines_of :: "IpcLib \<Rightarrow> json list \<Rightarrow> string" where
  "lines_of lib objects = concat (map (line_of lib) objects)"

lemma lines_of_simps [simp]:
  "lines_of lib [] = []" "lines_of lib (j # js) = line_of lib j @ lines_of lib js"
  "lines_of lib (js @ ks) = lines_of lib js @ lines_of lib ks"
  by (simp_all add: lines_of_def)

lemma send_json_appends:
  "ipc_send_json lib c j = (sent, c') \<Longrightarrow>
     appends c (line_of lib j) c' \<and> (ic_alive c \<longrightarrow> sent = (il_print lib j \<noteq> None \<and> ic_alive c'))"
  using send_appends appends_refl by (auto simp: ipc_send_json_def line_of_def split: option.splits)

lemma send_result_appends: "appends c (line_of lib (result_json request_id result)) (ipc_send_result lib c request_id result)"
  unfolding ipc_send_result_def using send_json_appends by (metis prod.collapse)

lemma send_error_appends: "appends c (line_of lib (error_json request_id code message)) (ipc_send_error lib c request_id code message)"
  unfolding ipc_send_error_def using send_json_appends by (metis prod.collapse)

text \<open>A response to the request with the given id, and a notification of an analytics event.\<close>

definition is_response :: "u64 \<Rightarrow> json \<Rightarrow> bool" where
  "is_response request_id j \<longleftrightarrow>
     (\<exists>result. j = result_json request_id result) \<or> (\<exists>code message. j = error_json request_id code message)"

definition is_notification :: "json \<Rightarrow> bool" where
  "is_notification j \<longleftrightarrow> (\<exists>cursor analytics. j = analytics_json cursor analytics)"

definition responds :: "IpcLib \<Rightarrow> u64 \<Rightarrow> IpcClient \<Rightarrow> IpcClient \<Rightarrow> bool" where
  "responds lib request_id c c' \<longleftrightarrow> (\<exists>r. is_response request_id r \<and> appends c (line_of lib r) c')"

lemma responds_intros [intro]:
  "responds lib request_id c (ipc_send_result lib c request_id result)"
  "responds lib request_id c (ipc_send_error lib c request_id code message)"
  "responds lib request_id c (ipc_bad_params lib c request_id message)"
  "responds lib request_id c (answer_code lib rq c request_id rc)"
  unfolding responds_def ipc_bad_params_def answer_code_def is_response_def
  using send_result_appends send_error_appends by (fastforce split: if_splits)+

text \<open>The records that follow a subscription: a prefix of them, all of them when each can be encoded and printed.\<close>

definition record_json_of :: "dispatch \<Rightarrow> json option" where
  "record_json_of d = (if fst d = 0 then None else map_option (analytics_json (fst d)) (me_analytics_event_to_json (Some (snd d))))"

definition sendable :: "IpcLib \<Rightarrow> dispatch \<Rightarrow> bool" where
  "sendable lib d \<longleftrightarrow> (case record_json_of d of None \<Rightarrow> False | Some j \<Rightarrow> il_print lib j \<noteq> None)"

lemma send_record_appends:
  assumes "ipc_send_analytics_record lib c (fst d) (snd d) = (sent, c')" and "ic_alive c"
  shows "(if sendable lib d then appends c (line_of lib (the (record_json_of d))) c' \<and> sent = ic_alive c' else c' = c \<and> \<not> sent)"
  using assms send_json_appends [of lib c "analytics_json (fst d) (the (me_analytics_event_to_json (Some (snd d))))" sent c']
  by (auto simp: ipc_send_analytics_record_def sendable_def record_json_of_def ipc_send_json_def split: if_splits option.splits)

lemma record_json_notification: "sendable lib d \<Longrightarrow> is_notification (the (record_json_of d))"
  by (fastforce simp: sendable_def record_json_of_def is_notification_def split: option.splits if_splits)

lemma send_records_appends:
  "ic_alive c \<Longrightarrow> appends c (lines_of lib (map (the \<circ> record_json_of) (takeWhile (sendable lib) ds))) (send_records lib ds c)"
proof (induction ds arbitrary: c)
  case Nil
  then show ?case by (simp add: appends_refl)
next
  case (Cons d ds)
  obtain sent c1 where s: "ipc_send_analytics_record lib c (fst d) (snd d) = (sent, c1)" by fastforce
  note one = send_record_appends [OF s Cons.prems]
  show ?case
  proof (cases "sendable lib d \<and> ic_alive c1")
    case True
    with one s Cons.IH [of c1] show ?thesis by (auto intro: appends_trans)
  next
    case False
    with one s Cons.prems show ?thesis by (auto simp: appends_refl intro: appends_dead)
  qed
qed

subsection \<open>One response for every request\<close>

text \<open>The subscription and the acknowledged cursor may change as well.\<close>

definition sends :: "IpcClient \<Rightarrow> string \<Rightarrow> IpcClient \<Rightarrow> bool" where
  "sends c data c' \<longleftrightarrow>
     appends (c\<lparr>ic_analytics_subscribed := ic_analytics_subscribed c', ic_analytics_ack_cursor := ic_analytics_ack_cursor c'\<rparr>) data c'"

lemma subscription_stream [simp]:
  "stream (c\<lparr>ic_analytics_subscribed := b\<rparr>) = stream c" "stream (c\<lparr>ic_analytics_ack_cursor := k\<rparr>) = stream c"
  "armed (c\<lparr>ic_analytics_subscribed := b\<rparr>) = armed c" "armed (c\<lparr>ic_analytics_ack_cursor := k\<rparr>) = armed c"
  by (simp_all add: stream_def armed_def)

lemma sends_iff:
  "sends c data c' \<longleftrightarrow>
     ic_fd c' = ic_fd c \<and> ic_lines c' = ic_lines c \<and> (\<exists>rest. ic_written c' @ rest = stream c @ data) \<and>
     (ic_alive c' \<longrightarrow> ic_alive c \<and> ic_in c' = ic_in c \<and> stream c' = stream c @ data \<and> (armed c \<longrightarrow> armed c'))"
  by (simp add: sends_def appends_def)

lemma appends_sends: "appends c data c' \<Longrightarrow> sends c data c'"
  by (simp add: sends_iff appends_def)

text \<open>One response, with notifications after it when the request may subscribe.\<close>

definition answers :: "IpcLib \<Rightarrow> u64 \<Rightarrow> bool \<Rightarrow> IpcClient \<Rightarrow> IpcClient \<Rightarrow> bool" where
  "answers lib request_id subscribing c c' \<longleftrightarrow>
     (\<exists>r notifications. is_response request_id r \<and> (\<forall>n \<in> set notifications. is_notification n) \<and>
        (subscribing \<or> notifications = []) \<and> sends c (lines_of lib (r # notifications)) c')"

lemma responds_answers: "responds lib request_id c c' \<Longrightarrow> answers lib request_id subscribing c c'"
proof -
  assume "responds lib request_id c c'"
  then obtain r where "is_response request_id r" "appends c (line_of lib r) c'" by (auto simp: responds_def)
  then show ?thesis unfolding answers_def using appends_sends by (intro exI [of _ r] exI [of _ "[]"]) simp
qed

lemma subscribe_answers:
  assumes "ipc_handle_subscribe_events lib request_id params e c = (e', c')"
  shows "e' = e \<and> answers lib request_id True c c'"
proof (cases "\<exists>message. c' = ipc_bad_params lib c request_id message \<and> e' = e")
  case True
  then show ?thesis using responds_answers responds_intros(3) by blast
next
  case False
  then obtain k sn where sn: "me_event_journal_snapshot_after (eg_event_journal e) k = Some sn" and e: "e' = e"
    and c': "c' = (let c1 = ipc_send_result lib (c\<lparr>ic_analytics_subscribed := True, ic_analytics_ack_cursor := k\<rparr>)
                                 request_id (subscribed_json sn)
                   in if ic_alive c1 then send_records lib (sn_records sn) c1 else c1)"
    using assms by (auto simp: ipc_handle_subscribe_events_def Let_def split: if_splits option.splits)
  let ?c0 = "c\<lparr>ic_analytics_subscribed := True, ic_analytics_ack_cursor := k\<rparr>"
  define c1 where "c1 = ipc_send_result lib ?c0 request_id (subscribed_json sn)"
  let ?r = "result_json request_id (subscribed_json sn)"
  let ?ns = "map (the \<circ> record_json_of) (takeWhile (sendable lib) (sn_records sn))"
  have a1: "appends ?c0 (line_of lib ?r) c1" unfolding c1_def by (rule send_result_appends)
  have "appends ?c0 (lines_of lib (?r # ?ns)) c'"
  proof (cases "ic_alive c1")
    case True
    then show ?thesis using appends_trans [OF a1 send_records_appends [OF True]] c' by (simp add: c1_def Let_def)
  next
    case False
    then show ?thesis using appends_dead [OF a1 False] c' by (simp add: c1_def Let_def)
  qed
  then have "sends c (lines_of lib (?r # ?ns)) c'" by (simp add: sends_iff appends_def)
  moreover have "\<forall>n \<in> set ?ns. is_notification n" using record_json_notification set_takeWhileD by fastforce
  moreover have "is_response request_id ?r" by (auto simp: is_response_def)
  ultimately show ?thesis using e unfolding answers_def by blast
qed

text \<open>The effect of an accepted acknowledgement.\<close>

definition acknowledge :: "IpcLib \<Rightarrow> u64 \<Rightarrow> IpcClient \<Rightarrow> u64 \<Rightarrow> IpcClient" where
  "acknowledge lib request_id c cursor =
     (let c1 = (if cursor > ic_analytics_ack_cursor c then c\<lparr>ic_analytics_ack_cursor := cursor\<rparr> else c)
      in ipc_send_result lib c1 request_id
           (JObject [(''acked_cursor'', JNumber (double_of_u64 (ic_analytics_ack_cursor c1)))]))"

lemma ack_cases:
  "fst (ipc_handle_ack_events lib request_id params e c) = e \<and>
   ((\<exists>message. snd (ipc_handle_ack_events lib request_id params e c) = ipc_bad_params lib c request_id message) \<or>
    (\<exists>cursor. ic_analytics_subscribed c \<and> cursor \<le> me_event_journal_latest_cursor (eg_event_journal e) \<and>
       snd (ipc_handle_ack_events lib request_id params e c) = acknowledge lib request_id c cursor))"
proof (cases "ic_analytics_subscribed c")
  case True
  show ?thesis
  proof (cases "if is_object params then ipc_json_u64 (the params) ''cursor'' else None")
    case (Some cursor)
    show ?thesis
    proof (cases "cursor > me_event_journal_latest_cursor (eg_event_journal e)")
      case True
      then have "ipc_handle_ack_events lib request_id params e c =
          (e, ipc_bad_params lib c request_id ''ack_events: cursor is beyond journal tail'')"
        using \<open>ic_analytics_subscribed c\<close> unfolding ipc_handle_ack_events_def Some by simp
      then show ?thesis by (metis fst_conv snd_conv)
    next
      case False
      then have "ipc_handle_ack_events lib request_id params e c = (e, acknowledge lib request_id c cursor)"
        using \<open>ic_analytics_subscribed c\<close> unfolding ipc_handle_ack_events_def acknowledge_def Some Let_def by simp
      then show ?thesis using False True by (metis fst_conv snd_conv linorder_not_less)
    qed
  next
    case None
    show ?thesis unfolding ipc_handle_ack_events_def None using True by (simp add: exI)
  qed
next
  case False
  then show ?thesis by (simp add: ipc_handle_ack_events_def exI)
qed

lemma acknowledge_answers:
  "answers lib request_id subscribing c (acknowledge lib request_id c cursor) \<and>
   ic_analytics_subscribed (acknowledge lib request_id c cursor) = ic_analytics_subscribed c \<and>
   ic_analytics_ack_cursor (acknowledge lib request_id c cursor) = max (ic_analytics_ack_cursor c) cursor"
proof -
  define c1 where "c1 = (if cursor > ic_analytics_ack_cursor c then c\<lparr>ic_analytics_ack_cursor := cursor\<rparr> else c)"
  define r where "r = JObject [(''acked_cursor'', JNumber (double_of_u64 (ic_analytics_ack_cursor c1)))]"
  have c': "acknowledge lib request_id c cursor = ipc_send_result lib c1 request_id r"
    by (simp add: acknowledge_def c1_def r_def Let_def)
  have a: "appends c1 (line_of lib (result_json request_id r)) (acknowledge lib request_id c cursor)"
    unfolding c' by (rule send_result_appends)
  then have "sends c (lines_of lib [result_json request_id r]) (acknowledge lib request_id c cursor)"
    by (auto simp: sends_iff appends_def c1_def split: if_splits)
  moreover have "is_response request_id (result_json request_id r)" by (auto simp: is_response_def)
  ultimately have "answers lib request_id subscribing c (acknowledge lib request_id c cursor)"
    unfolding answers_def by (intro exI [of _ "result_json request_id r"] exI [of _ "[]"]) simp
  then show ?thesis using a by (auto simp: appends_def c1_def split: if_splits)
qed

lemma ack_answers: "answers lib request_id subscribing c (snd (ipc_handle_ack_events lib request_id params e c))"
  using ack_cases [of lib request_id params e c] acknowledge_answers responds_answers responds_intros(3) by metis

lemma handlers_respond:
  "responds lib request_id c (snd (ipc_handle_start_live lib rq request_id params e c))"
  "responds lib request_id c (snd (ipc_handle_stop_live lib rq request_id params e c))"
  "responds lib request_id c (snd (ipc_handle_keepalive_live lib rq request_id params e c))"
  "responds lib request_id c (snd (ipc_handle_snapshot lib rq request_id params e c))"
  "responds lib request_id c (snd (ipc_handle_get_status lib request_id e c))"
  by (auto simp: ipc_handle_start_live_def ipc_handle_stop_live_def ipc_handle_keepalive_live_def
      ipc_handle_snapshot_def ipc_handle_get_status_def split: option.split sum.split prod.split)

lemma dispatch_answers:
  assumes "ipc_dispatch lib rq request_id method_name params e c = (e', c')"
  shows "answers lib request_id (method_name = ''media.subscribe_events'') c c'"
proof -
  have c': "c' = snd (ipc_dispatch lib rq request_id method_name params e c)" using assms by simp
  consider "method_name = ''media.subscribe_events''" | "method_name = ''media.ack_events''"
    | "method_name \<notin> {''media.subscribe_events'', ''media.ack_events''}" by blast
  then show ?thesis
  proof cases
    case 1
    then show ?thesis using assms subscribe_answers by (simp add: ipc_dispatch_def)
  next
    case 2
    then show ?thesis using c' ack_answers by (simp add: ipc_dispatch_def)
  next
    case 3
    then have "responds lib request_id c c'"
      unfolding c' ipc_dispatch_def by (simp add: handlers_respond responds_intros split del: if_split split: if_split)
    then show ?thesis by (rule responds_answers)
  qed
qed

text \<open>The id that the response to a line must carry: that of the request, 0 when there is none.\<close>

definition expected_id :: "IpcLib \<Rightarrow> string \<Rightarrow> u64" where
  "expected_id lib line =
     (case il_parse lib (strip_line line) of
        Some (JObject members) \<Rightarrow>
          if map_of members ''v'' = Some (JNumber (Fin 1))
          then (case request_id_of lib (map_of members ''id'') of None \<Rightarrow> 0 | Some i \<Rightarrow> i) else 0
      | _ \<Rightarrow> 0)"

text \<open>The line asks for a subscription.\<close>

definition asks_subscription :: "IpcLib \<Rightarrow> string \<Rightarrow> bool" where
  "asks_subscription lib line \<longleftrightarrow>
     (case il_parse lib (strip_line line) of
        Some (JObject members) \<Rightarrow> map_of members ''method'' = Some (JString ''media.subscribe_events'') | _ \<Rightarrow> False)"

lemma handle_line_answers:
  assumes "ipc_handle_line lib rq line e c = (e', c')" and "strip_line line \<noteq> []"
  shows "answers lib (expected_id lib line) (asks_subscription lib line) c c'"
proof (cases "\<exists>code message. c' = ipc_send_error lib c (expected_id lib line) code message")
  case True
  then show ?thesis using responds_answers responds_intros(2) by blast
next
  case False
  then obtain members request_id method_name where
    m: "il_parse lib (strip_line line) = Some (JObject members)" "map_of members ''v'' = Some (JNumber (Fin 1))"
       "request_id_of lib (map_of members ''id'') = Some request_id" "map_of members ''method'' = Some (JString method_name)"
    and d: "ipc_dispatch lib rq request_id method_name (map_of members ''params'') e c = (e', c')"
    using assms
    by (auto simp: ipc_handle_line_def expected_id_def json_item_def ipc_json_string_def Let_def
        split: if_splits option.splits json.splits)
  show ?thesis using dispatch_answers [OF d] m by (simp add: expected_id_def asks_subscription_def)
qed

lemma handle_line_sends:
  "ipc_handle_line lib rq line e c = (e', c') \<Longrightarrow> \<exists>data. sends c data c'"
proof (cases "strip_line line = []")
  case True
  then show "ipc_handle_line lib rq line e c = (e', c') \<Longrightarrow> ?thesis"
    using appends_sends [OF appends_refl] by (auto simp: ipc_handle_line_def)
next
  case False
  then show "ipc_handle_line lib rq line e c = (e', c') \<Longrightarrow> ?thesis"
    using handle_line_answers by (fastforce simp: answers_def)
qed

end
