(* ===== verification/Ipc_Input.thy ===== *)
theory Ipc_Input
  imports Ipc_Output
begin

text \<open>
  The input side of the control socket, the listener and the broadcasts of
  \<^verbatim>\<open>media_engine/src/ipc/ipc_server.c\<close>. Reading is a loop that ends only when the socket runs dry: it is a
  partial function over the stream of outcomes of \<^verbatim>\<open>read\<close>, and the theorems say exactly when it returns.
  Input is split into lines regardless of how it arrives in pieces.
\<close>

subsection \<open>Lines of input\<close>

text \<open>
  The loop of \<open>ipc_client_process_input\<close>; line \<open>n\<close> of the client meets the outcomes \<open>io n\<close>. A freed
  client is one that is not alive.
\<close>

lemma first_newline_in: "newline \<in> set xs \<Longrightarrow> length (takeWhile (\<lambda>ch. ch \<noteq> newline) xs) < length xs"
  by (induction xs) auto

lemma handle_line_keeps_input:
  "ipc_handle_line lib rq line e c = (e', c') \<Longrightarrow> ic_alive c' \<Longrightarrow> ic_alive c \<and> ic_in c' = ic_in c \<and> ic_lines c' = ic_lines c"
  using handle_line_sends [of lib rq line e c] by (auto simp: sends_iff)

function ipc_client_process_input :: "IpcLib \<Rightarrow> (nat \<Rightarrow> RequestIo) \<Rightarrow> Engine \<Rightarrow> IpcClient \<Rightarrow> served" where
  "ipc_client_process_input lib io e c =
     (if newline \<notin> set (ic_in c)
      then (e, if length (ic_in c) > ME_IPC_MAX_LINE
               then (let c1 = ipc_send_error lib c 0 ME_IPC_ERR_PARSE ''message too long'' in c1\<lparr>ic_in := []\<rparr>)
               else c)
      else (let pos = length (takeWhile (\<lambda>ch. ch \<noteq> newline) (ic_in c))
            in case ipc_handle_line lib (io (ic_lines c)) (take pos (ic_in c)) e c of
                 (e1, c1) \<Rightarrow>
                   if \<not> ic_alive c1 then (e1, c1)
                   else ipc_client_process_input lib io e1
                          (c1\<lparr>ic_in := drop (Suc pos) (ic_in c1), ic_lines := Suc (ic_lines c1)\<rparr>)))"
  by pat_completeness auto
termination
proof (relation "measure (\<lambda>(lib, io, e, c). length (ic_in c))")
  fix lib io e c x p e1 c1
  assume a: "\<not> newline \<notin> set (ic_in c)" "(e1, c1) = ipc_handle_line lib (io (ic_lines c)) (take x (ic_in c)) e c" "\<not> \<not> ic_alive c1"
  then have "ic_in c1 = ic_in c" using handle_line_keeps_input by metis
  moreover have "ic_in c \<noteq> []" using a by auto
  ultimately show "((lib, io, e1, c1\<lparr>ic_in := drop (Suc x) (ic_in c1), ic_lines := Suc (ic_lines c1)\<rparr>), lib, io, e, c)
      \<in> measure (\<lambda>(lib, io, e, c). length (ic_in c))" by simp
qed simp

declare ipc_client_process_input.simps [simp del]

subsection \<open>Reading\<close>

text \<open>The loop of \<open>ipc_client_io\<close> over the outcomes of \<^verbatim>\<open>read\<close>; \<open>True\<close> when it ended with \<open>break\<close>.\<close>

partial_function (option) read_loop ::
  "IpcLib \<Rightarrow> (nat \<Rightarrow> RequestIo) \<Rightarrow> (nat \<Rightarrow> ReadResult) \<Rightarrow> nat \<Rightarrow> Engine \<Rightarrow> IpcClient \<Rightarrow> (bool \<times> served) option" where
  "read_loop lib io reads i e c =
     (case reads i of
        R_Bytes bytes \<Rightarrow>
          if bytes = [] then Some (False, e, ipc_client_close c)
          else (case ipc_client_process_input lib io e (c\<lparr>ic_in := ic_in c @ bytes\<rparr>) of
                  (e1, c1) \<Rightarrow>
                    if \<not> ic_alive c1 then Some (False, e1, ipc_client_close c1)
                    else if length bytes < ME_IPC_READ_CHUNK then Some (True, e1, c1)
                    else read_loop lib io reads (Suc i) e1 c1)
      | R_Eintr \<Rightarrow> read_loop lib io reads (Suc i) e c
      | R_Eagain \<Rightarrow> Some (True, e, c)
      | R_Error \<Rightarrow> Some (False, e, ipc_client_close c))"

text \<open>\<open>readable\<close> is \<^verbatim>\<open>G_IO_IN | G_IO_HUP | G_IO_ERR | G_IO_NVAL\<close>, \<open>writable\<close> is \<^verbatim>\<open>G_IO_OUT\<close>.\<close>

definition ipc_client_io ::
  "IpcLib \<Rightarrow> (nat \<Rightarrow> RequestIo) \<Rightarrow> (nat \<Rightarrow> ReadResult) \<Rightarrow> bool \<Rightarrow> bool \<Rightarrow> Engine \<Rightarrow> IpcClient \<Rightarrow> served option" where
  "ipc_client_io lib io reads readable writable e c =
     (case (if readable then read_loop lib io reads 0 e c else Some (True, e, c)) of
        None \<Rightarrow> None
      | Some (opened, e1, c1) \<Rightarrow>
          Some (if \<not> opened \<or> \<not> ic_alive c1 then (e1, c1)
                else (e1, if writable then snd (ipc_client_flush c1) else c1)))"

text \<open>\<open>g_slist_remove\<close> of a client that was closed; one that stays is the same object.\<close>

definition ipc_server_keep :: "IpcServer \<Rightarrow> Engine \<Rightarrow> IpcClient \<Rightarrow> IpcServer" where
  "ipc_server_keep s e c =
     s\<lparr>is_engine := e,
       is_clients := (if ic_alive c then map (\<lambda>k. if ic_fd k = ic_fd c then c else k) (is_clients s)
                      else filter (\<lambda>k. ic_fd k \<noteq> ic_fd c) (is_clients s))\<rparr>"

definition ipc_client_source_dispatch ::
  "IpcLib \<Rightarrow> (nat \<Rightarrow> RequestIo) \<Rightarrow> (nat \<Rightarrow> ReadResult) \<Rightarrow> bool \<Rightarrow> bool \<Rightarrow> IpcClient \<Rightarrow> IpcServer \<Rightarrow> IpcServer option" where
  "ipc_client_source_dispatch lib io reads readable writable c s =
     map_option (\<lambda>(e, c1). ipc_server_keep s e c1) (ipc_client_io lib io reads readable writable (is_engine s) c)"

subsection \<open>The listener\<close>

text \<open>The outcomes of \<^verbatim>\<open>accept\<close>: a descriptor with what its socket will do, or an error.\<close>

datatype AcceptResult = A_Client int "WriteResult list" | A_Eintr | A_Eagain | A_Error

fun ipc_server_accept_cb :: "AcceptResult list \<Rightarrow> IpcServer \<Rightarrow> IpcServer" where
  "ipc_server_accept_cb [] s = s"
| "ipc_server_accept_cb (A_Client fd ws # as) s = ipc_server_accept_cb as (ipc_client_create s fd ws)"
| "ipc_server_accept_cb (A_Eintr # as) s = ipc_server_accept_cb as s"
| "ipc_server_accept_cb (A_Eagain # as) s = s"
| "ipc_server_accept_cb (A_Error # as) s = s"

datatype IpcError = IX_Path_Too_Long | IX_Socket | IX_Other_Engine | IX_Bind | IX_Listen

text \<open>The outcomes of the system calls of \<open>ipc_server_init\<close>.\<close>

record ListenIo =
  li_probe :: bool
  li_connect :: bool
  li_socket :: bool
  li_bind :: bool
  li_listen :: bool

definition SUN_PATH_SIZE :: nat where
  "SUN_PATH_SIZE = 108"

definition ipc_server_init :: "ListenIo \<Rightarrow> Engine \<Rightarrow> string \<Rightarrow> IpcError + IpcServer" where
  "ipc_server_init io e path =
     (if length path \<ge> SUN_PATH_SIZE then Inl IX_Path_Too_Long
      else if \<not> li_probe io then Inl IX_Socket
      else if li_connect io then Inl IX_Other_Engine
      else if \<not> li_socket io then Inl IX_Socket
      else if \<not> li_bind io then Inl IX_Bind
      else if \<not> li_listen io then Inl IX_Listen
      else Inr \<lparr>is_engine = e, is_socket_path = copy_string 128 path, is_listening = True, is_clients = []\<rparr>)"

text \<open>The descriptors that are closed with the server, in order.\<close>

definition ipc_server_deinit :: "IpcServer \<Rightarrow> int list \<times> IpcServer" where
  "ipc_server_deinit s =
     (map ic_fd (filter (\<lambda>c. ic_alive c) (is_clients s)), s\<lparr>is_listening := False, is_clients := []\<rparr>)"

subsection \<open>Broadcasts\<close>

definition event_json :: "string \<Rightarrow> string option \<Rightarrow> string option \<Rightarrow> json" where
  "event_json event session_id message =
     notification_json ([(''event'', JString event)] @
       (case session_id of None \<Rightarrow> [] | Some sid \<Rightarrow> [(''session_id'', JString sid)]) @
       (case message of None \<Rightarrow> [] | Some m \<Rightarrow> [(''message'', JString m)]))"

definition keep_alive_clients :: "IpcServer \<Rightarrow> IpcClient list \<Rightarrow> IpcServer" where
  "keep_alive_clients s cs = s\<lparr>is_clients := filter (\<lambda>c. ic_alive c) cs\<rparr>"

definition ipc_server_broadcast_event ::
  "IpcLib \<Rightarrow> string \<Rightarrow> string option \<Rightarrow> string option \<Rightarrow> IpcServer \<Rightarrow> IpcServer" where
  "ipc_server_broadcast_event lib event session_id message s =
     (case il_print lib (event_json event session_id message) of
        None \<Rightarrow> s
      | Some line \<Rightarrow> keep_alive_clients s (map (\<lambda>c. snd (ipc_client_send c (line @ [newline]))) (is_clients s)))"

definition ipc_server_broadcast_analytics_event :: "IpcLib \<Rightarrow> dispatch \<Rightarrow> IpcServer \<Rightarrow> IpcServer" where
  "ipc_server_broadcast_analytics_event lib d s =
     (if fst d = 0 then s
      else keep_alive_clients s
             (map (\<lambda>c. if ic_analytics_subscribed c then snd (ipc_send_analytics_record lib c (fst d) (snd d)) else c)
                (is_clients s)))"

end
