(* ===== verification/Ipc_Facts.thy ===== *)
theory Ipc_Facts
  imports Ipc_Input
begin

text \<open>
  How the control socket reads its input: the buffer is drained and stays bounded, requests do not
  depend on the pieces in which they arrive, and the read loop returns as soon as the socket runs dry.
\<close>

subsection \<open>Handlers do not look at the input buffer\<close>

definition relabel :: "string \<Rightarrow> IpcClient \<Rightarrow> IpcClient" where
  "relabel x c = c\<lparr>ic_in := if ic_alive c then x else ic_in c\<rparr>"

lemma relabel_fields [simp]:
  "ic_alive (relabel x c) = ic_alive c" "ic_out (relabel x c) = ic_out c" "ic_socket (relabel x c) = ic_socket c"
  "ic_lines (relabel x c) = ic_lines c" "ic_analytics_subscribed (relabel x c) = ic_analytics_subscribed c"
  "ic_analytics_ack_cursor (relabel x c) = ic_analytics_ack_cursor c" "ic_written (relabel x c) = ic_written c"
  "ic_alive c \<Longrightarrow> ic_in (relabel x c) = x" "relabel x (relabel y c) = relabel x c"
  by (simp_all add: relabel_def)

lemma relabel_updates:
  "relabel x (c\<lparr>ic_analytics_subscribed := b\<rparr>) = (relabel x c)\<lparr>ic_analytics_subscribed := b\<rparr>"
  "relabel x (c\<lparr>ic_analytics_ack_cursor := k\<rparr>) = (relabel x c)\<lparr>ic_analytics_ack_cursor := k\<rparr>"
  "relabel x (c\<lparr>ic_written := w\<rparr>) = (relabel x c)\<lparr>ic_written := w\<rparr>"
  "relabel x (c\<lparr>ic_socket := ws\<rparr>) = (relabel x c)\<lparr>ic_socket := ws\<rparr>"
  "relabel x (c\<lparr>ic_out := q\<rparr>) = (relabel x c)\<lparr>ic_out := q\<rparr>"
  "relabel x (c\<lparr>ic_want_out := b\<rparr>) = (relabel x c)\<lparr>ic_want_out := b\<rparr>"
  "relabel x (c\<lparr>ic_lines := n\<rparr>) = (relabel x c)\<lparr>ic_lines := n\<rparr>"
  by (cases c; simp add: relabel_def)+

lemma close_relabel: "ic_alive c \<Longrightarrow> ipc_client_close (relabel x c) = relabel x (ipc_client_close c)"
  by (cases c) (simp add: ipc_client_close_def relabel_def)

lemma send_relabel: "ic_alive c \<Longrightarrow> ipc_client_send (relabel x c) data = apsnd (relabel x) (ipc_client_send c data)"
  by (auto simp: ipc_client_send_def ipc_try_write_def ipc_client_arm_output_def Let_def relabel_updates [symmetric] close_relabel
      split: prod.splits)

lemma send_json_relabel: "ic_alive c \<Longrightarrow> ipc_send_json lib (relabel x c) j = apsnd (relabel x) (ipc_send_json lib c j)"
  by (simp add: ipc_send_json_def send_relabel split: option.splits)

lemma answer_relabel:
  assumes "ic_alive c"
  shows "ipc_send_result lib (relabel x c) i r = relabel x (ipc_send_result lib c i r)"
    and "ipc_send_error lib (relabel x c) i code m = relabel x (ipc_send_error lib c i code m)"
    and "ipc_bad_params lib (relabel x c) i m = relabel x (ipc_bad_params lib c i m)"
    and "answer_code lib rq (relabel x c) i rc = relabel x (answer_code lib rq c i rc)"
  using assms by (simp_all add: answer_code_def ipc_bad_params_def ipc_send_result_def ipc_send_error_def send_json_relabel)

lemma send_records_relabel: "ic_alive c \<Longrightarrow> send_records lib ds (relabel x c) = relabel x (send_records lib ds c)"
proof (induction ds arbitrary: c)
  case (Cons d ds)
  obtain sent c1 where s: "ipc_send_analytics_record lib c (fst d) (snd d) = (sent, c1)" by fastforce
  then have "ipc_send_analytics_record lib (relabel x c) (fst d) (snd d) = (sent, relabel x c1)"
    using Cons.prems by (auto simp: ipc_send_analytics_record_def send_json_relabel split: option.splits if_splits)
  moreover have "sent \<Longrightarrow> ic_alive c1"
    using send_record_appends [OF s Cons.prems] by (auto split: if_splits)
  ultimately show ?case using s Cons.IH [of c1] by simp
qed simp

lemma subscribe_relabel:
  assumes "ic_alive c"
  shows "ipc_handle_subscribe_events lib i params e (relabel x c) = apsnd (relabel x) (ipc_handle_subscribe_events lib i params e c)"
proof -
  have "ipc_send_result lib ((relabel x c)\<lparr>ic_analytics_subscribed := True, ic_analytics_ack_cursor := k\<rparr>) i r =
      relabel x (ipc_send_result lib (c\<lparr>ic_analytics_subscribed := True, ic_analytics_ack_cursor := k\<rparr>) i r)" for k r
    using assms by (simp add: relabel_updates [symmetric] answer_relabel)
  then show ?thesis using assms
    by (simp add: ipc_handle_subscribe_events_def answer_relabel send_records_relabel Let_def split: option.split)
qed

lemma ack_relabel:
  assumes "ic_alive c"
  shows "ipc_handle_ack_events lib i params e (relabel x c) = apsnd (relabel x) (ipc_handle_ack_events lib i params e c)"
  using assms by (simp add: ipc_handle_ack_events_def answer_relabel Let_def relabel_updates [symmetric] split: option.split)

lemma handlers_relabel:
  assumes "ic_alive c"
  shows "ipc_handle_start_live lib rq i params e (relabel x c) = apsnd (relabel x) (ipc_handle_start_live lib rq i params e c)"
    and "ipc_handle_stop_live lib rq i params e (relabel x c) = apsnd (relabel x) (ipc_handle_stop_live lib rq i params e c)"
    and "ipc_handle_keepalive_live lib rq i params e (relabel x c) = apsnd (relabel x) (ipc_handle_keepalive_live lib rq i params e c)"
    and "ipc_handle_snapshot lib rq i params e (relabel x c) = apsnd (relabel x) (ipc_handle_snapshot lib rq i params e c)"
    and "ipc_handle_get_status lib i e (relabel x c) = apsnd (relabel x) (ipc_handle_get_status lib i e c)"
  using assms
  by (simp_all add: ipc_handle_start_live_def ipc_handle_stop_live_def ipc_handle_keepalive_live_def ipc_handle_snapshot_def
      ipc_handle_get_status_def answer_relabel split: option.split sum.split prod.split)

lemma dispatch_relabel:
  "ic_alive c \<Longrightarrow> ipc_dispatch lib rq i m params e (relabel x c) = apsnd (relabel x) (ipc_dispatch lib rq i m params e c)"
  unfolding ipc_dispatch_def
  by (simp add: handlers_relabel subscribe_relabel ack_relabel answer_relabel split del: if_split split: if_split)

lemma handle_line_relabel:
  "ic_alive c \<Longrightarrow> ipc_handle_line lib rq line e (relabel x c) = apsnd (relabel x) (ipc_handle_line lib rq line e c)"
  unfolding ipc_handle_line_def
  by (simp add: dispatch_relabel answer_relabel Let_def split: option.split json.split)

subsection \<open>Lines and pieces\<close>

lemma relabel_self: "relabel (ic_in c) c = c"
  by (cases c) (simp add: relabel_def)

lemma relabel_append: "ic_alive c \<Longrightarrow> c\<lparr>ic_in := x\<rparr> = relabel x c"
  by (simp add: relabel_def)

lemma process_rest:
  assumes "ic_alive c" and "newline \<notin> set r" and "length r \<le> ME_IPC_MAX_LINE"
  shows "ipc_client_process_input lib io e (relabel r c) = (e, relabel r c)"
  using assms by (subst ipc_client_process_input.simps) simp

lemma takeWhile_line: "newline \<notin> set l \<Longrightarrow> takeWhile (\<lambda>ch. ch \<noteq> newline) (l @ newline # r) = l"
  by (induction l) auto

lemma process_line:
  assumes "ic_alive c" and "newline \<notin> set l"
  shows "ipc_client_process_input lib io e (relabel (l @ newline # r) c) =
    (case ipc_handle_line lib (io (ic_lines c)) l e c of
       (e1, c1) \<Rightarrow> if \<not> ic_alive c1 then (e1, c1)
                  else ipc_client_process_input lib io e1 (relabel r (c1\<lparr>ic_lines := Suc (ic_lines c1)\<rparr>)))"
proof -
  obtain e1 c1 where h: "ipc_handle_line lib (io (ic_lines c)) l e c = (e1, c1)" by fastforce
  then have h': "ipc_handle_line lib (io (ic_lines c)) l e (relabel (l @ newline # r) c) = (e1, relabel (l @ newline # r) c1)"
    using handle_line_relabel [OF assms(1)] by simp
  have "(relabel (l @ newline # r) c1)\<lparr>ic_in := r, ic_lines := n\<rparr> = relabel r (c1\<lparr>ic_lines := n\<rparr>)" if "ic_alive c1" for n
    using that by (cases c1) (simp add: relabel_def)
  moreover have "relabel (l @ newline # r) c1 = c1" if "\<not> ic_alive c1" using that by (cases c1) (simp add: relabel_def)
  ultimately show ?thesis using assms takeWhile_line [OF assms(2), of r] h h'
    by (subst ipc_client_process_input.simps) simp
qed

text \<open>No part of the input without a newline is longer than a line may be.\<close>

definition short_lines :: "string \<Rightarrow> bool" where
  "short_lines s \<longleftrightarrow> (\<forall>u v w. s = u @ v @ w \<longrightarrow> newline \<notin> set v \<longrightarrow> length v \<le> ME_IPC_MAX_LINE)"

lemma short_lines_prefix: "short_lines (x @ y) \<Longrightarrow> short_lines x"
  unfolding short_lines_def by (metis append.assoc)

lemma short_lines_suffix: "short_lines (x @ y) \<Longrightarrow> short_lines y"
  unfolding short_lines_def by (metis append.assoc)

lemma short_lines_bound: "short_lines x \<Longrightarrow> newline \<notin> set x \<Longrightarrow> length x \<le> ME_IPC_MAX_LINE"
  unfolding short_lines_def by (metis append_Nil append_Nil2)

text \<open>One piece of input, as the read loop hands it to \<open>ipc_client_process_input\<close>, and many.\<close>

definition feed :: "IpcLib \<Rightarrow> (nat \<Rightarrow> RequestIo) \<Rightarrow> string \<Rightarrow> served \<Rightarrow> served" where
  "feed lib io bytes es =
     (if ic_alive (snd es) then ipc_client_process_input lib io (fst es) ((snd es)\<lparr>ic_in := ic_in (snd es) @ bytes\<rparr>) else es)"

lemma process_append:
  "ic_alive c \<Longrightarrow> short_lines (x @ y) \<Longrightarrow>
     ipc_client_process_input lib io e (relabel (x @ y) c) = feed lib io y (ipc_client_process_input lib io e (relabel x c))"
proof (induction "length x" arbitrary: x e c rule: less_induct)
  case less
  show ?case
  proof (cases "newline \<in> set x")
    case False
    then have "length x \<le> ME_IPC_MAX_LINE" using less.prems(2) short_lines_prefix short_lines_bound by blast
    with process_rest [OF less.prems(1) False] less.prems(1) show ?thesis by (simp add: feed_def relabel_append)
  next
    case True
    then obtain l r where x: "x = l @ newline # r" and l: "newline \<notin> set l" by (meson split_list_first)
    obtain e1 c1 where h: "ipc_handle_line lib (io (ic_lines c)) l e c = (e1, c1)" by fastforce
    have "short_lines (r @ y)" using less.prems(2) short_lines_suffix [of "l @ [newline]" "r @ y"] x by simp
    then show ?thesis
      using less.hyps [of r "c1\<lparr>ic_lines := Suc (ic_lines c1)\<rparr>" e1] process_line [OF less.prems(1) l, of lib io e] h x
      by (auto simp: feed_def)
  qed
qed

lemma feed_append:
  assumes "short_lines (ic_in (snd es) @ x @ y)"
  shows "feed lib io y (feed lib io x es) = feed lib io (x @ y) es"
proof (cases "ic_alive (snd es)")
  case True
  with process_append [OF True, of "ic_in (snd es) @ x" y lib io "fst es"] assms show ?thesis
    by (simp add: feed_def relabel_append)
qed (simp add: feed_def)

primrec feeds :: "IpcLib \<Rightarrow> (nat \<Rightarrow> RequestIo) \<Rightarrow> string list \<Rightarrow> served \<Rightarrow> served" where
  "feeds lib io [] es = es"
| "feeds lib io (p # ps) es = feeds lib io ps (feed lib io p es)"

lemma feeds_append: "feeds lib io (ps @ qs) es = feeds lib io qs (feeds lib io ps es)"
  by (induction ps arbitrary: es) auto

lemma feeds_concat:
  assumes "newline \<notin> set (ic_in (snd es))" and "short_lines (ic_in (snd es) @ concat ps)"
  shows "feeds lib io ps es = feed lib io (concat ps) es"
  using assms(2)
proof (induction ps rule: rev_induct)
  case Nil
  then have "length (ic_in (snd es)) \<le> ME_IPC_MAX_LINE" using assms(1) short_lines_bound by simp
  then show ?case using process_rest [of "snd es" "ic_in (snd es)" lib io "fst es"] assms(1)
    by (simp add: feed_def relabel_append relabel_self)
next
  case (snoc p ps)
  then have "short_lines (ic_in (snd es) @ concat ps)" using short_lines_prefix by (metis append.assoc concat_append)
  with snoc feed_append show ?case by (simp add: feeds_append)
qed

text \<open>The reference: the complete lines one after the other, until one of them ends the connection.\<close>

primrec handle_lines :: "IpcLib \<Rightarrow> (nat \<Rightarrow> RequestIo) \<Rightarrow> string list \<Rightarrow> Engine \<Rightarrow> IpcClient \<Rightarrow> served" where
  "handle_lines lib io [] e c = (e, c)"
| "handle_lines lib io (l # ls) e c =
     (case ipc_handle_line lib (io (ic_lines c)) l e c of
        (e1, c1) \<Rightarrow> if \<not> ic_alive c1 then (e1, c1) else handle_lines lib io ls e1 (c1\<lparr>ic_lines := Suc (ic_lines c1)\<rparr>))"

definition terminated :: "string list \<Rightarrow> string" where
  "terminated ls = concat (map (\<lambda>l. l @ [newline]) ls)"

lemma process_lines:
  assumes "ic_alive c" and "\<forall>l \<in> set ls. newline \<notin> set l" and "newline \<notin> set r" and "length r \<le> ME_IPC_MAX_LINE"
  shows "ipc_client_process_input lib io e (relabel (terminated ls @ r) c) = apsnd (relabel r) (handle_lines lib io ls e c)"
  using assms(1,2)
proof (induction ls arbitrary: e c)
  case Nil
  then show ?case using process_rest assms(3,4) by (simp add: terminated_def)
next
  case (Cons l ls)
  obtain e1 c1 where h: "ipc_handle_line lib (io (ic_lines c)) l e c = (e1, c1)" by fastforce
  have "relabel r c1 = c1" if "\<not> ic_alive c1" using that by (cases c1) (simp add: relabel_def)
  then show ?case using process_line [OF Cons.prems(1), of l lib io e "terminated ls @ r"] h Cons
    by (auto simp: terminated_def)
qed

text \<open>
  C6: requests do not depend on how the bytes arrive. Whatever pieces \<^verbatim>\<open>read\<close> returns, when no line is
  longer than the limit the engine and the client end as if the complete lines had been handed to
  \<open>ipc_handle_line\<close> one after the other, with the unfinished line left in the buffer.
\<close>

theorem framing_ignores_pieces:
  assumes "ic_alive c" and "newline \<notin> set (ic_in c)" and "short_lines (ic_in c @ concat pieces)"
    and "ic_in c @ concat pieces = terminated ls @ r" and "\<forall>l \<in> set ls. newline \<notin> set l" and "newline \<notin> set r"
  shows "feeds lib io pieces (e, c) = apsnd (relabel r) (handle_lines lib io ls e c)"
proof -
  have "length r \<le> ME_IPC_MAX_LINE" using assms(3,4,6) short_lines_suffix short_lines_bound by metis
  with process_lines [OF assms(1,5,6)] have
    "ipc_client_process_input lib io e (relabel (ic_in c @ concat pieces) c) = apsnd (relabel r) (handle_lines lib io ls e c)"
    using assms(4) by simp
  then show ?thesis using feeds_concat [of "(e, c)"] assms(1-3) by (simp add: feed_def relabel_append)
qed

subsection \<open>The buffer is drained and the loop returns\<close>

lemma process_drains:
  assumes "ipc_client_process_input lib io e c = (e', c')" and "ic_alive c'"
  shows "newline \<notin> set (ic_in c') \<and> length (ic_in c') \<le> ME_IPC_MAX_LINE"
  using assms
proof (induction lib io e c rule: ipc_client_process_input.induct)
  case (1 lib io e c)
  show ?case
  proof (cases "newline \<in> set (ic_in c)")
    case True
    obtain e1 c1 where h: "ipc_handle_line lib (io (ic_lines c)) (take (length (takeWhile (\<lambda>ch. ch \<noteq> newline) (ic_in c))) (ic_in c)) e c = (e1, c1)"
      by fastforce
    show ?thesis
    proof (cases "ic_alive c1")
      case alive: True
      with 1(2) True h have "ipc_client_process_input lib io e1
          (c1\<lparr>ic_in := drop (Suc (length (takeWhile (\<lambda>ch. ch \<noteq> newline) (ic_in c)))) (ic_in c1), ic_lines := Suc (ic_lines c1)\<rparr>) = (e', c')"
        by (subst (asm) ipc_client_process_input.simps) simp
      with 1(1) [OF _ refl h [symmetric]] True alive 1(3) show ?thesis by simp
    next
      case False
      with 1(2,3) True h show ?thesis by (subst (asm) ipc_client_process_input.simps) simp
    qed
  next
    case False
    with 1(2) show ?thesis by (subst (asm) ipc_client_process_input.simps) (auto simp: Let_def split: if_splits)
  qed
qed

text \<open>The outcomes after which the read loop stops.\<close>

definition stops_reading :: "ReadResult \<Rightarrow> bool" where
  "stops_reading r = (case r of R_Bytes bytes \<Rightarrow> length bytes < ME_IPC_READ_CHUNK | R_Eintr \<Rightarrow> False | _ \<Rightarrow> True)"

lemma read_loop_returns:
  "stops_reading (reads (i + d)) \<Longrightarrow> \<exists>r. read_loop lib io reads i e c = Some r"
proof (induction d arbitrary: i e c)
  case 0
  then show ?case
    by (subst read_loop.simps) (auto simp: stops_reading_def split: ReadResult.splits prod.splits)
next
  case (Suc d)
  then have "\<exists>r. read_loop lib io reads (Suc i) e' c' = Some r" for e' c' by simp
  then show ?case by (subst read_loop.simps) (auto split: ReadResult.splits prod.splits)
qed

text \<open>
  C14: handling a client returns: as soon as one outcome of \<^verbatim>\<open>read\<close> is neither an interrupted call nor a
  full chunk of 8192 bytes, \<open>ipc_client_io\<close> comes back to the main loop.
\<close>

theorem client_io_returns:
  assumes "stops_reading (reads k)"
  shows "\<exists>es. ipc_client_io lib io reads readable writable e c = Some es"
proof -
  obtain r where "read_loop lib io reads 0 e c = Some r" using read_loop_returns [of reads 0 k] assms by (metis add_0)
  then show ?thesis by (cases r) (simp add: ipc_client_io_def)
qed

text \<open>Without such an outcome the loop need not return.\<close>

lemma interrupted_forever: "read_loop lib io (\<lambda>_. R_Eintr) i e c = None"
proof (cases "read_loop lib io (\<lambda>_. R_Eintr) i e c")
  case (Some r)
  then have "(\<lambda>_. R_Eintr) \<noteq> (\<lambda>_::nat. R_Eintr)"
    by (rule read_loop.raw_induct [where P = "\<lambda>_ _ reads _ _ _ _. reads \<noteq> (\<lambda>_. R_Eintr)", rotated])
      (auto split: ReadResult.splits)
  then show ?thesis by simp
qed simp

end
