(* ===== verification/Media_Main.thy ===== *)
theory Media_Main
  imports Ipc_Facts Engine_Facts
begin

text \<open>
  \<^verbatim>\<open>media_engine/src/main.c\<close>: the program. It reads the configuration, starts the engine and the server,
  connects the sinks and runs the main loop. The state of the running program is the server, which
  holds the engine, and the queue of the deliveries that other threads have handed to the main loop.
\<close>

subsection \<open>Sinks and start\<close>

definition ipc_event_sink :: "IpcLib \<Rightarrow> media_event option \<Rightarrow> IpcServer \<Rightarrow> IpcServer" where
  "ipc_event_sink lib ev s =
     (case ev of None \<Rightarrow> s | Some (event, session_id, message) \<Rightarrow> ipc_server_broadcast_event lib event session_id (Some message) s)"

definition ipc_analytics_event_sink :: "IpcLib \<Rightarrow> dispatch option \<Rightarrow> IpcServer \<Rightarrow> IpcServer" where
  "ipc_analytics_event_sink lib d s = (case d of None \<Rightarrow> s | Some x \<Rightarrow> ipc_server_broadcast_analytics_event lib x s)"

record Media =
  md_server :: IpcServer
  md_pending :: "dispatch list"

datatype MainResult = Main_Failure | Main_Help | Main_Running Media

record StartIo =
  st_files :: "string \<Rightarrow> YamlFile"
  st_getopt :: "string list \<Rightarrow> (CliOpt \<times> string) list"
  st_init :: InitIo
  st_log :: string
  st_fs :: file_system
  st_listen :: ListenIo

definition media_main :: "StartIo \<Rightarrow> string list \<Rightarrow> MainResult" where
  "media_main io argv =
     (case engine_config_load (st_files io) engine_config_defaults None of
        (Some err, _) \<Rightarrow> Main_Failure
      | (None, cfg) \<Rightarrow>
          (case engine_config_apply_cli (st_files io) (st_getopt io) (Some cfg) argv of
             (Cli_Error err, _) \<Rightarrow> Main_Failure
           | (Cli_Help, _) \<Rightarrow> Main_Help
           | (Cli_Ok, None) \<Rightarrow> Main_Failure
           | (Cli_Ok, Some cfg1) \<Rightarrow>
               (case engine_init (st_init io) (st_log io) (st_fs io) cfg1 of
                  Inl err \<Rightarrow> Main_Failure
                | Inr e \<Rightarrow>
                    (case ipc_server_init (st_listen io) e (ec_socket_path cfg1) of
                       Inl err \<Rightarrow> Main_Failure
                     | Inr s \<Rightarrow>
                         Main_Running
                           \<lparr>md_server = s\<lparr>is_engine := engine_set_analytics_event_sink (engine_set_event_sink (is_engine s) True) True\<rparr>,
                            md_pending = []\<rparr>))))"

subsection \<open>The main loop\<close>

text \<open>The timer that ends live sessions without a keepalive.\<close>

definition reap_expired_live :: "IpcLib \<Rightarrow> GstStateChangeReturn \<Rightarrow> i64 \<Rightarrow> Media \<Rightarrow> Media" where
  "reap_expired_live lib ret now md =
     (case engine_reap_expired True ret now (is_engine (md_server md)) of
        (_, e, ev) \<Rightarrow> md\<lparr>md_server := ipc_event_sink lib ev ((md_server md)\<lparr>is_engine := e\<rparr>)\<rparr>)"

text \<open>The descriptors that \<^verbatim>\<open>accept\<close> returns are open, so they are new.\<close>

definition accepted_fds :: "AcceptResult list \<Rightarrow> int list" where
  "accepted_fds as = concat (map (\<lambda>a. case a of A_Client fd ws \<Rightarrow> [fd] | _ \<Rightarrow> []) as)"

definition fresh_fds :: "AcceptResult list \<Rightarrow> IpcServer \<Rightarrow> bool" where
  "fresh_fds as s \<longleftrightarrow> distinct (accepted_fds as) \<and> set (accepted_fds as) \<inter> set (map ic_fd (is_clients s)) = {}"

text \<open>
  One turn of the main loop, or one callback of another thread: a client is dispatched, clients are
  accepted, the timer fires, the bus has a message, an idle callback destroys a branch, the detector
  reports, a delivery runs, a picture arrives.
\<close>

inductive media_step :: "IpcLib \<Rightarrow> Media \<Rightarrow> Media \<Rightarrow> bool" for lib where
  client: "c \<in> set (is_clients (md_server md)) \<Longrightarrow> \<forall>n. rq_tee (io n) \<Longrightarrow>
    ipc_client_source_dispatch lib io reads readable writable c (md_server md) = Some s' \<Longrightarrow>
    media_step lib md (md\<lparr>md_server := s'\<rparr>)"
| accept: "fresh_fds as (md_server md) \<Longrightarrow>
    media_step lib md (md\<lparr>md_server := ipc_server_accept_cb as (md_server md)\<rparr>)"
| reap: "media_step lib md (reap_expired_live lib ret now md)"
| bus: "engine_bus_message True ret msg (is_engine (md_server md)) = (e', ev) \<Longrightarrow>
    media_step lib md (md\<lparr>md_server := ipc_event_sink lib ev ((md_server md)\<lparr>is_engine := e'\<rparr>)\<rparr>)"
| destroy: "eg_runner (is_engine (md_server md)) = Some r \<Longrightarrow> lv_teardown_idle (gr_live r) \<Longrightarrow>
    media_step lib md
      (md\<lparr>md_server := (md_server md)\<lparr>is_engine := (is_engine (md_server md))\<lparr>eg_runner := Some (live_branch_destroy_idle r)\<rparr>\<rparr>\<rparr>)"
| detected: "engine_analytics_observation ios (is_engine (md_server md)) ob = (e', ds) \<Longrightarrow>
    media_step lib md (md\<lparr>md_server := (md_server md)\<lparr>is_engine := e'\<rparr>, md_pending := md_pending md @ ds\<rparr>)"
| delivered: "md_pending md = d # q \<Longrightarrow>
    media_step lib md
      (md\<lparr>md_server := ipc_analytics_event_sink lib (deliver_analytics_event (is_engine (md_server md)) d) (md_server md),
          md_pending := q\<rparr>)"
| encoded: "eg_runner (is_engine (md_server md)) = Some r \<Longrightarrow>
    media_step lib md
      (md\<lparr>md_server := (md_server md)\<lparr>is_engine := (is_engine (md_server md))\<lparr>eg_runner := Some (evidence_new_sample_callback bytes pts r)\<rparr>\<rparr>\<rparr>)"

text \<open>
  The end: the engine is stopped, the deliveries that are pending run, then the server closes. The
  result is the closed descriptors. Of the other sources that may still be pending none is run.
\<close>

definition media_shutdown ::
  "IpcLib \<Rightarrow> GstStateChangeReturn \<Rightarrow> (MeRockivaRunner \<Rightarrow> MeRockivaRunner option) \<Rightarrow> (nat \<Rightarrow> EventIo) \<Rightarrow> (nat \<Rightarrow> EventIo) \<Rightarrow> Media \<Rightarrow>
     int list \<times> IpcServer" where
  "media_shutdown lib ret free_analytics ios ios1 md =
     (case engine_deinit True ret free_analytics ios ios1 (is_engine (md_server md)) of
        (e, ds) \<Rightarrow>
          (let s1 = fold (\<lambda>d s. ipc_analytics_event_sink lib (deliver_analytics_event (is_engine s) d) s)
                      (md_pending md @ ds) ((md_server md)\<lparr>is_engine := e\<rparr>);
               s2 = s1\<lparr>is_engine := engine_set_analytics_event_sink (is_engine s1) False\<rparr>
           in ipc_server_deinit s2))"

subsection \<open>Requests are steps of the engine\<close>

lemma start_live_params_ok: "start_live_params po = Inr p \<Longrightarrow> params_ok p"
  using length_copy_string [of ME_SESSION_ID_MAX]
  by (auto simp: start_live_params_def require_def params_ok_def Let_def split: if_splits option.splits)

lemma dispatch_steps:
  assumes "rq_tee rq"
  shows "engine_step\<^sup>*\<^sup>* e (fst (ipc_dispatch lib rq i m params e c))"
proof -
  have start: "engine_step\<^sup>*\<^sup>* e (fst (ipc_handle_start_live lib rq i params e c))"
    using start_live_params_ok engine_step.start
    by (fastforce simp: ipc_handle_start_live_def split: sum.split prod.split)
  have stop: "engine_step\<^sup>*\<^sup>* e (fst (ipc_handle_stop_live lib rq i params e c))"
    using assms engine_step.stop by (fastforce simp: ipc_handle_stop_live_def split: option.split prod.split)
  have keep: "engine_step\<^sup>*\<^sup>* e (fst (ipc_handle_keepalive_live lib rq i params e c))"
    using engine_step.keepalive by (fastforce simp: ipc_handle_keepalive_live_def split: option.split prod.split)
  have rest: "fst (ipc_handle_snapshot lib rq i params e c) = e" "fst (ipc_handle_get_status lib i e c) = e"
    "fst (ipc_handle_ack_events lib i params e c) = e" "fst (ipc_handle_subscribe_events lib i params e c) = e"
    using ack_cases subscribe_answers [of lib i params e c]
    by (auto simp: ipc_handle_snapshot_def ipc_handle_get_status_def split: option.split) (metis prod.collapse)
  show ?thesis unfolding ipc_dispatch_def by (simp add: start stop keep rest split del: if_split split: if_split)
qed

lemma handle_line_steps: "rq_tee rq \<Longrightarrow> engine_step\<^sup>*\<^sup>* e (fst (ipc_handle_line lib rq line e c))"
  unfolding ipc_handle_line_def by (simp add: dispatch_steps Let_def split: option.split json.split)

end
