(* ===== verification/Media_Runs.thy ===== *)
theory Media_Runs
  imports Media_Main
begin

text \<open>
  Runs of the whole program. Whatever the clients send and the sockets do, the clients of the server
  are open and have their buffers in bounds, their output only grows at its end, and the live sessions
  stay coupled to the pipeline. A subscriber gets the log after its cursor and then the live events.
\<close>

subsection \<open>One client\<close>

text \<open>What handling a client does to the engine and to the client.\<close>

definition progress :: "served \<Rightarrow> served \<Rightarrow> bool" where
  "progress es es' \<longleftrightarrow>
     engine_step\<^sup>*\<^sup>* (fst es) (fst es') \<and> ic_fd (snd es') = ic_fd (snd es) \<and>
     (ic_alive (snd es') \<longrightarrow>
        ic_alive (snd es) \<and> (armed (snd es) \<longrightarrow> armed (snd es')) \<and> (\<exists>data. stream (snd es') = stream (snd es) @ data))"

lemma progress_refl: "progress es es"
  by (simp add: progress_def)

lemma progress_trans: "progress es es1 \<Longrightarrow> progress es1 es2 \<Longrightarrow> progress es es2"
  unfolding progress_def by (metis append.assoc rtranclp_trans)

lemma progress_sends: "sends c data c' \<Longrightarrow> progress (e, c) (e, c')"
  by (auto simp: progress_def sends_iff)

lemma handle_line_progress:
  assumes "rq_tee rq"
  shows "progress (e, c) (ipc_handle_line lib rq line e c)"
proof -
  obtain e' c' where h: "ipc_handle_line lib rq line e c = (e', c')" by fastforce
  then show ?thesis using handle_line_sends [OF h] handle_line_steps [OF assms, of e lib line c]
    by (auto simp: progress_def sends_iff)
qed

lemma input_stream [simp]:
  "stream (c\<lparr>ic_in := x\<rparr>) = stream c" "stream (c\<lparr>ic_lines := n\<rparr>) = stream c"
  "armed (c\<lparr>ic_in := x\<rparr>) = armed c" "armed (c\<lparr>ic_lines := n\<rparr>) = armed c"
  by (simp_all add: stream_def armed_def)

lemma close_dead [simp]: "\<not> ic_alive (ipc_client_close c)"
  by (simp add: ipc_client_close_def)

lemma close_progress: "progress (e, c) (e, ipc_client_close c)"
  by (simp add: progress_def ipc_client_close_def stream_def)

lemma process_progress:
  assumes "\<forall>n. rq_tee (io n)"
  shows "progress (e, c) (ipc_client_process_input lib io e c)"
  using assms
proof (induction lib io e c rule: ipc_client_process_input.induct)
  case (1 lib io e c)
  show ?case
  proof (cases "newline \<in> set (ic_in c)")
    case True
    define pos where "pos = length (takeWhile (\<lambda>ch. ch \<noteq> newline) (ic_in c))"
    obtain e1 c1 where h: "ipc_handle_line lib (io (ic_lines c)) (take pos (ic_in c)) e c = (e1, c1)" by fastforce
    let ?c2 = "c1\<lparr>ic_in := drop (Suc pos) (ic_in c1), ic_lines := Suc (ic_lines c1)\<rparr>"
    have first: "progress (e, c) (e1, c1)" using handle_line_progress 1(2) h by metis
    show ?thesis
    proof (cases "ic_alive c1")
      case alive: True
      have "progress (e1, ?c2) (ipc_client_process_input lib io e1 ?c2)"
        using 1(1) [OF _ pos_def h [symmetric]] True alive 1(2) by simp
      then have "progress (e1, c1) (ipc_client_process_input lib io e1 ?c2)" by (simp add: progress_def)
      with first progress_trans have "progress (e, c) (ipc_client_process_input lib io e1 ?c2)" by blast
      then show ?thesis using True h alive
        by (subst ipc_client_process_input.simps) (simp add: pos_def [symmetric])
    next
      case False
      with first True h show ?thesis by (subst ipc_client_process_input.simps) (simp add: pos_def [symmetric])
    qed
  next
    case False
    have "progress (e, c) (e, ipc_send_error lib c 0 ME_IPC_ERR_PARSE ''message too long'')"
      using progress_sends appends_sends send_error_appends by blast
    then have "progress (e, c) (e, (ipc_send_error lib c 0 ME_IPC_ERR_PARSE ''message too long'')\<lparr>ic_in := []\<rparr>)"
      by (simp add: progress_def)
    with False show ?thesis by (subst ipc_client_process_input.simps) (simp add: progress_refl Let_def)
  qed
qed

text \<open>A client between two turns of the main loop.\<close>

definition client_ok :: "IpcClient \<Rightarrow> bool" where
  "client_ok c \<longleftrightarrow> ic_alive c \<and> armed c \<and> newline \<notin> set (ic_in c) \<and> length (ic_in c) \<le> ME_IPC_MAX_LINE"

text \<open>The outcome of reading: an open client is in order, and a client that was left is closed.\<close>

definition read_ok :: "Engine \<Rightarrow> IpcClient \<Rightarrow> bool \<times> served \<Rightarrow> bool" where
  "read_ok e c r \<longleftrightarrow>
     progress (e, c) (snd r) \<and> (fst r \<longrightarrow> client_ok (snd (snd r))) \<and> (\<not> fst r \<longrightarrow> \<not> ic_alive (snd (snd r)))"

lemma read_ok_closed: "read_ok e c (False, e, ipc_client_close c)"
  by (simp add: read_ok_def close_progress)

lemma read_ok_trans: "progress (e, c) (e1, c1) \<Longrightarrow> read_ok e1 c1 r \<Longrightarrow> read_ok e c r"
  unfolding read_ok_def using progress_trans by blast

lemma read_piece:
  assumes "\<forall>n. rq_tee (io n)" and "client_ok c"
    and "ipc_client_process_input lib io e (c\<lparr>ic_in := ic_in c @ bytes\<rparr>) = (e1, c1)"
  shows "progress (e, c) (e1, c1) \<and> (ic_alive c1 \<longrightarrow> client_ok c1)"
proof -
  have "progress (e, c\<lparr>ic_in := ic_in c @ bytes\<rparr>) (e1, c1)" using process_progress [OF assms(1)] assms(3) by metis
  then have "progress (e, c) (e1, c1)" by (simp add: progress_def)
  then show ?thesis using assms(2) process_drains [OF assms(3)] by (simp add: client_ok_def progress_def)
qed

lemma read_loop_facts:
  assumes "read_loop lib io reads i e c = Some r"
  shows "(\<forall>n. rq_tee (io n)) \<longrightarrow> client_ok c \<longrightarrow> read_ok e c r"
  using assms
proof (rule read_loop.raw_induct [where P = "\<lambda>lib io reads i e c r. (\<forall>n. rq_tee (io n)) \<longrightarrow> client_ok c \<longrightarrow> read_ok e c r", rotated], intro impI)
  fix rl lib io reads i e c r
  assume IH: "\<And>lib io reads i e c r. rl lib io reads i e c = Some r \<Longrightarrow> (\<forall>n. rq_tee (io n)) \<longrightarrow> client_ok c \<longrightarrow> read_ok e c r"
    and body: "(case reads i of
        R_Bytes bytes \<Rightarrow>
          if bytes = [] then Some (False, e, ipc_client_close c)
          else (case ipc_client_process_input lib io e (c\<lparr>ic_in := ic_in c @ bytes\<rparr>) of
                  (e1, c1) \<Rightarrow>
                    if \<not> ic_alive c1 then Some (False, e1, ipc_client_close c1)
                    else if length bytes < ME_IPC_READ_CHUNK then Some (True, e1, c1)
                    else rl lib io reads (Suc i) e1 c1)
      | R_Eintr \<Rightarrow> rl lib io reads (Suc i) e c
      | R_Eagain \<Rightarrow> Some (True, e, c)
      | R_Error \<Rightarrow> Some (False, e, ipc_client_close c)) = Some r"
    and tee: "\<forall>n. rq_tee (io n)" and ok: "client_ok c"
  show "read_ok e c r"
  proof (cases "reads i")
    case (R_Bytes bytes)
    obtain e1 c1 where p: "ipc_client_process_input lib io e (c\<lparr>ic_in := ic_in c @ bytes\<rparr>) = (e1, c1)" by fastforce
    note piece = read_piece [OF tee ok p]
    have b: "(if bytes = [] then Some (False, e, ipc_client_close c)
              else if \<not> ic_alive c1 then Some (False, e1, ipc_client_close c1)
              else if length bytes < ME_IPC_READ_CHUNK then Some (True, e1, c1) else rl lib io reads (Suc i) e1 c1) = Some r"
      using body by (simp only: R_Bytes p ReadResult.case prod.case)
    consider "r = (False, e, ipc_client_close c)" | "r = (False, e1, ipc_client_close c1)" | "ic_alive c1" "r = (True, e1, c1)"
      | "ic_alive c1" "rl lib io reads (Suc i) e1 c1 = Some r"
      using b by (cases "bytes = []"; cases "ic_alive c1"; cases "length bytes < ME_IPC_READ_CHUNK") simp_all
    then show ?thesis
    proof cases
      case 3
      with piece show ?thesis by (simp add: read_ok_def)
    next
      case 4
      with IH [OF 4(2)] tee piece read_ok_trans show ?thesis by blast
    qed (use piece read_ok_closed read_ok_trans in blast)+
  next
    case R_Eintr
    with IH [of lib io reads "Suc i" e c r] body tee ok show ?thesis by simp
  next
    case R_Eagain
    with body ok progress_refl show ?thesis by (auto simp: read_ok_def)
  next
    case R_Error
    with body read_ok_closed show ?thesis by auto
  qed
qed

lemma client_io_facts:
  assumes "ipc_client_io lib io reads readable writable e c = Some es'" and "\<forall>n. rq_tee (io n)" and "client_ok c"
  shows "progress (e, c) es' \<and> (ic_alive (snd es') \<longrightarrow> client_ok (snd es'))"
proof -
  obtain opened e1 c1 where r: "(if readable then read_loop lib io reads 0 e c else Some (True, e, c)) = Some (opened, e1, c1)"
    and es': "es' = (if \<not> opened \<or> \<not> ic_alive c1 then (e1, c1) else (e1, if writable then snd (ipc_client_flush c1) else c1))"
    using assms(1) by (auto simp: ipc_client_io_def split: option.splits)
  have f: "progress (e, c) (e1, c1) \<and> (opened \<longrightarrow> client_ok c1) \<and> (\<not> opened \<longrightarrow> \<not> ic_alive c1)"
    using r read_loop_facts [of lib io reads 0 e c "(opened, e1, c1)"] assms(2,3) progress_refl
    by (auto simp: read_ok_def split: if_splits)
  obtain sent c2 where fl: "ipc_client_flush c1 = (sent, c2)" by fastforce
  have "progress (e1, c1) (e1, c2)" using flush_appends [OF fl] appends_sends progress_sends by blast
  then have "progress (e, c) (e1, c2)" using f progress_trans by blast
  moreover have "client_ok c2" if "client_ok c1" "ic_alive c2"
    using that flush_appends [OF fl] by (simp add: client_ok_def appends_def)
  ultimately show ?thesis using es' f fl by (auto split: if_splits)
qed

subsection \<open>The server\<close>

definition media_ok :: "Media \<Rightarrow> bool" where
  "media_ok md \<longleftrightarrow>
     engine_coupled (is_engine (md_server md)) \<and> distinct (map ic_fd (is_clients (md_server md))) \<and>
     (\<forall>c \<in> set (is_clients (md_server md)). client_ok c)"

text \<open>The clients after a broadcast: each was a client before and has received something or nothing.\<close>

definition broadcast_ok :: "IpcServer \<Rightarrow> IpcServer \<Rightarrow> bool" where
  "broadcast_ok s s' \<longleftrightarrow>
     is_engine s' = is_engine s \<and>
     (\<exists>f. is_clients s' = filter (\<lambda>c. ic_alive c) (map f (is_clients s)) \<and> (\<forall>c. \<exists>data. appends c data (f c)))"

lemma broadcast_event_ok:
  assumes "\<forall>c \<in> set (is_clients s). ic_alive c"
  shows "broadcast_ok s (ipc_server_broadcast_event lib event sid message s)"
proof (cases "il_print lib (event_json event sid message)")
  case None
  then show ?thesis using assms appends_refl
    by (auto simp: broadcast_ok_def ipc_server_broadcast_event_def filter_id_conv intro!: exI [of _ "\<lambda>c. c"])
next
  case (Some line)
  have "\<forall>c. \<exists>data. appends c data (snd (ipc_client_send c (line @ [newline])))" using send_appends by (metis prod.collapse)
  then show ?thesis unfolding broadcast_ok_def ipc_server_broadcast_event_def keep_alive_clients_def Some
    by (auto intro!: exI [of _ "\<lambda>c. snd (ipc_client_send c (line @ [newline]))"])
qed

lemma send_record_appends_some: "\<exists>data. appends c data (snd (ipc_send_analytics_record lib c k ev))"
  unfolding ipc_send_analytics_record_def
  using appends_refl send_json_appends [of lib c "analytics_json k (the (me_analytics_event_to_json (Some ev)))"]
  by (auto split: option.split) (metis prod.collapse)

lemma broadcast_analytics_ok:
  assumes "\<forall>c \<in> set (is_clients s). ic_alive c"
  shows "broadcast_ok s (ipc_server_broadcast_analytics_event lib d s)"
proof (cases "fst d = 0")
  case True
  then show ?thesis using assms appends_refl
    by (auto simp: broadcast_ok_def ipc_server_broadcast_analytics_event_def filter_id_conv intro!: exI [of _ "\<lambda>c. c"])
next
  case False
  let ?f = "\<lambda>c. if ic_analytics_subscribed c then snd (ipc_send_analytics_record lib c (fst d) (snd d)) else c"
  have "\<forall>c. \<exists>data. appends c data (?f c)" using send_record_appends_some appends_refl by metis
  then show ?thesis using False unfolding broadcast_ok_def ipc_server_broadcast_analytics_event_def keep_alive_clients_def
    by (auto intro!: exI [of _ ?f])
qed

lemma appends_client_ok: "appends c data c' \<Longrightarrow> client_ok c \<Longrightarrow> ic_alive c' \<Longrightarrow> client_ok c'"
  by (simp add: appends_def client_ok_def)

lemma distinct_filter_map:
  "distinct (map g xs) \<Longrightarrow> (\<And>x. g (f x) = g x) \<Longrightarrow> distinct (map g (filter P (map f xs)))"
  by (induction xs) auto

lemma broadcast_media_ok:
  assumes "broadcast_ok s s'" and "media_ok \<lparr>md_server = s, md_pending = q\<rparr>"
  shows "media_ok \<lparr>md_server = s', md_pending = q'\<rparr>"
proof -
  obtain f where f: "is_clients s' = filter (\<lambda>c. ic_alive c) (map f (is_clients s))" "\<forall>c. \<exists>data. appends c data (f c)"
    "is_engine s' = is_engine s" using assms(1) by (auto simp: broadcast_ok_def)
  have "ic_fd (f c) = ic_fd c" for c using f(2) by (metis appends_def)
  with assms(2) f have "distinct (map ic_fd (is_clients s'))" by (simp add: media_ok_def distinct_filter_map)
  moreover have "client_ok c'" if "c' \<in> set (is_clients s')" for c'
    using that f(1,2) assms(2) appends_client_ok by (fastforce simp: media_ok_def)
  ultimately show ?thesis using assms(2) f(3) by (simp add: media_ok_def)
qed

lemma media_ok_engine:
  assumes "media_ok md" and "engine_step\<^sup>*\<^sup>* (is_engine (md_server md)) e"
  shows "media_ok (md\<lparr>md_server := (md_server md)\<lparr>is_engine := e\<rparr>, md_pending := q\<rparr>)"
    and "media_ok (md\<lparr>md_server := (md_server md)\<lparr>is_engine := e\<rparr>\<rparr>)"
  using assms run_coupled by (auto simp: media_ok_def)

lemma keep_media_ok:
  assumes "media_ok md" and "c \<in> set (is_clients (md_server md))" and "progress (is_engine (md_server md), c) (e', c')"
    and "ic_alive c' \<longrightarrow> client_ok c'"
  shows "media_ok (md\<lparr>md_server := ipc_server_keep (md_server md) e' c'\<rparr>)"
proof -
  have "engine_coupled e'" using assms(1,3) run_coupled by (auto simp: media_ok_def progress_def)
  moreover have "map ic_fd (map (\<lambda>k. if ic_fd k = ic_fd c' then c' else k) cs) = map ic_fd cs" for cs by simp
  moreover have "distinct (map ic_fd (is_clients (md_server md)))" "\<forall>k \<in> set (is_clients (md_server md)). client_ok k"
    using assms(1) by (auto simp: media_ok_def)
  ultimately show ?thesis using assms(4)
    by (auto simp: media_ok_def ipc_server_keep_def distinct_map_filter simp del: map_map split: if_splits)
qed

lemma accept_media_ok:
  "fresh_fds as s \<Longrightarrow> media_ok \<lparr>md_server = s, md_pending = q\<rparr> \<Longrightarrow> media_ok \<lparr>md_server = ipc_server_accept_cb as s, md_pending = q\<rparr>"
proof (induction as s rule: ipc_server_accept_cb.induct)
  case (2 fd ws as s)
  have "client_ok (new_client fd ws)" by (simp add: client_ok_def new_client_def armed_def)
  moreover have "fresh_fds as (ipc_client_create s fd ws)" "fd \<notin> set (map ic_fd (is_clients s))"
    using 2(2) by (auto simp: fresh_fds_def accepted_fds_def ipc_client_create_def new_client_def)
  ultimately show ?case using 2(1,3) by (auto simp: media_ok_def ipc_client_create_def new_client_def)
qed (auto simp: fresh_fds_def accepted_fds_def)

subsection \<open>Runs\<close>

lemma alive_clients: "media_ok md \<Longrightarrow> \<forall>c \<in> set (is_clients (md_server md)). ic_alive c"
  by (simp add: media_ok_def client_ok_def)

lemma event_sink_media_ok:
  assumes "media_ok md"
  shows "media_ok (md\<lparr>md_server := ipc_event_sink lib ev (md_server md)\<rparr>)"
proof (cases ev)
  case None
  then show ?thesis using assms by (simp add: ipc_event_sink_def)
next
  case (Some x)
  obtain event sid message where "x = (event, sid, message)" by (metis prod_cases3)
  with Some broadcast_media_ok [OF broadcast_event_ok [OF alive_clients [OF assms]], of "md_pending md"] assms show ?thesis
    by (simp add: ipc_event_sink_def media_ok_def)
qed

lemma media_step_ok:
  assumes "media_step lib md md'" and "media_ok md"
  shows "media_ok md'"
  using assms(1)
proof cases
  case (client c io reads readable writable s')
  then obtain es' where es': "ipc_client_io lib io reads readable writable (is_engine (md_server md)) c = Some es'"
    and s': "s' = ipc_server_keep (md_server md) (fst es') (snd es')"
    by (auto simp: ipc_client_source_dispatch_def)
  have ok: "client_ok c" using assms(2) client(2) by (simp add: media_ok_def)
  from client_io_facts [OF es' client(3) ok] keep_media_ok [OF assms(2) client(2), of "fst es'" "snd es'"]
  show ?thesis using client(1) s' by simp
next
  case (accept as)
  then show ?thesis using accept_media_ok [of as "md_server md" "md_pending md"] assms(2)
    by (simp add: media_ok_def)
next
  case (reap ret now)
  obtain n e' ev where r: "engine_reap_expired True ret now (is_engine (md_server md)) = (n, e', ev)" by (metis prod_cases3)
  have "engine_step\<^sup>*\<^sup>* (is_engine (md_server md)) e'" using engine_step.reap [OF r] by blast
  from event_sink_media_ok [OF media_ok_engine(2) [OF assms(2) this], of lib ev] show ?thesis
    using reap r by (simp add: reap_expired_live_def)
next
  case (bus ret msg e' ev)
  have "engine_step\<^sup>*\<^sup>* (is_engine (md_server md)) e'" using engine_step.bus [OF bus(2)] by blast
  from event_sink_media_ok [OF media_ok_engine(2) [OF assms(2) this], of lib ev] show ?thesis
    using bus by simp
next
  case (destroy r)
  then show ?thesis using media_ok_engine(2) [OF assms(2)] engine_step.destroy by blast
next
  case (detected ios ob e' ds)
  then show ?thesis using media_ok_engine(1) [OF assms(2)] engine_step.detected by blast
next
  case (delivered d q)
  have "broadcast_ok (md_server md) (ipc_analytics_event_sink lib (deliver_analytics_event (is_engine (md_server md)) d) (md_server md))
      \<or> ipc_analytics_event_sink lib (deliver_analytics_event (is_engine (md_server md)) d) (md_server md) = md_server md"
    using broadcast_analytics_ok [OF alive_clients [OF assms(2)]]
    by (simp add: ipc_analytics_event_sink_def deliver_analytics_event_def)
  then show ?thesis using delivered assms(2) broadcast_media_ok [of "md_server md" _ "md_pending md" q]
    by (auto simp: media_ok_def)
next
  case (encoded r bytes pts)
  then show ?thesis using media_ok_engine(2) [OF assms(2)] engine_step.encoded by blast
qed

lemma main_media_ok:
  assumes "media_main io argv = Main_Running md"
  shows "media_ok md"
proof -
  obtain cfg e s where e: "engine_init (st_init io) (st_log io) (st_fs io) cfg = Inr e"
    and s: "ipc_server_init (st_listen io) e (ec_socket_path cfg) = Inr s"
    and md: "md = \<lparr>md_server = s\<lparr>is_engine := engine_set_analytics_event_sink (engine_set_event_sink (is_engine s) True) True\<rparr>, md_pending = []\<rparr>"
    using assms by (auto simp: media_main_def split: prod.splits option.splits CliOutcome.splits sum.splits)
  have "is_engine s = e" "is_clients s = []" using s by (auto simp: ipc_server_init_def split: if_splits)
  moreover have "engine_coupled (engine_set_analytics_event_sink (engine_set_event_sink e True) True)"
    using init_coupled [OF e]
    by (simp add: engine_coupled_def engine_set_analytics_event_sink_def engine_set_event_sink_def)
  ultimately show ?thesis using md by (simp add: media_ok_def)
qed

lemma media_run_ok:
  "media_main io argv = Main_Running md0 \<Longrightarrow> (media_step lib)\<^sup>*\<^sup>* md0 md \<Longrightarrow> media_ok md"
proof -
  assume "(media_step lib)\<^sup>*\<^sup>* md0 md" "media_main io argv = Main_Running md0"
  then show ?thesis by (induction rule: rtranclp_induct) (auto intro: media_step_ok main_media_ok)
qed

text \<open>
  C4: in every run of the program, whatever the clients send and the sockets, timers, the detector and
  GStreamer do: at most one live session is registered and a streaming session is registered; the
  clients of the server are open and have different descriptors; the input buffer of each holds no
  complete line and at most 64 KiB; and each is polled for output exactly while output is queued.
\<close>

theorem program_invariant:
  assumes "media_main io argv = Main_Running md0" and "(media_step lib)\<^sup>*\<^sup>* md0 md"
  shows "(\<exists>m r. eg_sessions (is_engine (md_server md)) = Some m \<and> eg_runner (is_engine (md_server md)) = Some r \<and>
      session_mgr_count m \<le> 1 \<and> (gr_branch_active r \<longrightarrow> session_mgr_has m (lv_session_id (gr_live r)))) \<and>
    distinct (map ic_fd (is_clients (md_server md))) \<and>
    (\<forall>c \<in> set (is_clients (md_server md)).
      ic_alive c \<and> newline \<notin> set (ic_in c) \<and> length (ic_in c) \<le> 65536 \<and> ic_want_out c = (ic_out c \<noteq> []))"
  using media_run_ok [OF assms]
  by (auto simp: media_ok_def engine_coupled_def session_mgr_count_def streaming_def client_ok_def armed_def ME_IPC_MAX_LINE_def)

end
