(* ===== verification/Media_Facts.thy ===== *)
theory Media_Facts
  imports Media_Runs
begin

text \<open>
  What a client of the control socket can rely on: every request is answered once, in order and under
  its id; accepted requests are within their bounds and are reported by the status; a subscriber gets
  the retained log after its cursor and then every event, none lost in between.
\<close>

subsection \<open>Responses\<close>

definition nonblank :: "string \<Rightarrow> bool" where
  "nonblank line \<longleftrightarrow> strip_line line \<noteq> []"

text \<open>The response to a line, followed by the notifications that a subscription replays.\<close>

definition response_to :: "IpcLib \<Rightarrow> string \<Rightarrow> json list \<Rightarrow> bool" where
  "response_to lib line rs \<longleftrightarrow>
     (\<exists>r notifications. rs = r # notifications \<and> is_response (expected_id lib line) r \<and>
        (\<forall>n \<in> set notifications. is_notification n) \<and> (asks_subscription lib line \<or> notifications = []))"

lemma handle_line_response:
  assumes "ipc_handle_line lib rq line e c = (e', c')"
  shows "\<exists>rss. list_all2 (response_to lib) (filter nonblank [line]) rss \<and> sends c (concat (map (lines_of lib) rss)) c'"
proof (cases "nonblank line")
  case True
  then have "strip_line line \<noteq> []" by (simp add: nonblank_def)
  from handle_line_answers [OF assms this] obtain r ns where
    "response_to lib line (r # ns)" "sends c (lines_of lib (r # ns)) c'" by (auto simp: answers_def response_to_def)
  then show ?thesis using True by (intro exI [of _ "[r # ns]"]) simp
next
  case False
  then show ?thesis using assms appends_sends [OF appends_refl] by (auto simp: nonblank_def ipc_handle_line_def)
qed

text \<open>
  C7: requests are answered one by one. Handling lines puts on the output stream of the client, for
  each line that is not blank and in the order of the lines, exactly one response with the id of that
  request (0 when it has none), directly followed by replayed notifications only when the line asks
  for a subscription. When the connection breaks, what was written is a prefix of this.
\<close>

theorem responses_in_order:
  assumes "handle_lines lib io ls e c = (e', c')"
  shows "\<exists>n rss. list_all2 (response_to lib) (filter nonblank (take n ls)) rss \<and>
    (\<exists>rest. ic_written c' @ rest = stream c @ concat (map (lines_of lib) rss)) \<and>
    (ic_alive c' \<longrightarrow> n = length ls \<and> stream c' = stream c @ concat (map (lines_of lib) rss))"
  using assms
proof (induction ls arbitrary: e c)
  case Nil
  then show ?case by (auto simp: stream_def)
next
  case (Cons l ls)
  obtain e1 c1 where h: "ipc_handle_line lib (io (ic_lines c)) l e c = (e1, c1)" by fastforce
  obtain rs where rs: "list_all2 (response_to lib) (filter nonblank [l]) rs" "sends c (concat (map (lines_of lib) rs)) c1"
    using handle_line_response [OF h] by blast
  show ?case
  proof (cases "ic_alive c1")
    case True
    then have "handle_lines lib io ls e1 (c1\<lparr>ic_lines := Suc (ic_lines c1)\<rparr>) = (e', c')" using Cons.prems h by simp
    from Cons.IH [OF this] obtain n rss where
      n: "list_all2 (response_to lib) (filter nonblank (take n ls)) rss"
        "\<exists>rest. ic_written c' @ rest = stream c1 @ concat (map (lines_of lib) rss)"
        "ic_alive c' \<longrightarrow> n = length ls \<and> stream c' = stream c1 @ concat (map (lines_of lib) rss)" by auto
    have "stream c1 = stream c @ concat (map (lines_of lib) rs)" using rs(2) True by (simp add: sends_iff)
    moreover have "filter nonblank (take (Suc n) (l # ls)) = filter nonblank [l] @ filter nonblank (take n ls)" by simp
    ultimately show ?thesis using n list_all2_appendI [OF rs(1) n(1)]
      by (intro exI [of _ "Suc n"] exI [of _ "rs @ rss"]) simp
  next
    case False
    then have "c' = c1" using Cons.prems h by simp
    moreover have "filter nonblank (take 1 (l # ls)) = filter nonblank [l]" by simp
    ultimately show ?thesis using rs False
      by (intro exI [of _ 1] exI [of _ rs]) (simp add: sends_iff)
  qed
qed

subsection \<open>Subscriptions\<close>

text \<open>The events of a sequence of observations, each with its own outcomes.\<close>

primrec observe_all ::
  "((nat \<Rightarrow> EventIo) \<times> MeNormalizedObservation) list \<Rightarrow> Engine \<Rightarrow> Engine \<times> dispatch list" where
  "observe_all [] e = (e, [])"
| "observe_all (x # xs) e =
     (case engine_analytics_observation (fst x) e (snd x) of
        (e1, ds) \<Rightarrow> (case observe_all xs e1 of (e2, ds') \<Rightarrow> (e2, ds @ ds')))"

lemma observation_extends:
  assumes "engine_analytics_observation ios e ob = (e', ds)" and "eg_event_journal e = Some j"
  shows "\<exists>j'. eg_event_journal e' = Some j' \<and> jlog.extends j j' ds"
proof (cases "eg_analytics_initialized e")
  case True
  obtain evs e1 where "handle_events evs ios e1 = (e', ds)" "eg_event_journal e1 = Some j"
    using assms True by (auto simp: engine_analytics_observation_def Let_def split: prod.splits)
  then show ?thesis by (rule handle_events_extends)
next
  case False
  then show ?thesis using assms by (simp add: engine_analytics_observation_def jlog.extends_refl)
qed

lemma observe_all_extends:
  "observe_all xs e = (e', ds) \<Longrightarrow> eg_event_journal e = Some j \<Longrightarrow> \<exists>j'. eg_event_journal e' = Some j' \<and> jlog.extends j j' ds"
proof (induction xs arbitrary: e j ds)
  case Nil
  then show ?case by (simp add: jlog.extends_refl)
next
  case (Cons x xs)
  obtain e1 ds1 where o: "engine_analytics_observation (fst x) e (snd x) = (e1, ds1)" by fastforce
  obtain ds2 where r: "observe_all xs e1 = (e', ds2)" "ds = ds1 @ ds2" using Cons.prems(1) o by (auto split: prod.splits)
  from observation_extends [OF o Cons.prems(2)] obtain j1 where j1: "eg_event_journal e1 = Some j1" "jlog.extends j j1 ds1" by blast
  from Cons.IH [OF r(1) j1(1)] jlog.extends_trans [OF j1(2)] r(2) show ?case by blast
qed

lemma delivered_fds:
  "set (map ic_fd (is_clients (fold (\<lambda>d s. ipc_server_broadcast_analytics_event lib d s) ds s))) \<subseteq> set (map ic_fd (is_clients s))"
proof (induction ds arbitrary: s)
  case (Cons d ds)
  have "set (map ic_fd (is_clients (ipc_server_broadcast_analytics_event lib d s))) \<subseteq> set (map ic_fd (is_clients s))"
    using send_record_appends_some [of _ lib "fst d" "snd d"]
    by (auto simp: ipc_server_broadcast_analytics_event_def keep_alive_clients_def image_iff appends_def)
  with Cons.IH [of "ipc_server_broadcast_analytics_event lib d s"] show ?case by auto
qed simp

lemma deliver_to_client:
  assumes "c2 \<in> set (is_clients (fold (\<lambda>d s. ipc_server_broadcast_analytics_event lib d s) ds s))" and "c1 \<in> set (is_clients s)"
    and "ic_fd c2 = ic_fd c1" and "distinct (map ic_fd (is_clients s))" and "\<forall>c \<in> set (is_clients s). ic_alive c"
    and "ic_analytics_subscribed c1" and "\<forall>d \<in> set ds. sendable lib d"
  shows "stream c2 = stream c1 @ lines_of lib (map (the \<circ> record_json_of) ds)"
  using assms
proof (induction ds arbitrary: s c1)
  case Nil
  then have "c2 = c1" by (auto simp: distinct_map dest: inj_onD)
  then show ?case by simp
next
  case (Cons d ds)
  let ?f = "\<lambda>c. if ic_analytics_subscribed c then snd (ipc_send_analytics_record lib c (fst d) (snd d)) else c"
  define s1 where "s1 = ipc_server_broadcast_analytics_event lib d s"
  have nz: "fst d \<noteq> 0" using Cons.prems(7) by (auto simp: sendable_def record_json_of_def split: if_splits)
  have s1: "is_clients s1 = filter (\<lambda>c. ic_alive c) (map ?f (is_clients s))"
    using nz by (simp add: s1_def ipc_server_broadcast_analytics_event_def keep_alive_clients_def)
  have app: "\<exists>data. appends c data (?f c)" for c using send_record_appends_some appends_refl by metis
  have fd: "ic_fd (?f c) = ic_fd c" for c using app by (metis appends_def)
  have d1: "distinct (map ic_fd (is_clients s1))" unfolding s1 using Cons.prems(4) fd by (rule distinct_filter_map)
  have run: "c2 \<in> set (is_clients (fold (\<lambda>d s. ipc_server_broadcast_analytics_event lib d s) ds s1))"
    using Cons.prems(1) by (simp add: s1_def)
  have "ic_fd c2 \<in> set (map ic_fd (is_clients s1))" using run delivered_fds by fastforce
  then obtain k where k: "k \<in> set (is_clients s1)" "ic_fd k = ic_fd c2" by auto
  then obtain c0 where c0: "c0 \<in> set (is_clients s)" "k = ?f c0" using s1 by auto
  have "c0 = c1" using c0 k fd Cons.prems(2-4) by (metis distinct_map inj_onD)
  obtain sent c' where r: "ipc_send_analytics_record lib c1 (fst d) (snd d) = (sent, c')" by fastforce
  have k': "k = c'" using c0 \<open>c0 = c1\<close> Cons.prems(6) r by simp
  have "ic_alive k" using k(1) s1 by auto
  with send_record_appends [OF r] Cons.prems(2,5,7) k' have
    a: "appends c1 (line_of lib (the (record_json_of d))) k" by (auto split: if_splits)
  have "stream c2 = stream k @ lines_of lib (map (the \<circ> record_json_of) ds)"
    using Cons.IH [OF run k(1) k(2) [symmetric] d1] s1 a Cons.prems(6,7) by (simp add: appends_def comp_def)
  with a \<open>ic_alive k\<close> show ?case by (simp add: appends_def comp_def)
qed

lemma subscribe_stream:
  assumes "ipc_handle_subscribe_events lib i params e c = (e, c1)" and "ic_alive c1" and "eg_event_journal e = Some j"
    and "after_cursor_param params = Some k" and "params = None \<or> is_object params"
    and "\<forall>r \<in> set (jo_records j). sendable lib (entry r)"
  shows "ic_analytics_subscribed c1 \<and> ic_fd c1 = ic_fd c \<and> (\<exists>response. is_response i response \<and>
    stream c1 = stream c @ lines_of lib (response # map (the \<circ> record_json_of) (map entry (filter (\<lambda>r. k < jr_cursor r) (jo_records j)))))"
proof -
  let ?rs = "map entry (filter (\<lambda>r. k < jr_cursor r) (jo_records j))"
  obtain sn where sn: "me_event_journal_snapshot_after (eg_event_journal e) k = Some sn" "sn_records sn = ?rs"
    using assms(3) snapshot_loop_records [of k k "jo_records j"]
    by (cases "snapshot_loop k k (jo_records j)") (simp add: me_event_journal_snapshot_after_def Let_def)
  let ?c0 = "c\<lparr>ic_analytics_subscribed := True, ic_analytics_ack_cursor := k\<rparr>"
  define c0 where "c0 = ipc_send_result lib ?c0 i (subscribed_json sn)"
  have c1: "c1 = (if ic_alive c0 then send_records lib ?rs c0 else c0)"
    using assms sn by (auto simp: ipc_handle_subscribe_events_def c0_def Let_def)
  have a0: "appends ?c0 (line_of lib (result_json i (subscribed_json sn))) c0" unfolding c0_def by (rule send_result_appends)
  have all: "takeWhile (sendable lib) ?rs = ?rs" using assms(6) by (intro takeWhile_eq_all_conv [THEN iffD2]) auto
  have alive: "ic_alive c0" using c1 assms(2) by (auto split: if_splits)
  have a1: "appends c0 (lines_of lib (map (the \<circ> record_json_of) ?rs)) c1"
    using send_records_appends [OF alive, of lib ?rs] c1 alive all by simp
  have "appends ?c0 (lines_of lib (result_json i (subscribed_json sn) # map (the \<circ> record_json_of) ?rs)) c1"
    using appends_trans [OF a0 a1 alive] by simp
  moreover have "is_response i (result_json i (subscribed_json sn))" by (auto simp: is_response_def)
  ultimately show ?thesis using assms(2) by (auto simp: appends_def)
qed


subsection \<open>Accepted requests\<close>

lemma length_split_dots: "sum_list (map length (split_dots t)) + length (split_dots t) = Suc (length t)"
proof (induction t rule: split_dots.induct)
  case (2 c cs)
  then show ?case by (cases "split_dots cs") auto
qed simp

lemma ipv4_length:
  assumes "me_valid_ipv4 (Some t)"
  shows "length t \<le> 15"
proof -
  have l: "length (split_dots t) = 4" "\<forall>p \<in> set (split_dots t). length p \<le> 3"
    using assms by (auto simp: me_valid_ipv4_def valid_octet_def)
  have "sum_list (map length (split_dots t)) \<le> sum_list (map (\<lambda>_. 3) (split_dots t))"
    using l(2) by (intro sum_list_mono) auto
  then have "sum_list (map length (split_dots t)) \<le> 12" using l(1) by (simp add: sum_list_triv)
  then show ?thesis using length_split_dots [of t] l(1) by linarith
qed

text \<open>The fields of an accepted request.\<close>

lemma require_Inr: "require x message f = Inr y \<longleftrightarrow> (\<exists>v. x = Some v \<and> f v = Inr y)"
  by (auto simp: require_def split: option.splits)

lemma start_params_fields:
  assumes "start_live_params po = Inr p"
  shows "\<exists>members session_id channel_id codec dest_ip. po = Some (JObject members) \<and>
    required_string (the po) ''session_id'' = Some session_id \<and> sp_session_id p = copy_string ME_SESSION_ID_MAX session_id \<and>
    required_string (the po) ''channel_id'' = Some channel_id \<and> sp_channel_id p = copy_string ME_CHANNEL_ID_MAX channel_id \<and>
    required_string (the po) ''codec'' = Some codec \<and> sp_codec p = copy_string ME_CODEC_MAX codec \<and>
    int_between 1 2147483647 (the po) ''width'' = Some (sp_width p) \<and> int_between 1 2147483647 (the po) ''height'' = Some (sp_height p) \<and>
    int_between 1 2147483647 (the po) ''fps'' = Some (sp_fps p) \<and> int_between 1 2147483647 (the po) ''bitrate'' = Some (sp_bitrate p) \<and>
    int_between 1 65535 (the po) ''dest_port'' = Some (sp_dest_port p) \<and>
    int_between 0 127 (the po) ''payload_type'' = Some (sp_payload_type p) \<and>
    ipv4_param (the po) ''dest_ip'' = Some dest_ip \<and> sp_dest_ip p = copy_string ME_DEST_IP_MAX dest_ip \<and>
    me_parse_u32_decimal (ipc_json_string (the po) ''ssrc'') = Some (sp_ssrc p)"
proof -
  have "is_object po" using assms by (auto simp: start_live_params_def split: if_splits)
  then obtain members where "po = Some (JObject members)" by (auto simp: is_object_def split: option.splits json.splits)
  then show ?thesis using assms by (auto simp: start_live_params_def is_object_def Let_def require_Inr)
qed

lemma int_between_bounds: "int_between low high j key = Some i \<Longrightarrow> low \<le> i \<and> i \<le> high"
  by (auto simp: int_between_def split: option.splits if_splits)

lemma int_between_item:
  assumes "int_between low high j key = Some i"
  shows "json_item j key = Some (JNumber (double_of_int i))"
proof -
  have "ipc_json_int j key = Some i" using assms by (auto simp: int_between_def split: option.splits if_splits)
  then obtain d where d: "json_item j key = Some (JNumber (Fin d))"
    by (auto simp: ipc_json_int_def split: option.splits json.splits double.splits)
  with \<open>ipc_json_int j key = Some i\<close> have
    "(if d \<noteq> of_int \<lfloor>d\<rfloor> \<or> d < -2147483648 \<or> d > 2147483647 then None else Some \<lfloor>d\<rfloor>) = Some i"
    by (simp only: ipc_json_int_def option.case json.case double.case)
  then have i: "d = of_int i" "\<not> (d < -2147483648 \<or> d > 2147483647)" by (metis option.distinct(1) option.inject)+
  then have "-2147483648 \<le> i" "i \<le> 2147483647" by linarith+
  then have "double_of_int i = Fin (of_int i)" by (simp add: double_of_int_def round_double_small)
  with d i(1) show ?thesis by simp
qed

lemma ipv4_param_item: "ipv4_param j key = Some t \<Longrightarrow> json_item j key = Some (JString t) \<and> me_valid_ipv4 (Some t)"
  by (auto simp: ipv4_param_def ipc_json_string_def split: option.splits json.splits if_splits)

text \<open>
  parameters that \<open>media.start_live\<close> accepts are within their bounds: identifiers are not empty and fit
  their arrays, sizes and rates are positive 32-bit integers, the port and the payload type are in range,
  and the address is a complete IPv4 address.
\<close>

theorem accepted_start_in_bounds:
  assumes "start_live_params po = Inr p"
  shows "0 < length (sp_session_id p) \<and> length (sp_session_id p) < 128 \<and> 0 < length (sp_channel_id p) \<and>
    length (sp_channel_id p) < 64 \<and> length (sp_codec p) < 8 \<and>
    {sp_width p, sp_height p, sp_fps p, sp_bitrate p} \<subseteq> {1..2147483647} \<and> sp_dest_port p \<in> {1..65535} \<and>
    sp_payload_type p \<in> {0..127} \<and> me_valid_ipv4 (Some (sp_dest_ip p))"
proof -
  obtain session_id channel_id codec dest_ip where f:
    "required_string (the po) ''session_id'' = Some session_id" "sp_session_id p = copy_string ME_SESSION_ID_MAX session_id"
    "required_string (the po) ''channel_id'' = Some channel_id" "sp_channel_id p = copy_string ME_CHANNEL_ID_MAX channel_id"
    "sp_codec p = copy_string ME_CODEC_MAX codec" "ipv4_param (the po) ''dest_ip'' = Some dest_ip"
    "sp_dest_ip p = copy_string ME_DEST_IP_MAX dest_ip"
    using start_params_fields [OF assms] by blast
  have "session_id \<noteq> []" "channel_id \<noteq> []" using f(1,3) by (auto simp: required_string_def split: option.splits if_splits)
  moreover have "me_valid_ipv4 (Some (sp_dest_ip p))"
    using ipv4_param_item [OF f(6)] ipv4_length [of dest_ip] f(7) by simp
  moreover have "{sp_width p, sp_height p, sp_fps p, sp_bitrate p} \<subseteq> {1..2147483647} \<and> sp_dest_port p \<in> {1..65535} \<and>
      sp_payload_type p \<in> {0..127}"
    using start_params_fields [OF assms] by (auto dest!: int_between_bounds)
  ultimately show ?thesis using f(2,4,5) by (auto simp: copy_string_def)
qed

lemma started_session:
  assumes "engine_start_live so now e p = (ME_ERR_OK, e1)"
  shows "\<exists>m. eg_sessions e1 = Some m \<and> sm_sessions m = [(sp_session_id p, \<lparr>ms_params = p, ms_last_activity_us = now\<rparr>)] \<and> eg_runner e1 \<noteq> None"
  using assms
  by (auto simp: engine_start_live_def session_mgr_start_def ME_ERR_OK_def ME_ERR_MEDIA_def ME_ERR_PARAM_def
      split: if_splits option.splits prod.splits)

text \<open>
  C13: what a client starts is what the status reports. After \<open>media.start_live\<close> succeeded, the result of
  \<open>media.get_status\<close> has the rate, bitrate, address and port members of the request itself, the
  identifiers as they were stored, and an SSRC text that reads back as the requested number.
\<close>

theorem started_session_is_reported:
  assumes "start_live_params (Some params) = Inr p" and "engine_start_live so now e p = (ME_ERR_OK, e1)"
  shows "let status = status_json (engine_get_status e1) in
    json_item status ''running'' = Some (JBool True) \<and>
    (\<forall>key \<in> {''fps'', ''bitrate'', ''dest_ip'', ''dest_port''}. json_item status key = json_item params key) \<and>
    json_item status ''session_id'' = Some (JString (sp_session_id p)) \<and>
    json_item status ''channel_id'' = Some (JString (sp_channel_id p)) \<and>
    me_parse_u32_decimal (ipc_json_string status ''ssrc'') = me_parse_u32_decimal (ipc_json_string params ''ssrc'')"
proof -
  obtain session_id channel_id codec dest_ip where f:
    "sp_session_id p = copy_string ME_SESSION_ID_MAX session_id" "sp_channel_id p = copy_string ME_CHANNEL_ID_MAX channel_id"
    "ipv4_param params ''dest_ip'' = Some dest_ip" "sp_dest_ip p = copy_string ME_DEST_IP_MAX dest_ip"
    using start_params_fields [OF assms(1)] by auto
  have n: "int_between 1 2147483647 params ''fps'' = Some (sp_fps p)" "int_between 1 2147483647 params ''bitrate'' = Some (sp_bitrate p)"
    "int_between 1 65535 params ''dest_port'' = Some (sp_dest_port p)"
    "me_parse_u32_decimal (ipc_json_string params ''ssrc'') = Some (sp_ssrc p)"
    using start_params_fields [OF assms(1)] by auto
  have ip: "sp_dest_ip p = dest_ip" "length dest_ip < ME_DEST_IP_MAX" "json_item params ''dest_ip'' = Some (JString dest_ip)"
    using ipv4_param_item [OF f(3)] ipv4_length [of dest_ip] f(4) by auto
  have lens: "length (sp_session_id p) < ME_SESSION_ID_MAX" "length (sp_channel_id p) < ME_CHANNEL_ID_MAX"
    using f(1,2) length_copy_string by simp_all
  obtain m where "eg_sessions e1 = Some m" "sm_sessions m = [(sp_session_id p, \<lparr>ms_params = p, ms_last_activity_us = now\<rparr>)]"
    using started_session [OF assms(2)] by blast
  then have st: "engine_get_status e1 = \<lparr>es_running = True, es_fps = sp_fps p, es_bitrate = sp_bitrate p, es_session_id = sp_session_id p,
      es_channel_id = sp_channel_id p, es_dest_ip = dest_ip, es_dest_port = sp_dest_port p, es_ssrc = sp_ssrc p\<rparr>"
    using lens ip by (simp add: engine_get_status_def session_mgr_active_def Let_def)
  show ?thesis
    using int_between_item [OF n(1)] int_between_item [OF n(2)] int_between_item [OF n(3)] n(4) ip(3)
    by (simp add: st status_json_def ipc_json_string_def [of "JObject _"]) (simp add: json_item_def parse_show_roundtrip)
qed

text \<open>
  C15: a session id of 128 bytes or more cannot be stopped under the name with which it was started: the
  start keeps its first 127 bytes, the stop compares all of it, answers success and leaves the session
  running.
\<close>

theorem long_session_id_keeps_running:
  assumes "start_live_params (Some params) = Inr p" and "required_string params ''session_id'' = Some sid" and "128 \<le> length sid"
    and "engine_start_live so now e p = (ME_ERR_OK, e1)"
  shows "engine_stop_live tee ret e1 sid = (ME_ERR_OK, e1) \<and> es_running (engine_get_status e1)"
proof -
  obtain m r where m: "eg_sessions e1 = Some m" "eg_runner e1 = Some r"
    "sm_sessions m = [(sp_session_id p, \<lparr>ms_params = p, ms_last_activity_us = now\<rparr>)]"
    using started_session [OF assms(4)] by auto
  have "sp_session_id p = copy_string ME_SESSION_ID_MAX sid" using start_params_fields [OF assms(1)] assms(2) by auto
  then have "length (sp_session_id p) < length sid" using length_copy_string [of ME_SESSION_ID_MAX sid] assms(3) by simp
  then have "\<not> session_mgr_has m sid" using m(3) by (auto simp: session_mgr_has_def)
  then show ?thesis using m
    by (simp add: engine_stop_live_def session_mgr_stop_def engine_get_status_def session_mgr_active_def Let_def)
qed

end
