(* ===== verification/Media_Demo.thy ===== *)
theory Media_Demo
  imports Media_Facts
begin

text \<open>
  The theorems on the control socket and on the whole program, at concrete inputs: the default
  configuration, one client, a ping, a start request and a journal with one event.
\<close>

definition demo_lib :: IpcLib where
  "demo_lib =
     \<lparr>il_print = (\<lambda>_. Some ''r''),
      il_parse = (\<lambda>_. Some (JObject [(''v'', JNumber (Fin 1)), (''id'', JNumber (Fin 7)), (''method'', JString ''media.ping'')])),
      il_huge = (\<lambda>_. 0)\<rparr>"

definition demo_request :: RequestIo where
  "demo_request = \<lparr>rq_start = all_good, rq_tee = True, rq_state = GST_STATE_CHANGE_SUCCESS, rq_now = 0, rq_errbuf = ''e''\<rparr>"

definition demo_client :: IpcClient where
  "demo_client = new_client 5 [W_Bytes 1, W_Eintr, W_Eagain]"

lemma demo_client_fields: "ic_alive demo_client" "ic_in demo_client = []"
  by (simp_all add: demo_client_def new_client_def)

lemma short_linesI: "length s \<le> ME_IPC_MAX_LINE \<Longrightarrow> short_lines s"
  by (auto simp: short_lines_def)

theorem framing_ignores_pieces_witness:
  "feeds demo_lib (\<lambda>_. demo_request) [''pi'', ''ng'' @ [newline] @ ''x'', ''y''] (demo_media, demo_client) =
     apsnd (relabel ''xy'') (handle_lines demo_lib (\<lambda>_. demo_request) [''ping''] demo_media demo_client)"
  by (rule framing_ignores_pieces) (simp_all add: demo_client_fields terminated_def short_linesI ME_IPC_MAX_LINE_def)

theorem client_io_returns_witness:
  "\<exists>es. ipc_client_io demo_lib (\<lambda>_. demo_request) (\<lambda>i. if i < 3 then R_Eintr else R_Eagain) True True demo_media demo_client = Some es"
  by (rule client_io_returns [of _ 3]) (simp add: stops_reading_def)

text \<open>One ping: the response is partly written and partly queued.\<close>

lemma demo_ping:
  "ipc_handle_line demo_lib demo_request ''ping'' demo_media demo_client =
     (demo_media, demo_client\<lparr>ic_written := ''r'', ic_socket := [], ic_out := [[newline]], ic_want_out := True\<rparr>)"
  by (simp add: ipc_handle_line_def strip_line_def demo_lib_def json_item_def request_id_of_def ipc_json_string_def ipc_dispatch_def
      ipc_send_result_def ipc_send_json_def ipc_client_send_def ipc_try_write_def ipc_client_arm_output_def demo_client_def new_client_def)

theorem responses_in_order_witness:
  "\<exists>rss. list_all2 (response_to demo_lib) [''ping''] rss \<and>
     stream (snd (handle_lines demo_lib (\<lambda>_. demo_request) [''ping''] demo_media demo_client)) = concat (map (lines_of demo_lib) rss)"
proof -
  obtain e' c' where h: "handle_lines demo_lib (\<lambda>_. demo_request) [''ping''] demo_media demo_client = (e', c')" by fastforce
  have "ic_alive c'" "stream demo_client = []" using h demo_ping by (auto simp: demo_client_def new_client_def stream_def)
  moreover have "filter nonblank [''ping''] = [''ping'']" by (simp add: nonblank_def strip_line_def)
  ultimately show ?thesis using responses_in_order [OF h] h by auto
qed

text \<open>The program with its defaults and one connected client.\<close>

definition demo_start_io :: StartIo where
  "demo_start_io =
     \<lparr>st_files = (\<lambda>_. Yaml_Missing), st_getopt = (\<lambda>_. []), st_init = demo_init_io, st_log = [], st_fs = Map.empty,
      st_listen = \<lparr>li_probe = True, li_connect = False, li_socket = True, li_bind = True, li_listen = True\<rparr>\<rparr>"

definition demo_program :: Media where
  "demo_program =
     \<lparr>md_server = \<lparr>is_engine = demo_media\<lparr>eg_event_cb := True, eg_analytics_event_cb := True\<rparr>,
                   is_socket_path = ec_socket_path engine_config_defaults, is_listening = True, is_clients = []\<rparr>,
      md_pending = []\<rparr>"

lemma demo_main: "media_main demo_start_io [''media_engine''] = Main_Running demo_program"
proof -
  have "engine_config_apply_cli (\<lambda>_. Yaml_Missing) (\<lambda>_. []) (Some engine_config_defaults) [''media_engine''] =
      (Cli_Ok, Some engine_config_defaults)"
    by (simp add: engine_config_apply_cli_def engine_config_validate_def defaults_fields)
  moreover have "length (ec_socket_path engine_config_defaults) < SUN_PATH_SIZE"
    by (simp add: engine_config_defaults_def SUN_PATH_SIZE_def)
  ultimately show ?thesis
    by (simp add: media_main_def demo_start_io_def engine_config_load_def demo_media_init ipc_server_init_def SUN_PATH_SIZE_def
        engine_set_event_sink_def engine_set_analytics_event_sink_def demo_program_def)
qed

theorem program_invariant_witness:
  "\<exists>md c. (media_step demo_lib)\<^sup>*\<^sup>* demo_program md \<and> is_clients (md_server md) = [c] \<and> ic_alive c \<and> length (ic_in c) \<le> 65536 \<and>
     \<not> ic_want_out c"
proof -
  let ?md = "demo_program\<lparr>md_server := ipc_server_accept_cb [A_Client 5 [], A_Eagain] (md_server demo_program)\<rparr>"
  have "media_step demo_lib demo_program ?md"
    by (rule media_step.accept) (simp add: fresh_fds_def accepted_fds_def demo_program_def)
  then have run: "(media_step demo_lib)\<^sup>*\<^sup>* demo_program ?md" by blast
  have "is_clients (md_server ?md) = [new_client 5 []]" by (simp add: demo_program_def ipc_client_create_def)
  with program_invariant [OF demo_main run] run show ?thesis
    by (intro exI [of _ ?md] exI [of _ "new_client 5 []"]) (simp add: new_client_def)
qed

text \<open>A start request.\<close>

definition demo_json :: "string \<Rightarrow> json" where
  "demo_json session_id =
     JObject [(''session_id'', JString session_id), (''channel_id'', JString ''c1''), (''codec'', JString ''h264''),
              (''width'', JNumber (Fin 3840)), (''height'', JNumber (Fin 2160)), (''fps'', JNumber (Fin 30)),
              (''bitrate'', JNumber (Fin 4096)), (''dest_port'', JNumber (Fin 5004)), (''payload_type'', JNumber (Fin 96)),
              (''dest_ip'', JString ''10.0.0.1''), (''ssrc'', JString ''7'')]"

lemma demo_json_items:
  "json_item (demo_json s) ''session_id'' = Some (JString s)" "json_item (demo_json s) ''channel_id'' = Some (JString ''c1'')"
  "json_item (demo_json s) ''codec'' = Some (JString ''h264'')" "json_item (demo_json s) ''width'' = Some (JNumber (Fin 3840))"
  "json_item (demo_json s) ''height'' = Some (JNumber (Fin 2160))" "json_item (demo_json s) ''fps'' = Some (JNumber (Fin 30))"
  "json_item (demo_json s) ''bitrate'' = Some (JNumber (Fin 4096))" "json_item (demo_json s) ''dest_port'' = Some (JNumber (Fin 5004))"
  "json_item (demo_json s) ''payload_type'' = Some (JNumber (Fin 96))"
  "json_item (demo_json s) ''dest_ip'' = Some (JString ''10.0.0.1'')" "json_item (demo_json s) ''ssrc'' = Some (JString ''7'')"
  by (simp_all add: demo_json_def json_item_def)

lemma demo_numbers: "me_valid_ipv4 (Some ''10.0.0.1'')" "me_parse_u32_decimal (Some ''7'') = Some 7"
proof -
  show "me_valid_ipv4 (Some ''10.0.0.1'')"
    by (simp add: me_valid_ipv4_def valid_octet_def isdigit_def char_code_def dec_value_def digit_val_def)
  have "show_dec (unat (7 :: u32)) = ''7''" by (simp add: show_dec.simps char_of_def bit_0)
  then show "me_parse_u32_decimal (Some ''7'') = Some 7" using parse_show_roundtrip [of 7] by simp
qed

lemma demo_start_params:
  assumes "s \<noteq> []"
  shows "start_live_params (Some (demo_json s)) = Inr (demo_params\<lparr>sp_session_id := copy_string ME_SESSION_ID_MAX s\<rparr>)"
proof -
  have "is_object (Some (demo_json s))" by (simp add: is_object_def demo_json_def)
  then show ?thesis using assms
    by (simp add: start_live_params_def require_def required_string_def ipc_json_string_def int_between_def ipc_json_int_def
        ipv4_param_def demo_json_items demo_numbers demo_params_def copy_string_def)
qed

lemma demo_params_id: "demo_params\<lparr>sp_session_id := ''s1''\<rparr> = demo_params"
  by (simp add: demo_params_def)

theorem accepted_start_in_bounds_witness:
  "\<exists>p. start_live_params (Some (demo_json ''s1'')) = Inr p \<and> sp_dest_port p \<in> {1..65535}"
  using accepted_start_in_bounds [OF demo_start_params [of "''s1''"]] demo_start_params [of "''s1''"] by auto

theorem started_session_is_reported_witness:
  "json_item (status_json (engine_get_status demo_live)) ''dest_port'' = Some (JNumber (Fin 5004))"
proof -
  have "start_live_params (Some (demo_json ''s1'')) = Inr demo_params"
    using demo_start_params [of "''s1''"] by (simp add: demo_params_id copy_string_def)
  from started_session_is_reported [OF this demo_start] show ?thesis by (simp add: Let_def demo_json_items)
qed

text \<open>A session id of 130 bytes: the branch is created as before, and the stop does not find the session.\<close>

theorem long_session_id_keeps_running_witness:
  "\<exists>e1. engine_start_live all_good 0 demo_media (demo_params\<lparr>sp_session_id := replicate 127 (CHR ''a'')\<rparr>) = (ME_ERR_OK, e1) \<and>
     engine_stop_live True GST_STATE_CHANGE_SUCCESS e1 (replicate 130 (CHR ''a'')) = (ME_ERR_OK, e1) \<and>
     es_running (engine_get_status e1)"
proof -
  let ?s = "replicate 130 (CHR ''a'')" and ?p = "demo_params\<lparr>sp_session_id := replicate 127 (CHR ''a'')\<rparr>"
  have cs: "copy_string ME_SESSION_ID_MAX ?s = replicate 127 (CHR ''a'')" by (simp add: copy_string_def)
  have params: "start_live_params (Some (demo_json ?s)) = Inr ?p" using demo_start_params [of ?s] cs by simp
  have id: "required_string (demo_json ?s) ''session_id'' = Some ?s"
    by (simp add: required_string_def ipc_json_string_def demo_json_items)
  obtain r where r: "eg_runner demo_media = Some r" "start_free r" "gr_cfg r = engine_config_defaults"
    by (simp add: demo_media_def start_free_def new_runner_def idle_branch_def)
  have "create_live_branch all_good ?p 0 = create_live_branch all_good demo_params 0" by (simp add: create_live_branch_def)
  then have "fst (gst_runner_start_live all_good ?p r) = ME_ERR_OK"
    using start_live_succeeds [OF r(2), of ?p all_good] demo_branch r(3)
    by (simp add: defaults_fields attaches_def all_good_def demo_params_def)
  then obtain r1 where r1: "gst_runner_start_live all_good ?p r = (ME_ERR_OK, r1)" by (metis prod.collapse)
  have "sp_width ?p = 3840" "sp_height ?p = 2160" "sp_fps ?p = 30" "sp_codec ?p = ''h264''" by (simp_all add: demo_params_def)
  moreover have "aq_started (eg_aiq demo_media)" "eg_cfg demo_media = engine_config_defaults" "eg_sessions demo_media = Some \<lparr>sm_sessions = []\<rparr>"
    by (simp_all add: demo_media_def)
  ultimately obtain e1 where start: "engine_start_live all_good 0 demo_media ?p = (ME_ERR_OK, e1)"
    using r(1) r1 by (simp add: engine_start_live_def session_mgr_start_def session_mgr_has_def backend_functions defaults_fields)
  from long_session_id_keeps_running [OF params id _ start] start show ?thesis by auto
qed

text \<open>A journal with one START record; the client subscribes from the beginning.\<close>

definition demo_log :: MeEventJournal where
  "demo_log = demo_journal\<lparr>jo_records := [\<lparr>jr_cursor = 1, jr_event = sample_event, jr_bytes = 2\<rparr>], jo_next_cursor := 1\<rparr>"

definition demo_subscribed :: IpcClient where
  "demo_subscribed = snd (ipc_handle_subscribe_events demo_lib 7 None (demo_media\<lparr>eg_event_journal := Some demo_log\<rparr>) demo_client)"

lemma demo_sendable: "sendable demo_lib (1, sample_event)"
  by (simp add: sendable_def record_json_of_def me_analytics_event_to_json_def sample_event_def zero_event_def demo_lib_def)


end
