(* ===== verification/Rga_Rotate.thy ===== *)
theory Rga_Rotate
  imports Me_Prelude
begin

text \<open>
  \<^verbatim>\<open>media_engine/src/gst/me_rga_rotate.c\<close>: the GStreamer element that rotates and scales NV12 pictures with the
  RGA hardware. GStreamer and librga are given by their outcomes: which calls succeed, the meta data of
  a buffer, the constants of librga and the parsing and intersection of caps are arguments. Descriptors,
  mappings and references that a function takes are counted, so that the theorems can say that each is
  given back.
\<close>

subsection \<open>The dma-heap allocator\<close>

record DmaIo =
  da_uncached :: bool
  da_system :: bool
  da_open :: int
  da_ioctl :: "int option"
  da_allocator :: bool
  da_memory :: bool

definition me_rga_dma_heap_path :: "DmaIo \<Rightarrow> string option" where
  "me_rga_dma_heap_path io =
     (if da_uncached io then Some ''/dev/dma_heap/system-uncached''
      else if da_system io then Some ''/dev/dma_heap/system''
      else None)"

text \<open>The memory that wraps a descriptor, and the descriptors that are open.\<close>

record DmaMemory =
  dm_fd :: int
  dm_size :: nat

definition close_fd :: "int \<Rightarrow> int list \<Rightarrow> int list" where
  "close_fd fd fds = remove1 fd fds"

definition me_dma_heap_alloc :: "DmaIo \<Rightarrow> nat \<Rightarrow> int list \<Rightarrow> DmaMemory option \<times> int list" where
  "me_dma_heap_alloc io len fds =
     (if me_rga_dma_heap_path io = None \<or> len = 0 then (None, fds)
      else if da_open io < 0 then (None, fds)
      else (let heap_fd = da_open io; fds1 = heap_fd # fds
            in case da_ioctl io of
                 None \<Rightarrow> (None, close_fd heap_fd fds1)
               | Some data_fd \<Rightarrow>
                   (let fds2 = close_fd heap_fd (data_fd # fds1)
                    in if \<not> da_allocator io then (None, close_fd data_fd fds2)
                       else if \<not> da_memory io then (None, close_fd data_fd fds2)
                       else (Some \<lparr>dm_fd = data_fd, dm_size = len\<rparr>, fds2))))"

datatype GstAllocator = Alloc_Given | Alloc_Heap | Alloc_Registered | Alloc_Dmabuf

definition me_dma_heap_allocator_new :: "DmaIo \<Rightarrow> GstAllocator option" where
  "me_dma_heap_allocator_new io = (if me_rga_dma_heap_path io = None then None else Some Alloc_Heap)"

subsection \<open>The element\<close>

text \<open>What a \<^verbatim>\<open>GstVideoInfo\<close> tells: format, size of the picture, stride of the first plane, size of a buffer.\<close>

record VideoInfo =
  vi_nv12 :: bool
  vi_width :: int
  vi_height :: int
  vi_stride0 :: int
  vi_size :: nat

record MeRgaRotate =
  rr_rotation :: int
  rr_out_width :: int
  rr_out_height :: int
  rr_in_info :: VideoInfo
  rr_out_info :: VideoInfo
  rr_rga_ready :: bool

definition blank_info :: VideoInfo where
  "blank_info = \<lparr>vi_nv12 = False, vi_width = 0, vi_height = 0, vi_stride0 = 0, vi_size = 0\<rparr>"

definition me_rga_rotate_init :: MeRgaRotate where
  "me_rga_rotate_init =
     \<lparr>rr_rotation = 0, rr_out_width = 0, rr_out_height = 0, rr_in_info = blank_info, rr_out_info = blank_info, rr_rga_ready = False\<rparr>"

datatype RgaProperty = PROP_ROTATION | PROP_OUT_WIDTH | PROP_OUT_HEIGHT | PROP_UNKNOWN

text \<open>\<open>v & 1\<close> is whether the number is odd.\<close>

definition me_rga_rotate_set_property :: "RgaProperty \<Rightarrow> int \<Rightarrow> MeRgaRotate \<Rightarrow> MeRgaRotate" where
  "me_rga_rotate_set_property prop v self =
     (case prop of
        PROP_ROTATION \<Rightarrow>
          if v \<noteq> 0 \<and> v \<noteq> 90 \<and> v \<noteq> 180 \<and> v \<noteq> 270 then self else self\<lparr>rr_rotation := v\<rparr>
      | PROP_OUT_WIDTH \<Rightarrow> if v \<noteq> 0 \<and> (v < 2 \<or> odd v) then self else self\<lparr>rr_out_width := v\<rparr>
      | PROP_OUT_HEIGHT \<Rightarrow> if v \<noteq> 0 \<and> (v < 2 \<or> odd v) then self else self\<lparr>rr_out_height := v\<rparr>
      | PROP_UNKNOWN \<Rightarrow> self)"

definition me_rga_rotate_get_property :: "RgaProperty \<Rightarrow> MeRgaRotate \<Rightarrow> int option" where
  "me_rga_rotate_get_property prop self =
     (case prop of
        PROP_ROTATION \<Rightarrow> Some (rr_rotation self)
      | PROP_OUT_WIDTH \<Rightarrow> Some (rr_out_width self)
      | PROP_OUT_HEIGHT \<Rightarrow> Some (rr_out_height self)
      | PROP_UNKNOWN \<Rightarrow> None)"

subsection \<open>Caps\<close>

text \<open>A structure of caps: the width and the height, which may be missing, fixed, a range or something else.\<close>

datatype Dimension = Missing | Fixed int | Int_Range int int | Other_Value

record CapsStructure =
  cp_width :: Dimension
  cp_height :: Dimension

type_synonym caps = "CapsStructure list"

datatype PadDirection = GST_PAD_SINK | GST_PAD_SRC

definition G_MAXINT :: int where
  "G_MAXINT = 2147483647"

definition swap_structure :: "CapsStructure \<Rightarrow> CapsStructure" where
  "swap_structure s =
     (case (cp_width s, cp_height s) of
        (Fixed w, Fixed h) \<Rightarrow> s\<lparr>cp_width := Fixed h, cp_height := Fixed w\<rparr>
      | _ \<Rightarrow> s)"

definition me_rga_rotate_transform_caps ::
  "(caps \<Rightarrow> caps \<Rightarrow> caps) \<Rightarrow> PadDirection \<Rightarrow> caps \<Rightarrow> caps option \<Rightarrow> MeRgaRotate \<Rightarrow> caps" where
  "me_rga_rotate_transform_caps intersect direction cps filter_caps self =
     (let tmp =
        (if direction = GST_PAD_SINK \<and> rr_out_width self \<noteq> 0 \<and> rr_out_height self \<noteq> 0
         then map (\<lambda>s. s\<lparr>cp_width := Fixed (rr_out_width self), cp_height := Fixed (rr_out_height self)\<rparr>) cps
         else if direction = GST_PAD_SINK \<and> rr_rotation self mod 180 \<noteq> 0 then map swap_structure cps
         else if direction = GST_PAD_SRC \<and> rr_out_width self \<noteq> 0 \<and> rr_out_height self \<noteq> 0
         then map (\<lambda>s. s\<lparr>cp_width := Int_Range 1 G_MAXINT, cp_height := Int_Range 1 G_MAXINT\<rparr>) cps
         else cps)
      in case filter_caps of None \<Rightarrow> tmp | Some f \<Rightarrow> intersect tmp f)"

text \<open>\<open>info_of\<close> is \<^verbatim>\<open>gst_video_info_from_caps\<close>; the info of caps that cannot be parsed is left as it was.\<close>

definition me_rga_rotate_set_caps ::
  "(caps \<Rightarrow> VideoInfo option) \<Rightarrow> caps \<Rightarrow> caps \<Rightarrow> MeRgaRotate \<Rightarrow> bool \<times> MeRgaRotate" where
  "me_rga_rotate_set_caps info_of incaps outcaps self =
     (case info_of incaps of
        None \<Rightarrow> (False, self)
      | Some in_info \<Rightarrow>
          (let self1 = self\<lparr>rr_in_info := in_info\<rparr>
           in case info_of outcaps of
                None \<Rightarrow> (False, self1)
              | Some out_info \<Rightarrow>
                  (let self2 = self1\<lparr>rr_out_info := out_info\<rparr>
                   in if (rr_out_width self \<noteq> 0 \<and> rr_out_height self = 0) \<or> (rr_out_width self = 0 \<and> rr_out_height self \<noteq> 0)
                      then (False, self2)
                      else if rr_out_width self \<noteq> 0 \<and> rr_out_height self \<noteq> 0 \<and>
                              (vi_width out_info \<noteq> rr_out_width self \<or> vi_height out_info \<noteq> rr_out_height self)
                      then (False, self2)
                      else if \<not> vi_nv12 in_info \<or> \<not> vi_nv12 out_info then (False, self2)
                      else (True, self2))))"

definition me_rga_rotate_get_unit_size :: "(caps \<Rightarrow> VideoInfo option) \<Rightarrow> caps \<Rightarrow> nat option" where
  "me_rga_rotate_get_unit_size info_of cps = map_option vi_size (info_of cps)"

subsection \<open>Allocation queries\<close>

record AllocParams =
  ap_align :: nat

text \<open>The configuration of a buffer pool.\<close>

record PoolConfig =
  pc_caps :: "caps option"
  pc_size :: nat
  pc_min :: nat
  pc_max :: nat
  pc_allocator :: "GstAllocator option"
  pc_params :: AllocParams
  pc_video_meta :: bool
  pc_stride_align :: "nat option"

definition new_pool :: PoolConfig where
  "new_pool = \<lparr>pc_caps = None, pc_size = 0, pc_min = 0, pc_max = 0, pc_allocator = None, pc_params = \<lparr>ap_align = 0\<rparr>,
               pc_video_meta = False, pc_stride_align = None\<rparr>"

text \<open>A pool of a query may be absent, with only its sizes given.\<close>

record QueryPool =
  qp_pool :: "PoolConfig option"
  qp_size :: nat
  qp_min :: nat
  qp_max :: nat

record AllocQuery =
  qy_caps :: "caps option"
  qy_params :: "(GstAllocator option \<times> AllocParams) list"
  qy_pools :: "QueryPool list"
  qy_metas :: nat

record AllocIo =
  al_parent :: bool
  al_dma :: DmaIo
  al_registered :: bool
  al_dmabuf :: bool
  al_set_config :: bool

text \<open>The allocator for the proposed pool, when the query names none.\<close>

definition choose_allocator :: "AllocIo \<Rightarrow> GstAllocator option \<Rightarrow> GstAllocator option" where
  "choose_allocator io given =
     (case given of
        Some a \<Rightarrow> Some a
      | None \<Rightarrow>
          (case me_dma_heap_allocator_new (al_dma io) of
             Some a \<Rightarrow> Some a
           | None \<Rightarrow> if al_registered io then Some Alloc_Registered else if al_dmabuf io then Some Alloc_Dmabuf else None))"

definition count_ref :: "'a option \<Rightarrow> int" where
  "count_ref x = (if x = None then 0 else 1)"

text \<open>The result, the query, and how many references the call still holds at its end.\<close>

definition me_rga_rotate_propose_allocation ::
  "AllocIo \<Rightarrow> (caps \<Rightarrow> VideoInfo option) \<Rightarrow> bool \<Rightarrow> AllocQuery \<Rightarrow> bool \<times> AllocQuery \<times> int" where
  "me_rga_rotate_propose_allocation io info_of decide_query q =
     (if \<not> al_parent io then (False, q, 0)
      else if \<not> decide_query then (True, q, 0)
      else (case qy_caps q of
              None \<Rightarrow> (False, q, 0)
            | Some cps \<Rightarrow>
                (case info_of cps of
                   None \<Rightarrow> (False, q, 0)
                 | Some info \<Rightarrow>
                     if qy_pools q \<noteq> [] then (True, q, 0)
                     else (let (given, params) = (case qy_params q of [] \<Rightarrow> (None, \<lparr>ap_align = 15\<rparr>) | p # _ \<Rightarrow> p);
                               allocator = choose_allocator io given;
                               held = count_ref allocator + 1;
                               q1 = q\<lparr>qy_params := qy_params q @ [(allocator, params)]\<rparr>;
                               config = new_pool\<lparr>pc_caps := Some cps, pc_size := vi_size info, pc_allocator := allocator,
                                          pc_params := params, pc_video_meta := True, pc_stride_align := Some 15\<rparr>
                           in if \<not> al_set_config io then (False, q1, held - count_ref allocator - 1)
                              else (True,
                                    q1\<lparr>qy_pools := qy_pools q1 @ [\<lparr>qp_pool = Some config, qp_size = vi_size info, qp_min = 0, qp_max = 0\<rparr>],
                                       qy_metas := Suc (qy_metas q1)\<rparr>,
                                    held - count_ref allocator - 1)))))"

definition me_rga_rotate_decide_allocation ::
  "AllocIo \<Rightarrow> (caps \<Rightarrow> VideoInfo option) \<Rightarrow> AllocQuery \<Rightarrow> bool \<times> AllocQuery \<times> int" where
  "me_rga_rotate_decide_allocation io info_of q =
     (let (pool, size0, mn, mx) =
            (case qy_pools q of
               [] \<Rightarrow> (new_pool, 0, 0, 0)
             | p # _ \<Rightarrow> (case qp_pool p of None \<Rightarrow> new_pool | Some c \<Rightarrow> c, qp_size p, qp_min p, qp_max p));
          sz = (case qy_caps q of
                    None \<Rightarrow> size0
                  | Some cps \<Rightarrow> (case info_of cps of None \<Rightarrow> size0 | Some info \<Rightarrow> vi_size info));
          config1 = (case qy_caps q of
                       None \<Rightarrow> pool
                     | Some cps \<Rightarrow> pool\<lparr>pc_caps := Some cps, pc_size := sz, pc_min := mn, pc_max := mx\<rparr>);
          allocator = me_dma_heap_allocator_new (al_dma io);
          held = count_ref allocator + 1;
          config2 = (case allocator of
                       None \<Rightarrow> config1
                     | Some a \<Rightarrow> config1\<lparr>pc_allocator := Some a, pc_params := \<lparr>ap_align = 15\<rparr>\<rparr>);
          config3 = config2\<lparr>pc_video_meta := True, pc_stride_align := Some 15\<rparr>
      in if \<not> al_set_config io then (False, q, held - count_ref allocator - 1)
         else (let entry = \<lparr>qp_pool = Some config3, qp_size = sz, qp_min = mn, qp_max = mx\<rparr>
               in (True,
                   q\<lparr>qy_pools := (case qy_pools q of [] \<Rightarrow> [entry] | _ # ps \<Rightarrow> entry # ps)\<rparr>,
                   held - count_ref allocator - 1)))"

subsection \<open>Transforming a buffer\<close>

text \<open>The rotation codes of librga.\<close>

record RgaHal =
  HAL_TRANSFORM_ROT_90 :: int
  HAL_TRANSFORM_ROT_180 :: int
  HAL_TRANSFORM_ROT_270 :: int

definition me_rga_rotation_to_rga :: "RgaHal \<Rightarrow> int \<Rightarrow> int" where
  "me_rga_rotation_to_rga hal rotation =
     (if rotation = 0 then 0
      else if rotation = 90 then HAL_TRANSFORM_ROT_90 hal
      else if rotation = 180 then HAL_TRANSFORM_ROT_180 hal
      else if rotation = 270 then HAL_TRANSFORM_ROT_270 hal
      else -1)"

text \<open>
  A buffer: the number of its memories, the descriptor of its only memory when that is a dmabuf, and the
  stride of the first plane with the offset of the second one when it has meta data. \<open>rb_maps\<close> counts
  its open mappings.
\<close>

record RgaBuffer =
  rb_memories :: nat
  rb_dmabuf :: "int option"
  rb_meta :: "(int \<times> nat) option"
  rb_maps :: int

record RgaRect =
  re_w :: int
  re_h :: int
  re_wstride :: int
  re_hstride :: int

text \<open>One side of a blit: a descriptor or mapped memory.\<close>

record RgaSide =
  sd_fd :: int
  sd_mapped :: bool
  sd_rect :: RgaRect

record RgaBlit =
  bl_src :: RgaSide
  bl_dst :: RgaSide
  bl_rotation :: int

record TransformIo =
  ti_init :: int
  ti_map_in :: bool
  ti_map_out :: bool
  ti_blit :: int

datatype GstFlow = GST_FLOW_OK | GST_FLOW_ERROR

definition plane_stride :: "RgaBuffer \<Rightarrow> VideoInfo \<Rightarrow> int" where
  "plane_stride buf info = (case rb_meta buf of Some (stride0, _) \<Rightarrow> stride0 | None \<Rightarrow> vi_stride0 info)"

definition plane_height :: "RgaBuffer \<Rightarrow> VideoInfo \<Rightarrow> int" where
  "plane_height buf info =
     (case rb_meta buf of
        Some (stride0, offset1) \<Rightarrow> if stride0 > 0 then int (offset1 div nat stride0) else vi_height info
      | None \<Rightarrow> vi_height info)"

definition buffer_fd :: "RgaBuffer \<Rightarrow> int" where
  "buffer_fd buf = (if rb_memories buf = 1 then (case rb_dmabuf buf of Some fd \<Rightarrow> fd | None \<Rightarrow> 0) else 0)"

definition bad_dimensions :: "VideoInfo \<Rightarrow> VideoInfo \<Rightarrow> bool" where
  "bad_dimensions i k \<longleftrightarrow>
     vi_width i \<le> 0 \<or> vi_height i \<le> 0 \<or> vi_width k \<le> 0 \<or> vi_height k \<le> 0 \<or>
     odd (vi_width i) \<or> odd (vi_height i) \<or> odd (vi_width k) \<or> odd (vi_height k)"

definition side :: "RgaBuffer \<Rightarrow> VideoInfo \<Rightarrow> bool \<Rightarrow> RgaSide" where
  "side buf info mapped =
     \<lparr>sd_fd = buffer_fd buf, sd_mapped = mapped,
      sd_rect = \<lparr>re_w = vi_width info, re_h = vi_height info, re_wstride = plane_stride buf info, re_hstride = plane_height buf info\<rparr>\<rparr>"

definition map_buffer :: "RgaBuffer \<Rightarrow> RgaBuffer" where
  "map_buffer buf = buf\<lparr>rb_maps := rb_maps buf + 1\<rparr>"

definition unmap_buffer :: "bool \<Rightarrow> RgaBuffer \<Rightarrow> RgaBuffer" where
  "unmap_buffer mapped buf = (if mapped then buf\<lparr>rb_maps := rb_maps buf - 1\<rparr> else buf)"

text \<open>The result, the element, the two buffers and the blit that was given to the hardware.\<close>

definition me_rga_rotate_transform ::
  "RgaHal \<Rightarrow> TransformIo \<Rightarrow> RgaBuffer \<Rightarrow> RgaBuffer \<Rightarrow> MeRgaRotate \<Rightarrow>
     GstFlow \<times> MeRgaRotate \<times> RgaBuffer \<times> RgaBuffer \<times> RgaBlit option" where
  "me_rga_rotate_transform hal io inbuf outbuf self =
     (if \<not> rr_rga_ready self \<and> ti_init io < 0 then (GST_FLOW_ERROR, self, inbuf, outbuf, None)
      else
        let self1 = self\<lparr>rr_rga_ready := True\<rparr>; i = rr_in_info self; k = rr_out_info self;
            rga_rotation = me_rga_rotation_to_rga hal (rr_rotation self)
        in if bad_dimensions i k then (GST_FLOW_ERROR, self1, inbuf, outbuf, None)
           else if plane_height inbuf i \<le> 0 \<or> plane_height outbuf k \<le> 0 then (GST_FLOW_ERROR, self1, inbuf, outbuf, None)
           else if rga_rotation < 0 then (GST_FLOW_ERROR, self1, inbuf, outbuf, None)
           else
             let map_in = buffer_fd inbuf \<le> 0; map_out = buffer_fd outbuf \<le> 0
             in if map_in \<and> \<not> ti_map_in io then (GST_FLOW_ERROR, self1, inbuf, outbuf, None)
                else
                  let inbuf1 = (if map_in then map_buffer inbuf else inbuf)
                  in if map_out \<and> \<not> ti_map_out io then (GST_FLOW_ERROR, self1, unmap_buffer map_in inbuf1, outbuf, None)
                     else
                       let outbuf1 = (if map_out then map_buffer outbuf else outbuf);
                           blit = \<lparr>bl_src = side inbuf i map_in, bl_dst = side outbuf k map_out, bl_rotation = rga_rotation\<rparr>
                       in (if ti_blit io < 0 then GST_FLOW_ERROR else GST_FLOW_OK, self1,
                           unmap_buffer map_in inbuf1, unmap_buffer map_out outbuf1, Some blit))"

definition me_rga_rotate_start :: "MeRgaRotate \<Rightarrow> bool \<times> MeRgaRotate" where
  "me_rga_rotate_start self = (True, self\<lparr>rr_rga_ready := False\<rparr>)"

end
