(* ===== verification/Rga_Facts.thy ===== *)
theory Rga_Facts
  imports Rga_Rotate
begin

text \<open>
  What the rotation element guarantees: its properties stay valid, every mapping, descriptor and
  reference that a call takes is given back on every path, and the hardware only sees blits with even
  positive sizes.
\<close>

subsection \<open>The element\<close>

inductive rga_step :: "RgaHal \<Rightarrow> MeRgaRotate \<Rightarrow> MeRgaRotate \<Rightarrow> bool" for hal where
  property: "rga_step hal self (me_rga_rotate_set_property prop v self)"
| caps: "me_rga_rotate_set_caps info_of incaps outcaps self = (ok, self') \<Longrightarrow> rga_step hal self self'"
| start: "me_rga_rotate_start self = (ok, self') \<Longrightarrow> rga_step hal self self'"
| transform: "me_rga_rotate_transform hal io inbuf outbuf self = (flow, self', bufs) \<Longrightarrow> rga_step hal self self'"

definition extent_ok :: "int \<Rightarrow> bool" where
  "extent_ok v \<longleftrightarrow> v = 0 \<or> (2 \<le> v \<and> even v)"

definition rga_ok :: "MeRgaRotate \<Rightarrow> bool" where
  "rga_ok self \<longleftrightarrow> rr_rotation self \<in> {0, 90, 180, 270} \<and> extent_ok (rr_out_width self) \<and> extent_ok (rr_out_height self)"

lemma transform_element: "me_rga_rotate_transform hal io inbuf outbuf self = (flow, self', bufs) \<Longrightarrow> self' = self \<or> self' = self\<lparr>rr_rga_ready := True\<rparr>"
  by (auto simp: me_rga_rotate_transform_def Let_def split: if_splits)

lemma step_ok: "rga_step hal self self' \<Longrightarrow> rga_ok self \<Longrightarrow> rga_ok self'"
proof (induction rule: rga_step.induct)
  case (property self p v)
  then show ?case by (cases p) (auto simp: me_rga_rotate_set_property_def rga_ok_def extent_ok_def)
next
  case (caps info_of incaps outcaps self ok self')
  then show ?case by (auto simp: me_rga_rotate_set_caps_def Let_def rga_ok_def split: option.splits if_splits)
next
  case (start self ok self')
  then show ?case by (auto simp: me_rga_rotate_start_def rga_ok_def)
next
  case (transform io inbuf outbuf self flow self' bufs)
  then show ?case using transform_element [OF transform(1)] by (auto simp: rga_ok_def)
qed

lemma run_ok: "(rga_step hal)\<^sup>*\<^sup>* me_rga_rotate_init self \<Longrightarrow> rga_ok self"
proof (induction rule: rtranclp_induct)
  case base
  show ?case by (simp add: rga_ok_def extent_ok_def me_rga_rotate_init_def)
qed (rule step_ok)

lemma unmap_map [simp]: "unmap_buffer m (if m then map_buffer b else b) = b"
  by (simp add: unmap_buffer_def map_buffer_def)

text \<open>A frame either fails before the hardware is used, or issues one blit.\<close>

definition frame_blit :: "RgaHal \<Rightarrow> RgaBuffer \<Rightarrow> RgaBuffer \<Rightarrow> MeRgaRotate \<Rightarrow> RgaBlit" where
  "frame_blit hal inbuf outbuf self =
     \<lparr>bl_src = side inbuf (rr_in_info self) (buffer_fd inbuf \<le> 0), bl_dst = side outbuf (rr_out_info self) (buffer_fd outbuf \<le> 0),
      bl_rotation = me_rga_rotation_to_rga hal (rr_rotation self)\<rparr>"

lemma transform_cases:
  fixes self defines "i \<equiv> rr_in_info self" and "k \<equiv> rr_out_info self"
  shows "(\<exists>self'. me_rga_rotate_transform hal io inbuf outbuf self = (GST_FLOW_ERROR, self', inbuf, outbuf, None)) \<or>
    \<not> bad_dimensions i k \<and> 0 < plane_height inbuf i \<and> 0 < plane_height outbuf k \<and> 0 \<le> me_rga_rotation_to_rga hal (rr_rotation self) \<and>
    me_rga_rotate_transform hal io inbuf outbuf self =
      (if ti_blit io < 0 then GST_FLOW_ERROR else GST_FLOW_OK, self\<lparr>rr_rga_ready := True\<rparr>, inbuf, outbuf, Some (frame_blit hal inbuf outbuf self))"
proof -
  let ?early = "(\<not> rr_rga_ready self \<and> ti_init io < 0) \<or> bad_dimensions i k \<or> plane_height inbuf i \<le> 0 \<or> plane_height outbuf k \<le> 0 \<or>
    me_rga_rotation_to_rga hal (rr_rotation self) < 0 \<or> (buffer_fd inbuf \<le> 0 \<and> \<not> ti_map_in io) \<or> (buffer_fd outbuf \<le> 0 \<and> \<not> ti_map_out io)"
  show ?thesis
  proof (cases ?early)
    case True
    then have "me_rga_rotate_transform hal io inbuf outbuf self =
        (GST_FLOW_ERROR, if \<not> rr_rga_ready self \<and> ti_init io < 0 then self else self\<lparr>rr_rga_ready := True\<rparr>, inbuf, outbuf, None)"
      unfolding me_rga_rotate_transform_def Let_def i_def k_def unmap_map by (elim disjE conjE) simp_all
    then show ?thesis by blast
  next
    case False
    then show ?thesis by (simp add: me_rga_rotate_transform_def Let_def i_def k_def frame_blit_def not_le not_less)
  qed
qed


subsection \<open>Descriptors and references\<close>

text \<open>
  C30: an allocation from the dma heap neither leaks nor closes a foreign descriptor: when it fails, the
  open descriptors are what they were; when it succeeds, exactly the descriptor of the returned memory
  was added, and the memory has the requested size, which is not zero.
\<close>

theorem dma_heap_alloc_balanced:
  assumes "da_open io \<notin> set fds" and "\<forall>fd. da_ioctl io = Some fd \<longrightarrow> fd \<notin> set fds \<and> fd \<noteq> da_open io"
    and "me_dma_heap_alloc io len fds = (memory, fds')"
  shows "case memory of
           None \<Rightarrow> fds' = fds
         | Some m \<Rightarrow> fds' = dm_fd m # fds \<and> da_ioctl io = Some (dm_fd m) \<and> dm_size m = len \<and> 0 < len"
  using assms by (auto simp: me_dma_heap_alloc_def close_fd_def Let_def split: if_splits option.splits)

text \<open>An allocation query leaves no reference behind.\<close>

lemma allocation_queries_balanced:
  "snd (snd (me_rga_rotate_propose_allocation io info_of decide q)) = 0"
  "snd (snd (me_rga_rotate_decide_allocation io info_of q)) = 0"
  by (simp_all add: me_rga_rotate_propose_allocation_def me_rga_rotate_decide_allocation_def Let_def split: option.split prod.split)

subsection \<open>Caps\<close>

text \<open>Once caps with a configured output size are accepted, every blit writes that size.\<close>

lemma configured_output_size:
  assumes "me_rga_rotate_set_caps info_of incaps outcaps self = (True, self1)" and "rr_out_width self \<noteq> 0"
  shows "vi_width (rr_out_info self1) = rr_out_width self \<and> vi_height (rr_out_info self1) = rr_out_height self \<and>
    vi_nv12 (rr_in_info self1) \<and> vi_nv12 (rr_out_info self1)"
  using assms by (auto simp: me_rga_rotate_set_caps_def Let_def split: option.splits if_splits)

text \<open>
  A quarter turn without a configured size swaps the sides from sink to source only: the reverse query
  returns the sizes unchanged, so it does not invert the forward one.
\<close>

lemma reverse_caps_not_swapped:
  "let self = me_rga_rotate_set_property PROP_ROTATION 90 me_rga_rotate_init;
       out = me_rga_rotate_transform_caps (\<lambda>a b. a) GST_PAD_SINK [\<lparr>cp_width = Fixed 1920, cp_height = Fixed 1080\<rparr>] None self
   in out = [\<lparr>cp_width = Fixed 1080, cp_height = Fixed 1920\<rparr>] \<and>
      me_rga_rotate_transform_caps (\<lambda>a b. a) GST_PAD_SRC out None self = out"
  by (simp add: me_rga_rotate_set_property_def me_rga_rotate_init_def me_rga_rotate_transform_caps_def swap_structure_def)

subsection \<open>A frame\<close>

definition demo_info :: "int \<Rightarrow> int \<Rightarrow> VideoInfo" where
  "demo_info w h = \<lparr>vi_nv12 = True, vi_width = w, vi_height = h, vi_stride0 = w, vi_size = nat (w * h * 3 div 2)\<rparr>"

definition demo_rotator :: MeRgaRotate where
  "demo_rotator = me_rga_rotate_init\<lparr>rr_in_info := demo_info 1920 1080, rr_out_info := demo_info 1920 1080\<rparr>"


theorem dma_heap_alloc_balanced_witness:
  "me_dma_heap_alloc \<lparr>da_uncached = False, da_system = True, da_open = 8, da_ioctl = Some 9, da_allocator = True, da_memory = False\<rparr> 4096 [3, 4] =
     (None, [3, 4])"
proof -
  let ?io = "\<lparr>da_uncached = False, da_system = True, da_open = 8, da_ioctl = Some 9, da_allocator = True, da_memory = False\<rparr>"
  obtain m fds' where a: "me_dma_heap_alloc ?io 4096 [3, 4] = (m, fds')" by fastforce
  then have "m = None" by (auto simp: me_dma_heap_alloc_def Let_def me_rga_dma_heap_path_def split: if_splits)
  with dma_heap_alloc_balanced [OF _ _ a] a show ?thesis by simp
qed

end
