(* ===== verification/Spec2Isabelle.thy ===== *)
theory Spec2Isabelle
  imports Event_Guarantees Engine_Facts Evidence_Recovery Rockiva_Runs Media_Demo Rga_Facts
begin

text \<open>
  Verification of the media engine of \<^verbatim>\<open>rv1126_custom_part\<close>, the C program under
  \<^verbatim>\<open>src/media_engine/src\<close>. It captures video, counts people with a vendor detector, turns the detections into
  alarm events with evidence pictures, keeps the events in a journal, streams live video on request,
  and is controlled by a daemon over a Unix socket.

  \<^bold>\<open>The program and its parts.\<close> \<^verbatim>\<open>main.c\<close> reads the configuration (\<^verbatim>\<open>config/config.c\<close>), starts the engine
  (\<^verbatim>\<open>engine/engine.c\<close>) and the control socket (\<^verbatim>\<open>ipc/ipc_server.c\<close>) and runs the main loop. The engine owns the
  session registry (\<^verbatim>\<open>session/session_mgr.c\<close>), the GStreamer runner (\<^verbatim>\<open>gst/gst_runner.c\<close>) with the rotation
  element (\<^verbatim>\<open>gst/me_rga_rotate.c\<close>), camera control (\<^verbatim>\<open>aiq/aiq_ctrl.c\<close>), the event engine
  (\<^verbatim>\<open>analytics/event_engine.c\<close>) and the journal (\<^verbatim>\<open>analytics/event_journal.c\<close>). The runner feeds the detector
  (\<^verbatim>\<open>analytics/rockiva_runner.c\<close>), whose results come back as observations (\<^verbatim>\<open>analytics/observation.c\<close>), and
  keeps the pictures for evidence (\<^verbatim>\<open>analytics/evidence_cache.c\<close>).

  \<^bold>\<open>Theories.\<close> A component has a theory with its data and operations, in the order of the source and under
  its names, and one or more theories with its lemmas.
  \<^item> \<open>Me_Prelude\<close>: machine integers, strings in arrays, tables of slots as the locale \<open>slot_table\<close>.
  \<^item> \<open>Me_Util\<close> (\<^verbatim>\<open>common/\<close>): error codes, number and address parsers, \<^verbatim>\<open>strtol\<close> and \<^verbatim>\<open>strtoull\<close>.
  \<^item> \<open>Observation\<close>: observations, their validation and the ordering filter. \<open>Analytics_Config\<close>: analytics settings.
  \<^item> \<open>Event_Types\<close>, \<open>Event_Tracks\<close>, \<open>Event_Rules\<close>, \<open>Event_Engine\<close>: the event engine: time line and event ids, track
    table, rule facts, and the records START, UPDATE and END. Both tables interpret \<open>slot_table\<close>.
    \<open>Event_Lifecycle\<close> states the lifecycle as an abstract machine with the invariant of the engine; \<open>Event_Runs\<close>
    shows for all runs that the engine refines it and that delivery keys are unique;
    \<open>Event_Guarantees\<close> treats cooldown, update rate, stream changes and closing; \<open>Event_Demo\<close> is a concrete run.
  \<^item> \<open>Event_Codec\<close>: cJSON trees as a datatype, doubles as rationals with rounding to 53 bits, and the encoder and decoder
    of events. \<open>Event_Journal\<close>: the journal with its file as a byte string; \<open>Journal_Facts\<close> and \<open>Journal_Recovery\<close>
    show that START and END records are never dropped, that limits hold and that reopening recovers the records
    after any failed system call (locale \<open>line_codec\<close>). \<open>Event_Log\<close> is the interface that engine and socket
    rely on (locale \<open>event_log\<close>), interpreted on the journal.
  \<^item> \<open>Evidence_Cache\<close>, \<open>Evidence_Facts\<close>, \<open>Evidence_Recovery\<close>: frame notes, the ring of pictures, selection, publication
    and recovery over a directory, with its limits and the survival of published evidence.
  \<^item> \<open>Rockiva_Runner\<close>, \<open>Rockiva_Facts\<close>, \<open>Rockiva_Runs\<close>: buffer layouts, detector callbacks and the interleaved
    sections of the streaming thread; references to buffers balance in every run.
  \<^item> \<open>Engine_Config\<close>: defaults, every key of the file, every option of the command line, validation.
  \<^item> \<open>Session_Mgr\<close>: the registry over the interface \<^verbatim>\<open>LiveBackend\<close>, which is the locale \<open>live_backend\<close>.
    \<open>Gst_Runner\<close> and \<open>Gst_Facts\<close>: base pipeline and live branch; they interpret \<open>live_backend\<close>.
  \<^item> \<open>Rga_Rotate\<close>, \<open>Rga_Facts\<close>: the rotation element; mappings, descriptors and references are given back on
    every path and the hardware sees only even positive sizes.
  \<^item> \<open>Aiq_Ctrl\<close>: camera control. \<open>Media_Engine\<close>: the engine. \<open>Engine_Runs\<close> couples registry and branch over all
    runs of the engine; \<open>Engine_Facts\<close> treats start, delivery, leases and restarts of a branch.
  \<^item> \<open>Ipc_Server\<close>, \<open>Ipc_Output\<close>, \<open>Ipc_Input\<close>, \<open>Ipc_Facts\<close>: the control socket: request handlers, the output stream
    of a client, framing of the input, listener and broadcasts. Output is a queue of bytes, requests are
    independent of the pieces in which they arrive, and the read loop returns when the socket runs dry.
  \<^item> \<open>Media_Main\<close>: start, main loop as a step relation, end. \<open>Media_Runs\<close>: the invariant of the whole program.
    \<open>Media_Facts\<close>: what a client can rely on. \<open>Media_Demo\<close>: these theorems at concrete inputs.

  \<^bold>\<open>Conventions.\<close> Structures are records, enumerations datatypes, errors values of sums or options. \<^verbatim>\<open>uint32_t\<close>
  and \<^verbatim>\<open>uint64_t\<close> are words, so that they wrap; signed integers are \<open>int\<close> with their bounds written out where the
  source tests them. What the operating system, GLib, GStreamer, librga, the detector, libyaml, \<^verbatim>\<open>getopt_long\<close> and
  cJSON's text form answer is a parameter: a record of outcomes of one operation, such as \<open>JournalIo\<close>,
  \<open>EvidenceIo\<close>, \<open>StartOutcome\<close>, \<open>RequestIo\<close>, or a function such as \<open>json_printer\<close>. The theorems hold for every such
  outcome unless a hypothesis restricts it.

  \<^bold>\<open>Loops.\<close> Loops are structural recursion or functions with a measure: the input loop of a client by the length of
  its buffer, compaction of the journal by the number of records. Loops over outcomes of system calls recurse
  over the list of outcomes, where the end of the list means that the call would block. The read loop of a
  client may run forever, so it is a partial function over an infinite stream of outcomes, with a theorem
  on when it returns. No fuel is used.

  \<^bold>\<open>Not modelled.\<close> Log lines and the text of error messages (the codes are; the text that the engine reports to a
  client is a parameter); failing memory allocation; data races outside the sections that the runner's model
  interleaves; registration of GObject types and signal handlers; environment variables; polling of the
  main loop, whose sources run in any order; what becomes of a client structure after it is freed. The daemon
  \<^verbatim>\<open>src/gb28181_daemon\<close> is a separate Go program and \<^verbatim>\<open>third_party\<close> holds vendored libraries.
\<close>

end
